(* ===== verification/Plane_Prelude.thy ===== *)
theory Plane_Prelude
  imports Main "HOL-Library.Word" "HOL-Library.Sublist"
begin

text \<open>
  Shared vocabulary of the development: the result and panic types of the Rust code, the
  machine integers it uses, time, the string operations of the Rust standard library that
  the components call (\<open>split_once\<close>, \<open>strip_prefix\<close>, \<open>strip_suffix\<close>, \<open>replace\<close>, \<open>split\<close>,
  \<open>contains\<close>, ASCII lower-casing, UTF-8 validation), association lists for the iterable
  hash maps, and the lemmas about them that the component proofs rely on. The collection
  \<open>str_simps\<close> holds the computation rules for closed strings.

  Conventions. A Rust \<open>Result<T, E>\<close> is \<open>'e + 't\<close> with \<open>Inl\<close> the error; a Rust panic is
  \<open>None\<close> of an \<open>option\<close> wrapped around the result (\<open>'a panics\<close>). A Rust \<open>String\<close> is the
  list of its bytes.
\<close>

named_theorems str_simps \<open>computation rules of the string operations\<close>
named_theorems db_simps \<open>rewrite rules of the database operations\<close>
named_theorems life_simps \<open>rewrite rules of the backend lifecycle\<close>

type_synonym 'a panics = "'a option"
type_synonym u8 = "8 word"
type_synonym u16 = "16 word"
type_synonym u32 = "32 word"
type_synonym u64 = "64 word"

section \<open>Results\<close>

text \<open>\<open>bindR\<close> is the \<open>?\<close> operator: an error leaves the function at once.\<close>

definition bindR :: "'e + 'a \<Rightarrow> ('a \<Rightarrow> 'e + 'b) \<Rightarrow> 'e + 'b" where
  "bindR r f = (case r of Inl e \<Rightarrow> Inl e | Inr a \<Rightarrow> f a)"

definition ok_or :: "'e \<Rightarrow> 'a option \<Rightarrow> 'e + 'a" where
  "ok_or e v = (case v of None \<Rightarrow> Inl e | Some a \<Rightarrow> Inr a)"

definition is_ok :: "'e + 'a \<Rightarrow> bool" where
  "is_ok r = (case r of Inl _ \<Rightarrow> False | Inr _ \<Rightarrow> True)"

text \<open>The result of polling a future or a stream.\<close>

datatype 'a Poll = Pending | PollReady 'a

section \<open>Machine arithmetic\<close>

text \<open>
  Rust's \<open>+\<close> and \<open>-\<close> on unsigned integers: with overflow checks (the \<open>dev\<close> profile) an
  overflow panics, without them (the \<open>release\<close> profile) it wraps.
\<close>

definition ar_add :: "bool \<Rightarrow> 'a::len word \<Rightarrow> 'a word \<Rightarrow> 'a word panics" where
  "ar_add checks a b =
     (if checks \<and> unat a + unat b \<ge> 2 ^ LENGTH('a) then None else Some (a + b))"

definition ar_sub :: "bool \<Rightarrow> 'a::len word \<Rightarrow> 'a word \<Rightarrow> 'a word panics" where
  "ar_sub checks a b = (if checks \<and> a < b then None else Some (a - b))"

text \<open>The operations of \<open>f64\<close> the statistics use, as an argument of the definitions.\<close>

record 'f f64_ops =
  f_of_u64 :: "u64 \<Rightarrow> 'f"
  f_sub :: "'f \<Rightarrow> 'f \<Rightarrow> 'f"
  f_mul :: "'f \<Rightarrow> 'f \<Rightarrow> 'f"
  f_div :: "'f \<Rightarrow> 'f \<Rightarrow> 'f"
  f_hundred :: 'f

text \<open>
  Time. A \<open>std::time::Duration\<close> is a number of nanoseconds; an absolute time
  (\<open>SystemTime\<close>, \<open>DateTime<Utc>\<close>) is a signed number of nanoseconds since the Unix epoch.
\<close>

type_synonym duration = nat
type_synonym systime = int

definition from_secs :: "nat \<Rightarrow> duration" where
  "from_secs s = s * 1000000000"

definition from_millis :: "nat \<Rightarrow> duration" where
  "from_millis s = s * 1000000"

section \<open>Strings\<close>

fun split_once :: "char \<Rightarrow> string \<Rightarrow> (string \<times> string) option" where
  "split_once c [] = None"
| "split_once c (x # xs) =
     (if x = c then Some ([], xs)
      else map_option (\<lambda>(a, b). (x # a, b)) (split_once c xs))"

definition strip_prefix :: "string \<Rightarrow> string \<Rightarrow> string option" where
  "strip_prefix p s = (if take (length p) s = p then Some (drop (length p) s) else None)"

definition strip_suffix :: "string \<Rightarrow> string \<Rightarrow> string option" where
  "strip_suffix q s =
     (if length q \<le> length s \<and> drop (length s - length q) s = q
      then Some (take (length s - length q) s) else None)"

definition replace_char :: "char \<Rightarrow> string \<Rightarrow> string \<Rightarrow> string" where
  "replace_char c r s = concat (map (\<lambda>x. if x = c then r else [x]) s)"

fun split_on :: "char \<Rightarrow> string \<Rightarrow> string list" where
  "split_on c [] = [[]]"
| "split_on c (x # xs) =
     (if x = c then [] # split_on c xs
      else (case split_on c xs of [] \<Rightarrow> [[x]] | p # ps \<Rightarrow> (x # p) # ps))"

fun str_contains :: "string \<Rightarrow> string \<Rightarrow> bool" where
  "str_contains p [] = (p = [])"
| "str_contains p (x # xs) = (take (length p) (x # xs) = p \<or> str_contains p xs)"

definition ascii_lower :: "char \<Rightarrow> char" where
  "ascii_lower c =
     (let n = of_char c :: nat in if 65 \<le> n \<and> n \<le> 90 then char_of (n + 32) else c)"

definition to_lowercase :: "string \<Rightarrow> string" where
  "to_lowercase s = map ascii_lower s"

text \<open>The byte ranges of well-formed UTF-8, as \<open>std::str::from_utf8\<close> accepts them.\<close>

definition utf8_cont :: "nat \<Rightarrow> bool" where
  "utf8_cont b \<longleftrightarrow> 128 \<le> b \<and> b \<le> 191"

definition utf8_second :: "nat \<Rightarrow> nat \<Rightarrow> bool" where
  "utf8_second a b \<longleftrightarrow>
     (if a = 224 then 160 \<le> b \<and> b \<le> 191
      else if a = 237 then 128 \<le> b \<and> b \<le> 159
      else if a = 240 then 144 \<le> b \<and> b \<le> 191
      else if a = 244 then 128 \<le> b \<and> b \<le> 143
      else utf8_cont b)"

fun utf8_bytes :: "nat list \<Rightarrow> bool" where
  "utf8_bytes [] = True"
| "utf8_bytes (a # bs) =
     (if a \<le> 127 then utf8_bytes bs
      else if 194 \<le> a \<and> a \<le> 223 then
        (case bs of b # cs \<Rightarrow> utf8_cont b \<and> utf8_bytes cs | _ \<Rightarrow> False)
      else if 224 \<le> a \<and> a \<le> 239 then
        (case bs of b # c # cs \<Rightarrow> utf8_second a b \<and> utf8_cont c \<and> utf8_bytes cs | _ \<Rightarrow> False)
      else if 240 \<le> a \<and> a \<le> 244 then
        (case bs of b # c # d # cs \<Rightarrow>
            utf8_second a b \<and> utf8_cont c \<and> utf8_cont d \<and> utf8_bytes cs
         | _ \<Rightarrow> False)
      else False)"

definition from_utf8 :: "string \<Rightarrow> string option" where
  "from_utf8 s = (if utf8_bytes (map of_char s) then Some s else None)"

text \<open>Decimal rendering of a natural number, as \<open>Display\<close> prints unsigned integers.\<close>

definition digit_char :: "nat \<Rightarrow> char" where
  "digit_char d = char_of (48 + d)"

fun show_nat :: "nat \<Rightarrow> string" where
  "show_nat n = (if n < 10 then [digit_char n] else show_nat (n div 10) @ [digit_char (n mod 10)])"

declare show_nat.simps [simp del]

section \<open>Iterable hash maps\<close>

text \<open>
  \<open>HashMap\<close> and \<open>DashMap\<close> values whose iteration order the code observes are association
  lists with distinct keys; the list order is one of the orders the iterator may produce.
\<close>

definition al_insert :: "'k \<Rightarrow> 'v \<Rightarrow> ('k \<times> 'v) list \<Rightarrow> ('k \<times> 'v) list" where
  "al_insert k v xs = (k, v) # filter (\<lambda>e. fst e \<noteq> k) xs"

definition al_remove :: "'k \<Rightarrow> ('k \<times> 'v) list \<Rightarrow> ('k \<times> 'v) list" where
  "al_remove k xs = filter (\<lambda>e. fst e \<noteq> k) xs"

section \<open>Runs of stateful operations\<close>

text \<open>
  A component is a step function over its operations: \<open>None\<close> is a panic, otherwise the new
  state and the value the operation returns. \<open>run_steps\<close> runs a sequence of operations and
  collects the returned values; \<open>run_spec\<close> does the same for a total specification, and
  \<open>run_guard\<close> holds when every operation of the sequence is allowed where it happens.
\<close>

fun run_steps :: "('op \<Rightarrow> 's \<Rightarrow> ('s \<times> 'o) panics) \<Rightarrow> 'op list \<Rightarrow> 's \<Rightarrow> ('s \<times> 'o list) panics" where
  "run_steps f [] s = Some (s, [])"
| "run_steps f (x # xs) s =
     (case f x s of None \<Rightarrow> None
      | Some (s', v) \<Rightarrow> map_option (\<lambda>(t, vs). (t, v # vs)) (run_steps f xs s'))"

fun run_spec :: "('op \<Rightarrow> 'a \<Rightarrow> 'a \<times> 'o) \<Rightarrow> 'op list \<Rightarrow> 'a \<Rightarrow> 'a \<times> 'o list" where
  "run_spec g [] a = (a, [])"
| "run_spec g (x # xs) a =
     (let (a', v) = g x a; (b, vs) = run_spec g xs a' in (b, v # vs))"

fun run_guard :: "('op \<Rightarrow> 'a \<Rightarrow> bool) \<Rightarrow> ('op \<Rightarrow> 'a \<Rightarrow> 'a \<times> 'o) \<Rightarrow> 'op list \<Rightarrow> 'a \<Rightarrow> bool" where
  "run_guard p g [] a = True"
| "run_guard p g (x # xs) a = (p x a \<and> run_guard p g xs (fst (g x a)))"

lemma run_guard_True [simp]: "run_guard (\<lambda>_ _. True) g xs a"
  by (induction xs arbitrary: a) auto

text \<open>An invariant of a step function is kept by every run.\<close>

locale step_invariant =
  fixes step :: "'op \<Rightarrow> 's \<Rightarrow> ('s \<times> 'o) panics"
    and invar :: "'s \<Rightarrow> bool"
  assumes step_invar: "invar s \<Longrightarrow> step x s = Some (s', v) \<Longrightarrow> invar s'"
begin

lemma run_invar: "invar s \<Longrightarrow> run_steps step xs s = Some (s', vs) \<Longrightarrow> invar s'"
proof (induction xs arbitrary: s vs)
  case (Cons x xs)
  then show ?case by (auto split: option.splits dest: step_invar)
qed simp

end

text \<open>
  A forward simulation: from related states an allowed operation does not panic, returns what
  the specification returns and ends in related states. Then so does every allowed run.
\<close>

locale simulation =
  fixes cstep :: "'op \<Rightarrow> 'c \<Rightarrow> ('c \<times> 'o) panics"
    and astep :: "'op \<Rightarrow> 'a \<Rightarrow> 'a \<times> 'o"
    and guard :: "'op \<Rightarrow> 'a \<Rightarrow> bool"
    and rel :: "'c \<Rightarrow> 'a \<Rightarrow> bool"
  assumes sim: "rel c a \<Longrightarrow> guard x a \<Longrightarrow>
    \<exists>c'. cstep x c = Some (c', snd (astep x a)) \<and> rel c' (fst (astep x a))"
begin

lemma run_sim:
  "rel c a \<Longrightarrow> run_guard guard astep xs a \<Longrightarrow>
   \<exists>c'. run_steps cstep xs c = Some (c', snd (run_spec astep xs a)) \<and> rel c' (fst (run_spec astep xs a))"
proof (induction xs arbitrary: c a)
  case (Cons x xs)
  obtain c' where c': "cstep x c = Some (c', snd (astep x a))" "rel c' (fst (astep x a))"
    using sim Cons.prems by fastforce
  obtain d where "run_steps cstep xs c' = Some (d, snd (run_spec astep xs (fst (astep x a))))"
      "rel d (fst (run_spec astep xs (fst (astep x a))))"
    using Cons.IH [OF c'(2)] Cons.prems(2) by auto
  with c' show ?case by (auto simp: case_prod_beta Let_def)
qed simp

end

section \<open>Lemmas on results\<close>

lemma bindR_simps [simp]:
  "bindR (Inl e) f = Inl e" "bindR (Inr a) f = f a"
  by (simp_all add: bindR_def)

lemma bindR_Inr_iff: "bindR r f = Inr b \<longleftrightarrow> (\<exists>a. r = Inr a \<and> f a = Inr b)"
  by (cases r) simp_all

lemma ok_or_simps [simp]: "ok_or e None = Inl e" "ok_or e (Some a) = Inr a"
  by (simp_all add: ok_or_def)

lemma is_ok_simps [simp]: "is_ok (Inl e) = False" "is_ok (Inr a) = True"
  by (simp_all add: is_ok_def)

lemma ar_sub_Some: "b \<le> a \<Longrightarrow> ar_sub c a b = Some (a - b)"
  by (simp add: ar_sub_def not_less)

lemma ar_add_Some: "unat a + unat b < 2 ^ LENGTH('a) \<Longrightarrow> ar_add c (a :: 'a::len word) b = Some (a + b)"
  by (simp add: ar_add_def)

section \<open>Lemmas on strings\<close>

lemma split_once_None: "split_once c s = None \<longleftrightarrow> c \<notin> set s"
  by (induction s) auto

lemma split_once_Some: "split_once c s = Some (a, b) \<longleftrightarrow> s = a @ c # b \<and> c \<notin> set a"
proof (induction s arbitrary: a)
  case Nil
  show ?case by simp
next
  case (Cons x s)
  show ?case
  proof (cases "x = c")
    case True
    then show ?thesis by (cases a) auto
  next
    case False
    then show ?thesis using Cons.IH by (cases a) (auto simp: split: option.splits)
  qed
qed

lemma split_once_append: "c \<notin> set a \<Longrightarrow> split_once c (a @ c # b) = Some (a, b)"
  by (simp add: split_once_Some)

lemma strip_prefix_append [simp]: "strip_prefix p (p @ s) = Some s"
  by (simp add: strip_prefix_def)

lemma strip_prefix_Some: "strip_prefix p s = Some r \<longleftrightarrow> s = p @ r"
  by (auto simp: strip_prefix_def) (metis append_take_drop_id)

lemma strip_suffix_append [simp]: "strip_suffix q (s @ q) = Some s"
  by (simp add: strip_suffix_def)

lemma strip_suffix_Some: "strip_suffix q s = Some r \<longleftrightarrow> s = r @ q"
  by (auto simp: strip_suffix_def) (metis append_take_drop_id)

lemma replace_char_id: "c \<notin> set s \<Longrightarrow> replace_char c r s = s"
  unfolding replace_char_def by (induction s) auto

lemma replace_char_append: "replace_char c r (s @ t) = replace_char c r s @ replace_char c r t"
  by (simp add: replace_char_def)

lemma replace_char_absent: "c \<notin> set r \<Longrightarrow> c \<notin> set (replace_char c r s)"
  by (auto simp: replace_char_def split: if_splits)

lemma split_on_not_Nil [simp]: "split_on c s \<noteq> []"
  by (cases s) (auto split: list.splits)

lemma split_on_absent: "c \<notin> set s \<Longrightarrow> split_on c s = [s]"
  by (induction s) auto

lemma split_on_append: "c \<notin> set a \<Longrightarrow> split_on c (a @ c # b) = a # split_on c b"
  by (induction a) auto

lemma split_on_pieces: "p \<in> set (split_on c s) \<Longrightarrow> c \<notin> set p"
  by (induction s arbitrary: p) (auto split: if_splits list.splits)

section \<open>Lemmas on association lists\<close>

lemma al_keys_insert [simp]: "fst ` set (al_insert k v xs) = insert k (fst ` set xs)"
  by (auto simp: al_insert_def)

lemma al_keys_remove [simp]: "fst ` set (al_remove k xs) = fst ` set xs - {k}"
  by (auto simp: al_remove_def)

lemma distinct_map_filter_fst: "distinct (map fst xs) \<Longrightarrow> distinct (map fst (filter P xs))"
  by (induction xs) auto

lemma al_distinct_insert [simp]: "distinct (map fst xs) \<Longrightarrow> distinct (map fst (al_insert k v xs))"
  by (auto simp: al_insert_def distinct_map_filter_fst)

lemma al_distinct_remove [simp]: "distinct (map fst xs) \<Longrightarrow> distinct (map fst (al_remove k xs))"
  by (simp add: al_remove_def distinct_map_filter_fst)

lemma map_of_filter_key: "map_of (filter (\<lambda>e. fst e \<noteq> k) xs) = (map_of xs)(k := None)"
  by (induction xs) auto

lemma map_of_al_insert [simp]: "map_of (al_insert k v xs) = (map_of xs)(k \<mapsto> v)"
  by (simp add: al_insert_def map_of_filter_key fun_eq_iff)

lemma map_of_al_remove [simp]: "map_of (al_remove k xs) = (map_of xs)(k := None)"
  by (simp add: al_remove_def map_of_filter_key)

section \<open>Lemmas on keyed rows\<close>

text \<open>\<open>List.find (\<lambda>r. key r = k)\<close> is the lookup of a row by a key column.\<close>

lemma find_append:
  "List.find P (xs @ ys) = (case List.find P xs of None \<Rightarrow> List.find P ys | Some x \<Rightarrow> Some x)"
  by (induction xs) auto

lemma find_map_key:
  "(\<And>r. key (f r) = key r) \<Longrightarrow>
   List.find (\<lambda>r. key r = k) (map f xs) = map_option f (List.find (\<lambda>r. key r = k) xs)"
  by (induction xs) auto

lemma find_key_None: "List.find (\<lambda>r. key r = k) xs = None \<longleftrightarrow> k \<notin> key ` set xs"
  by (auto simp: find_None_iff)

lemma find_keyD:
  assumes "List.find (\<lambda>r. key r = k) xs = Some r"
  shows "key r = k" "r \<in> set xs"
  using assms by (auto simp: find_Some_iff)

lemma find_key_Some:
  "distinct (map key xs) \<Longrightarrow>
   List.find (\<lambda>r. key r = k) xs = Some r \<longleftrightarrow> r \<in> set xs \<and> key r = k"
  by (induction xs) (auto simp: image_iff)

lemma find_key_conj:
  "distinct (map key xs) \<Longrightarrow>
   List.find (\<lambda>r. key r = k \<and> Q r) xs =
     (case List.find (\<lambda>r. key r = k) xs of None \<Rightarrow> None | Some r \<Rightarrow> if Q r then Some r else None)"
proof (induction xs)
  case (Cons x xs)
  show ?case
  proof (cases "key x = k")
    case True
    then have "k \<notin> key ` set xs" using Cons.prems by (auto simp: image_iff)
    then have "List.find (\<lambda>r. key r = k \<and> Q r) xs = None" by (auto simp: find_None_iff)
    with True show ?thesis by simp
  qed (use Cons in simp)
qed simp

lemma find_key_filter:
  "distinct (map key xs) \<Longrightarrow>
   List.find (\<lambda>r. key r = k) (filter Q xs) =
     (case List.find (\<lambda>r. key r = k) xs of None \<Rightarrow> None | Some r \<Rightarrow> if Q r then Some r else None)"
proof (induction xs)
  case (Cons x xs)
  show ?case
  proof (cases "key x = k \<and> \<not> Q x")
    case True
    then have "k \<notin> key ` set xs" using Cons.prems by (auto simp: image_iff)
    then have "List.find (\<lambda>r. key r = k) (filter Q xs) = None" by (auto simp: find_None_iff)
    with True show ?thesis by simp
  qed (use Cons in auto)
qed simp

lemma distinct_map_filter_key: "distinct (map key xs) \<Longrightarrow> distinct (map key (filter Q xs))"
  by (induction xs) auto

lemma length_filter_card:
  assumes "distinct (map key xs)"
  shows "length (filter Q xs) = card (key ` {r \<in> set xs. Q r})"
proof -
  have "card (key ` set (filter Q xs)) = length (map key (filter Q xs))"
    using distinct_card [OF distinct_map_filter_key [OF assms, of Q]] by simp
  then show ?thesis by simp
qed

end
