(* ===== verification/Core_Types.thy ===== *)
theory Core_Types
  imports Plane_Prelude
begin

text \<open>
  The identifiers of \<open>core/src/types.rs\<close>: drone ids, backend ids with their container
  (resource) names, and cluster names with the subject form in which dots are replaced.
\<close>

datatype DroneId = DroneId string
datatype BackendId = BackendId string
datatype ClusterName = ClusterName string

primrec drone_id_str :: "DroneId \<Rightarrow> string" where
  "drone_id_str (DroneId s) = s"

primrec backend_id_str :: "BackendId \<Rightarrow> string" where
  "backend_id_str (BackendId s) = s"

text \<open>\<open>uuid\<close> is the random id that \<open>Uuid::new_v4\<close> draws.\<close>

definition drone_id_new_random :: "string \<Rightarrow> DroneId" where
  "drone_id_new_random uuid = DroneId uuid"

definition backend_id_new_random :: "string \<Rightarrow> BackendId" where
  "backend_id_new_random uuid = BackendId uuid"

definition RESOURCE_PREFIX :: string where
  "RESOURCE_PREFIX = ''plane-''"

definition to_resource_name :: "BackendId \<Rightarrow> string" where
  "to_resource_name b = RESOURCE_PREFIX @ backend_id_str b"

definition from_resource_name :: "string \<Rightarrow> BackendId option" where
  "from_resource_name s = map_option BackendId (strip_prefix RESOURCE_PREFIX s)"

primrec hostname :: "ClusterName \<Rightarrow> string" where
  "hostname (ClusterName s) = s"

primrec subject_name :: "ClusterName \<Rightarrow> string" where
  "subject_name (ClusterName s) = replace_char (CHR ''.'') ''_'' s"

lemma from_to_resource_name: "from_resource_name (to_resource_name b) = Some b"
  by (cases b) (simp add: from_resource_name_def to_resource_name_def)

lemma from_resource_name_Some:
  "from_resource_name s = Some b \<longleftrightarrow> s = to_resource_name b"
  by (cases b)
    (auto simp: from_resource_name_def to_resource_name_def strip_prefix_Some)

lemma subject_name_no_dot [simp]: "CHR ''.'' \<notin> set (subject_name c)"
  by (cases c) (simp add: replace_char_absent)

end
