(* ===== verification/Core_Messages.thy ===== *)
theory Core_Messages
  imports Core_Types
begin

text \<open>
  The messages of \<open>core/src/messages/*.rs\<close>: one record or datatype per struct or enum, the
  NATS subject each message is published on (\<open>TypedMessage::subject\<close>), the subject its
  receivers subscribe to (\<open>subscribe_subject\<close>), and the JetStream configurations. The
  locale \<open>typed_message\<close> states what the two subject functions owe each other: a
  subscription receives a message exactly when their routing keys agree. It is interpreted
  on every message type that crosses the bus.

  The JSON encoding of the messages (serde) is generated code and is an argument of the
  definitions that use it.
\<close>

section \<open>Agent messages (\<open>core/src/messages/agent.rs\<close>)\<close>

datatype DockerCredentials = UsernamePassword string string

datatype DroneLogMessageKind = Stdout | Stderr

record DroneLogMessage =
  dl_backend_id :: BackendId
  dl_kind :: DroneLogMessageKind
  dl_text :: string

datatype LogOutput = LO_StdErr string | LO_StdOut string | LO_StdIn string | LO_Console string

fun from_log_message :: "BackendId \<Rightarrow> LogOutput \<Rightarrow> DroneLogMessage option" where
  "from_log_message b (LO_StdErr m) =
     map_option (\<lambda>t. \<lparr>dl_backend_id = b, dl_kind = Stderr, dl_text = t\<rparr>) (from_utf8 m)"
| "from_log_message b (LO_StdOut m) =
     map_option (\<lambda>t. \<lparr>dl_backend_id = b, dl_kind = Stdout, dl_text = t\<rparr>) (from_utf8 m)"
| "from_log_message b (LO_StdIn m) = None"
| "from_log_message b (LO_Console m) = None"

definition log_subject :: "DroneLogMessage \<Rightarrow> string" where
  "log_subject m = ''backend.'' @ backend_id_str (dl_backend_id m) @ ''.log''"

definition log_subscribe_subject :: "BackendId \<Rightarrow> string" where
  "log_subscribe_subject b = ''backend.'' @ backend_id_str b @ ''.log''"

definition log_wildcard_subject :: string where
  "log_wildcard_subject = ''backend.*.log''"

text \<open>\<open>None\<close> in a stream configuration is the client library's default for that field.\<close>

record stream_config =
  sc_name :: string
  sc_subjects :: "string list"
  sc_max_messages_per_subject :: "int option"
  sc_max_age :: "duration option"

definition log_stream_config :: stream_config where
  "log_stream_config = \<lparr>sc_name = ''backend_log'', sc_subjects = [''backend.*.log''],
     sc_max_messages_per_subject = None, sc_max_age = None\<rparr>"

record 'f BackendStatsMessage =
  bs_backend_id :: BackendId
  bs_cpu_use_percent :: 'f
  bs_mem_use_percent :: 'f

definition stats_subject :: "'f BackendStatsMessage \<Rightarrow> string" where
  "stats_subject m = ''backend.'' @ backend_id_str (bs_backend_id m) @ ''.stats''"

definition stats_subscribe_subject :: "BackendId \<Rightarrow> string" where
  "stats_subscribe_subject b = ''backend.'' @ backend_id_str b @ ''.stats''"

text \<open>The fields of Docker's statistics object that the code reads.\<close>

datatype MemoryStatsStats = MS_V1 u64 | MS_V2 u64

record Stats =
  st_mem_usage :: "u64 option"
  st_mem_limit :: "u64 option"
  st_mem_stats :: "MemoryStatsStats option"
  st_cpu_total :: u64
  st_cpu_system :: "u64 option"

datatype stats_error = NoMemUsage | NoMemLimit | NoMemStats | NoSystemCpu

fun cache_mem :: "MemoryStatsStats \<Rightarrow> u64" where
  "cache_mem (MS_V1 cache) = cache"
| "cache_mem (MS_V2 inactive_file) = inactive_file"

text \<open>
  \<open>checks\<close> is whether the build has overflow checks. The memory part is computed before the
  CPU part, so its missing fields are reported first.
\<close>

definition from_stats_messages ::
  "bool \<Rightarrow> 'f f64_ops \<Rightarrow> BackendId \<Rightarrow> Stats \<Rightarrow> Stats \<Rightarrow>
     (stats_error + 'f BackendStatsMessage) panics" where
  "from_stats_messages checks fl b prev cur =
     (case st_mem_usage cur of None \<Rightarrow> Some (Inl NoMemUsage) | Some usage \<Rightarrow>
      (case st_mem_limit cur of None \<Rightarrow> Some (Inl NoMemLimit) | Some limit \<Rightarrow>
       (case st_mem_stats cur of None \<Rightarrow> Some (Inl NoMemStats) | Some mstats \<Rightarrow>
        (case ar_sub checks usage (cache_mem mstats) of None \<Rightarrow> None | Some used \<Rightarrow>
         (case ar_sub checks (st_cpu_total cur) (st_cpu_total prev) of
            None \<Rightarrow> None
          | Some cpu_delta \<Rightarrow>
           (case st_cpu_system cur of None \<Rightarrow> Some (Inl NoSystemCpu) | Some sys_cur \<Rightarrow>
            (case st_cpu_system prev of None \<Rightarrow> Some (Inl NoSystemCpu) | Some sys_prev \<Rightarrow>
              Some (Inr
                \<lparr>bs_backend_id = b,
                 bs_cpu_use_percent =
                   f_mul fl (f_div fl (f_of_u64 fl cpu_delta)
                               (f_sub fl (f_of_u64 fl sys_cur) (f_of_u64 fl sys_prev)))
                            (f_hundred fl),
                 bs_mem_use_percent =
                   f_mul fl (f_div fl (f_of_u64 fl used) (f_of_u64 fl limit))
                            (f_hundred fl)\<rparr>))))))))"

record DroneStatusMessage =
  ds_drone_id :: DroneId
  ds_cluster :: ClusterName
  ds_drone_version :: string
  ds_ready :: bool
  ds_running_backends :: "u32 option"

definition default_ready :: bool where
  "default_ready = True"

definition status_subject :: "DroneStatusMessage \<Rightarrow> string" where
  "status_subject m = ''drone.'' @ drone_id_str (ds_drone_id m) @ ''.status''"

definition status_stream_config :: stream_config where
  "status_stream_config = \<lparr>sc_name = ''drone_status'', sc_subjects = [''drone.*.status''],
     sc_max_messages_per_subject = Some 1, sc_max_age = Some (from_secs 5)\<rparr>"

definition status_subscribe_subject :: string where
  "status_subscribe_subject = ''drone.*.status''"

text \<open>\<open>IpAddr\<close>: four octets or eight 16-bit groups.\<close>

datatype IpAddr = V4 u8 u8 u8 u8 | V6 "u16 list"

record DroneConnectRequest =
  dc_drone_id :: DroneId
  dc_cluster :: ClusterName
  dc_ip :: IpAddr

definition connect_subject :: "DroneConnectRequest \<Rightarrow> string" where
  "connect_subject m = ''drone.register''"

definition connect_subscribe_subject :: string where
  "connect_subscribe_subject = ''drone.register''"

record ResourceLimits =
  rl_cpu_period :: "duration option"
  rl_cpu_period_percent :: "u8 option"
  rl_cpu_time_limit :: "duration option"

definition default_resource_limits :: ResourceLimits where
  "default_resource_limits =
     \<lparr>rl_cpu_period = None, rl_cpu_period_percent = None, rl_cpu_time_limit = None\<rparr>"

record DockerExecutableConfig =
  ex_image :: string
  ex_env :: "(string \<times> string) list"
  ex_credentials :: "DockerCredentials option"
  ex_resource_limits :: ResourceLimits

record SpawnRequest =
  sp_drone_id :: DroneId
  sp_max_idle_secs :: duration
  sp_backend_id :: BackendId
  sp_metadata :: "(string \<times> string) list"
  sp_executable :: DockerExecutableConfig
  sp_bearer_token :: "string option"

definition spawn_subject :: "SpawnRequest \<Rightarrow> string" where
  "spawn_subject m = ''drone.'' @ drone_id_str (sp_drone_id m) @ ''.spawn''"

definition spawn_subscribe_subject :: "DroneId \<Rightarrow> string" where
  "spawn_subscribe_subject d = ''drone.'' @ drone_id_str d @ ''.spawn''"

record TerminationRequest =
  tr_cluster_id :: ClusterName
  tr_backend_id :: BackendId

definition termination_subject :: "TerminationRequest \<Rightarrow> string" where
  "termination_subject m =
     ''cluster.'' @ subject_name (tr_cluster_id m) @ ''.backend.''
       @ backend_id_str (tr_backend_id m) @ ''.terminate''"

definition termination_subscribe_subject :: "ClusterName \<Rightarrow> string" where
  "termination_subscribe_subject c = ''cluster.'' @ subject_name c @ ''.backend.*.terminate''"

datatype BackendState =
    Loading
  | ErrorLoading
  | Starting
  | ErrorStarting
  | Ready
  | TimedOutBeforeReady
  | Failed
  | Exited
  | Swept
  | Terminated

definition state_from_str :: "string \<Rightarrow> BackendState option" where
  "state_from_str s =
     (if s = ''Loading'' then Some Loading
      else if s = ''ErrorLoading'' then Some ErrorLoading
      else if s = ''Starting'' then Some Starting
      else if s = ''ErrorStarting'' then Some ErrorStarting
      else if s = ''Ready'' then Some Ready
      else if s = ''TimedOutBeforeReady'' then Some TimedOutBeforeReady
      else if s = ''Failed'' then Some Failed
      else if s = ''Exited'' then Some Exited
      else if s = ''Swept'' then Some Swept
      else if s = ''Terminated'' then Some Terminated
      else None)"

fun state_to_string :: "BackendState \<Rightarrow> string" where
  "state_to_string Loading = ''Loading''"
| "state_to_string ErrorLoading = ''ErrorLoading''"
| "state_to_string Starting = ''Starting''"
| "state_to_string ErrorStarting = ''ErrorStarting''"
| "state_to_string Ready = ''Ready''"
| "state_to_string TimedOutBeforeReady = ''TimedOutBeforeReady''"
| "state_to_string Failed = ''Failed''"
| "state_to_string Exited = ''Exited''"
| "state_to_string Swept = ''Swept''"
| "state_to_string Terminated = ''Terminated''"

fun terminal :: "BackendState \<Rightarrow> bool" where
  "terminal ErrorLoading = True"
| "terminal ErrorStarting = True"
| "terminal TimedOutBeforeReady = True"
| "terminal Failed = True"
| "terminal Exited = True"
| "terminal Swept = True"
| "terminal Terminated = True"
| "terminal _ = False"

fun running :: "BackendState \<Rightarrow> bool" where
  "running Starting = True"
| "running Ready = True"
| "running _ = False"

record BackendStateMessage =
  bm_state :: BackendState
  bm_backend :: BackendId
  bm_time :: systime

definition backend_state_stream_config :: stream_config where
  "backend_state_stream_config = \<lparr>sc_name = ''backend_status'', sc_subjects = [''backend.*.status''],
     sc_max_messages_per_subject = None, sc_max_age = None\<rparr>"

definition backend_state_subject :: "BackendStateMessage \<Rightarrow> string" where
  "backend_state_subject m = ''backend.'' @ backend_id_str (bm_backend m) @ ''.status''"

definition backend_state_subscribe_subject :: "BackendId \<Rightarrow> string" where
  "backend_state_subscribe_subject b = ''backend.'' @ backend_id_str b @ ''.status''"

definition backend_state_wildcard_subject :: string where
  "backend_state_wildcard_subject = ''backend.*.status''"

definition backend_state_message_new ::
  "systime \<Rightarrow> BackendState \<Rightarrow> BackendId \<Rightarrow> BackendStateMessage" where
  "backend_state_message_new now st b = \<lparr>bm_state = st, bm_backend = b, bm_time = now\<rparr>"

section \<open>Scheduler messages (\<open>core/src/messages/scheduler.rs\<close>)\<close>

record ScheduleRequest =
  sq_cluster :: ClusterName
  sq_backend_id :: "BackendId option"
  sq_max_idle_secs :: duration
  sq_metadata :: "(string \<times> string) list"
  sq_executable :: DockerExecutableConfig
  sq_require_bearer_token :: bool

text \<open>\<open>uuid\<close> is the id \<open>BackendId::new_random\<close> would draw.\<close>

definition schedule_request_schedule ::
  "string \<Rightarrow> ScheduleRequest \<Rightarrow> DroneId \<Rightarrow> SpawnRequest" where
  "schedule_request_schedule uuid q d =
     \<lparr>sp_drone_id = d,
      sp_max_idle_secs = sq_max_idle_secs q,
      sp_backend_id = (case sq_backend_id q of Some b \<Rightarrow> b | None \<Rightarrow> BackendId uuid),
      sp_metadata = sq_metadata q,
      sp_executable = sq_executable q,
      sp_bearer_token = None\<rparr>"

datatype ScheduleResponse =
    Scheduled DroneId BackendId "string option"
  | NoDroneAvailable

definition schedule_subject :: "ScheduleRequest \<Rightarrow> string" where
  "schedule_subject m = ''cluster.'' @ subject_name (sq_cluster m) @ ''.schedule''"

definition schedule_subscribe_subject :: string where
  "schedule_subscribe_subject = ''cluster.*.schedule''"

record DrainDrone =
  dd_drone :: DroneId
  dd_cluster :: ClusterName
  dd_drain :: bool

definition drain_subject :: "DrainDrone \<Rightarrow> string" where
  "drain_subject m =
     ''cluster.'' @ subject_name (dd_cluster m) @ ''.drone.'' @ drone_id_str (dd_drone m) @ ''.drain''"

definition drain_subscribe_subject :: "DroneId \<Rightarrow> ClusterName \<Rightarrow> string" where
  "drain_subscribe_subject d c =
     ''cluster.'' @ subject_name c @ ''.drone.'' @ drone_id_str d @ ''.drain''"

section \<open>DNS and certificate messages (\<open>dns.rs\<close>, \<open>cert.rs\<close>)\<close>

definition TTL_BUFFER_SECONDS :: nat where
  "TTL_BUFFER_SECONDS = 10"

datatype DnsRecordType = RecA | RecTXT

fun dns_record_type_display :: "DnsRecordType \<Rightarrow> string" where
  "dns_record_type_display RecA = ''A''"
| "dns_record_type_display RecTXT = ''TXT''"

record SetDnsRecord =
  sd_cluster :: ClusterName
  sd_kind :: DnsRecordType
  sd_name :: string
  sd_value :: string

definition set_dns_subject :: "SetDnsRecord \<Rightarrow> string" where
  "set_dns_subject m =
     ''cluster.'' @ subject_name (sd_cluster m) @ ''.dns.'' @ dns_record_type_display (sd_kind m)"

definition set_dns_subscribe_subject :: string where
  "set_dns_subscribe_subject = ''cluster.*.dns.*''"

definition ttl_seconds :: nat where
  "ttl_seconds = 60"

definition set_dns_ttl :: duration where
  "set_dns_ttl = from_secs ttl_seconds"

definition send_period :: nat where
  "send_period = ttl_seconds - TTL_BUFFER_SECONDS"

definition set_dns_stream_config :: stream_config where
  "set_dns_stream_config = \<lparr>sc_name = ''dns_record'', sc_subjects = [''cluster.*.dns.*''],
     sc_max_messages_per_subject = None, sc_max_age = Some (from_secs ttl_seconds)\<rparr>"

record SetAcmeDnsRecord =
  sa_cluster :: ClusterName
  sa_value :: string

definition set_acme_subject :: "SetAcmeDnsRecord \<Rightarrow> string" where
  "set_acme_subject m = ''acme.set_dns_record''"

definition set_acme_subscribe_subject :: string where
  "set_acme_subscribe_subject = ''acme.set_dns_record''"

section \<open>Log messages (\<open>core/src/messages/logging.rs\<close>)\<close>

text \<open>The severity travels as its name; \<open>as_str\<close> and \<open>from_str\<close> are those of \<open>tracing::Level\<close>, and an unknown
  name is an error of the decoding.\<close>

definition serialize_level :: "('l \<Rightarrow> string) \<Rightarrow> 'l \<Rightarrow> string" where
  "serialize_level as_str level = as_str level"

definition deserialize_level :: "(string \<Rightarrow> 'l option) \<Rightarrow> string \<Rightarrow> string + 'l" where
  "deserialize_level from_str s = ok_or s (from_str s)"

datatype Component = Controller | Drone DroneId

fun log_message_subject :: "Component \<Rightarrow> string" where
  "log_message_subject Controller = ''logs.controller''"
| "log_message_subject (Drone d) = ''logs.drone.'' @ drone_id_str d"

section \<open>Subjects and subscriptions\<close>

text \<open>
  A subject instantiates a subscription pattern when they have the same number of
  dot-separated tokens and every token of the subject is non-empty and equal to the token of
  the pattern, or the pattern has the single-token wildcard there.
\<close>

definition subject_instance :: "string \<Rightarrow> string \<Rightarrow> bool" where
  "subject_instance p s =
     list_all2 (\<lambda>q t. t \<noteq> [] \<and> (q = ''*'' \<or> q = t))
       (split_on (CHR ''.'') p) (split_on (CHR ''.'') s)"

definition subject_token :: "string \<Rightarrow> bool" where
  "subject_token t \<longleftrightarrow> t \<noteq> [] \<and> CHR ''.'' \<notin> set t \<and> t \<noteq> ''*''"

definition wf_cluster :: "ClusterName \<Rightarrow> bool" where
  "wf_cluster c \<longleftrightarrow> hostname c \<noteq> [] \<and> CHR ''_'' \<notin> set (hostname c) \<and> hostname c \<noteq> ''*''"

definition wf_drone_id :: "DroneId \<Rightarrow> bool" where
  "wf_drone_id d \<longleftrightarrow> subject_token (drone_id_str d)"

definition wf_backend_id :: "BackendId \<Rightarrow> bool" where
  "wf_backend_id b \<longleftrightarrow> subject_token (backend_id_str b)"

definition wf_termination :: "TerminationRequest \<Rightarrow> bool" where
  "wf_termination m \<longleftrightarrow> wf_cluster (tr_cluster_id m) \<and> wf_backend_id (tr_backend_id m)"

definition wf_drain_key :: "DroneId \<times> ClusterName \<Rightarrow> bool" where
  "wf_drain_key k \<longleftrightarrow> wf_drone_id (fst k) \<and> wf_cluster (snd k)"

text \<open>
  The contract between the publisher and the subscribers of a message type: among
  well-formed messages and subscription keys, a message reaches exactly the subscriptions
  whose key is the key of the message.
\<close>

locale typed_message =
  fixes subject :: "'m \<Rightarrow> string"
    and pattern :: "'k \<Rightarrow> string"
    and key :: "'m \<Rightarrow> 'k"
    and wf_msg :: "'m \<Rightarrow> bool"
    and wf_key :: "'k \<Rightarrow> bool"
  assumes key_wf: "wf_msg m \<Longrightarrow> wf_key (key m)"
    and routing: "wf_msg m \<Longrightarrow> wf_key k \<Longrightarrow>
      subject_instance (pattern k) (subject m) \<longleftrightarrow> key m = k"
begin

lemma delivered: "wf_msg m \<Longrightarrow> subject_instance (pattern (key m)) (subject m)"
  using routing key_wf by blast

lemma only_receiver:
  assumes "wf_msg m" and "distinct ks" and "\<forall>k \<in> set ks. wf_key k" and "key m \<in> set ks"
  shows "filter (\<lambda>k. subject_instance (pattern k) (subject m)) ks = [key m]"
proof -
  have "filter (\<lambda>k. subject_instance (pattern k) (subject m)) ks = filter (\<lambda>k. key m = k) ks"
    using assms(1,3) routing by (intro filter_cong) auto
  also have "\<dots> = [key m]"
    using assms(2,4)
  proof (induction ks)
    case (Cons k ks)
    then show ?case by (cases "k = key m") (auto simp: filter_empty_conv)
  qed simp
  finally show ?thesis .
qed

lemma no_receiver:
  assumes "wf_msg m" and "\<forall>k \<in> set ks. wf_key k" and "key m \<notin> set ks"
  shows "filter (\<lambda>k. subject_instance (pattern k) (subject m)) ks = []"
  using assms routing by (auto simp: filter_empty_conv)

end

section \<open>Lemmas on subjects\<close>

lemma replace_char_map: "replace_char a [b] s = map (\<lambda>x. if x = a then b else x) s"
  unfolding replace_char_def by (induction s) auto

lemma replace_char_inj:
  assumes "replace_char a [b] s = replace_char a [b] t" and "b \<notin> set s" and "b \<notin> set t"
  shows "s = t"
proof -
  have "inj_on (\<lambda>x. if x = a then b else x) (set s \<union> set t)"
    using assms(2,3) by (auto simp: inj_on_def)
  with assms(1) show ?thesis by (simp add: replace_char_map inj_on_map_eq_map)
qed

lemma replace_char_single:
  "c \<noteq> b \<Longrightarrow> replace_char a [b] s = [c] \<Longrightarrow> s = [c]"
  by (auto simp: replace_char_map map_eq_Cons_conv split: if_splits)

lemma subject_name_inj:
  "wf_cluster c \<Longrightarrow> wf_cluster d \<Longrightarrow> subject_name c = subject_name d \<longleftrightarrow> c = d"
  by (cases c; cases d) (auto simp: wf_cluster_def dest: replace_char_inj)

lemma subject_name_token:
  assumes "wf_cluster c"
  shows "subject_token (subject_name c)"
proof -
  obtain s where c: "c = ClusterName s" by (cases c)
  have "subject_name c \<noteq> []" using assms c by (simp add: wf_cluster_def replace_char_map)
  moreover have "subject_name c \<noteq> ''*''"
    using assms c replace_char_single [of "CHR ''*''" "CHR ''_''" "CHR ''.''" s]
    by (auto simp: wf_cluster_def)
  ultimately show ?thesis by (simp add: subject_token_def)
qed

lemma drone_id_str_inj [simp]: "drone_id_str d = drone_id_str e \<longleftrightarrow> d = e"
  by (cases d; cases e) simp

lemma backend_id_str_inj [simp]: "backend_id_str d = backend_id_str e \<longleftrightarrow> d = e"
  by (cases d; cases e) simp

lemma subject_token_dot [simp]: "subject_token t \<Longrightarrow> CHR ''.'' \<notin> set t"
  by (simp add: subject_token_def)

lemma subject_token_facts:
  "subject_token t \<Longrightarrow> t \<noteq> []" "subject_token t \<Longrightarrow> t \<noteq> ''*''"
  by (simp_all add: subject_token_def)

lemmas subject_defs =
  spawn_subject_def spawn_subscribe_subject_def
  termination_subject_def termination_subscribe_subject_def
  drain_subject_def drain_subscribe_subject_def
  schedule_subject_def schedule_subscribe_subject_def
  status_subject_def status_subscribe_subject_def
  set_dns_subject_def set_dns_subscribe_subject_def
  backend_state_subject_def backend_state_subscribe_subject_def
  backend_state_wildcard_subject_def
  log_subject_def log_subscribe_subject_def
  wf_termination_def wf_drain_key_def wf_drone_id_def wf_backend_id_def

interpretation spawn_msg: typed_message spawn_subject spawn_subscribe_subject sp_drone_id
    "\<lambda>m. wf_drone_id (sp_drone_id m)" wf_drone_id
  by unfold_locales
    (auto simp: subject_instance_def subject_defs split_on_append split_on_absent
        dest: subject_token_facts)

interpretation termination_msg: typed_message termination_subject termination_subscribe_subject
    tr_cluster_id wf_termination wf_cluster
proof unfold_locales
  show "wf_termination m \<Longrightarrow> wf_cluster (tr_cluster_id m)" for m
    by (simp add: wf_termination_def)
  show "subject_instance (termination_subscribe_subject k) (termination_subject m)
      \<longleftrightarrow> tr_cluster_id m = k" if "wf_termination m" and "wf_cluster k" for m k
    using that subject_name_token [of k] subject_name_token [of "tr_cluster_id m"]
    by (auto simp: subject_instance_def subject_defs split_on_append split_on_absent
        subject_name_inj dest: subject_token_facts)
qed

interpretation drain_msg: typed_message drain_subject "\<lambda>(d, c). drain_subscribe_subject d c"
    "\<lambda>m. (dd_drone m, dd_cluster m)" "\<lambda>m. wf_drain_key (dd_drone m, dd_cluster m)" wf_drain_key
proof unfold_locales
  fix m :: DrainDrone and k :: "DroneId \<times> ClusterName"
  assume m: "wf_drain_key (dd_drone m, dd_cluster m)" and k: "wf_drain_key k"
  obtain d c where dc: "k = (d, c)" by (cases k)
  have "subject_token (subject_name c)" "subject_token (subject_name (dd_cluster m))"
    using m k dc by (auto simp: wf_drain_key_def intro: subject_name_token)
  then show "subject_instance (case k of (d, c) \<Rightarrow> drain_subscribe_subject d c) (drain_subject m)
      \<longleftrightarrow> (dd_drone m, dd_cluster m) = k"
    using m k dc
    by (auto simp: subject_instance_def subject_defs split_on_append split_on_absent
        subject_name_inj dest: subject_token_facts)
qed auto

interpretation schedule_msg: typed_message schedule_subject "\<lambda>_::unit. schedule_subscribe_subject"
    "\<lambda>_. ()" "\<lambda>m. wf_cluster (sq_cluster m)" "\<lambda>_. True"
  by unfold_locales
    (auto simp: subject_instance_def subject_defs split_on_append split_on_absent
        dest!: subject_name_token dest: subject_token_facts)

interpretation status_msg: typed_message status_subject "\<lambda>_::unit. status_subscribe_subject"
    "\<lambda>_. ()" "\<lambda>m. wf_drone_id (ds_drone_id m)" "\<lambda>_. True"
  by unfold_locales
    (auto simp: subject_instance_def subject_defs split_on_append split_on_absent
        dest: subject_token_facts)

interpretation dns_msg: typed_message set_dns_subject "\<lambda>_::unit. set_dns_subscribe_subject"
    "\<lambda>_. ()" "\<lambda>m. wf_cluster (sd_cluster m)" "\<lambda>_. True"
proof unfold_locales
  fix m :: SetDnsRecord and k :: unit
  assume "wf_cluster (sd_cluster m)"
  then have "subject_token (subject_name (sd_cluster m))" by (rule subject_name_token)
  then show "subject_instance set_dns_subscribe_subject (set_dns_subject m) \<longleftrightarrow> () = k"
    by (cases "sd_kind m")
      (auto simp: subject_instance_def subject_defs split_on_append split_on_absent
        dest: subject_token_facts)
qed auto

interpretation backend_state_msg: typed_message backend_state_subject
    backend_state_subscribe_subject bm_backend "\<lambda>m. wf_backend_id (bm_backend m)" wf_backend_id
  by unfold_locales
    (auto simp: subject_instance_def subject_defs split_on_append split_on_absent
        dest: subject_token_facts)

section \<open>All messages and subscriptions\<close>

datatype 'f any_message =
    MLog DroneLogMessage
  | MStats "'f BackendStatsMessage"
  | MStatus DroneStatusMessage
  | MConnect DroneConnectRequest
  | MSpawn SpawnRequest
  | MTermination TerminationRequest
  | MBackendState BackendStateMessage
  | MSchedule ScheduleRequest
  | MDrain DrainDrone
  | MDns SetDnsRecord
  | MAcme SetAcmeDnsRecord
  | MLogLine Component

datatype any_subscription =
    SLog BackendId
  | SLogAll
  | SStats BackendId
  | SStatus
  | SConnect
  | SSpawn DroneId
  | STermination ClusterName
  | SBackendState BackendId
  | SBackendStates
  | SSchedule
  | SDrain DroneId ClusterName
  | SDns
  | SAcme

fun any_subject :: "'f any_message \<Rightarrow> string" where
  "any_subject (MLog m) = log_subject m"
| "any_subject (MStats m) = stats_subject m"
| "any_subject (MStatus m) = status_subject m"
| "any_subject (MConnect m) = connect_subject m"
| "any_subject (MSpawn m) = spawn_subject m"
| "any_subject (MTermination m) = termination_subject m"
| "any_subject (MBackendState m) = backend_state_subject m"
| "any_subject (MSchedule m) = schedule_subject m"
| "any_subject (MDrain m) = drain_subject m"
| "any_subject (MDns m) = set_dns_subject m"
| "any_subject (MAcme m) = set_acme_subject m"
| "any_subject (MLogLine c) = log_message_subject c"

fun any_pattern :: "any_subscription \<Rightarrow> string" where
  "any_pattern (SLog b) = log_subscribe_subject b"
| "any_pattern SLogAll = log_wildcard_subject"
| "any_pattern (SStats b) = stats_subscribe_subject b"
| "any_pattern SStatus = status_subscribe_subject"
| "any_pattern SConnect = connect_subscribe_subject"
| "any_pattern (SSpawn d) = spawn_subscribe_subject d"
| "any_pattern (STermination c) = termination_subscribe_subject c"
| "any_pattern (SBackendState b) = backend_state_subscribe_subject b"
| "any_pattern SBackendStates = backend_state_wildcard_subject"
| "any_pattern SSchedule = schedule_subscribe_subject"
| "any_pattern (SDrain d c) = drain_subscribe_subject d c"
| "any_pattern SDns = set_dns_subscribe_subject"
| "any_pattern SAcme = set_acme_subscribe_subject"

datatype message_type =
    TLog
  | TStats
  | TStatus
  | TConnect
  | TSpawn
  | TTermination
  | TBackendState
  | TSchedule
  | TDrain
  | TDns
  | TAcme
  | TLogLine

fun message_type_of :: "'f any_message \<Rightarrow> message_type" where
  "message_type_of (MLog _) = TLog"
| "message_type_of (MStats _) = TStats"
| "message_type_of (MStatus _) = TStatus"
| "message_type_of (MConnect _) = TConnect"
| "message_type_of (MSpawn _) = TSpawn"
| "message_type_of (MTermination _) = TTermination"
| "message_type_of (MBackendState _) = TBackendState"
| "message_type_of (MSchedule _) = TSchedule"
| "message_type_of (MDrain _) = TDrain"
| "message_type_of (MDns _) = TDns"
| "message_type_of (MAcme _) = TAcme"
| "message_type_of (MLogLine _) = TLogLine"

text \<open>The type \<open>M\<close> of the \<open>SubscribeSubject<M>\<close> that each subscription is made with.\<close>

fun subscribed_type :: "any_subscription \<Rightarrow> message_type" where
  "subscribed_type (SLog b) = TLog"
| "subscribed_type SLogAll = TLog"
| "subscribed_type (SStats b) = TStats"
| "subscribed_type SStatus = TStatus"
| "subscribed_type SConnect = TConnect"
| "subscribed_type (SSpawn d) = TSpawn"
| "subscribed_type (STermination c) = TTermination"
| "subscribed_type (SBackendState b) = TBackendState"
| "subscribed_type SBackendStates = TBackendState"
| "subscribed_type SSchedule = TSchedule"
| "subscribed_type (SDrain d c) = TDrain"
| "subscribed_type SDns = TDns"
| "subscribed_type SAcme = TAcme"

fun wf_any_message :: "'f any_message \<Rightarrow> bool" where
  "wf_any_message (MLog m) = wf_backend_id (dl_backend_id m)"
| "wf_any_message (MStats m) = wf_backend_id (bs_backend_id m)"
| "wf_any_message (MStatus m) = wf_drone_id (ds_drone_id m)"
| "wf_any_message (MSpawn m) = wf_drone_id (sp_drone_id m)"
| "wf_any_message (MTermination m) = wf_backend_id (tr_backend_id m)"
| "wf_any_message (MBackendState m) = wf_backend_id (bm_backend m)"
| "wf_any_message (MDrain m) = wf_drone_id (dd_drone m)"
| "wf_any_message (MLogLine (Drone d)) = wf_drone_id d"
| "wf_any_message _ = True"

fun wf_any_subscription :: "any_subscription \<Rightarrow> bool" where
  "wf_any_subscription (SLog b) = wf_backend_id b"
| "wf_any_subscription (SStats b) = wf_backend_id b"
| "wf_any_subscription (SSpawn d) = wf_drone_id d"
| "wf_any_subscription (SBackendState b) = wf_backend_id b"
| "wf_any_subscription (SDrain d c) = wf_drone_id d"
| "wf_any_subscription _ = True"

text \<open>The tokens of every subject and pattern.\<close>

fun subject_tokens :: "'f any_message \<Rightarrow> string list" where
  "subject_tokens (MLog m) = [''backend'', backend_id_str (dl_backend_id m), ''log'']"
| "subject_tokens (MStats m) = [''backend'', backend_id_str (bs_backend_id m), ''stats'']"
| "subject_tokens (MStatus m) = [''drone'', drone_id_str (ds_drone_id m), ''status'']"
| "subject_tokens (MConnect m) = [''drone'', ''register'']"
| "subject_tokens (MSpawn m) = [''drone'', drone_id_str (sp_drone_id m), ''spawn'']"
| "subject_tokens (MTermination m) =
     [''cluster'', subject_name (tr_cluster_id m), ''backend'', backend_id_str (tr_backend_id m), ''terminate'']"
| "subject_tokens (MBackendState m) = [''backend'', backend_id_str (bm_backend m), ''status'']"
| "subject_tokens (MSchedule m) = [''cluster'', subject_name (sq_cluster m), ''schedule'']"
| "subject_tokens (MDrain m) =
     [''cluster'', subject_name (dd_cluster m), ''drone'', drone_id_str (dd_drone m), ''drain'']"
| "subject_tokens (MDns m) =
     [''cluster'', subject_name (sd_cluster m), ''dns'', dns_record_type_display (sd_kind m)]"
| "subject_tokens (MAcme m) = [''acme'', ''set_dns_record'']"
| "subject_tokens (MLogLine Controller) = [''logs'', ''controller'']"
| "subject_tokens (MLogLine (Drone d)) = [''logs'', ''drone'', drone_id_str d]"

fun pattern_tokens :: "any_subscription \<Rightarrow> string list" where
  "pattern_tokens (SLog b) = [''backend'', backend_id_str b, ''log'']"
| "pattern_tokens SLogAll = [''backend'', ''*'', ''log'']"
| "pattern_tokens (SStats b) = [''backend'', backend_id_str b, ''stats'']"
| "pattern_tokens SStatus = [''drone'', ''*'', ''status'']"
| "pattern_tokens SConnect = [''drone'', ''register'']"
| "pattern_tokens (SSpawn d) = [''drone'', drone_id_str d, ''spawn'']"
| "pattern_tokens (STermination c) = [''cluster'', subject_name c, ''backend'', ''*'', ''terminate'']"
| "pattern_tokens (SBackendState b) = [''backend'', backend_id_str b, ''status'']"
| "pattern_tokens SBackendStates = [''backend'', ''*'', ''status'']"
| "pattern_tokens SSchedule = [''cluster'', ''*'', ''schedule'']"
| "pattern_tokens (SDrain d c) = [''cluster'', subject_name c, ''drone'', drone_id_str d, ''drain'']"
| "pattern_tokens SDns = [''cluster'', ''*'', ''dns'', ''*'']"
| "pattern_tokens SAcme = [''acme'', ''set_dns_record'']"

lemma any_subject_tokens:
  assumes "wf_any_message m"
  shows "split_on (CHR ''.'') (any_subject m) = subject_tokens m"
proof (cases m)
  case (MDns v)
  then show ?thesis by (cases "sd_kind v") (simp_all add: subject_defs split_on_append split_on_absent)
next
  case (MLogLine c)
  then show ?thesis using assms
    by (cases c) (simp_all add: subject_defs split_on_append split_on_absent)
qed (use assms in \<open>simp_all add: subject_defs stats_subject_def connect_subject_def set_acme_subject_def
    split_on_append split_on_absent\<close>)

lemma any_pattern_tokens:
  assumes "wf_any_subscription p"
  shows "split_on (CHR ''.'') (any_pattern p) = pattern_tokens p"
  using assms
  by (cases p) (simp_all add: subject_defs stats_subscribe_subject_def connect_subscribe_subject_def
      set_acme_subscribe_subject_def log_wildcard_subject_def split_on_append split_on_absent)

section \<open>The order of backend states\<close>

text \<open>
  The states in the order of their declaration. Every change of state the executor makes
  goes up in this order, so the instance is the measure of a backend's progress.
\<close>

fun state_rank :: "BackendState \<Rightarrow> nat" where
  "state_rank Loading = 0"
| "state_rank ErrorLoading = 1"
| "state_rank Starting = 2"
| "state_rank ErrorStarting = 3"
| "state_rank Ready = 4"
| "state_rank TimedOutBeforeReady = 5"
| "state_rank Failed = 6"
| "state_rank Exited = 7"
| "state_rank Swept = 8"
| "state_rank Terminated = 9"

lemma state_rank_inj: "state_rank s = state_rank t \<longleftrightarrow> s = t"
  by (cases s; cases t) simp_all

instantiation BackendState :: linorder
begin

definition less_eq_BackendState :: "BackendState \<Rightarrow> BackendState \<Rightarrow> bool" where
  "less_eq_BackendState s t \<longleftrightarrow> state_rank s \<le> state_rank t"

definition less_BackendState :: "BackendState \<Rightarrow> BackendState \<Rightarrow> bool" where
  "less_BackendState s t \<longleftrightarrow> state_rank s < state_rank t"

instance
  by standard (auto simp: less_eq_BackendState_def less_BackendState_def state_rank_inj)

end

lemmas state_order_defs = less_eq_BackendState_def less_BackendState_def

lemma state_from_to_string [simp]: "state_from_str (state_to_string s) = Some s"
  by (cases s) (simp_all add: state_from_str_def)

lemma state_from_str_Some: "state_from_str t = Some s \<longleftrightarrow> t = state_to_string s"
proof
  assume "state_from_str t = Some s"
  then show "t = state_to_string s"
    by (auto simp: state_from_str_def split: if_splits)
qed simp

lemma state_to_string_inj [simp]: "state_to_string s = state_to_string t \<longleftrightarrow> s = t"
  by (metis option.inject state_from_to_string)

lemma terminal_not_running: "terminal s \<Longrightarrow> \<not> running s"
  by (cases s) simp_all

lemma not_terminal_cases: "\<not> terminal s \<longleftrightarrow> s = Loading \<or> s = Starting \<or> s = Ready"
  by (cases s) simp_all

section \<open>Properties\<close>

text \<open>A spawn request is received by exactly one of the drones that subscribe for spawn
  requests, the one whose id the scheduler put into it.\<close>

theorem spawn_reaches_only_its_drone:
  assumes "wf_drone_id (sp_drone_id m)" and "distinct ds" and "\<forall>d \<in> set ds. wf_drone_id d"
    and "sp_drone_id m \<in> set ds"
  shows "filter (\<lambda>d. subject_instance (spawn_subscribe_subject d) (spawn_subject m)) ds
    = [sp_drone_id m]"
  using assms by (rule spawn_msg.only_receiver)

definition example_spawn :: "string \<Rightarrow> string \<Rightarrow> SpawnRequest" where
  "example_spawn d b = \<lparr>sp_drone_id = DroneId d, sp_max_idle_secs = from_secs 10,
     sp_backend_id = BackendId b, sp_metadata = [],
     sp_executable = \<lparr>ex_image = ''img'', ex_env = [], ex_credentials = None,
       ex_resource_limits = default_resource_limits\<rparr>,
     sp_bearer_token = None\<rparr>"

theorem spawn_reaches_only_its_drone_witness:
  "filter (\<lambda>d. subject_instance (spawn_subscribe_subject d) (spawn_subject (example_spawn ''d2'' ''b'')))
     [DroneId ''d1'', DroneId ''d2''] = [DroneId ''d2'']"
  using spawn_reaches_only_its_drone [of "example_spawn ''d2'' ''b''" "[DroneId ''d1'', DroneId ''d2'']"]
  by (simp add: example_spawn_def wf_drone_id_def subject_token_def)

text \<open>C32: subscriptions are typed. Under ids without dots, a subscription only ever receives messages of
  the type it was made for, whichever of the twelve types of messages are published: no
  subject of one type instantiates the subscription pattern of another, wildcards included.\<close>

theorem subscriptions_are_typed:
  assumes "wf_any_message m" and "wf_any_subscription p"
    and "subject_instance (any_pattern p) (any_subject m)"
  shows "message_type_of m = subscribed_type p"
proof -
  have "list_all2 (\<lambda>q t. t \<noteq> [] \<and> (q = ''*'' \<or> q = t)) (pattern_tokens p) (subject_tokens m)"
    using assms(3) unfolding subject_instance_def any_subject_tokens [OF assms(1)] any_pattern_tokens [OF assms(2)] .
  then show ?thesis
  proof (cases m)
    case (MLogLine c)
    then show ?thesis using \<open>list_all2 _ _ _\<close> by (cases c; cases p) simp_all
  qed (cases p; simp)+
qed

theorem subscriptions_are_typed_witness:
  "subject_instance (any_pattern SLogAll) (any_subject (MBackendState \<lparr>bm_state = Ready, bm_backend = BackendId ''b'',
     bm_time = 0\<rparr> :: unit any_message)) = False"
  using subscriptions_are_typed [of "MBackendState \<lparr>bm_state = Ready, bm_backend = BackendId ''b'', bm_time = 0\<rparr> :: unit any_message" SLogAll]
  by (auto simp: wf_backend_id_def subject_token_def)

end
