(* ===== verification/Scheduler.thy ===== *)
theory Scheduler
  imports Core_Messages
begin

text \<open>
  The controller's scheduler: \<open>controller/src/scheduler.rs\<close> (the table of the last status of
  every ready drone and the choice of a drone) and the event loop \<open>run_scheduler\<close> of
  \<open>controller/src/lib.rs\<close>.

  The random choice of the \<open>rand\<close> crate and chrono's checked subtraction are arguments;
  \<open>pick_ok\<close> and \<open>sub_ok\<close> name what their documentation promises. The lemmas relate the
  table to the whole history of status messages: a drone is scheduled exactly when the last
  message it sent for the cluster says it is ready and is less than five seconds old.
\<close>

record scheduler =
  last_status :: "ClusterName \<rightharpoonup> (DroneId \<times> systime) list"

datatype SchedulerError = NoDroneAvailableError

definition scheduler_default :: scheduler where
  "scheduler_default = \<lparr>last_status = Map.empty\<rparr>"

definition update_status :: "scheduler \<Rightarrow> systime \<Rightarrow> DroneStatusMessage \<Rightarrow> scheduler" where
  "update_status s timestamp status =
     (let cluster_map = (case last_status s (ds_cluster status) of Some m \<Rightarrow> m | None \<Rightarrow> [])
      in s\<lparr>last_status := (last_status s)(ds_cluster status \<mapsto>
             (if ds_ready status
              then al_insert (ds_drone_id status) timestamp cluster_map
              else al_remove (ds_drone_id status) cluster_map))\<rparr>)"

definition schedule ::
  "(systime \<Rightarrow> duration \<Rightarrow> systime option) \<Rightarrow> (DroneId list \<Rightarrow> DroneId option) \<Rightarrow>
     scheduler \<Rightarrow> ClusterName \<Rightarrow> systime \<Rightarrow> (SchedulerError + DroneId) panics" where
  "schedule checked_sub pick s cluster current_timestamp =
     (case checked_sub current_timestamp (from_secs 5) of
        None \<Rightarrow> None
      | Some threshold_time \<Rightarrow>
          Some (case last_status s cluster of
                  None \<Rightarrow> Inl NoDroneAvailableError
                | Some cluster_drones \<Rightarrow>
                    (let drone_ids = map fst (filter (\<lambda>d. threshold_time < snd d) cluster_drones)
                     in ok_or NoDroneAvailableError (pick drone_ids))))"

section \<open>The event loop\<close>

text \<open>
  One iteration of \<open>select!\<close>: either subscription yields a message (\<open>None\<close> when it is
  closed). A spawn event carries what the environment supplies during its handling: the
  clock, the fresh backend id, the random choice, the drone's answer to the spawn request
  and whether the reply could be sent.
\<close>

datatype sched_event =
    StatusNext "DroneStatusMessage option" systime
  | SpawnNext "ScheduleRequest option" systime string "DroneId list \<Rightarrow> DroneId option"
      "unit + bool" bool

datatype sched_stop = StatusSubClosed | SpawnSubClosed | RespondFailed

record sched_world =
  sw_scheduler :: scheduler
  sw_spawned :: "SpawnRequest list"
  sw_replies :: "ScheduleResponse list"

definition sched_world_init :: sched_world where
  "sched_world_init = \<lparr>sw_scheduler = scheduler_default, sw_spawned = [], sw_replies = []\<rparr>"

fun run_scheduler_step ::
  "(systime \<Rightarrow> duration \<Rightarrow> systime option) \<Rightarrow> sched_event \<Rightarrow> sched_world \<Rightarrow>
     (sched_stop + sched_world) panics" where
  "run_scheduler_step checked_sub (StatusNext (Some status_msg) now) w =
     Some (Inr (w\<lparr>sw_scheduler := update_status (sw_scheduler w) now status_msg\<rparr>))"
| "run_scheduler_step checked_sub (StatusNext None now) w = Some (Inl StatusSubClosed)"
| "run_scheduler_step checked_sub (SpawnNext None now uuid pick answer sent) w =
     Some (Inl SpawnSubClosed)"
| "run_scheduler_step checked_sub (SpawnNext (Some q) now uuid pick answer sent) w =
     (case schedule checked_sub pick (sw_scheduler w) (sq_cluster q) now of
        None \<Rightarrow> None
      | Some r \<Rightarrow>
          (let (result, w') =
             (case r of
                Inr drone_id \<Rightarrow>
                  (let spawn_request = schedule_request_schedule uuid q drone_id;
                       w1 = w\<lparr>sw_spawned := sw_spawned w @ [spawn_request]\<rparr>
                   in (case answer of
                         Inr True \<Rightarrow> (Scheduled drone_id (sp_backend_id spawn_request) None, w1)
                       | Inr False \<Rightarrow> (NoDroneAvailable, w1)
                       | Inl _ \<Rightarrow> (NoDroneAvailable, w1)))
              | Inl _ \<Rightarrow> (NoDroneAvailable, w))
           in Some (if sent then Inr (w'\<lparr>sw_replies := sw_replies w' @ [result]\<rparr>)
                    else Inl RespondFailed)))"

fun run_scheduler ::
  "(systime \<Rightarrow> duration \<Rightarrow> systime option) \<Rightarrow> sched_event list \<Rightarrow> sched_world \<Rightarrow>
     (sched_stop + sched_world) panics" where
  "run_scheduler checked_sub [] w = Some (Inr w)"
| "run_scheduler checked_sub (e # es) w =
     (case run_scheduler_step checked_sub e w of
        None \<Rightarrow> None
      | Some (Inl stop) \<Rightarrow> Some (Inl stop)
      | Some (Inr w') \<Rightarrow> run_scheduler checked_sub es w')"

section \<open>The history of status messages\<close>

type_synonym status_history = "(systime \<times> DroneStatusMessage) list"

text \<open>What the external crates promise.\<close>

definition pick_ok :: "('a list \<Rightarrow> 'a option) \<Rightarrow> bool" where
  "pick_ok pick \<longleftrightarrow> (\<forall>xs. case pick xs of None \<Rightarrow> xs = [] | Some x \<Rightarrow> x \<in> set xs)"

definition sub_ok :: "(systime \<Rightarrow> duration \<Rightarrow> systime option) \<Rightarrow> systime \<Rightarrow> bool" where
  "sub_ok checked_sub t \<longleftrightarrow> checked_sub t (from_secs 5) = Some (t - int (from_secs 5))"

definition statuses :: "status_history \<Rightarrow> scheduler" where
  "statuses h = foldl (\<lambda>s (t, m). update_status s t m) scheduler_default h"

text \<open>The last message a drone sent for a cluster (the history lists the newest last).\<close>

definition last_message :: "status_history \<Rightarrow> ClusterName \<Rightarrow> DroneId \<Rightarrow> (systime \<times> DroneStatusMessage) option" where
  "last_message h c d =
     List.find (\<lambda>(t, m). ds_cluster m = c \<and> ds_drone_id m = d) (rev h)"

definition live_drone :: "status_history \<Rightarrow> systime \<Rightarrow> ClusterName \<Rightarrow> DroneId \<Rightarrow> bool" where
  "live_drone h now c d \<longleftrightarrow>
     (case last_message h c d of
        None \<Rightarrow> False
      | Some (t, m) \<Rightarrow> ds_ready m \<and> now - int (from_secs 5) < t)"

fun status_events :: "sched_event list \<Rightarrow> status_history" where
  "status_events [] = []"
| "status_events (StatusNext (Some m) t # es) = (t, m) # status_events es"
| "status_events (_ # es) = status_events es"

lemma pick_ok_Some: "pick_ok pick \<Longrightarrow> pick xs = Some x \<Longrightarrow> x \<in> set xs"
  by (metis (mono_tags, lifting) pick_ok_def option.simps(5))

lemma pick_ok_None: "pick_ok pick \<Longrightarrow> pick xs = None \<longleftrightarrow> xs = []"
  unfolding pick_ok_def by (drule spec [of _ xs]) (auto split: option.splits)

lemma statuses_snoc: "statuses (h @ [(t, m)]) = update_status (statuses h) t m"
  by (simp add: statuses_def)

lemma last_message_snoc:
  "last_message (h @ [(t, m)]) c d
    = (if ds_cluster m = c \<and> ds_drone_id m = d then Some (t, m) else last_message h c d)"
  by (simp add: last_message_def)

text \<open>The table, read back as a function of the history.\<close>

definition table_entry :: "scheduler \<Rightarrow> ClusterName \<Rightarrow> DroneId \<rightharpoonup> systime" where
  "table_entry s c = (case last_status s c of None \<Rightarrow> Map.empty | Some xs \<Rightarrow> map_of xs)"

definition table_distinct :: "scheduler \<Rightarrow> bool" where
  "table_distinct s \<longleftrightarrow> (\<forall>c xs. last_status s c = Some xs \<longrightarrow> distinct (map fst xs))"

lemma table_entry_update:
  "table_entry (update_status s t m) c d
    = (if ds_cluster m = c \<and> ds_drone_id m = d then (if ds_ready m then Some t else None)
       else table_entry s c d)"
  by (auto simp: table_entry_def update_status_def Let_def split: option.splits)

lemma table_distinct_update: "table_distinct s \<Longrightarrow> table_distinct (update_status s t m)"
  by (auto simp: table_distinct_def update_status_def Let_def split: option.splits)

lemma statuses_distinct: "table_distinct (statuses h)"
proof (induction h rule: rev_induct)
  case Nil
  show ?case by (simp add: statuses_def table_distinct_def scheduler_default_def)
next
  case (snoc x h)
  then show ?case by (cases x) (simp add: statuses_snoc table_distinct_update)
qed

lemma statuses_entry:
  "table_entry (statuses h) c d
    = (case last_message h c d of
         None \<Rightarrow> None | Some (t, m) \<Rightarrow> if ds_ready m then Some t else None)"
proof (induction h rule: rev_induct)
  case Nil
  show ?case by (simp add: statuses_def table_entry_def scheduler_default_def last_message_def)
next
  case (snoc x h)
  then show ?case
    by (cases x) (simp add: statuses_snoc table_entry_update last_message_snoc)
qed

lemma live_drone_entry:
  "live_drone h now c d \<longleftrightarrow> (\<exists>t. table_entry (statuses h) c d = Some t \<and> now - int (from_secs 5) < t)"
  by (auto simp: live_drone_def statuses_entry split: option.splits)

lemma live_drone_filter:
  assumes "last_status (statuses h) c = Some xs"
  shows "d \<in> set (map fst (filter (\<lambda>d. now - int (from_secs 5) < snd d) xs)) \<longleftrightarrow> live_drone h now c d"
proof -
  have "distinct (map fst xs)" using statuses_distinct assms by (auto simp: table_distinct_def)
  then show ?thesis using assms
    by (force simp: live_drone_entry table_entry_def map_of_eq_Some_iff)
qed

lemma schedule_cases:
  assumes "pick_ok pick" and "sub_ok checked_sub now"
  shows "(\<exists>d. schedule checked_sub pick (statuses h) c now = Some (Inr d) \<and> live_drone h now c d)
    \<or> (schedule checked_sub pick (statuses h) c now = Some (Inl NoDroneAvailableError)
       \<and> (\<forall>d. \<not> live_drone h now c d))"
proof (cases "last_status (statuses h) c")
  case None
  then have "\<not> live_drone h now c d" for d by (simp add: live_drone_entry table_entry_def)
  with None assms(2) show ?thesis by (simp add: schedule_def sub_ok_def)
next
  case (Some xs)
  define live where "live = map fst (filter (\<lambda>d. now - int (from_secs 5) < snd d) xs)"
  have iff: "d \<in> set live \<longleftrightarrow> live_drone h now c d" for d
    using live_drone_filter [OF Some] by (simp add: live_def)
  have eq: "schedule checked_sub pick (statuses h) c now
      = Some (ok_or NoDroneAvailableError (pick live))"
    using Some assms(2) by (simp add: schedule_def sub_ok_def live_def)
  show ?thesis
  proof (cases "pick live")
    case None
    then have "live = []" using assms(1) pick_ok_None by blast
    with iff have "\<not> live_drone h now c d" for d by (metis empty_iff empty_set)
    with eq None show ?thesis by simp
  next
    case (Some d)
    then have "live_drone h now c d" using pick_ok_Some [OF assms(1)] iff by blast
    with eq Some show ?thesis by simp
  qed
qed

lemma run_scheduler_statuses:
  "run_scheduler checked_sub es w = Some (Inr w') \<Longrightarrow> sw_scheduler w = statuses h \<Longrightarrow>
   sw_scheduler w' = statuses (h @ status_events es)"
proof (induction es arbitrary: w h)
  case (Cons e es)
  then obtain w1 where step: "run_scheduler_step checked_sub e w = Some (Inr w1)"
      and run: "run_scheduler checked_sub es w1 = Some (Inr w')"
    by (auto split: option.splits sum.splits)
  show ?case
  proof (cases e)
    case (StatusNext m t)
    with step obtain m' where m: "m = Some m'"
        "w1 = w\<lparr>sw_scheduler := update_status (sw_scheduler w) t m'\<rparr>"
      by (cases m) auto
    then have "sw_scheduler w1 = statuses (h @ [(t, m')])"
      using Cons.prems(2) by (simp add: statuses_snoc)
    from Cons.IH [OF run this] show ?thesis using StatusNext m by simp
  next
    case (SpawnNext q now uuid pick answer sent)
    with step have "sw_scheduler w1 = sw_scheduler w"
      by (cases q) (auto simp: Let_def split: option.splits sum.splits bool.splits if_splits prod.splits)
    then show ?thesis using Cons.IH [OF run] Cons.prems(2) SpawnNext by simp
  qed
qed simp

lemma run_scheduler_reply:
  assumes run: "run_scheduler checked_sub es sched_world_init = Some (Inr w)"
    and step: "run_scheduler_step checked_sub (SpawnNext (Some q) now uuid pick answer sent) w
      = Some (Inr w')"
    and ok: "pick_ok pick" "sub_ok checked_sub now"
  shows "\<exists>reply. sw_replies w' = sw_replies w @ [reply] \<and>
    (case reply of
       Scheduled d b token \<Rightarrow>
         answer = Inr True \<and> live_drone (status_events es) now (sq_cluster q) d \<and> token = None
         \<and> sw_spawned w' = sw_spawned w @ [schedule_request_schedule uuid q d]
         \<and> b = sp_backend_id (schedule_request_schedule uuid q d)
         \<and> (sq_backend_id q = None \<or> sq_backend_id q = Some b)
     | NoDroneAvailable \<Rightarrow>
         answer \<noteq> Inr True \<or> (\<forall>d. \<not> live_drone (status_events es) now (sq_cluster q) d))"
proof -
  have "sw_scheduler sched_world_init = statuses []"
    by (simp add: sched_world_init_def statuses_def)
  from run_scheduler_statuses [OF run this]
  have s: "sw_scheduler w = statuses (status_events es)" by simp
  from schedule_cases [OF ok, of "status_events es" "sq_cluster q"] step s show ?thesis
    by (auto simp: Let_def schedule_request_schedule_def
        split: sum.splits bool.splits if_splits option.splits)
qed

section \<open>Properties\<close>

text \<open>C9: after any history of status messages, \<open>schedule\<close> picks a drone of the requested
  cluster whose last message says it is ready and is less than five seconds old, and it
  reports that no drone is available only if there is no such drone.\<close>

theorem schedule_sound_and_complete:
  assumes "pick_ok pick" and "sub_ok checked_sub now"
  shows "(\<exists>d. schedule checked_sub pick (statuses h) c now = Some (Inr d) \<and> live_drone h now c d)
    \<or> (schedule checked_sub pick (statuses h) c now = Some (Inl NoDroneAvailableError)
       \<and> (\<forall>d. \<not> live_drone h now c d))"
  using assms by (rule schedule_cases)

definition first_choice :: "'a list \<Rightarrow> 'a option" where
  "first_choice xs = (case xs of [] \<Rightarrow> None | x # _ \<Rightarrow> Some x)"

definition plain_sub :: "systime \<Rightarrow> duration \<Rightarrow> systime option" where
  "plain_sub t d = Some (t - int d)"

definition example_status :: "string \<Rightarrow> bool \<Rightarrow> DroneStatusMessage" where
  "example_status d ready = \<lparr>ds_drone_id = DroneId d, ds_cluster = ClusterName ''plane.test'',
     ds_drone_version = ''0.1'', ds_ready = ready, ds_running_backends = None\<rparr>"

lemma first_choice_ok: "pick_ok first_choice"
  by (auto simp: pick_ok_def first_choice_def split: option.splits list.splits)

lemma plain_sub_ok: "sub_ok plain_sub t"
  by (simp add: sub_ok_def plain_sub_def)

theorem schedule_sound_and_complete_witness:
  "let h = [(0, example_status ''d1'' True), (1, example_status ''d2'' True),
            (2, example_status ''d1'' False)];
       c = ClusterName ''plane.test''; now = 3000000000
   in pick_ok first_choice \<and> sub_ok plain_sub now
      \<and> schedule plain_sub first_choice (statuses h) c now = Some (Inr (DroneId ''d2''))
      \<and> live_drone h now c (DroneId ''d2'') \<and> \<not> live_drone h now c (DroneId ''d1'')"
proof -
  let ?h = "[(0, example_status ''d1'' True), (1, example_status ''d2'' True),
            (2, example_status ''d1'' False)]"
  have "schedule plain_sub first_choice (statuses ?h) (ClusterName ''plane.test'') 3000000000
      = Some (Inr (DroneId ''d2''))"
    by (simp add: schedule_def statuses_def update_status_def scheduler_default_def plain_sub_def
        first_choice_def example_status_def al_insert_def al_remove_def from_secs_def)
  moreover have "\<not> live_drone ?h 3000000000 (ClusterName ''plane.test'') (DroneId ''d1'')"
    by (simp add: live_drone_def last_message_def example_status_def)
  ultimately show ?thesis
    using schedule_sound_and_complete [OF first_choice_ok plain_sub_ok [of 3000000000], of ?h
        "ClusterName ''plane.test''"]
    by (simp add: first_choice_ok plain_sub_ok)
qed

text \<open>C11: the event loop answers a schedule request with \<open>Scheduled\<close> only when it sent a spawn
  request for that drone and backend, the drone was live for the cluster when it was chosen,
  and the drone accepted; the backend id is the requested one if the request has one.
  Otherwise, and only if no drone was live or the drone did not accept, it answers
  \<open>NoDroneAvailable\<close>.\<close>

theorem run_scheduler_answers:
  assumes run: "run_scheduler checked_sub es sched_world_init = Some (Inr w)"
    and step: "run_scheduler_step checked_sub (SpawnNext (Some q) now uuid pick answer sent) w
      = Some (Inr w')"
    and ok: "pick_ok pick" "sub_ok checked_sub now"
  shows "\<exists>reply. sw_replies w' = sw_replies w @ [reply] \<and>
    (case reply of
       Scheduled d b token \<Rightarrow>
         answer = Inr True \<and> live_drone (status_events es) now (sq_cluster q) d \<and> token = None
         \<and> sw_spawned w' = sw_spawned w @ [schedule_request_schedule uuid q d]
         \<and> b = sp_backend_id (schedule_request_schedule uuid q d)
         \<and> (sq_backend_id q = None \<or> sq_backend_id q = Some b)
     | NoDroneAvailable \<Rightarrow>
         answer \<noteq> Inr True \<or> (\<forall>d. \<not> live_drone (status_events es) now (sq_cluster q) d))"
  using assms by (rule run_scheduler_reply)

definition example_schedule_request :: ScheduleRequest where
  "example_schedule_request = \<lparr>sq_cluster = ClusterName ''plane.test'', sq_backend_id = None,
     sq_max_idle_secs = from_secs 10, sq_metadata = [],
     sq_executable = \<lparr>ex_image = ''img'', ex_env = [], ex_credentials = None,
       ex_resource_limits = default_resource_limits\<rparr>,
     sq_require_bearer_token = False\<rparr>"

theorem run_scheduler_answers_witness:
  "\<exists>w w'. run_scheduler plain_sub [StatusNext (Some (example_status ''d1'' True)) 0] sched_world_init
      = Some (Inr w)
    \<and> run_scheduler_step plain_sub
        (SpawnNext (Some example_schedule_request) 3 ''u1'' first_choice (Inr True) True) w = Some (Inr w')
    \<and> sw_replies w' = [Scheduled (DroneId ''d1'') (BackendId ''u1'') None]
    \<and> length (sw_replies w') = Suc (length (sw_replies w))"
proof -
  let ?es = "[StatusNext (Some (example_status ''d1'' True)) 0]"
  let ?e = "SpawnNext (Some example_schedule_request) 3 ''u1'' first_choice (Inr True) True"
  obtain w where run: "run_scheduler plain_sub ?es sched_world_init = Some (Inr w)" by simp
  then have w: "w = sched_world_init\<lparr>sw_scheduler :=
      update_status scheduler_default 0 (example_status ''d1'' True)\<rparr>"
    by (simp add: sched_world_init_def)
  have "run_scheduler_step plain_sub ?e w
      = Some (Inr (w\<lparr>sw_spawned := [schedule_request_schedule ''u1'' example_schedule_request (DroneId ''d1'')],
          sw_replies := [Scheduled (DroneId ''d1'') (BackendId ''u1'') None]\<rparr>))"
    by (simp add: w schedule_def update_status_def scheduler_default_def plain_sub_def
        first_choice_def example_status_def al_insert_def from_secs_def sched_world_init_def
        example_schedule_request_def schedule_request_schedule_def)
  then obtain w' where step: "run_scheduler_step plain_sub ?e w = Some (Inr w')"
      and replies: "sw_replies w' = [Scheduled (DroneId ''d1'') (BackendId ''u1'') None]"
    by simp
  from run_scheduler_answers [OF run step first_choice_ok plain_sub_ok]
  have "length (sw_replies w') = Suc (length (sw_replies w))" by auto
  with run step replies show ?thesis by blast
qed

end
