(* ===== verification/Net_Text.thy ===== *)
theory Net_Text
  imports Core_Messages
begin

text \<open>
  The text forms of \<open>std::net\<close> addresses that the drone and the controller exchange: \<open>Display\<close>
  and \<open>FromStr\<close> of \<open>Ipv4Addr\<close>, \<open>FromStr\<close> of \<open>IpAddr\<close> (the recursive descent parser of the standard
  library, with compressed groups and embedded IPv4 addresses), and \<open>Display\<close> of \<open>IpAddr\<close> and
  \<open>SocketAddr\<close>. The text of an IPv6 address depends on the version of the standard library and
  is the argument \<open>show_v6\<close>.
\<close>

section \<open>IPv4 addresses in text form\<close>

definition is_digit :: "char \<Rightarrow> bool" where
  "is_digit c \<longleftrightarrow> 48 \<le> (of_char c :: nat) \<and> (of_char c :: nat) \<le> 57"

definition dec_val :: "string \<Rightarrow> nat" where
  "dec_val s = foldl (\<lambda>n c. 10 * n + (of_char c - 48)) 0 s"

definition parse_octet :: "string \<Rightarrow> u8 option" where
  "parse_octet p =
     (if p \<noteq> [] \<and> length p \<le> 3 \<and> list_all is_digit p \<and> (hd p = CHR ''0'' \<longrightarrow> length p = 1)
         \<and> dec_val p \<le> 255
      then Some (of_nat (dec_val p)) else None)"

definition parse_ipv4 :: "string \<Rightarrow> (u8 \<times> u8 \<times> u8 \<times> u8) option" where
  "parse_ipv4 s =
     (case split_on (CHR ''.'') s of
        [p, q, r, t] \<Rightarrow>
          (case (parse_octet p, parse_octet q, parse_octet r, parse_octet t) of
             (Some a, Some b, Some c, Some d) \<Rightarrow> Some (a, b, c, d)
           | _ \<Rightarrow> None)
      | _ \<Rightarrow> None)"

definition show_ipv4 :: "u8 \<times> u8 \<times> u8 \<times> u8 \<Rightarrow> string" where
  "show_ipv4 ip =
     (case ip of (a, b, c, d) \<Rightarrow>
        show_nat (unat a) @ ''.'' @ show_nat (unat b) @ ''.'' @ show_nat (unat c) @ ''.''
          @ show_nat (unat d))"

section \<open>Addresses with ports\<close>

datatype SocketAddr = SocketAddr (sa_ip: IpAddr) (sa_port: u16)

fun show_ip :: "(u16 list \<Rightarrow> string) \<Rightarrow> IpAddr \<Rightarrow> string" where
  "show_ip show_v6 (V4 a b c d) = show_ipv4 (a, b, c, d)"
| "show_ip show_v6 (V6 g) = show_v6 g"

fun show_socket_addr :: "(u16 list \<Rightarrow> string) \<Rightarrow> SocketAddr \<Rightarrow> string" where
  "show_socket_addr show_v6 (SocketAddr (V4 a b c d) port) =
     show_ipv4 (a, b, c, d) @ '':'' @ show_nat (unat port)"
| "show_socket_addr show_v6 (SocketAddr (V6 g) port) =
     ''['' @ show_v6 g @ '']:'' @ show_nat (unat port)"

section \<open>Parsing of IP addresses\<close>

definition hex_val :: "char \<Rightarrow> nat option" where
  "hex_val c =
     (let n = of_char c :: nat in
      if 48 \<le> n \<and> n \<le> 57 then Some (n - 48)
      else if 97 \<le> n \<and> n \<le> 102 then Some (n - 87)
      else if 65 \<le> n \<and> n \<le> 70 then Some (n - 55)
      else None)"

definition read_octet :: "string \<Rightarrow> (u8 \<times> string) option" where
  "read_octet s =
     map_option (\<lambda>a. (a, dropWhile is_digit s)) (parse_octet (takeWhile is_digit s))"

definition read_hex_group :: "string \<Rightarrow> (u16 \<times> string) option" where
  "read_hex_group s =
     (let ds = takeWhile (\<lambda>c. hex_val c \<noteq> None) s
      in if ds = [] \<or> length ds > 4 then None
         else Some (of_nat (foldl (\<lambda>n c. 16 * n + the (hex_val c)) 0 ds),
                    dropWhile (\<lambda>c. hex_val c \<noteq> None) s))"

definition read_sep :: "char \<Rightarrow> nat \<Rightarrow> (string \<Rightarrow> ('a \<times> string) option) \<Rightarrow> string \<Rightarrow> ('a \<times> string) option" where
  "read_sep c i f s =
     (if i = 0 then f s
      else case s of [] \<Rightarrow> None | x # xs \<Rightarrow> if x = c then f xs else None)"

definition read_ipv4 :: "string \<Rightarrow> ((u8 \<times> u8 \<times> u8 \<times> u8) \<times> string) option" where
  "read_ipv4 s =
     Option.bind (read_sep (CHR ''.'') 0 read_octet s) (\<lambda>(a, s1).
     Option.bind (read_sep (CHR ''.'') 1 read_octet s1) (\<lambda>(b, s2).
     Option.bind (read_sep (CHR ''.'') 2 read_octet s2) (\<lambda>(c, s3).
     Option.bind (read_sep (CHR ''.'') 3 read_octet s3) (\<lambda>(d, s4).
       Some ((a, b, c, d), s4)))))"

definition pair_word :: "u8 \<Rightarrow> u8 \<Rightarrow> u16" where
  "pair_word a b = of_nat (256 * unat a + unat b)"

text \<open>\<open>read_groups k i\<close> reads at most \<open>k\<close> more groups after \<open>i\<close> of them.\<close>

fun read_groups :: "nat \<Rightarrow> nat \<Rightarrow> string \<Rightarrow> u16 list \<times> bool \<times> string" where
  "read_groups 0 i s = ([], False, s)"
| "read_groups (Suc k) i s =
     (case (if k \<ge> 1 then read_sep (CHR '':'') i read_ipv4 s else None) of
        Some ((a, b, c, d), r) \<Rightarrow> ([pair_word a b, pair_word c d], True, r)
      | None \<Rightarrow>
         (case read_sep (CHR '':'') i read_hex_group s of
            None \<Rightarrow> ([], False, s)
          | Some (g, r) \<Rightarrow> (case read_groups k (Suc i) r of (gs, v4, r') \<Rightarrow> (g # gs, v4, r'))))"

definition parse_ipv6 :: "string \<Rightarrow> u16 list option" where
  "parse_ipv6 s =
     (case read_groups 8 0 s of
        (head, head_v4, r) \<Rightarrow>
          if length head = 8 then (if r = [] then Some head else None)
          else if head_v4 then None
          else (case strip_prefix ''::'' r of
                  None \<Rightarrow> None
                | Some r' \<Rightarrow>
                    (case read_groups (7 - length head) 0 r' of
                       (tail, _, rest) \<Rightarrow>
                         if rest = [] then Some (head @ replicate (8 - length head - length tail) 0 @ tail)
                         else None)))"

definition parse_ip :: "string \<Rightarrow> IpAddr option" where
  "parse_ip s =
     (case read_ipv4 s of
        Some ((a, b, c, d), r) \<Rightarrow> if r = [] then Some (V4 a b c d) else None
      | None \<Rightarrow> map_option V6 (parse_ipv6 s))"

section \<open>Reading back what was printed\<close>

lemma of_char_digit: "d < 10 \<Longrightarrow> of_char (digit_char d) = (48 + d :: nat)"
  by (simp add: digit_char_def of_char_of)

lemma is_digit_char: "d < 10 \<Longrightarrow> is_digit (digit_char d)"
  by (simp add: is_digit_def of_char_digit)

lemma dec_val_snoc: "dec_val (s @ [c]) = 10 * dec_val s + (of_char c - 48)"
  by (simp add: dec_val_def)

lemma show_nat_digits: "list_all is_digit (show_nat n)"
  by (induction n rule: show_nat.induct) (subst show_nat.simps, simp add: is_digit_char)

lemma dec_val_show_nat: "dec_val (show_nat n) = n"
proof (induction n rule: show_nat.induct)
  case (1 n)
  show ?case
  proof (cases "n < 10")
    case True
    then show ?thesis by (simp add: show_nat.simps [of n] dec_val_def of_char_digit)
  next
    case False
    with 1 show ?thesis by (simp add: show_nat.simps [of n] dec_val_snoc of_char_digit)
  qed
qed

lemma show_nat_length: "n < 10 ^ Suc k \<Longrightarrow> length (show_nat n) \<le> Suc k"
proof (induction k arbitrary: n)
  case 0
  then show ?case by (simp add: show_nat.simps [of n])
next
  case (Suc k)
  then have "n div 10 < 10 ^ Suc k" by (simp add: less_mult_imp_div_less)
  with Suc.IH show ?case by (simp add: show_nat.simps [of n])
qed

lemma show_nat_not_Nil [simp]: "show_nat n \<noteq> []"
  by (simp add: show_nat.simps [of n])

lemma hd_show_nat: "hd (show_nat n) = CHR ''0'' \<Longrightarrow> n = 0"
proof (induction n rule: show_nat.induct)
  case (1 n)
  show ?case
  proof (cases "n < 10")
    case True
    then have "of_char (hd (show_nat n)) = (48 + n :: nat)"
      by (simp add: show_nat.simps [of n] of_char_digit)
    with 1(2) show ?thesis by simp
  next
    case False
    then have "hd (show_nat n) = hd (show_nat (n div 10))" by (simp add: show_nat.simps [of n])
    with 1 False show ?thesis by simp
  qed
qed

lemma show_nat_no_dot: "CHR ''.'' \<notin> set (show_nat n)"
  using show_nat_digits [of n] by (auto simp: list_all_iff is_digit_def)

lemma parse_show_octet: "parse_octet (show_nat (unat (a :: u8))) = Some a"
proof -
  have "unat a < 256" using unsigned_less [of a] by simp
  moreover from this have "length (show_nat (unat a)) \<le> Suc 2"
    by (intro show_nat_length) simp
  moreover have "hd (show_nat (unat a)) = CHR ''0'' \<Longrightarrow> length (show_nat (unat a)) = 1"
    using hd_show_nat [of "unat a"] by (auto simp: show_nat.simps [of 0])
  ultimately show ?thesis
    by (auto simp: parse_octet_def show_nat_digits dec_val_show_nat)
qed

lemma parse_show_ipv4: "parse_ipv4 (show_ipv4 ip) = Some ip"
  by (cases ip)
    (simp add: parse_ipv4_def show_ipv4_def split_on_append split_on_absent show_nat_no_dot
      parse_show_octet)

lemma parse_octet_digits: "parse_octet p = Some a \<Longrightarrow> list_all is_digit p"
  by (auto simp: parse_octet_def split: if_splits)

lemma takeWhile_digits: "list_all is_digit p \<Longrightarrow> r = [] \<or> \<not> is_digit (hd r) \<Longrightarrow> takeWhile is_digit (p @ r) = p"
  by (induction p) (cases r; auto)+

lemma dropWhile_digits: "list_all is_digit p \<Longrightarrow> r = [] \<or> \<not> is_digit (hd r) \<Longrightarrow> dropWhile is_digit (p @ r) = r"
  by (induction p) (cases r; auto)+

lemma read_show_octet:
  "r = [] \<or> \<not> is_digit (hd r) \<Longrightarrow> read_octet (show_nat (unat (a :: u8)) @ r) = Some (a, r)"
  by (simp add: read_octet_def takeWhile_digits dropWhile_digits show_nat_digits parse_show_octet)

lemma not_digit_dot: "\<not> is_digit (CHR ''.'')"
  by (simp add: is_digit_def)

lemma parse_ip_show_ipv4: "parse_ip (show_ipv4 (a, b, c, d)) = Some (V4 a b c d)"
  using read_show_octet [of "[]" d]
  by (simp add: parse_ip_def read_ipv4_def show_ipv4_def read_sep_def read_show_octet not_digit_dot)

lemma read_groups_length: "length (fst (read_groups k i s)) \<le> k"
proof (induction k i s rule: read_groups.induct)
  case (2 k i s)
  show ?case
  proof (cases "if k \<ge> 1 then read_sep (CHR '':'') i read_ipv4 s else None")
    case None
    then show ?thesis using "2.IH" [OF None]
      by (auto split: option.splits prod.splits)
  next
    case (Some v)
    then have "k \<ge> 1" by (auto split: if_splits)
    then show ?thesis using Some by (cases v) (auto split: prod.splits)
  qed
qed simp

lemma parse_ipv6_length: "parse_ipv6 s = Some g \<Longrightarrow> length g = 8"
proof -
  assume g: "parse_ipv6 s = Some g"
  obtain head v4 r where h: "read_groups 8 0 s = (head, v4, r)" by (cases "read_groups 8 0 s")
  have "length head \<le> 8" using read_groups_length [of 8 0 s] h by simp
  show ?thesis
  proof (cases "length head = 8")
    case True
    then show ?thesis using g h by (simp add: parse_ipv6_def split: if_splits)
  next
    case False
    then obtain r' tail x where t: "read_groups (7 - length head) 0 r' = (tail, x)"
        "g = head @ replicate (8 - length head - length tail) 0 @ tail"
      using g h by (auto simp: parse_ipv6_def split: if_splits option.splits prod.splits)
    then have "length tail \<le> 7 - length head" using read_groups_length [of "7 - length head" 0 r'] by simp
    then show ?thesis using t(2) \<open>length head \<le> 8\<close> False by simp
  qed
qed

end
