(* ===== verification/Ttl_Store.thy ===== *)
theory Ttl_Store
  imports Plane_Prelude
begin

text \<open>
  The time-to-live containers of \<open>controller/src/ttl_store\<close>: \<open>TtlMap\<close>, \<open>TtlList\<close> and
  \<open>TtlMultistore\<close>. Each keeps its entries in insertion order with their expiry times and
  drops expired entries from the front when it is read.

  The specification of a container is a map (or a map of lists) that remembers everything
  ever inserted and filters by expiry when it is read. The simulations below show that the
  containers return exactly what the specification returns on every sequence of operations
  whose times do not go back. The locale \<open>front_expiry\<close> holds what the two compaction loops
  share; their expiry tests differ (\<open>t >= time\<close> keeps in the map, \<open>t > time\<close> keeps in the list).
\<close>

section \<open>Time arithmetic\<close>

text \<open>The largest \<open>SystemTime\<close>: an \<open>i64\<close> of seconds and 999999999 nanoseconds.\<close>

definition SYSTIME_MAX :: systime where
  "SYSTIME_MAX = 9223372036854775807 * 1000000000 + 999999999"

definition systime_add :: "systime \<Rightarrow> duration \<Rightarrow> systime option" where
  "systime_add t d = (if t + int d \<le> SYSTIME_MAX then Some (t + int d) else None)"

section \<open>\<open>TtlMap\<close>\<close>

record ('k, 'v) ttl_map =
  tm_ttl :: duration
  tm_inner :: "'k \<rightharpoonup> systime \<times> 'v"
  tm_queue :: "(systime \<times> 'k) list"
  tm_last_compaction :: systime

definition ttl_map_new :: "duration \<Rightarrow> ('k, 'v) ttl_map" where
  "ttl_map_new ttl =
     \<lparr>tm_ttl = ttl, tm_inner = Map.empty, tm_queue = [], tm_last_compaction = 0\<rparr>"

definition ttl_map_insert ::
  "('k, 'v) ttl_map \<Rightarrow> 'k \<Rightarrow> 'v \<Rightarrow> systime \<Rightarrow> ('k, 'v) ttl_map panics" where
  "ttl_map_insert m key value time =
     (case systime_add time (tm_ttl m) of
        None \<Rightarrow> None
      | Some expiry \<Rightarrow> Some (m\<lparr>tm_inner := (tm_inner m)(key \<mapsto> (expiry, value)),
                            tm_queue := tm_queue m @ [(expiry, key)]\<rparr>))"

text \<open>
  \<open>get_or_insert_with\<close> returns a mutable reference into the map; the model returns the map
  with the entry present and the value it holds. \<open>now\<close> is what \<open>SystemTime::now()\<close> reads.
\<close>

definition ttl_map_get_or_insert_with ::
  "('k, 'v) ttl_map \<Rightarrow> 'k \<Rightarrow> systime \<Rightarrow> 'v \<Rightarrow> 'v \<times> ('k, 'v) ttl_map" where
  "ttl_map_get_or_insert_with m key now v =
     (case tm_inner m key of
        Some (_, w) \<Rightarrow> (w, m)
      | None \<Rightarrow> (v, m\<lparr>tm_inner := (tm_inner m)(key \<mapsto> (now, v))\<rparr>))"

fun ttl_map_compact_loop ::
  "systime \<Rightarrow> ('k \<rightharpoonup> systime \<times> 'v) \<Rightarrow> (systime \<times> 'k) list \<Rightarrow>
     ('k \<rightharpoonup> systime \<times> 'v) \<times> (systime \<times> 'k) list" where
  "ttl_map_compact_loop time inner [] = (inner, [])"
| "ttl_map_compact_loop time inner ((t, key) # q) =
     (if t \<ge> time then (inner, (t, key) # q)
      else ttl_map_compact_loop time
             (case inner key of
                Some (current_expiry, _) \<Rightarrow>
                  if current_expiry < time then inner(key := None) else inner
              | None \<Rightarrow> inner) q)"

definition ttl_map_compact :: "('k, 'v) ttl_map \<Rightarrow> systime \<Rightarrow> ('k, 'v) ttl_map" where
  "ttl_map_compact m time =
     (let (inner, queue) = ttl_map_compact_loop time (tm_inner m) (tm_queue m)
      in m\<lparr>tm_inner := inner, tm_queue := queue, tm_last_compaction := time\<rparr>)"

definition ttl_map_get :: "('k, 'v) ttl_map \<Rightarrow> 'k \<Rightarrow> systime \<Rightarrow> 'v option \<times> ('k, 'v) ttl_map" where
  "ttl_map_get m key time =
     (let m' = ttl_map_compact m time in (map_option snd (tm_inner m' key), m'))"

text \<open>Writing through the reference that \<open>get_mut\<close> or \<open>get_or_insert_with\<close> returned.\<close>

definition ttl_map_write :: "('k, 'v) ttl_map \<Rightarrow> 'k \<Rightarrow> 'v \<Rightarrow> ('k, 'v) ttl_map" where
  "ttl_map_write m key v =
     m\<lparr>tm_inner := (tm_inner m)(key := map_option (\<lambda>(e, _). (e, v)) (tm_inner m key))\<rparr>"

section \<open>\<open>TtlList\<close>\<close>

record 'v ttl_list =
  tl_items :: "(systime \<times> 'v) list"
  tl_ttl :: duration
  tl_last_compaction :: systime

definition ttl_list_new :: "duration \<Rightarrow> 'v ttl_list" where
  "ttl_list_new ttl = \<lparr>tl_items = [], tl_ttl = ttl, tl_last_compaction = 0\<rparr>"

fun ttl_list_compact_loop :: "systime \<Rightarrow> (systime \<times> 'v) list \<Rightarrow> (systime \<times> 'v) list" where
  "ttl_list_compact_loop time [] = []"
| "ttl_list_compact_loop time ((t, v) # items) =
     (if t > time then (t, v) # items else ttl_list_compact_loop time items)"

definition ttl_list_compact :: "'v ttl_list \<Rightarrow> systime \<Rightarrow> 'v ttl_list" where
  "ttl_list_compact l time =
     l\<lparr>tl_items := ttl_list_compact_loop time (tl_items l), tl_last_compaction := time\<rparr>"

definition ttl_list_iter :: "'v ttl_list \<Rightarrow> systime \<Rightarrow> 'v list \<times> 'v ttl_list" where
  "ttl_list_iter l time = (let l' = ttl_list_compact l time in (map snd (tl_items l'), l'))"

definition ttl_list_push :: "'v ttl_list \<Rightarrow> 'v \<Rightarrow> systime \<Rightarrow> 'v ttl_list panics" where
  "ttl_list_push l value time =
     map_option (\<lambda>expiry. l\<lparr>tl_items := tl_items l @ [(expiry, value)]\<rparr>)
       (systime_add time (tl_ttl l))"

section \<open>\<open>TtlMultistore\<close>\<close>

record ('k, 'v) ttl_multistore =
  ms_inner :: "('k, 'v ttl_list) ttl_map"
  ms_ttl :: duration

definition ttl_multistore_new :: "duration \<Rightarrow> ('k, 'v) ttl_multistore" where
  "ttl_multistore_new ttl = \<lparr>ms_inner = ttl_map_new ttl, ms_ttl = ttl\<rparr>"

definition ttl_multistore_insert ::
  "('k, 'v) ttl_multistore \<Rightarrow> 'k \<Rightarrow> 'v \<Rightarrow> systime \<Rightarrow> systime \<Rightarrow> ('k, 'v) ttl_multistore panics" where
  "ttl_multistore_insert s key value time now =
     (let (l, m) = ttl_map_get_or_insert_with (ms_inner s) key now (ttl_list_new (ms_ttl s))
      in map_option (\<lambda>l'. s\<lparr>ms_inner := ttl_map_write m key l'\<rparr>) (ttl_list_push l value time))"

definition ttl_multistore_iter ::
  "('k, 'v) ttl_multistore \<Rightarrow> 'k \<Rightarrow> systime \<Rightarrow> 'v list option \<times> ('k, 'v) ttl_multistore" where
  "ttl_multistore_iter s key time =
     (case ttl_map_get (ms_inner s) key time of
        (None, m) \<Rightarrow> (None, s\<lparr>ms_inner := m\<rparr>)
      | (Some l, m) \<Rightarrow>
          (let (vs, l') = ttl_list_iter l time
           in (Some vs, s\<lparr>ms_inner := ttl_map_write m key l'\<rparr>)))"

section \<open>Operations as steps, and their specification\<close>

datatype ('k, 'v) map_op = MapInsert 'k 'v systime | MapGet 'k systime

fun map_op_time :: "('k, 'v) map_op \<Rightarrow> systime" where
  "map_op_time (MapInsert _ _ t) = t"
| "map_op_time (MapGet _ t) = t"

fun ttl_map_step ::
  "('k, 'v) map_op \<Rightarrow> ('k, 'v) ttl_map \<Rightarrow> (('k, 'v) ttl_map \<times> 'v option) panics" where
  "ttl_map_step (MapInsert k v t) m = map_option (\<lambda>m'. (m', None)) (ttl_map_insert m k v t)"
| "ttl_map_step (MapGet k t) m = (let (r, m') = ttl_map_get m k t in Some (m', r))"

text \<open>The specification: everything inserted, and the time of the last operation.\<close>

record ('k, 'v) map_spec =
  as_entries :: "'k \<rightharpoonup> systime \<times> 'v"
  as_now :: systime

fun map_spec_step ::
  "duration \<Rightarrow> ('k, 'v) map_op \<Rightarrow> ('k, 'v) map_spec \<Rightarrow> ('k, 'v) map_spec \<times> 'v option" where
  "map_spec_step ttl (MapInsert k v t) a =
     (\<lparr>as_entries = (as_entries a)(k \<mapsto> (t + int ttl, v)), as_now = t\<rparr>, None)"
| "map_spec_step ttl (MapGet k t) a =
     (a\<lparr>as_now := t\<rparr>,
      case as_entries a k of Some (e, v) \<Rightarrow> if t \<le> e then Some v else None | None \<Rightarrow> None)"

definition map_op_ok :: "duration \<Rightarrow> ('k, 'v) map_op \<Rightarrow> ('k, 'v) map_spec \<Rightarrow> bool" where
  "map_op_ok ttl x a \<longleftrightarrow> as_now a \<le> map_op_time x \<and> map_op_time x + int ttl \<le> SYSTIME_MAX"

datatype ('k, 'v) multi_op = MultiInsert 'k 'v systime systime | MultiIter 'k systime

fun multi_op_time :: "('k, 'v) multi_op \<Rightarrow> systime" where
  "multi_op_time (MultiInsert _ _ t _) = t"
| "multi_op_time (MultiIter _ t) = t"

fun ttl_multistore_step ::
  "('k, 'v) multi_op \<Rightarrow> ('k, 'v) ttl_multistore \<Rightarrow> (('k, 'v) ttl_multistore \<times> 'v list option) panics" where
  "ttl_multistore_step (MultiInsert k v t now) s =
     map_option (\<lambda>s'. (s', None)) (ttl_multistore_insert s k v t now)"
| "ttl_multistore_step (MultiIter k t) s = (let (r, s') = ttl_multistore_iter s k t in Some (s', r))"

record ('k, 'v) multi_spec =
  at_entries :: "'k \<rightharpoonup> (systime \<times> 'v) list"
  at_now :: systime

fun multi_spec_step ::
  "duration \<Rightarrow> ('k, 'v) multi_op \<Rightarrow> ('k, 'v) multi_spec \<Rightarrow> ('k, 'v) multi_spec \<times> 'v list option" where
  "multi_spec_step ttl (MultiInsert k v t now) a =
     (\<lparr>at_entries = (at_entries a)(k \<mapsto>
         (case at_entries a k of Some xs \<Rightarrow> xs | None \<Rightarrow> []) @ [(t + int ttl, v)]), at_now = t\<rparr>, None)"
| "multi_spec_step ttl (MultiIter k t) a =
     (a\<lparr>at_now := t\<rparr>, map_option (\<lambda>xs. map snd (filter (\<lambda>x. t < fst x) xs)) (at_entries a k))"

definition multi_op_ok :: "duration \<Rightarrow> ('k, 'v) multi_op \<Rightarrow> ('k, 'v) multi_spec \<Rightarrow> bool" where
  "multi_op_ok ttl x a \<longleftrightarrow> at_now a \<le> multi_op_time x \<and> multi_op_time x + int ttl \<le> SYSTIME_MAX"

section \<open>Compaction\<close>

text \<open>
  Both loops drop a prefix of entries that have expired. On entries in the order of their
  expiry times that removes exactly the expired ones.
\<close>

locale front_expiry =
  fixes expired :: "systime \<Rightarrow> systime \<Rightarrow> bool"
  assumes earlier_expired: "expired time e \<Longrightarrow> e' \<le> e \<Longrightarrow> expired time e'"
    and stays_expired: "expired t e \<Longrightarrow> t \<le> t' \<Longrightarrow> expired t' e"
begin

lemma drop_expired:
  "sorted (map fst q) \<Longrightarrow>
   dropWhile (\<lambda>x. expired time (fst x)) q = filter (\<lambda>x. \<not> expired time (fst x)) q"
proof (induction q)
  case (Cons x q)
  show ?case
  proof (cases "expired time (fst x)")
    case False
    then have "\<forall>y \<in> set q. \<not> expired time (fst y)"
      using Cons.prems earlier_expired by fastforce
    with False show ?thesis by (simp add: filter_id_conv)
  qed (use Cons in simp)
qed simp

lemma filter_twice:
  "t \<le> t' \<Longrightarrow> filter (\<lambda>x. \<not> expired t' (fst x)) (filter (\<lambda>x. \<not> expired t (fst x)) q)
     = filter (\<lambda>x. \<not> expired t' (fst x)) q"
  using stays_expired by (auto simp: intro: filter_cong)

end

interpretation map_expiry: front_expiry "\<lambda>time e. e < time"
  by unfold_locales auto

interpretation list_expiry: front_expiry "\<lambda>time e. e \<le> time"
  by unfold_locales auto

lemma sorted_filter_fst: "sorted (map fst q) \<Longrightarrow> sorted (map fst (filter P q))"
  by (induction q) auto

lemma ttl_list_compact_loop_eq:
  "ttl_list_compact_loop time q = dropWhile (\<lambda>x. fst x \<le> time) q"
  by (induction time q rule: ttl_list_compact_loop.induct) auto

definition live_entries :: "systime \<Rightarrow> ('k \<rightharpoonup> systime \<times> 'v) \<Rightarrow> ('k \<rightharpoonup> systime \<times> 'v)" where
  "live_entries time inner =
     (\<lambda>k. case inner k of Some (e, v) \<Rightarrow> if e < time then None else Some (e, v) | None \<Rightarrow> None)"

lemma ttl_map_compact_loop_eq:
  assumes "sorted (map fst q)"
    and "\<And>k e v. inner k = Some (e, v) \<Longrightarrow> e < time \<Longrightarrow> (e, k) \<in> set q"
  shows "ttl_map_compact_loop time inner q
    = (live_entries time inner, filter (\<lambda>x. \<not> fst x < time) q)"
  using assms
proof (induction time inner q rule: ttl_map_compact_loop.induct)
  case (1 time inner)
  then have "inner k = Some (e, v) \<Longrightarrow> \<not> e < time" for k e v by fastforce
  then show ?case by (auto simp: live_entries_def fun_eq_iff split: option.splits)
next
  case (2 time inner t key q)
  show ?case
  proof (cases "t \<ge> time")
    case True
    then have "\<forall>x \<in> set q. \<not> fst x < time" using "2.prems"(1) by fastforce
    moreover from this have "inner k = Some (e, v) \<Longrightarrow> \<not> e < time" for k e v
      using "2.prems"(2) [of k e v] True by force
    then have "live_entries time inner = inner"
      by (auto simp: live_entries_def fun_eq_iff split: option.splits)
    ultimately show ?thesis using True by (simp add: filter_id_conv)
  next
    case False
    let ?inner' = "case inner key of
        Some (current_expiry, _) \<Rightarrow>
          if current_expiry < time then inner(key := None) else inner
      | None \<Rightarrow> inner"
    have "?inner' k = Some (e, v) \<Longrightarrow> e < time \<Longrightarrow> (e, k) \<in> set q" for k e v
      using "2.prems"(2) [of k e v] by (auto split: option.splits if_splits)
    moreover have "live_entries time ?inner' = live_entries time inner"
      by (auto simp: live_entries_def fun_eq_iff split: option.splits)
    ultimately show ?thesis using "2.IH" [OF False] "2.prems"(1) False by simp
  qed
qed

section \<open>The map simulates its specification\<close>

definition ttl_map_rel :: "duration \<Rightarrow> ('k, 'v) ttl_map \<Rightarrow> ('k, 'v) map_spec \<Rightarrow> bool" where
  "ttl_map_rel ttl m a \<longleftrightarrow>
     tm_ttl m = ttl \<and> sorted (map fst (tm_queue m)) \<and>
     (\<forall>x \<in> set (tm_queue m). fst x \<le> as_now a + int ttl) \<and>
     (\<forall>k e v. tm_inner m k = Some (e, v) \<longrightarrow> (e, k) \<in> set (tm_queue m)) \<and>
     (\<forall>k e v. tm_inner m k = Some (e, v) \<longrightarrow> as_entries a k = Some (e, v)) \<and>
     (\<forall>k e v. as_entries a k = Some (e, v) \<longrightarrow> tm_inner m k = None \<longrightarrow> e < as_now a)"

lemma ttl_map_rel_new: "ttl_map_rel ttl (ttl_map_new ttl) \<lparr>as_entries = Map.empty, as_now = T\<rparr>"
  by (simp add: ttl_map_rel_def ttl_map_new_def)

lemma ttl_map_rel_insert:
  assumes "ttl_map_rel ttl m a" and "as_now a \<le> t" and "t + int ttl \<le> SYSTIME_MAX"
  shows "\<exists>m'. ttl_map_insert m k v t = Some m'
    \<and> ttl_map_rel ttl m' \<lparr>as_entries = (as_entries a)(k \<mapsto> (t + int ttl, v)), as_now = t\<rparr>"
proof -
  have "systime_add t (tm_ttl m) = Some (t + int ttl)"
    using assms by (simp add: systime_add_def ttl_map_rel_def)
  moreover have "sorted (map fst (tm_queue m @ [(t + int ttl, k)]))"
    using assms by (fastforce simp: ttl_map_rel_def sorted_append)
  ultimately show ?thesis
    using assms by (fastforce simp: ttl_map_insert_def ttl_map_rel_def)
qed

lemma ttl_map_rel_compact:
  assumes "ttl_map_rel ttl m a" and "as_now a \<le> t"
  shows "ttl_map_rel ttl (ttl_map_compact m t) (a\<lparr>as_now := t\<rparr>)"
    and "tm_inner (ttl_map_compact m t) = live_entries t (tm_inner m)"
proof -
  have loop: "ttl_map_compact_loop t (tm_inner m) (tm_queue m)
      = (live_entries t (tm_inner m), filter (\<lambda>x. \<not> fst x < t) (tm_queue m))"
    using assms(1) by (intro ttl_map_compact_loop_eq) (auto simp: ttl_map_rel_def)
  then show "tm_inner (ttl_map_compact m t) = live_entries t (tm_inner m)"
    by (simp add: ttl_map_compact_def)
  show "ttl_map_rel ttl (ttl_map_compact m t) (a\<lparr>as_now := t\<rparr>)"
    using assms loop
    by (fastforce simp: ttl_map_rel_def ttl_map_compact_def live_entries_def sorted_filter_fst
        split: option.splits if_splits)
qed

lemma ttl_map_rel_get:
  assumes "ttl_map_rel ttl m a" and "as_now a \<le> t"
  shows "fst (ttl_map_get m k t)
    = (case as_entries a k of Some (e, v) \<Rightarrow> if t \<le> e then Some v else None | None \<Rightarrow> None)"
  using assms ttl_map_rel_compact(2) [OF assms]
  by (fastforce simp: ttl_map_get_def Let_def live_entries_def ttl_map_rel_def
      split: option.splits if_splits)

interpretation ttl_map_sim: simulation ttl_map_step "map_spec_step ttl" "map_op_ok ttl"
    "ttl_map_rel ttl" for ttl
proof
  fix m :: "('k, 'v) ttl_map" and a x
  assume rel: "ttl_map_rel ttl m a" and ok: "map_op_ok ttl x a"
  show "\<exists>m'. ttl_map_step x m = Some (m', snd (map_spec_step ttl x a))
      \<and> ttl_map_rel ttl m' (fst (map_spec_step ttl x a))"
  proof (cases x)
    case (MapInsert k v t)
    then show ?thesis using ttl_map_rel_insert [OF rel, of t k v] ok
      by (auto simp: map_op_ok_def)
  next
    case (MapGet k t)
    then have t: "as_now a \<le> t" using ok by (simp add: map_op_ok_def)
    show ?thesis
      using ttl_map_rel_compact(1) [OF rel t] ttl_map_rel_get [OF rel t, of k] MapGet
      by (auto simp: ttl_map_get_def Let_def)
  qed
qed

section \<open>The multistore simulates its specification\<close>

definition ttl_list_rel :: "duration \<Rightarrow> systime \<Rightarrow> 'v ttl_list \<Rightarrow> (systime \<times> 'v) list \<Rightarrow> bool" where
  "ttl_list_rel ttl now l xs \<longleftrightarrow>
     tl_ttl l = ttl \<and> sorted (map fst (tl_items l)) \<and>
     (\<forall>x \<in> set (tl_items l). fst x \<le> now + int ttl) \<and>
     (\<forall>t \<ge> now. filter (\<lambda>x. t < fst x) (tl_items l) = filter (\<lambda>x. t < fst x) xs)"

lemma ttl_list_rel_new: "ttl_list_rel ttl now (ttl_list_new ttl) []"
  by (simp add: ttl_list_rel_def ttl_list_new_def)

lemma ttl_list_rel_mono: "ttl_list_rel ttl now l xs \<Longrightarrow> now \<le> t \<Longrightarrow> ttl_list_rel ttl t l xs"
  by (fastforce simp: ttl_list_rel_def)

lemma ttl_list_rel_push:
  assumes "ttl_list_rel ttl now l xs" and "now \<le> t" and "t + int ttl \<le> SYSTIME_MAX"
  shows "\<exists>l'. ttl_list_push l v t = Some l' \<and> ttl_list_rel ttl t l' (xs @ [(t + int ttl, v)])"
  using assms
  by (fastforce simp: ttl_list_push_def systime_add_def ttl_list_rel_def sorted_append)

lemma ttl_list_rel_iter:
  assumes "ttl_list_rel ttl now l xs" and "now \<le> t"
  shows "fst (ttl_list_iter l t) = map snd (filter (\<lambda>x. t < fst x) xs)"
    and "ttl_list_rel ttl t (snd (ttl_list_iter l t)) xs"
proof -
  have items: "ttl_list_compact_loop t (tl_items l) = filter (\<lambda>x. \<not> fst x \<le> t) (tl_items l)"
    using assms list_expiry.drop_expired [of "tl_items l" t]
    by (simp add: ttl_list_compact_loop_eq ttl_list_rel_def)
  then show "fst (ttl_list_iter l t) = map snd (filter (\<lambda>x. t < fst x) xs)"
    using assms by (simp add: ttl_list_iter_def ttl_list_compact_def ttl_list_rel_def not_le)
  have "filter (\<lambda>x. t' < fst x) (filter (\<lambda>x. \<not> fst x \<le> t) (tl_items l))
      = filter (\<lambda>x. t' < fst x) xs" if "t \<le> t'" for t'
  proof -
    have "filter (\<lambda>x. t' < fst x) (tl_items l) = filter (\<lambda>x. t' < fst x) xs"
      using assms that by (simp add: ttl_list_rel_def)
    with list_expiry.filter_twice [OF that, of "tl_items l"] show ?thesis by (simp only: not_le)
  qed
  then show "ttl_list_rel ttl t (snd (ttl_list_iter l t)) xs"
    using assms items
    by (fastforce simp: ttl_list_iter_def ttl_list_compact_def ttl_list_rel_def sorted_filter_fst)
qed

definition ttl_multi_rel ::
  "duration \<Rightarrow> ('k, 'v) ttl_multistore \<Rightarrow> ('k, 'v) multi_spec \<Rightarrow> bool" where
  "ttl_multi_rel ttl s a \<longleftrightarrow>
     ms_ttl s = ttl \<and> tm_queue (ms_inner s) = [] \<and>
     (\<forall>k. rel_option (\<lambda>el xs. ttl_list_rel ttl (at_now a) (snd el) xs)
            (tm_inner (ms_inner s) k) (at_entries a k))"

lemma ttl_multi_rel_new:
  "ttl_multi_rel ttl (ttl_multistore_new ttl) \<lparr>at_entries = Map.empty, at_now = T\<rparr>"
  by (simp add: ttl_multi_rel_def ttl_multistore_new_def ttl_map_new_def)

lemma ttl_multi_rel_lookup:
  assumes "ttl_multi_rel ttl s a" and "at_now a \<le> t"
  shows "rel_option (\<lambda>el xs. ttl_list_rel ttl t (snd el) xs)
    (tm_inner (ms_inner s) k) (at_entries a k)"
  using assms unfolding ttl_multi_rel_def
  by (metis (mono_tags, lifting) option.rel_mono_strong ttl_list_rel_mono)

lemma ttl_multi_rel_insert:
  assumes "ttl_multi_rel ttl s a" and "at_now a \<le> t" and "t + int ttl \<le> SYSTIME_MAX"
  shows "\<exists>s'. ttl_multistore_insert s k v t now = Some s'
    \<and> ttl_multi_rel ttl s' (fst (multi_spec_step ttl (MultiInsert k v t now) a))"
proof -
  note others = ttl_multi_rel_lookup [OF assms(1,2)]
  define l where "l = (case tm_inner (ms_inner s) k of Some (_, w) \<Rightarrow> w | None \<Rightarrow> ttl_list_new ttl)"
  define xs where "xs = (case at_entries a k of Some xs \<Rightarrow> xs | None \<Rightarrow> [])"
  have "ttl_list_rel ttl t l xs"
    using others [of k] by (auto simp: l_def xs_def ttl_list_rel_new option_rel_Some1
        option_rel_Some2 split: option.splits)
  from ttl_list_rel_push [OF this order_refl assms(3), of v]
  obtain l' where l': "ttl_list_push l v t = Some l'"
      "ttl_list_rel ttl t l' (xs @ [(t + int ttl, v)])"
    by blast
  show ?thesis
    using l' others assms(1)
    by (auto simp: ttl_multistore_insert_def ttl_map_get_or_insert_with_def ttl_map_write_def
        ttl_multi_rel_def l_def xs_def split: option.splits)
qed

lemma ttl_multi_rel_iter:
  assumes "ttl_multi_rel ttl s a" and "at_now a \<le> t"
  shows "fst (ttl_multistore_iter s k t)
      = map_option (\<lambda>xs. map snd (filter (\<lambda>x. t < fst x) xs)) (at_entries a k)"
    and "ttl_multi_rel ttl (snd (ttl_multistore_iter s k t)) (a\<lparr>at_now := t\<rparr>)"
proof -
  note others = ttl_multi_rel_lookup [OF assms]
  have get: "ttl_map_get (ms_inner s) k t =
      (map_option snd (tm_inner (ms_inner s) k), (ms_inner s)\<lparr>tm_last_compaction := t\<rparr>)"
    using assms by (simp add: ttl_map_get_def ttl_map_compact_def ttl_multi_rel_def)
  show "fst (ttl_multistore_iter s k t)
      = map_option (\<lambda>xs. map snd (filter (\<lambda>x. t < fst x) xs)) (at_entries a k)"
    using others [of k] ttl_list_rel_iter(1) [of ttl t _ _ t]
    by (auto simp: ttl_multistore_iter_def get case_prod_beta Let_def option_rel_Some1
        split: option.splits)
  show "ttl_multi_rel ttl (snd (ttl_multistore_iter s k t)) (a\<lparr>at_now := t\<rparr>)"
  proof (cases "tm_inner (ms_inner s) k")
    case None
    then show ?thesis using others assms(1)
      by (auto simp: ttl_multistore_iter_def get ttl_multi_rel_def)
  next
    case (Some el)
    with others [of k] obtain xs where xs: "at_entries a k = Some xs" "ttl_list_rel ttl t (snd el) xs"
      by (auto simp: option_rel_Some1)
    then have "ttl_list_rel ttl t (snd (ttl_list_iter (snd el) t)) xs"
      by (intro ttl_list_rel_iter(2) [of ttl t]) auto
    then show ?thesis using others assms(1) Some xs(1)
      by (auto simp: ttl_multistore_iter_def get case_prod_beta Let_def ttl_multi_rel_def
          ttl_map_write_def)
  qed
qed

interpretation ttl_multi_sim: simulation ttl_multistore_step "multi_spec_step ttl"
    "multi_op_ok ttl" "ttl_multi_rel ttl" for ttl
proof
  fix s :: "('k, 'v) ttl_multistore" and a x
  assume rel: "ttl_multi_rel ttl s a" and ok: "multi_op_ok ttl x a"
  show "\<exists>s'. ttl_multistore_step x s = Some (s', snd (multi_spec_step ttl x a))
      \<and> ttl_multi_rel ttl s' (fst (multi_spec_step ttl x a))"
  proof (cases x)
    case (MultiInsert k v t now)
    then show ?thesis using ttl_multi_rel_insert [OF rel, of t k v now] ok
      by (auto simp: multi_op_ok_def)
  next
    case (MultiIter k t)
    then have t: "at_now a \<le> t" using ok by (simp add: multi_op_ok_def)
    show ?thesis using ttl_multi_rel_iter [OF rel t, of k] MultiIter
      by (auto simp: case_prod_beta Let_def)
  qed
qed

lemma ttl_multistore_step_dom:
  assumes "tm_queue (ms_inner s) = []" and "ttl_multistore_step x s = Some (s', r)"
  shows "tm_queue (ms_inner s') = []"
    and "dom (tm_inner (ms_inner s')) = dom (tm_inner (ms_inner s))
      \<union> (case x of MultiInsert k _ _ _ \<Rightarrow> {k} | MultiIter _ _ \<Rightarrow> {})"
proof -
  have "tm_queue (ms_inner s') = [] \<and> dom (tm_inner (ms_inner s')) = dom (tm_inner (ms_inner s))
      \<union> (case x of MultiInsert k _ _ _ \<Rightarrow> {k} | MultiIter _ _ \<Rightarrow> {})"
  proof (cases x)
    case (MultiInsert k v t now)
    then show ?thesis using assms
      by (auto simp: ttl_multistore_insert_def ttl_map_get_or_insert_with_def ttl_map_write_def
          case_prod_beta Let_def split: option.splits if_splits)
  next
    case (MultiIter k t)
    then show ?thesis using assms
      by (auto simp: ttl_multistore_iter_def ttl_map_get_def ttl_map_compact_def
          ttl_map_write_def case_prod_beta Let_def split: option.splits if_splits)
  qed
  then show "tm_queue (ms_inner s') = []"
    and "dom (tm_inner (ms_inner s')) = dom (tm_inner (ms_inner s))
      \<union> (case x of MultiInsert k _ _ _ \<Rightarrow> {k} | MultiIter _ _ \<Rightarrow> {})"
    by blast+
qed

lemma ttl_multistore_run_dom:
  assumes "tm_queue (ms_inner s) = []" and "run_steps ttl_multistore_step xs s = Some (s', rs)"
  shows "dom (tm_inner (ms_inner s')) = dom (tm_inner (ms_inner s))
    \<union> {k. \<exists>v t now. MultiInsert k v t now \<in> set xs}"
  using assms
proof (induction xs arbitrary: s rs)
  case (Cons x xs)
  from Cons.prems(2) obtain s1 r rs' where
    x: "ttl_multistore_step x s = Some (s1, r)" and
    xs: "run_steps ttl_multistore_step xs s1 = Some (s', rs')"
    by (auto split: option.splits)
  note step = ttl_multistore_step_dom [OF Cons.prems(1) x]
  show ?case
    using Cons.IH [OF step(1) xs] step(2) by (cases x) auto
qed simp

section \<open>Properties\<close>

text \<open>C23: on every sequence of inserts and reads whose times do not go back, a \<open>TtlMap\<close> does
  not panic and every read returns what the specification returns: the value inserted last
  under the key, unless its time-to-live ended before the time of the read.\<close>

theorem ttl_map_refines_spec:
  assumes "run_guard (map_op_ok ttl) (map_spec_step ttl) xs \<lparr>as_entries = Map.empty, as_now = T\<rparr>"
  shows "\<exists>m. run_steps ttl_map_step xs (ttl_map_new ttl)
    = Some (m, snd (run_spec (map_spec_step ttl) xs \<lparr>as_entries = Map.empty, as_now = T\<rparr>))"
  using ttl_map_sim.run_sim [OF ttl_map_rel_new assms] by blast

theorem ttl_map_refines_spec_witness:
  "let ttl = 10;
       xs = [MapInsert ''foo'' ''bar'' 10, MapGet ''foo'' 20, MapGet ''foo'' 21];
       a = \<lparr>as_entries = Map.empty, as_now = 0\<rparr>
   in run_guard (map_op_ok ttl) (map_spec_step ttl) xs a
      \<and> snd (run_spec (map_spec_step ttl) xs a) = [None, Some ''bar'', None]
      \<and> (\<exists>m. run_steps ttl_map_step xs (ttl_map_new ttl)
          = Some (m, snd (run_spec (map_spec_step ttl) xs a)))"
proof -
  let ?xs = "[MapInsert ''foo'' ''bar'' 10, MapGet ''foo'' 20, MapGet ''foo'' 21]"
  have "run_guard (map_op_ok 10) (map_spec_step 10) ?xs \<lparr>as_entries = Map.empty, as_now = 0\<rparr>"
    by (simp add: map_op_ok_def SYSTIME_MAX_def)
  with ttl_map_refines_spec [OF this] show ?thesis by simp
qed

text \<open>C24: likewise a \<open>TtlMultistore\<close> returns, in insertion order, exactly the values inserted
  under the key whose time-to-live has not ended, and nothing for a key never inserted.\<close>

theorem ttl_multistore_refines_spec:
  assumes "run_guard (multi_op_ok ttl) (multi_spec_step ttl) xs \<lparr>at_entries = Map.empty, at_now = T\<rparr>"
  shows "\<exists>s. run_steps ttl_multistore_step xs (ttl_multistore_new ttl)
    = Some (s, snd (run_spec (multi_spec_step ttl) xs \<lparr>at_entries = Map.empty, at_now = T\<rparr>))"
  using ttl_multi_sim.run_sim [OF ttl_multi_rel_new assms] by blast

theorem ttl_multistore_refines_spec_witness:
  "let ttl = 10;
       xs = [MultiInsert (4::nat) (10::nat) 200 200, MultiInsert 4 11 201 201, MultiIter 4 210,
             MultiIter 5 210];
       a = \<lparr>at_entries = Map.empty, at_now = 0\<rparr>
   in run_guard (multi_op_ok ttl) (multi_spec_step ttl) xs a
      \<and> snd (run_spec (multi_spec_step ttl) xs a) = [None, None, Some [11], None]
      \<and> (\<exists>s. run_steps ttl_multistore_step xs (ttl_multistore_new ttl)
          = Some (s, snd (run_spec (multi_spec_step ttl) xs a)))"
proof -
  let ?xs = "[MultiInsert (4::nat) (10::nat) 200 200, MultiInsert 4 11 201 201, MultiIter 4 210,
             MultiIter 5 210]"
  have "run_guard (multi_op_ok 10) (multi_spec_step 10) ?xs \<lparr>at_entries = Map.empty, at_now = 0\<rparr>"
    by (simp add: multi_op_ok_def SYSTIME_MAX_def)
  with ttl_multistore_refines_spec [OF this] show ?thesis by simp
qed

text \<open>The multistore never frees a key. After any sequence of operations, at any times, the
  inner map holds exactly the keys that were ever inserted: \<open>get_or_insert_with\<close> does not
  enter the key into the expiry queue, so compaction never finds it.\<close>

theorem ttl_multistore_never_evicts_keys:
  assumes "run_steps ttl_multistore_step xs (ttl_multistore_new ttl) = Some (s, rs)"
  shows "dom (tm_inner (ms_inner s)) = {k. \<exists>v t now. MultiInsert k v t now \<in> set xs}"
  using ttl_multistore_run_dom [OF _ assms]
  by (simp add: ttl_multistore_new_def ttl_map_new_def)

theorem ttl_multistore_never_evicts_keys_witness:
  "\<exists>s rs. run_steps ttl_multistore_step [MultiInsert (4::nat) (10::nat) 200 200, MultiIter 4 100000]
     (ttl_multistore_new 10) = Some (s, rs) \<and> dom (tm_inner (ms_inner s)) = {4}"
proof -
  let ?xs = "[MultiInsert (4::nat) (10::nat) 200 200, MultiIter 4 100000]"
  obtain s rs where run: "run_steps ttl_multistore_step ?xs (ttl_multistore_new 10) = Some (s, rs)"
    by (simp add: ttl_multistore_insert_def ttl_multistore_new_def ttl_map_new_def
        ttl_map_get_or_insert_with_def ttl_list_push_def ttl_list_new_def systime_add_def
        SYSTIME_MAX_def case_prod_beta Let_def)
  with ttl_multistore_never_evicts_keys [OF run] show ?thesis by auto
qed

end
