(* ===== verification/Dns_Server.thy ===== *)
theory Dns_Server
  imports Net_Text Ttl_Store
begin

text \<open>
  The controller's DNS server, \<open>controller/src/dns/mod.rs\<close> with its errors (\<open>dns/error.rs\<close>)
  and the SOA mailbox format (\<open>dns/rname_format.rs\<close>). The state is the A-record map and the
  TXT-record multistore of \<open>Ttl_Store\<close>; the operations are one iteration of the
  subscription loop and one lookup. The clock readings \<open>SystemTime::now()\<close> are arguments.

  The specification of the server is a zone: everything ever set, filtered by age when it is
  queried. The server refines it (\<open>dns_sim\<close>).
\<close>

section \<open>Records, errors and the server state\<close>

datatype ResponseCode = NXDomain | ServFail

record DnsError =
  de_code :: ResponseCode
  de_message :: string

definition or_dns_error :: "'a option \<Rightarrow> ResponseCode \<Rightarrow> string \<Rightarrow> DnsError + 'a" where
  "or_dns_error r code message =
     (case r of Some v \<Rightarrow> Inr v | None \<Rightarrow> Inl \<lparr>de_code = code, de_message = message\<rparr>)"

definition or_dns_error_result :: "'e + 'a \<Rightarrow> ResponseCode \<Rightarrow> string \<Rightarrow> DnsError + 'a" where
  "or_dns_error_result r code message =
     (case r of Inr v \<Rightarrow> Inr v | Inl _ \<Rightarrow> Inl \<lparr>de_code = code, de_message = message\<rparr>)"

text \<open>The record data the server produces; a domain name is its text form.\<close>

datatype RData =
    RD_A "u8 \<times> u8 \<times> u8 \<times> u8"
  | RD_TXT "string list"
  | RD_SOA string string nat int int int nat

datatype RecordType = RT_A | RT_TXT | RT_SOA | RT_CAA | RT_AAAA | RT_Other nat

record DnsRecord =
  rec_name :: string
  rec_ttl :: nat
  rec_data :: RData

record RecordKey =
  rk_cluster :: ClusterName
  rk_name :: string

definition DNS_RECORD_TTL :: nat where
  "DNS_RECORD_TTL = 60"

record dns_server =
  a_record_map :: "(RecordKey, RData) ttl_map"
  txt_record_map :: "(RecordKey, RData) ttl_multistore"
  soa_email :: "string option"

definition dns_server_new :: "string option \<Rightarrow> dns_server" where
  "dns_server_new email =
     \<lparr>a_record_map = ttl_map_new set_dns_ttl, txt_record_map = ttl_multistore_new set_dns_ttl,
      soa_email = email\<rparr>"

section \<open>Operations\<close>

text \<open>
  The body of the subscription loop for one message. \<open>now\<close> is the clock reading passed to
  \<open>insert\<close>; \<open>now2\<close> is the one \<open>get_or_insert_with\<close> takes itself.
\<close>

definition handle_set_dns_record ::
  "SetDnsRecord \<Rightarrow> systime \<Rightarrow> systime \<Rightarrow> dns_server \<Rightarrow> dns_server panics" where
  "handle_set_dns_record v now now2 s =
     (let key = \<lparr>rk_cluster = sd_cluster v, rk_name = sd_name v\<rparr>
      in case sd_kind v of
           RecA \<Rightarrow>
             (case parse_ipv4 (sd_value v) of
                None \<Rightarrow> Some s
              | Some ip \<Rightarrow>
                  map_option (\<lambda>m. s\<lparr>a_record_map := m\<rparr>)
                    (ttl_map_insert (a_record_map s) key (RD_A ip) now))
         | RecTXT \<Rightarrow>
             map_option (\<lambda>m. s\<lparr>txt_record_map := m\<rparr>)
               (ttl_multistore_insert (txt_record_map s) key (RD_TXT [sd_value v]) now now2))"

text \<open>One subscription, with the clock readings of each message, and the loop that subscribes again when
  a subscription ends. A failed attempt to subscribe ends the task with that error; \<open>None\<close> as the
  second component is a task that still waits.\<close>

fun dns_stream :: "(SetDnsRecord \<times> systime \<times> systime) list \<Rightarrow> dns_server \<Rightarrow> dns_server panics" where
  "dns_stream [] s = Some s"
| "dns_stream ((v, now, now2) # ms) s = Option.bind (handle_set_dns_record v now now2 s) (dns_stream ms)"

fun dns_subscription_loop ::
  "('e + (SetDnsRecord \<times> systime \<times> systime) list) list \<Rightarrow> dns_server \<Rightarrow> (dns_server \<times> 'e option) panics" where
  "dns_subscription_loop [] s = Some (s, None)"
| "dns_subscription_loop (Inl e # later) s = Some (s, Some e)"
| "dns_subscription_loop (Inr stream # later) s =
     Option.bind (dns_stream stream s) (dns_subscription_loop later)"

definition lookup_cluster :: "string \<Rightarrow> ClusterName" where
  "lookup_cluster rest =
     (case strip_suffix ''.'' rest of Some c \<Rightarrow> ClusterName c | None \<Rightarrow> ClusterName rest)"

definition from_rdata :: "string \<Rightarrow> nat \<Rightarrow> RData \<Rightarrow> DnsRecord" where
  "from_rdata name ttl rdata = \<lparr>rec_name = name, rec_ttl = ttl, rec_data = rdata\<rparr>"

definition invalid_name_error :: "string \<Rightarrow> DnsError" where
  "invalid_name_error name =
     \<lparr>de_code = NXDomain, de_message = ''Invalid name for this server '' @ name\<rparr>"

text \<open>\<open>name\<close> is the text form of the queried (lower-case) name.\<close>

definition do_lookup ::
  "dns_server \<Rightarrow> string \<Rightarrow> RecordType \<Rightarrow> systime \<Rightarrow> (DnsError + DnsRecord list) \<times> dns_server" where
  "do_lookup s name qtype now =
     (case or_dns_error (split_once (CHR ''.'') name) NXDomain
             (''Invalid name for this server '' @ name) of
        Inl e \<Rightarrow> (Inl e, s)
      | Inr (host, rest) \<Rightarrow>
          (let key = \<lparr>rk_cluster = lookup_cluster rest, rk_name = host\<rparr>
           in case qtype of
                RT_TXT \<Rightarrow>
                  (let (v, m) = ttl_multistore_iter (txt_record_map s) key now
                   in (Inr (case v of
                              None \<Rightarrow> []
                            | Some rdatas \<Rightarrow> map (from_rdata name DNS_RECORD_TTL) rdatas),
                       s\<lparr>txt_record_map := m\<rparr>))
              | RT_A \<Rightarrow>
                  (let (v, m) = ttl_map_get (a_record_map s) key now
                   in (Inr (case v of
                              None \<Rightarrow> []
                            | Some rdata \<Rightarrow> [from_rdata name DNS_RECORD_TTL rdata]),
                       s\<lparr>a_record_map := m\<rparr>))
              | RT_SOA \<Rightarrow>
                  (case or_dns_error (soa_email s) ServFail ''SOA record email not set in config.'' of
                     Inl e \<Rightarrow> (Inl e, s)
                   | Inr email \<Rightarrow>
                       (Inr [from_rdata name 60 (RD_SOA name email 1 7200 7200 7200 7200)], s))
              | RT_CAA \<Rightarrow> (Inr [], s)
              | RT_AAAA \<Rightarrow> (Inr [], s)
              | RT_Other _ \<Rightarrow> (Inr [], s)))"

text \<open>
  The reply: the response code if the handler set one, and the answers. \<open>send\<close> is whether
  sending it succeeds; on failure the handler still reports the header.
\<close>

record dns_response =
  dr_code :: "ResponseCode option"
  dr_answers :: "DnsRecord list"

definition handle_request ::
  "dns_server \<Rightarrow> string \<Rightarrow> RecordType \<Rightarrow> systime \<Rightarrow> bool \<Rightarrow>
     dns_response option \<times> ResponseCode option \<times> dns_server" where
  "handle_request s name qtype now send =
     (case do_lookup s name qtype now of
        (Inr answers, s') \<Rightarrow>
          (if send then Some \<lparr>dr_code = None, dr_answers = answers\<rparr> else None, None, s')
      | (Inl e, s') \<Rightarrow>
          (if send then Some \<lparr>dr_code = Some (de_code e), dr_answers = []\<rparr> else None,
           Some (de_code e), s'))"

text \<open>The SOA mailbox (\<open>rname_format.rs\<close>).\<close>

definition format_rname :: "string \<Rightarrow> string option" where
  "format_rname email =
     (case split_once (CHR ''@'') email of
        None \<Rightarrow> None
      | Some (pre, post) \<Rightarrow>
          Some (replace_char (CHR ''.'') [CHR 0x5C, CHR ''.''] pre @ ''.'' @ post))"

section \<open>The server as a step function, and its specification\<close>

datatype dns_event =
    DnsSet SetDnsRecord systime systime
  | DnsQuery string RecordType systime

fun dns_event_time :: "dns_event \<Rightarrow> systime" where
  "dns_event_time (DnsSet _ t _) = t"
| "dns_event_time (DnsQuery _ _ t) = t"

fun dns_step :: "dns_event \<Rightarrow> dns_server \<Rightarrow> (dns_server \<times> (DnsError + DnsRecord list) option) panics" where
  "dns_step (DnsSet v t t2) s = map_option (\<lambda>s'. (s', None)) (handle_set_dns_record v t t2 s)"
| "dns_step (DnsQuery name qtype t) s =
     (let (r, s') = do_lookup s name qtype t in Some (s', Some r))"

record zone =
  zone_a :: "RecordKey \<rightharpoonup> systime \<times> RData"
  zone_txt :: "RecordKey \<rightharpoonup> (systime \<times> RData) list"
  zone_soa :: "string option"
  zone_now :: systime

definition zone_init :: "string option \<Rightarrow> systime \<Rightarrow> zone" where
  "zone_init email T =
     \<lparr>zone_a = Map.empty, zone_txt = Map.empty, zone_soa = email, zone_now = T\<rparr>"

definition zone_set :: "SetDnsRecord \<Rightarrow> systime \<Rightarrow> zone \<Rightarrow> zone" where
  "zone_set v t z =
     (let key = \<lparr>rk_cluster = sd_cluster v, rk_name = sd_name v\<rparr>; e = t + int set_dns_ttl
      in (case sd_kind v of
            RecA \<Rightarrow>
              (case parse_ipv4 (sd_value v) of
                 None \<Rightarrow> z
               | Some ip \<Rightarrow> z\<lparr>zone_a := (zone_a z)(key \<mapsto> (e, RD_A ip))\<rparr>)
          | RecTXT \<Rightarrow>
              z\<lparr>zone_txt := (zone_txt z)(key \<mapsto>
                   (case zone_txt z key of Some xs \<Rightarrow> xs | None \<Rightarrow> []) @ [(e, RD_TXT [sd_value v])])\<rparr>)
         \<lparr>zone_now := t\<rparr>)"

definition zone_answer :: "string \<Rightarrow> RecordType \<Rightarrow> systime \<Rightarrow> zone \<Rightarrow> DnsError + DnsRecord list" where
  "zone_answer name qtype t z =
     (case split_once (CHR ''.'') name of
        None \<Rightarrow> Inl (invalid_name_error name)
      | Some (host, rest) \<Rightarrow>
          (let key = \<lparr>rk_cluster = lookup_cluster rest, rk_name = host\<rparr>
           in case qtype of
                RT_A \<Rightarrow>
                  Inr (case zone_a z key of
                         Some (e, rd) \<Rightarrow> if t \<le> e then [from_rdata name DNS_RECORD_TTL rd] else []
                       | None \<Rightarrow> [])
              | RT_TXT \<Rightarrow>
                  Inr (case zone_txt z key of
                         Some xs \<Rightarrow> map (\<lambda>x. from_rdata name DNS_RECORD_TTL (snd x))
                                      (filter (\<lambda>x. t < fst x) xs)
                       | None \<Rightarrow> [])
              | RT_SOA \<Rightarrow>
                  (case zone_soa z of
                     None \<Rightarrow> Inl \<lparr>de_code = ServFail, de_message = ''SOA record email not set in config.''\<rparr>
                   | Some email \<Rightarrow>
                       Inr [from_rdata name 60 (RD_SOA name email 1 7200 7200 7200 7200)])
              | _ \<Rightarrow> Inr []))"

fun zone_step :: "dns_event \<Rightarrow> zone \<Rightarrow> zone \<times> (DnsError + DnsRecord list) option" where
  "zone_step (DnsSet v t t2) z = (zone_set v t z, None)"
| "zone_step (DnsQuery name qtype t) z = (z\<lparr>zone_now := t\<rparr>, Some (zone_answer name qtype t z))"

definition dns_event_ok :: "dns_event \<Rightarrow> zone \<Rightarrow> bool" where
  "dns_event_ok e z \<longleftrightarrow>
     zone_now z \<le> dns_event_time e \<and> dns_event_time e + int set_dns_ttl \<le> SYSTIME_MAX"

text \<open>Reading a zone-file mailbox: the local part ends at the first dot that is not escaped.\<close>

fun rname_split :: "string \<Rightarrow> (string \<times> string) option" where
  "rname_split [] = None"
| "rname_split (x # xs) =
     (if x = CHR ''.'' then Some ([], xs)
      else if x = CHR 0x5C then
        (case xs of [] \<Rightarrow> None | y # ys \<Rightarrow> map_option (\<lambda>(l, d). (y # l, d)) (rname_split ys))
      else map_option (\<lambda>(l, d). (x # l, d)) (rname_split xs))"

text \<open>An event that stores an address under a key.\<close>

fun sets_address :: "RecordKey \<Rightarrow> dns_event \<Rightarrow> bool" where
  "sets_address key (DnsSet v _ _) \<longleftrightarrow>
     key = \<lparr>rk_cluster = sd_cluster v, rk_name = sd_name v\<rparr> \<and> sd_kind v = RecA
       \<and> parse_ipv4 (sd_value v) \<noteq> None"
| "sets_address key (DnsQuery _ _ _) \<longleftrightarrow> False"

definition fqdn :: "string \<Rightarrow> ClusterName \<Rightarrow> string" where
  "fqdn host c = host @ ''.'' @ hostname c @ ''.''"

section \<open>The server refines its zone\<close>

definition zone_rel :: "dns_server \<Rightarrow> zone \<Rightarrow> bool" where
  "zone_rel s z \<longleftrightarrow>
     ttl_map_rel set_dns_ttl (a_record_map s) \<lparr>as_entries = zone_a z, as_now = zone_now z\<rparr> \<and>
     ttl_multi_rel set_dns_ttl (txt_record_map s) \<lparr>at_entries = zone_txt z, at_now = zone_now z\<rparr> \<and>
     soa_email s = zone_soa z"

lemma zone_rel_new: "zone_rel (dns_server_new email) (zone_init email T)"
  by (simp add: zone_rel_def dns_server_new_def zone_init_def ttl_map_rel_new ttl_multi_rel_new)

lemma ttl_map_rel_later:
  "ttl_map_rel ttl m a \<Longrightarrow> as_now a \<le> t \<Longrightarrow> ttl_map_rel ttl m (a\<lparr>as_now := t\<rparr>)"
  by (fastforce simp: ttl_map_rel_def)

lemma ttl_multi_rel_later:
  assumes "ttl_multi_rel ttl s a" and "at_now a \<le> t"
  shows "ttl_multi_rel ttl s (a\<lparr>at_now := t\<rparr>)"
  using assms ttl_multi_rel_lookup [OF assms] by (simp add: ttl_multi_rel_def)

lemma zone_rel_later: "zone_rel s z \<Longrightarrow> zone_now z \<le> t \<Longrightarrow> zone_rel s (z\<lparr>zone_now := t\<rparr>)"
  using ttl_map_rel_later [of set_dns_ttl "a_record_map s" "\<lparr>as_entries = zone_a z, as_now = zone_now z\<rparr>" t]
    ttl_multi_rel_later [of set_dns_ttl "txt_record_map s" "\<lparr>at_entries = zone_txt z, at_now = zone_now z\<rparr>" t]
  by (simp add: zone_rel_def)

lemma zone_rel_set:
  assumes rel: "zone_rel s z" and t: "zone_now z \<le> t" "t + int set_dns_ttl \<le> SYSTIME_MAX"
  shows "\<exists>s'. handle_set_dns_record v t t2 s = Some s' \<and> zone_rel s' (zone_set v t z)"
proof (cases "sd_kind v")
  case RecA
  show ?thesis
  proof (cases "parse_ipv4 (sd_value v)")
    case None
    then show ?thesis using RecA zone_rel_later [OF rel t(1)]
      by (simp add: handle_set_dns_record_def zone_set_def)
  next
    case (Some ip)
    have "ttl_map_rel set_dns_ttl (a_record_map s) \<lparr>as_entries = zone_a z, as_now = zone_now z\<rparr>"
      using rel by (simp add: zone_rel_def)
    from ttl_map_rel_insert [OF this, of t "\<lparr>rk_cluster = sd_cluster v, rk_name = sd_name v\<rparr>" "RD_A ip"]
    show ?thesis using RecA Some t zone_rel_later [OF rel t(1)]
      by (auto simp: handle_set_dns_record_def zone_set_def zone_rel_def Let_def)
  qed
next
  case RecTXT
  have "ttl_multi_rel set_dns_ttl (txt_record_map s) \<lparr>at_entries = zone_txt z, at_now = zone_now z\<rparr>"
    using rel by (simp add: zone_rel_def)
  from ttl_multi_rel_insert [OF this, of t "\<lparr>rk_cluster = sd_cluster v, rk_name = sd_name v\<rparr>"
      "RD_TXT [sd_value v]" t2]
  show ?thesis using RecTXT t zone_rel_later [OF rel t(1)]
    by (auto simp: handle_set_dns_record_def zone_set_def zone_rel_def Let_def)
qed

lemma zone_rel_lookup:
  assumes rel: "zone_rel s z" and t: "zone_now z \<le> t"
  shows "fst (do_lookup s name qtype t) = zone_answer name qtype t z"
    and "zone_rel (snd (do_lookup s name qtype t)) (z\<lparr>zone_now := t\<rparr>)"
proof -
  let ?a = "\<lparr>as_entries = zone_a z, as_now = zone_now z\<rparr>"
  let ?b = "\<lparr>at_entries = zone_txt z, at_now = zone_now z\<rparr>"
  have a: "ttl_map_rel set_dns_ttl (a_record_map s) ?a" and b: "ttl_multi_rel set_dns_ttl (txt_record_map s) ?b"
    and soa: "soa_email s = zone_soa z"
    using rel by (simp_all add: zone_rel_def)
  have "as_now ?a \<le> t" and "at_now ?b \<le> t" using t by simp_all
  note get = ttl_map_rel_get [OF a this(1)] ttl_map_rel_compact(1) [OF a this(1)]
    and iter = ttl_multi_rel_iter [OF b this(2)]
  show "fst (do_lookup s name qtype t) = zone_answer name qtype t z"
    using get(1) iter(1) soa
    by (auto simp: do_lookup_def zone_answer_def or_dns_error_def invalid_name_error_def
        case_prod_beta Let_def split: option.splits RecordType.splits)
  show "zone_rel (snd (do_lookup s name qtype t)) (z\<lparr>zone_now := t\<rparr>)"
    using get(2) iter(2) zone_rel_later [OF rel t]
    by (auto simp: do_lookup_def or_dns_error_def ttl_map_get_def zone_rel_def
        case_prod_beta Let_def split: option.splits RecordType.splits)
qed

interpretation dns_sim: simulation dns_step zone_step dns_event_ok zone_rel
proof
  fix s z e
  assume rel: "zone_rel s z" and ok: "dns_event_ok e z"
  show "\<exists>s'. dns_step e s = Some (s', snd (zone_step e z)) \<and> zone_rel s' (fst (zone_step e z))"
  proof (cases e)
    case (DnsSet v t t2)
    then show ?thesis using zone_rel_set [OF rel, of t v t2] ok
      by (auto simp: dns_event_ok_def)
  next
    case (DnsQuery name qtype t)
    then show ?thesis using zone_rel_lookup [OF rel, of t name qtype] ok
      by (auto simp: dns_event_ok_def case_prod_beta)
  qed
qed

lemma zone_set_other:
  "\<not> sets_address key (DnsSet v t t2) \<Longrightarrow> zone_a (zone_set v t z) key = zone_a z key"
  by (auto simp: zone_set_def Let_def split: DnsRecordType.splits option.splits)

lemma zone_run_other:
  "\<forall>e \<in> set es. \<not> sets_address key e \<Longrightarrow> zone_a (fst (run_spec zone_step es z)) key = zone_a z key"
proof (induction es arbitrary: z)
  case (Cons e es)
  have "zone_a (fst (zone_step e z)) key = zone_a z key"
    using Cons.prems by (cases e) (auto simp: zone_set_other)
  then show ?case using Cons by (simp add: case_prod_beta Let_def)
qed simp

lemma run_spec_append:
  "fst (run_spec g (xs @ ys) a) = fst (run_spec g ys (fst (run_spec g xs a)))"
  by (induction xs arbitrary: a) (simp_all add: case_prod_beta Let_def)

lemma lookup_cluster_hostname [simp]: "lookup_cluster (hostname c @ ''.'') = c"
  by (cases c) (simp add: lookup_cluster_def)

lemma zone_answer_fqdn:
  assumes "CHR ''.'' \<notin> set host"
  shows "zone_answer (fqdn host c) RT_A t z =
    Inr (case zone_a z \<lparr>rk_cluster = c, rk_name = host\<rparr> of
           Some (e, rd) \<Rightarrow> if t \<le> e then [from_rdata (fqdn host c) DNS_RECORD_TTL rd] else []
         | None \<Rightarrow> [])"
proof -
  have "split_once (CHR ''.'') (fqdn host c) = Some (host, hostname c @ ''.'')"
    using split_once_append [OF assms, of "hostname c @ ''.''"] by (simp add: fqdn_def)
  then show ?thesis
    by (cases "zone_a z \<lparr>rk_cluster = c, rk_name = host\<rparr>") (auto simp: zone_answer_def Let_def)
qed

lemma lookup_after_set:
  assumes guard: "run_guard dns_event_ok zone_step (xs @ DnsSet v t0 t1 # ys) (zone_init email T)"
    and v: "sd_kind v = RecA" "parse_ipv4 (sd_value v) = Some ip" "CHR ''.'' \<notin> set (sd_name v)"
    and ys: "\<forall>e \<in> set ys. \<not> sets_address \<lparr>rk_cluster = sd_cluster v, rk_name = sd_name v\<rparr> e"
    and t: "zone_now (fst (run_spec zone_step (xs @ DnsSet v t0 t1 # ys) (zone_init email T))) \<le> t"
  shows "\<exists>s rs. run_steps dns_step (xs @ DnsSet v t0 t1 # ys) (dns_server_new email) = Some (s, rs)
    \<and> fst (do_lookup s (fqdn (sd_name v) (sd_cluster v)) RT_A t)
      = Inr (if t \<le> t0 + 60000000000
             then [from_rdata (fqdn (sd_name v) (sd_cluster v)) DNS_RECORD_TTL (RD_A ip)] else [])"
proof -
  let ?es = "xs @ DnsSet v t0 t1 # ys"
  let ?key = "\<lparr>rk_cluster = sd_cluster v, rk_name = sd_name v\<rparr>"
  obtain s where s: "run_steps dns_step ?es (dns_server_new email)
      = Some (s, snd (run_spec zone_step ?es (zone_init email T)))"
      and rel: "zone_rel s (fst (run_spec zone_step ?es (zone_init email T)))"
    using dns_sim.run_sim [OF zone_rel_new guard] by blast
  have "zone_a (fst (run_spec zone_step ?es (zone_init email T))) ?key
      = Some (t0 + 60000000000, RD_A ip)"
    using v ys
    by (simp add: run_spec_append case_prod_beta Let_def zone_run_other zone_set_def
        set_dns_ttl_def ttl_seconds_def from_secs_def)
  then show ?thesis
    using s zone_rel_lookup(1) [OF rel t] v(3) by (simp add: zone_answer_fqdn)
qed

section \<open>Properties\<close>

text \<open>C10: the DNS server refines its zone. On every sequence of record updates and queries whose
  times do not go back it does not panic, and every query is answered as the zone answers it:
  an A query with the address set last unless it is older than the time-to-live, a TXT query
  with all values younger than that in the order they were set, an SOA query from the
  configured mailbox or with \<open>SERVFAIL\<close>, a name without a dot with \<open>NXDOMAIN\<close>, and every other
  type with no records.\<close>

theorem dns_server_refines_zone:
  assumes "run_guard dns_event_ok zone_step es (zone_init email T)"
  shows "\<exists>s. run_steps dns_step es (dns_server_new email)
    = Some (s, snd (run_spec zone_step es (zone_init email T)))"
  using dns_sim.run_sim [OF zone_rel_new assms] by blast

definition example_set_dns :: "DnsRecordType \<Rightarrow> string \<Rightarrow> SetDnsRecord" where
  "example_set_dns kind value =
     \<lparr>sd_cluster = ClusterName ''plane.test'', sd_kind = kind, sd_name = ''b1'', sd_value = value\<rparr>"

lemma parse_example: "parse_ipv4 ''10.0.0.7'' = Some (10, 0, 0, 7)"
  by (simp add: parse_ipv4_def parse_octet_def is_digit_def dec_val_def)

lemma parse_example_bad: "parse_ipv4 ''10.0.0.300'' = None"
  by (simp add: parse_ipv4_def parse_octet_def is_digit_def dec_val_def)

theorem dns_server_refines_zone_witness:
  "let es = [DnsSet (example_set_dns RecA ''10.0.0.7'') 0 0,
             DnsSet (example_set_dns RecA ''10.0.0.300'') 1 1,
             DnsQuery ''b1.plane.test.'' RT_A 60000000000,
             DnsQuery ''b1.plane.test.'' RT_A 60000000001,
             DnsQuery ''localhost'' RT_A 60000000002]
   in run_guard dns_event_ok zone_step es (zone_init None 0)
      \<and> snd (run_spec zone_step es (zone_init None 0))
         = [None, None, Some (Inr [from_rdata ''b1.plane.test.'' 60 (RD_A (10, 0, 0, 7))]),
            Some (Inr []), Some (Inl (invalid_name_error ''localhost''))]
      \<and> (\<exists>s. run_steps dns_step es (dns_server_new None)
            = Some (s, snd (run_spec zone_step es (zone_init None 0))))"
proof -
  let ?es = "[DnsSet (example_set_dns RecA ''10.0.0.7'') 0 0,
             DnsSet (example_set_dns RecA ''10.0.0.300'') 1 1,
             DnsQuery ''b1.plane.test.'' RT_A 60000000000,
             DnsQuery ''b1.plane.test.'' RT_A 60000000001,
             DnsQuery ''localhost'' RT_A 60000000002]"
  have guard: "run_guard dns_event_ok zone_step ?es (zone_init None 0)"
    by (simp add: dns_event_ok_def zone_init_def zone_set_def example_set_dns_def parse_example
        parse_example_bad set_dns_ttl_def ttl_seconds_def from_secs_def SYSTIME_MAX_def Let_def)
  have "snd (run_spec zone_step ?es (zone_init None 0))
         = [None, None, Some (Inr [from_rdata ''b1.plane.test.'' 60 (RD_A (10, 0, 0, 7))]),
            Some (Inr []), Some (Inl (invalid_name_error ''localhost''))]"
    by (simp add: zone_init_def zone_set_def example_set_dns_def parse_example parse_example_bad
        set_dns_ttl_def ttl_seconds_def from_secs_def Let_def zone_answer_def lookup_cluster_def
        strip_suffix_def DNS_RECORD_TTL_def)
  with guard dns_server_refines_zone [OF guard] show ?thesis unfolding Let_def by blast
qed

text \<open>Once an address has been set for a host of a cluster and nothing sets it anew, an A
  query for \<open>host.cluster.\<close> returns exactly that address up to and including sixty seconds
  after it was set, and nothing later.\<close>

theorem dns_address_lifetime:
  assumes guard: "run_guard dns_event_ok zone_step (xs @ DnsSet v t0 t1 # ys) (zone_init email T)"
    and v: "sd_kind v = RecA" "parse_ipv4 (sd_value v) = Some ip" "CHR ''.'' \<notin> set (sd_name v)"
    and ys: "\<forall>e \<in> set ys. \<not> sets_address \<lparr>rk_cluster = sd_cluster v, rk_name = sd_name v\<rparr> e"
    and t: "zone_now (fst (run_spec zone_step (xs @ DnsSet v t0 t1 # ys) (zone_init email T))) \<le> t"
  shows "\<exists>s rs. run_steps dns_step (xs @ DnsSet v t0 t1 # ys) (dns_server_new email) = Some (s, rs)
    \<and> fst (do_lookup s (fqdn (sd_name v) (sd_cluster v)) RT_A t)
      = Inr (if t \<le> t0 + 60000000000
             then [from_rdata (fqdn (sd_name v) (sd_cluster v)) DNS_RECORD_TTL (RD_A ip)] else [])"
  using assms by (rule lookup_after_set)

theorem dns_address_lifetime_witness:
  "\<exists>s rs. run_steps dns_step [DnsSet (example_set_dns RecA ''10.0.0.7'') 0 0] (dns_server_new None)
      = Some (s, rs)
    \<and> fst (do_lookup s ''b1.plane.test.'' RT_A 5)
      = Inr [from_rdata ''b1.plane.test.'' 60 (RD_A (10, 0, 0, 7))]"
proof -
  let ?v = "example_set_dns RecA ''10.0.0.7''"
  have guard: "run_guard dns_event_ok zone_step ([] @ DnsSet ?v 0 0 # []) (zone_init None 0)"
    by (simp add: dns_event_ok_def zone_init_def set_dns_ttl_def ttl_seconds_def from_secs_def
        SYSTIME_MAX_def)
  have v: "sd_kind ?v = RecA" "parse_ipv4 (sd_value ?v) = Some (10, 0, 0, 7)"
      "CHR ''.'' \<notin> set (sd_name ?v)"
    by (simp_all add: example_set_dns_def parse_example)
  have t: "zone_now (fst (run_spec zone_step ([] @ DnsSet ?v 0 0 # []) (zone_init None 0))) \<le> 5"
    by (simp add: zone_set_def Let_def)
  from dns_address_lifetime [OF guard v _ t] show ?thesis
    by (simp add: example_set_dns_def fqdn_def DNS_RECORD_TTL_def)
qed

text \<open>\<open>format_rname\<close> succeeds exactly on strings with an at sign, and reading the result as a
  zone-file mailbox gives back the local part and the domain, unless the local part has a
  backslash.\<close>

theorem format_rname_roundtrip:
  "(CHR ''@'' \<notin> set email \<longrightarrow> format_rname email = None) \<and>
   (\<forall>local domain. email = local @ ''@'' @ domain \<and> CHR ''@'' \<notin> set local
      \<and> CHR 0x5C \<notin> set local \<longrightarrow>
      (\<exists>r. format_rname email = Some r \<and> rname_split r = Some (local, domain)))"
proof -
  have split: "CHR 0x5C \<notin> set local \<Longrightarrow>
      rname_split (replace_char (CHR ''.'') [CHR 0x5C, CHR ''.''] local @ CHR ''.'' # domain)
        = Some (local, domain)" for local domain
    by (induction local) (auto simp: replace_char_def)
  have none: "format_rname email = None" if "CHR ''@'' \<notin> set email"
    using split_once_None [THEN iffD2, OF that] by (simp add: format_rname_def)
  have some: "\<exists>r. format_rname email = Some r \<and> rname_split r = Some (local, domain)"
    if "email = local @ ''@'' @ domain" "CHR ''@'' \<notin> set local" "CHR 0x5C \<notin> set local"
    for local domain
    using split_once_append [OF that(2), of domain] that split
    by (simp add: format_rname_def)
  show ?thesis using none some by blast
qed

theorem format_rname_roundtrip_witness:
  "\<exists>r. format_rname ''foo.bar@baz.com'' = Some r \<and> rname_split r = Some (''foo.bar'', ''baz.com'')"
  using format_rname_roundtrip [THEN conjunct2, rule_format, of "''foo.bar@baz.com''" "''foo.bar''" "''baz.com''"]
  by simp

text \<open>Losing the connection does not lose records: as long as subscribing again succeeds the loop
  handles the messages of all subscriptions one after the other. The first failure ends the
  task for good, and what is published later is never seen, while the server goes on answering.\<close>

lemma dns_stream_append: "dns_stream (ms @ ms') s = Option.bind (dns_stream ms s) (dns_stream ms')"
proof (induction ms arbitrary: s)
  case (Cons m ms)
  then show ?case by (cases m) (auto split: bind_split)
qed simp

theorem dns_loop_reconnects:
  "dns_subscription_loop (map Inr streams @ Inl e # later) s =
     map_option (\<lambda>s'. (s', Some e)) (dns_stream (concat streams) s) \<and>
   dns_subscription_loop (map Inr streams :: ('e + _) list) s =
     map_option (\<lambda>s'. (s', None)) (dns_stream (concat streams) s)"
proof (induction streams arbitrary: s)
  case (Cons ms streams)
  show ?case using Cons.IH by (cases "dns_stream ms s") (simp_all add: dns_stream_append)
qed simp

end
