(* ===== verification/Drone_Database.thy ===== *)
theory Drone_Database
  imports Core_Messages
begin

text \<open>
  The sqlite database of a drone (\<open>drone/src/database.rs\<close> with the schema of
  \<open>drone/migrations/\<close>), through which the agent and the proxy communicate. A table is the list
  of its rows in rowid order; every query of the source is one definition, with the constraint
  violations of the schema as errors. \<open>now\<close> is the value \<open>unixepoch()\<close> has in the statement,
  \<open>fk\<close> is whether the connection enforces foreign keys, \<open>to_json\<close> and \<open>from_json\<close> stand for the
  generated serde code.

  The specification \<open>db_spec\<close> is a map from backends to their request and state and a map from
  subdomains to routes; \<open>db_sim\<close> shows that the tables implement it on every sequence of
  operations, and \<open>db_inv\<close> that the uniqueness constraints and the decodability of the stored
  states are invariants.
\<close>

section \<open>Tables and queries\<close>

record BackendRow =
  br_name :: string
  br_spec :: string
  br_state :: string
  br_exit_code :: "int option"

record RouteRow =
  rr_id :: nat
  rr_backend :: "string option"
  rr_subdomain :: string
  rr_address :: string
  rr_last_active :: int

record DroneDatabase =
  db_backend :: "BackendRow list"
  db_route :: "RouteRow list"

record Backend =
  bk_backend_id :: BackendId
  bk_state :: BackendState
  bk_spec :: SpawnRequest

datatype SqlError = UniqueViolation | ForeignKeyViolation | RowNotFound | SqlIo

datatype GetBackendsError = BadSpec | BadState

definition drone_database_new :: DroneDatabase where
  "drone_database_new = \<lparr>db_backend = [], db_route = []\<rparr>"

definition insert_backend ::
  "(SpawnRequest \<Rightarrow> string) \<Rightarrow> SpawnRequest \<Rightarrow> DroneDatabase \<Rightarrow> DroneDatabase \<times> (SqlError + unit)" where
  "insert_backend to_json spec db =
     (let backend_id = backend_id_str (sp_backend_id spec)
      in if backend_id \<in> br_name ` set (db_backend db) then (db, Inl UniqueViolation)
         else (db\<lparr>db_backend := db_backend db @
                 [\<lparr>br_name = backend_id, br_spec = to_json spec, br_state = ''Loading'',
                   br_exit_code = None\<rparr>]\<rparr>, Inr ()))"

definition running_backends :: "DroneDatabase \<Rightarrow> nat" where
  "running_backends db =
     length (filter (\<lambda>r. br_state r \<in> {''Loading'', ''Starting'', ''Ready''}) (db_backend db))"

definition decode_backend ::
  "(string \<Rightarrow> SpawnRequest option) \<Rightarrow> BackendRow \<Rightarrow> GetBackendsError + Backend" where
  "decode_backend from_json d =
     bindR (ok_or BadSpec (from_json (br_spec d))) (\<lambda>spec.
     bindR (ok_or BadState (state_from_str (br_state d))) (\<lambda>state.
       Inr \<lparr>bk_backend_id = BackendId (br_name d), bk_state = state, bk_spec = spec\<rparr>))"

fun collect_results :: "('e + 'a) list \<Rightarrow> 'e + 'a list" where
  "collect_results [] = Inr []"
| "collect_results (r # rs) = bindR r (\<lambda>a. bindR (collect_results rs) (\<lambda>as. Inr (a # as)))"

definition get_backends ::
  "(string \<Rightarrow> SpawnRequest option) \<Rightarrow> DroneDatabase \<Rightarrow> GetBackendsError + Backend list" where
  "get_backends from_json db = collect_results (map (decode_backend from_json) (db_backend db))"

definition update_backend_state :: "BackendId \<Rightarrow> BackendState \<Rightarrow> DroneDatabase \<Rightarrow> DroneDatabase" where
  "update_backend_state b s db =
     db\<lparr>db_backend := map (\<lambda>r. if br_name r = backend_id_str b
                               then r\<lparr>br_state := state_to_string s\<rparr> else r) (db_backend db)\<rparr>"

text \<open>The joined row has a null state when no backend row matches, and null is not \<open>'Ready'\<close>.\<close>

definition route_state :: "DroneDatabase \<Rightarrow> RouteRow \<Rightarrow> string option" where
  "route_state db r =
     map_option br_state (List.find (\<lambda>b. rr_backend r = Some (br_name b)) (db_backend db))"

definition get_proxy_route :: "string \<Rightarrow> DroneDatabase \<Rightarrow> string option" where
  "get_proxy_route subdomain db =
     map_option rr_address
       (List.find (\<lambda>r. rr_subdomain r = subdomain \<and> route_state db r = Some ''Ready'') (db_route db))"

definition next_rowid :: "RouteRow list \<Rightarrow> nat" where
  "next_rowid rs = Suc (foldr max (map rr_id rs) 0)"

definition insert_proxy_route ::
  "bool \<Rightarrow> int \<Rightarrow> BackendId \<Rightarrow> string \<Rightarrow> string \<Rightarrow> DroneDatabase \<Rightarrow> DroneDatabase \<times> (SqlError + unit)" where
  "insert_proxy_route fk now b subdomain address db =
     (let backend_id = backend_id_str b
      in if fk \<and> backend_id \<notin> br_name ` set (db_backend db) then (db, Inl ForeignKeyViolation)
         else (db\<lparr>db_route :=
                 filter (\<lambda>r. rr_subdomain r \<noteq> subdomain \<and> rr_address r \<noteq> address) (db_route db) @
                 [\<lparr>rr_id = next_rowid (db_route db), rr_backend = Some backend_id,
                   rr_subdomain = subdomain, rr_address = address, rr_last_active = now\<rparr>]\<rparr>,
               Inr ()))"

definition reset_last_active :: "int \<Rightarrow> string \<Rightarrow> DroneDatabase \<Rightarrow> DroneDatabase" where
  "reset_last_active now subdomain db =
     db\<lparr>db_route := map (\<lambda>r. if rr_subdomain r = subdomain then r\<lparr>rr_last_active := now\<rparr> else r)
                      (db_route db)\<rparr>"

text \<open>One statement per subdomain; the clock is read anew in each.\<close>

fun reset_last_active_times :: "(string \<times> int) list \<Rightarrow> DroneDatabase \<Rightarrow> DroneDatabase" where
  "reset_last_active_times [] db = db"
| "reset_last_active_times ((subdomain, now) # rest) db =
     reset_last_active_times rest (reset_last_active now subdomain db)"

definition get_backend_last_active :: "BackendId \<Rightarrow> DroneDatabase \<Rightarrow> SqlError + systime" where
  "get_backend_last_active b db =
     (case List.find (\<lambda>r. rr_backend r = Some (backend_id_str b)) (db_route db) of
        None \<Rightarrow> Inl RowNotFound
      | Some r \<Rightarrow> Inr (rr_last_active r * 1000000000))"

section \<open>Operations as steps\<close>

datatype db_op =
    DbInsertBackend SpawnRequest
  | DbUpdateState BackendId BackendState
  | DbInsertRoute BackendId string string int
  | DbResetLastActive "(string \<times> int) list"
  | DbGetProxyRoute string
  | DbRunningBackends

datatype db_out = OUnit "SqlError + unit" | ORoute "string option" | OCount nat

fun db_step :: "(SpawnRequest \<Rightarrow> string) \<Rightarrow> bool \<Rightarrow> db_op \<Rightarrow> DroneDatabase \<Rightarrow> (DroneDatabase \<times> db_out) panics" where
  "db_step to_json fk (DbInsertBackend spec) db = Some (apsnd OUnit (insert_backend to_json spec db))"
| "db_step to_json fk (DbUpdateState b s) db = Some (update_backend_state b s db, OUnit (Inr ()))"
| "db_step to_json fk (DbInsertRoute b sub addr now) db =
     Some (apsnd OUnit (insert_proxy_route fk now b sub addr db))"
| "db_step to_json fk (DbResetLastActive subs) db = Some (reset_last_active_times subs db, OUnit (Inr ()))"
| "db_step to_json fk (DbGetProxyRoute sub) db = Some (db, ORoute (get_proxy_route sub db))"
| "db_step to_json fk DbRunningBackends db = Some (db, OCount (running_backends db))"

section \<open>Specification\<close>

record db_spec =
  dbs_backends :: "BackendId \<rightharpoonup> (SpawnRequest \<times> BackendState)"
  dbs_routes :: "string \<rightharpoonup> (BackendId \<times> string \<times> int)"

definition spec_init :: db_spec where
  "spec_init = \<lparr>dbs_backends = Map.empty, dbs_routes = Map.empty\<rparr>"

definition spec_state :: "db_spec \<Rightarrow> BackendId \<Rightarrow> BackendState option" where
  "spec_state a b = map_option snd (dbs_backends a b)"

definition spec_put_route :: "BackendId \<Rightarrow> string \<Rightarrow> string \<Rightarrow> int \<Rightarrow> db_spec \<Rightarrow> db_spec" where
  "spec_put_route b sub addr now a =
     a\<lparr>dbs_routes := (\<lambda>s. if s = sub then Some (b, addr, now)
                          else case dbs_routes a s of
                                 Some (b', addr', t) \<Rightarrow> if addr' = addr then None else Some (b', addr', t)
                               | None \<Rightarrow> None)\<rparr>"

definition spec_touch :: "string \<Rightarrow> int \<Rightarrow> db_spec \<Rightarrow> db_spec" where
  "spec_touch sub now a =
     a\<lparr>dbs_routes := (dbs_routes a)(sub := map_option (\<lambda>(b, addr, _). (b, addr, now)) (dbs_routes a sub))\<rparr>"

definition spec_route :: "string \<Rightarrow> db_spec \<Rightarrow> string option" where
  "spec_route sub a =
     (case dbs_routes a sub of
        None \<Rightarrow> None
      | Some (b, addr, _) \<Rightarrow> if spec_state a b = Some Ready then Some addr else None)"

fun db_spec_step :: "bool \<Rightarrow> db_op \<Rightarrow> db_spec \<Rightarrow> db_spec \<times> db_out" where
  "db_spec_step fk (DbInsertBackend spec) a =
     (case dbs_backends a (sp_backend_id spec) of
        Some _ \<Rightarrow> (a, OUnit (Inl UniqueViolation))
      | None \<Rightarrow> (a\<lparr>dbs_backends := (dbs_backends a)(sp_backend_id spec \<mapsto> (spec, Loading))\<rparr>,
                 OUnit (Inr ())))"
| "db_spec_step fk (DbUpdateState b s) a =
     (a\<lparr>dbs_backends := (dbs_backends a)(b := map_option (\<lambda>(q, _). (q, s)) (dbs_backends a b))\<rparr>,
      OUnit (Inr ()))"
| "db_spec_step fk (DbInsertRoute b sub addr now) a =
     (if fk \<and> dbs_backends a b = None then (a, OUnit (Inl ForeignKeyViolation))
      else (spec_put_route b sub addr now a, OUnit (Inr ())))"
| "db_spec_step fk (DbResetLastActive subs) a =
     (fold (\<lambda>(sub, now). spec_touch sub now) subs a, OUnit (Inr ()))"
| "db_spec_step fk (DbGetProxyRoute sub) a = (a, ORoute (spec_route sub a))"
| "db_spec_step fk DbRunningBackends a =
     (a, OCount (card {b. \<exists>s \<in> {Loading, Starting, Ready}. spec_state a b = Some s}))"

section \<open>Invariant and abstraction\<close>

definition backend_row :: "DroneDatabase \<Rightarrow> string \<Rightarrow> BackendRow option" where
  "backend_row db n = List.find (\<lambda>r. br_name r = n) (db_backend db)"

definition route_row :: "DroneDatabase \<Rightarrow> string \<Rightarrow> RouteRow option" where
  "route_row db sub = List.find (\<lambda>r. rr_subdomain r = sub) (db_route db)"

definition db_ok :: "DroneDatabase \<Rightarrow> bool" where
  "db_ok db \<longleftrightarrow>
     distinct (map br_name (db_backend db)) \<and>
     (\<forall>r \<in> set (db_backend db). state_from_str (br_state r) \<noteq> None) \<and>
     distinct (map rr_id (db_route db)) \<and>
     distinct (map rr_subdomain (db_route db)) \<and>
     distinct (map rr_address (db_route db)) \<and>
     (\<forall>r \<in> set (db_route db). rr_backend r \<noteq> None)"

definition fk_ok :: "DroneDatabase \<Rightarrow> bool" where
  "fk_ok db \<longleftrightarrow> (\<forall>r \<in> set (db_route db). the (rr_backend r) \<in> br_name ` set (db_backend db))"

definition db_rel :: "(SpawnRequest \<Rightarrow> string) \<Rightarrow> DroneDatabase \<Rightarrow> db_spec \<Rightarrow> bool" where
  "db_rel to_json db a \<longleftrightarrow> db_ok db \<and>
     (\<forall>b. map_option (\<lambda>r. (br_spec r, br_state r)) (backend_row db (backend_id_str b)) =
          map_option (\<lambda>(q, s). (to_json q, state_to_string s)) (dbs_backends a b)) \<and>
     (\<forall>sub. map_option (\<lambda>r. (rr_backend r, rr_address r, rr_last_active r)) (route_row db sub) =
          map_option (\<lambda>(b, addr, t). (Some (backend_id_str b), addr, t)) (dbs_routes a sub))"

lemma foldr_max_ge: "x \<in> set xs \<Longrightarrow> (x::nat) \<le> foldr max xs 0"
  by (induction xs) auto

lemma next_rowid_fresh: "next_rowid rs \<notin> rr_id ` set rs"
proof
  assume "next_rowid rs \<in> rr_id ` set rs"
  then have "Suc (foldr max (map rr_id rs) 0) \<in> set (map rr_id rs)" by (simp add: next_rowid_def)
  then show False by (metis foldr_max_ge not_less_eq_eq order_refl)
qed

lemma db_ok_new: "db_ok drone_database_new" "fk_ok drone_database_new"
  by (simp_all add: db_ok_def fk_ok_def drone_database_new_def)

lemma db_ok_insert_backend: "db_ok db \<Longrightarrow> db_ok (fst (insert_backend to_json spec db))"
  by (auto simp: db_ok_def insert_backend_def Let_def state_from_str_def)

lemma map_key_update: "(\<And>r. key (f r) = key r) \<Longrightarrow> map key (map f xs) = map key xs"
  by simp

lemma db_ok_update_state: "db_ok db \<Longrightarrow> db_ok (update_backend_state b s db)"
  by (auto simp: db_ok_def update_backend_state_def comp_def if_distrib [of br_name] cong: if_cong)

lemma db_ok_insert_route: "db_ok db \<Longrightarrow> db_ok (fst (insert_proxy_route fk now b sub addr db))"
  using next_rowid_fresh [of "db_route db"]
  by (auto simp: db_ok_def insert_proxy_route_def Let_def distinct_map_filter_key)

lemma reset_columns:
  "map br_name (db_backend (reset_last_active now sub db)) = map br_name (db_backend db)"
  "db_backend (reset_last_active now sub db) = db_backend db"
  "map rr_id (db_route (reset_last_active now sub db)) = map rr_id (db_route db)"
  "map rr_subdomain (db_route (reset_last_active now sub db)) = map rr_subdomain (db_route db)"
  "map rr_address (db_route (reset_last_active now sub db)) = map rr_address (db_route db)"
  "map rr_backend (db_route (reset_last_active now sub db)) = map rr_backend (db_route db)"
  by (simp_all add: reset_last_active_def)

lemma db_ok_routes: "(\<forall>r \<in> set rs. rr_backend r \<noteq> None) \<longleftrightarrow> None \<notin> set (map rr_backend rs)"
  by (metis (mono_tags, lifting) image_eqI image_iff list.set_map)

lemma db_ok_reset: "db_ok db \<Longrightarrow> db_ok (reset_last_active now sub db)"
  unfolding db_ok_def db_ok_routes by (simp only: reset_columns simp_thms) blast

lemma db_ok_reset_times: "db_ok db \<Longrightarrow> db_ok (reset_last_active_times subs db)"
  by (induction subs db rule: reset_last_active_times.induct) (auto intro: db_ok_reset)

lemmas db_ok_intros = db_ok_insert_backend db_ok_update_state db_ok_insert_route db_ok_reset_times

lemma db_step_ok:
  assumes "db_ok db" and "db_step to_json fk x db = Some (db', v)"
  shows "db_ok db'"
proof -
  have "db' = fst (the (db_step to_json fk x db))" using assms(2) by simp
  then show ?thesis using assms(1) by (cases x) (simp_all add: db_ok_intros)
qed

definition db_names :: "DroneDatabase \<Rightarrow> string set" where
  "db_names db = br_name ` set (db_backend db)"

lemma reset_times_columns:
  "db_backend (reset_last_active_times subs db) = db_backend db"
  "rr_backend ` set (db_route (reset_last_active_times subs db)) = rr_backend ` set (db_route db)"
proof (induction subs db rule: reset_last_active_times.induct)
  case (2 subdomain now rest db)
  {
    case 1
    show ?case using "2.IH"(1) by (simp add: reset_columns)
  next
    case 2
    show ?case using "2.IH"(2) by (simp add: reset_columns flip: set_map)
  }
qed simp_all

lemma fk_ok_iff: "fk_ok db \<longleftrightarrow> the ` (rr_backend ` set (db_route db)) \<subseteq> db_names db"
  by (auto simp: fk_ok_def db_names_def)

lemma db_names_update: "db_names (update_backend_state b s db) = db_names db"
proof -
  have "map br_name (db_backend (update_backend_state b s db)) = map br_name (db_backend db)"
    by (simp add: update_backend_state_def)
  then show ?thesis by (metis db_names_def list.set_map)
qed

lemma db_step_fk_ok:
  assumes "fk_ok db" and "fk" and "db_step to_json fk x db = Some (db', v)"
  shows "fk_ok db'"
proof -
  have db': "db' = fst (the (db_step to_json fk x db))" using assms(3) by simp
  show ?thesis
  proof (cases x)
    case (DbResetLastActive subs)
    then show ?thesis using assms(1) db' by (simp add: fk_ok_iff db_names_def reset_times_columns)
  next
    case (DbUpdateState b s)
    then show ?thesis using assms(1) db'
      by (simp add: fk_ok_iff db_names_update) (simp add: update_backend_state_def)
  qed (use assms(1,2) db' in \<open>auto simp: fk_ok_def insert_backend_def insert_proxy_route_def
      update_backend_state_def Let_def image_iff\<close>)
qed

definition db_invar :: "bool \<Rightarrow> DroneDatabase \<Rightarrow> bool" where
  "db_invar fk db \<longleftrightarrow> db_ok db \<and> (fk \<longrightarrow> fk_ok db)"

interpretation db_inv: step_invariant "db_step to_json fk" "db_invar fk" for to_json fk
  by unfold_locales (auto simp: db_invar_def dest: db_step_ok db_step_fk_ok)

section \<open>The tables implement the specification\<close>

lemma backend_row_insert:
  "backend_row (fst (insert_backend to_json spec db)) n =
     (case backend_row db n of
        Some r \<Rightarrow> Some r
      | None \<Rightarrow> if n = backend_id_str (sp_backend_id spec)
                then Some \<lparr>br_name = n, br_spec = to_json spec, br_state = ''Loading'', br_exit_code = None\<rparr>
                else None)"
proof (cases "sp_backend_id spec")
  case (BackendId m)
  show ?thesis
  proof (cases "backend_row db n")
    case None
    then have "List.find (\<lambda>r. br_name r = n) (db_backend db) = None" by (simp add: backend_row_def)
    moreover from this have "n \<notin> br_name ` set (db_backend db)" by (simp only: find_key_None simp_thms)
    ultimately show ?thesis using BackendId
      by (auto simp: backend_row_def insert_backend_def Let_def find_append)
  next
    case (Some r)
    then show ?thesis by (auto simp: backend_row_def insert_backend_def Let_def find_append)
  qed
qed

lemma backend_row_update:
  "backend_row (update_backend_state b s db) n =
     map_option (\<lambda>r. if n = backend_id_str b then r\<lparr>br_state := state_to_string s\<rparr> else r) (backend_row db n)"
proof -
  have "backend_row (update_backend_state b s db) n =
      map_option (\<lambda>r. if br_name r = backend_id_str b then r\<lparr>br_state := state_to_string s\<rparr> else r)
        (backend_row db n)"
    unfolding backend_row_def update_backend_state_def by (simp add: find_map_key)
  also have "\<dots> = map_option (\<lambda>r. if n = backend_id_str b then r\<lparr>br_state := state_to_string s\<rparr> else r)
      (backend_row db n)"
    by (rule option.map_cong [OF refl]) (auto simp: backend_row_def dest: find_keyD)
  finally show ?thesis .
qed

lemma backend_row_names: "backend_row db n = None \<longleftrightarrow> n \<notin> db_names db"
  by (simp add: backend_row_def db_names_def find_key_None)

lemma route_row_put:
  assumes "db_ok db" and "insert_proxy_route fk now b sub addr db = (db', Inr ())"
  shows "route_row db' s =
    (if s = sub then Some \<lparr>rr_id = next_rowid (db_route db), rr_backend = Some (backend_id_str b),
        rr_subdomain = sub, rr_address = addr, rr_last_active = now\<rparr>
     else case route_row db s of
            None \<Rightarrow> None | Some r \<Rightarrow> if rr_address r = addr then None else Some r)"
proof -
  let ?new = "\<lparr>rr_id = next_rowid (db_route db), rr_backend = Some (backend_id_str b),
        rr_subdomain = sub, rr_address = addr, rr_last_active = now\<rparr>"
  let ?old = "filter (\<lambda>r. rr_subdomain r \<noteq> sub \<and> rr_address r \<noteq> addr) (db_route db)"
  have db': "db_route db' = ?old @ [?new]"
    using assms(2) by (auto simp: insert_proxy_route_def Let_def split: if_splits)
  have "List.find (\<lambda>r. rr_subdomain r = s) ?old =
      (case route_row db s of None \<Rightarrow> None
       | Some r \<Rightarrow> if rr_subdomain r \<noteq> sub \<and> rr_address r \<noteq> addr then Some r else None)"
    using assms(1) unfolding route_row_def db_ok_def by (simp add: find_key_filter)
  moreover have "route_row db s = Some r \<Longrightarrow> rr_subdomain r = s" for r
    by (auto simp: route_row_def find_Some_iff)
  ultimately show ?thesis
    unfolding route_row_def db' find_append by (auto split: option.splits)
qed

lemma route_row_touch:
  "route_row (reset_last_active now sub db) s =
     map_option (\<lambda>r. if s = sub then r\<lparr>rr_last_active := now\<rparr> else r) (route_row db s)"
proof -
  have "route_row (reset_last_active now sub db) s =
      map_option (\<lambda>r. if rr_subdomain r = sub then r\<lparr>rr_last_active := now\<rparr> else r) (route_row db s)"
    unfolding route_row_def reset_last_active_def by (simp add: find_map_key)
  also have "\<dots> = map_option (\<lambda>r. if s = sub then r\<lparr>rr_last_active := now\<rparr> else r) (route_row db s)"
    by (rule option.map_cong [OF refl]) (auto simp: route_row_def dest: find_keyD)
  finally show ?thesis .
qed

lemma get_proxy_route_row:
  assumes "db_ok db"
  shows "get_proxy_route sub db =
    (case route_row db sub of
       None \<Rightarrow> None
     | Some r \<Rightarrow> if map_option br_state (backend_row db (the (rr_backend r))) = Some ''Ready''
                then Some (rr_address r) else None)"
proof -
  have "get_proxy_route sub db =
      map_option rr_address (case route_row db sub of None \<Rightarrow> None
        | Some r \<Rightarrow> if route_state db r = Some ''Ready'' then Some r else None)"
    using assms unfolding get_proxy_route_def route_row_def db_ok_def by (simp add: find_key_conj)
  moreover have "route_state db r = map_option br_state (backend_row db (the (rr_backend r)))"
    if "route_row db sub = Some r" for r
  proof -
    have "r \<in> set (db_route db)" using that assms
      by (simp add: route_row_def db_ok_def find_key_Some)
    then obtain n where "rr_backend r = Some n" using assms by (auto simp: db_ok_def)
    then show ?thesis by (simp add: route_state_def backend_row_def eq_commute)
  qed
  ultimately show ?thesis by (auto split: option.splits)
qed

lemma db_rel_new: "db_rel to_json drone_database_new spec_init"
  using db_ok_new by (simp add: db_rel_def backend_row_def route_row_def drone_database_new_def spec_init_def)

lemma db_relD:
  assumes "db_rel to_json db a"
  shows "db_ok db"
    and "map_option (\<lambda>r. (br_spec r, br_state r)) (backend_row db (backend_id_str b)) =
      map_option (\<lambda>(q, s). (to_json q, state_to_string s)) (dbs_backends a b)"
    and "map_option (\<lambda>r. (rr_backend r, rr_address r, rr_last_active r)) (route_row db sub) =
      map_option (\<lambda>(b, addr, t). (Some (backend_id_str b), addr, t)) (dbs_routes a sub)"
  using assms by (simp_all add: db_rel_def)

lemma db_rel_row_None: "db_rel to_json db a \<Longrightarrow> backend_row db (backend_id_str b) = None \<longleftrightarrow> dbs_backends a b = None"
  using db_relD(2) [of to_json db a b]
  by (cases "backend_row db (backend_id_str b)"; cases "dbs_backends a b") auto

lemma db_rel_names: "db_rel to_json db a \<Longrightarrow> backend_id_str b \<in> db_names db \<longleftrightarrow> dbs_backends a b \<noteq> None"
  using db_rel_row_None [of to_json db a b] backend_row_names [of db "backend_id_str b"]
  by (cases "dbs_backends a b") auto

lemma db_rel_state:
  assumes "db_rel to_json db a"
  shows "map_option br_state (backend_row db (backend_id_str b)) = map_option state_to_string (spec_state a b)"
proof -
  have "map_option snd (map_option (\<lambda>r. (br_spec r, br_state r)) (backend_row db (backend_id_str b))) =
      map_option snd (map_option (\<lambda>(q, s). (to_json q, state_to_string s)) (dbs_backends a b))"
    using db_relD(2) [OF assms] by simp
  then show ?thesis by (simp add: option.map_comp comp_def spec_state_def case_prod_unfold)
qed

lemma state_to_string_Ready: "state_to_string s = ''Ready'' \<longleftrightarrow> s = Ready"
  using state_to_string_inj [of s Ready] by simp

lemma db_rel_get_route:
  assumes "db_rel to_json db a"
  shows "get_proxy_route sub db = spec_route sub a"
proof -
  note row = db_relD(3) [OF assms, of sub]
  show ?thesis
  proof (cases "dbs_routes a sub")
    case None
    then show ?thesis using row db_relD(1) [OF assms] by (simp add: get_proxy_route_row spec_route_def)
  next
    case (Some v)
    obtain b addr t where v: "v = (b, addr, t)" by (cases v)
    obtain r where r: "route_row db sub = Some r" "rr_backend r = Some (backend_id_str b)" "rr_address r = addr"
      using row Some v by (cases "route_row db sub") auto
    have "map_option br_state (backend_row db (backend_id_str b)) = Some ''Ready'' \<longleftrightarrow> spec_state a b = Some Ready"
      unfolding db_rel_state [OF assms] by (cases "spec_state a b") (auto simp: state_to_string_Ready)
    then show ?thesis using r Some v db_relD(1) [OF assms]
      by (simp add: get_proxy_route_row spec_route_def)
  qed
qed

lemma backend_id_str_image: "n \<in> backend_id_str ` B \<longleftrightarrow> BackendId n \<in> B"
proof
  assume "n \<in> backend_id_str ` B"
  then obtain b where "b \<in> B" "n = backend_id_str b" by blast
  then show "BackendId n \<in> B" by (cases b) simp
next
  assume "BackendId n \<in> B"
  from imageI [OF this, of backend_id_str] show "n \<in> backend_id_str ` B" by simp
qed

lemma db_rel_running:
  assumes "db_rel to_json db a"
  shows "running_backends db = card {b. \<exists>s \<in> {Loading, Starting, Ready}. spec_state a b = Some s}"
proof -
  let ?run = "\<lambda>r. br_state r \<in> {''Loading'', ''Starting'', ''Ready''}"
  have ok: "distinct (map br_name (db_backend db))" using db_relD(1) [OF assms] by (simp add: db_ok_def)
  have iff: "(\<exists>r \<in> set (db_backend db). ?run r \<and> br_name r = backend_id_str b) \<longleftrightarrow>
      (\<exists>s \<in> {Loading, Starting, Ready}. spec_state a b = Some s)" for b
  proof -
    have "(\<exists>r \<in> set (db_backend db). ?run r \<and> br_name r = backend_id_str b) \<longleftrightarrow>
        (\<exists>r. backend_row db (backend_id_str b) = Some r \<and> ?run r)"
      using ok by (auto simp: backend_row_def find_key_Some)
    also have "\<dots> \<longleftrightarrow> (\<exists>st. map_option br_state (backend_row db (backend_id_str b)) = Some st
        \<and> st \<in> {''Loading'', ''Starting'', ''Ready''})" by auto
    also have "\<dots> \<longleftrightarrow> (\<exists>s \<in> {Loading, Starting, Ready}. spec_state a b = Some s)"
      unfolding db_rel_state [OF assms]
      using state_to_string_inj [of _ Loading] state_to_string_inj [of _ Starting] state_to_string_Ready
      by (cases "spec_state a b") auto
    finally show ?thesis .
  qed
  have "br_name ` {r \<in> set (db_backend db). ?run r} =
      backend_id_str ` {b. \<exists>s \<in> {Loading, Starting, Ready}. spec_state a b = Some s}"
  proof -
    have "n \<in> br_name ` {r \<in> set (db_backend db). ?run r} \<longleftrightarrow>
        BackendId n \<in> {b. \<exists>s \<in> {Loading, Starting, Ready}. spec_state a b = Some s}" for n
      using iff [of "BackendId n"] by (auto simp: image_iff)
    then show ?thesis by (intro set_eqI) (simp only: backend_id_str_image)
  qed
  moreover have "inj_on backend_id_str B" for B by (simp add: inj_on_def)
  ultimately show ?thesis
    unfolding running_backends_def length_filter_card [OF ok] by (simp only: card_image)
qed

lemma db_relI:
  assumes "db_ok db"
    and "\<And>b. map_option (\<lambda>r. (br_spec r, br_state r)) (backend_row db (backend_id_str b)) =
      map_option (\<lambda>(q, s). (to_json q, state_to_string s)) (dbs_backends a b)"
    and "\<And>sub. map_option (\<lambda>r. (rr_backend r, rr_address r, rr_last_active r)) (route_row db sub) =
      map_option (\<lambda>(b, addr, t). (Some (backend_id_str b), addr, t)) (dbs_routes a sub)"
  shows "db_rel to_json db a"
  using assms by (simp add: db_rel_def)

lemma insert_backend_result:
  "snd (insert_backend to_json spec db) =
     (if backend_id_str (sp_backend_id spec) \<in> db_names db then Inl UniqueViolation else Inr ())"
  by (simp add: insert_backend_def db_names_def Let_def)

lemma insert_backend_dup:
  "backend_id_str (sp_backend_id spec) \<in> db_names db \<Longrightarrow> fst (insert_backend to_json spec db) = db"
  by (simp add: insert_backend_def db_names_def Let_def)

lemma db_route_insert_backend [simp]: "db_route (fst (insert_backend to_json spec db)) = db_route db"
  by (simp add: insert_backend_def Let_def)

lemma route_row_cong: "db_route db = db_route db' \<Longrightarrow> route_row db = route_row db'"
  by (simp add: route_row_def fun_eq_iff)

lemma backend_row_cong: "db_backend db = db_backend db' \<Longrightarrow> backend_row db = backend_row db'"
  by (simp add: backend_row_def fun_eq_iff)

lemma db_rel_insert_backend:
  assumes "db_rel to_json db a"
  shows "db_rel to_json (fst (insert_backend to_json spec db)) (fst (db_spec_step fk (DbInsertBackend spec) a))"
    (is "db_rel _ ?db ?a")
proof (cases "dbs_backends a (sp_backend_id spec)")
  case (Some v)
  then show ?thesis
    using assms by (simp add: insert_backend_dup db_rel_names [OF assms])
next
  case None
  show ?thesis
  proof (rule db_relI)
    show "db_ok ?db" using db_ok_insert_backend db_relD(1) [OF assms] by blast
    show "map_option (\<lambda>r. (br_spec r, br_state r)) (backend_row ?db (backend_id_str b)) =
        map_option (\<lambda>(q, s). (to_json q, state_to_string s)) (dbs_backends ?a b)" for b
      using None db_relD(2) [OF assms, of b] db_rel_row_None [OF assms, of b]
      by (cases "backend_row db (backend_id_str b)") (auto simp: backend_row_insert)
    show "map_option (\<lambda>r. (rr_backend r, rr_address r, rr_last_active r)) (route_row ?db sub) =
        map_option (\<lambda>(b, addr, t). (Some (backend_id_str b), addr, t)) (dbs_routes ?a sub)" for sub
      using None db_relD(3) [OF assms, of sub] route_row_cong [of ?db db] by simp
  qed
qed

lemma db_rel_update_state:
  assumes "db_rel to_json db a"
  shows "db_rel to_json (update_backend_state b s db) (fst (db_spec_step fk (DbUpdateState b s) a))"
    (is "db_rel _ ?db ?a")
proof (rule db_relI)
  show "db_ok ?db" using db_ok_update_state db_relD(1) [OF assms] by blast
  show "map_option (\<lambda>r. (br_spec r, br_state r)) (backend_row ?db (backend_id_str c)) =
      map_option (\<lambda>(q, s). (to_json q, state_to_string s)) (dbs_backends ?a c)" for c
    using db_relD(2) [OF assms, of c]
    by (cases "backend_row db (backend_id_str c)"; cases "dbs_backends a c") (auto simp: backend_row_update)
  show "map_option (\<lambda>r. (rr_backend r, rr_address r, rr_last_active r)) (route_row ?db sub) =
      map_option (\<lambda>(b, addr, t). (Some (backend_id_str b), addr, t)) (dbs_routes ?a sub)" for sub
    using db_relD(3) [OF assms, of sub] route_row_cong [of ?db db] by (simp add: update_backend_state_def)
qed

lemma db_rel_put_route:
  assumes "db_rel to_json db a" and "insert_proxy_route fk now b sub addr db = (db', Inr ())"
  shows "db_rel to_json db' (spec_put_route b sub addr now a)"
proof (rule db_relI)
  show "db_ok db'" using db_ok_insert_route [OF db_relD(1) [OF assms(1)]] assms(2) by (metis fst_conv)
  have "db_backend db' = db_backend db"
    using assms(2) by (auto simp: insert_proxy_route_def Let_def split: if_splits)
  then show "map_option (\<lambda>r. (br_spec r, br_state r)) (backend_row db' (backend_id_str c)) =
      map_option (\<lambda>(q, s). (to_json q, state_to_string s)) (dbs_backends (spec_put_route b sub addr now a) c)" for c
    using db_relD(2) [OF assms(1), of c] backend_row_cong [of db' db] by (simp add: spec_put_route_def)
  show "map_option (\<lambda>r. (rr_backend r, rr_address r, rr_last_active r)) (route_row db' s) =
      map_option (\<lambda>(b, addr, t). (Some (backend_id_str b), addr, t))
        (dbs_routes (spec_put_route b sub addr now a) s)" for s
    using db_relD(3) [OF assms(1), of s] route_row_put [OF db_relD(1) [OF assms(1)] assms(2)]
    by (cases "route_row db s"; cases "dbs_routes a s") (auto simp: spec_put_route_def)
qed

lemma insert_proxy_route_result:
  "insert_proxy_route fk now b sub addr db =
     (if fk \<and> backend_id_str b \<notin> db_names db then (db, Inl ForeignKeyViolation)
      else (fst (insert_proxy_route fk now b sub addr db), Inr ()))"
  by (simp add: insert_proxy_route_def db_names_def Let_def)

lemma db_rel_touch:
  assumes "db_rel to_json db a"
  shows "db_rel to_json (reset_last_active now sub db) (spec_touch sub now a)"
proof (rule db_relI)
  show "db_ok (reset_last_active now sub db)" using db_ok_reset db_relD(1) [OF assms] by blast
  show "map_option (\<lambda>r. (br_spec r, br_state r)) (backend_row (reset_last_active now sub db) (backend_id_str c)) =
      map_option (\<lambda>(q, s). (to_json q, state_to_string s)) (dbs_backends (spec_touch sub now a) c)" for c
    using db_relD(2) [OF assms, of c] backend_row_cong [OF reset_columns(2)] by (simp add: spec_touch_def)
  show "map_option (\<lambda>r. (rr_backend r, rr_address r, rr_last_active r)) (route_row (reset_last_active now sub db) s) =
      map_option (\<lambda>(b, addr, t). (Some (backend_id_str b), addr, t)) (dbs_routes (spec_touch sub now a) s)" for s
    using db_relD(3) [OF assms, of s]
    by (cases "route_row db s"; cases "dbs_routes a s") (auto simp: spec_touch_def route_row_touch)
qed

lemma db_rel_touches:
  "db_rel to_json db a \<Longrightarrow>
   db_rel to_json (reset_last_active_times subs db) (fold (\<lambda>(sub, now). spec_touch sub now) subs a)"
  by (induction subs db arbitrary: a rule: reset_last_active_times.induct) (auto intro: db_rel_touch)

lemma db_simulates:
  assumes rel: "db_rel to_json db a"
  shows "\<exists>db'. db_step to_json fk x db = Some (db', snd (db_spec_step fk x a)) \<and>
    db_rel to_json db' (fst (db_spec_step fk x a))"
proof (cases x)
  case (DbInsertBackend spec)
  then show ?thesis
    using db_rel_insert_backend [OF rel, of spec fk] insert_backend_result [of to_json spec db]
      db_rel_names [OF rel, of "sp_backend_id spec"]
    by (auto simp: apsnd_def map_prod_def split: option.splits prod.splits)
next
  case (DbUpdateState b s)
  then show ?thesis using db_rel_update_state [OF rel, of b s fk] by simp
next
  case (DbInsertRoute b sub addr now)
  show ?thesis
  proof (cases "fk \<and> dbs_backends a b = None")
    case True
    then show ?thesis using rel db_rel_names [OF rel, of b] DbInsertRoute
        insert_proxy_route_result [of fk now b sub addr db] by simp
  next
    case False
    then have "insert_proxy_route fk now b sub addr db = (fst (insert_proxy_route fk now b sub addr db), Inr ())"
      using db_rel_names [OF rel, of b] insert_proxy_route_result [of fk now b sub addr db] by auto
    then show ?thesis using False db_rel_put_route [OF rel] DbInsertRoute
      by (auto simp: apsnd_def map_prod_def split: prod.splits)
  qed
next
  case (DbResetLastActive subs)
  then show ?thesis using db_rel_touches [OF rel] by simp
next
  case (DbGetProxyRoute sub)
  then show ?thesis using rel db_rel_get_route [OF rel] by simp
next
  case DbRunningBackends
  then show ?thesis using rel db_rel_running [OF rel] by simp
qed

interpretation db_sim: simulation "db_step to_json fk" "db_spec_step fk" "\<lambda>_ _. True" "db_rel to_json"
  for to_json fk
  by unfold_locales (rule db_simulates)

section \<open>Reading the backends back\<close>

lemma collect_results_map:
  "(\<forall>x \<in> set xs. f x = Inr (g x)) \<Longrightarrow> collect_results (map f xs) = Inr (map g xs)"
  by (induction xs) auto

lemma spec_touch_backends: "dbs_backends (fold (\<lambda>(sub, now). spec_touch sub now) subs a) = dbs_backends a"
  by (induction subs arbitrary: a) (auto simp: spec_touch_def)

lemma spec_step_origin:
  assumes "dbs_backends (fst (db_spec_step fk x a)) b = Some (q, s)"
  shows "(x = DbInsertBackend q \<and> sp_backend_id q = b) \<or> (\<exists>s'. dbs_backends a b = Some (q, s'))"
  using assms
  by (cases x) (auto simp: spec_put_route_def spec_touch_backends split: option.splits if_splits)

lemma run_spec_origin:
  assumes "dbs_backends (fst (run_spec (db_spec_step fk) xs a)) b = Some (q, s)"
  shows "(DbInsertBackend q \<in> set xs \<and> sp_backend_id q = b) \<or> (\<exists>s'. dbs_backends a b = Some (q, s'))"
  using assms
proof (induction xs arbitrary: a)
  case (Cons x xs)
  then have "dbs_backends (fst (run_spec (db_spec_step fk) xs (fst (db_spec_step fk x a)))) b = Some (q, s)"
    by (simp add: case_prod_beta Let_def)
  from Cons.IH [OF this] show ?case using spec_step_origin by fastforce
qed auto

text \<open>The backend a row stands for when its columns were written from \<open>(q, s)\<close>.\<close>

definition the_backend :: "db_spec \<Rightarrow> BackendRow \<Rightarrow> Backend" where
  "the_backend a r = (let (q, s) = the (dbs_backends a (BackendId (br_name r)))
     in \<lparr>bk_backend_id = BackendId (br_name r), bk_state = s, bk_spec = q\<rparr>)"

lemma db_rel_get_backends:
  assumes rel: "db_rel to_json db a"
    and json: "\<And>b q s. dbs_backends a b = Some (q, s) \<Longrightarrow> from_json (to_json q) = Some q"
  shows "\<exists>bs. get_backends from_json db = Inr bs \<and> distinct (map bk_backend_id bs) \<and>
    (\<forall>b q s. \<lparr>bk_backend_id = b, bk_state = s, bk_spec = q\<rparr> \<in> set bs \<longleftrightarrow> dbs_backends a b = Some (q, s))"
proof -
  have ok: "distinct (map br_name (db_backend db))" using db_relD(1) [OF rel] by (simp add: db_ok_def)
  have row: "\<exists>q s. dbs_backends a (BackendId (br_name r)) = Some (q, s) \<and> br_spec r = to_json q
      \<and> br_state r = state_to_string s" if "r \<in> set (db_backend db)" for r
  proof -
    have "backend_row db (br_name r) = Some r" using that ok by (simp add: backend_row_def find_key_Some)
    then show ?thesis using db_relD(2) [OF rel, of "BackendId (br_name r)"]
      by (cases "dbs_backends a (BackendId (br_name r))") auto
  qed
  have "decode_backend from_json r = Inr (the_backend a r)" if "r \<in> set (db_backend db)" for r
    using row [OF that] json by (auto simp: decode_backend_def the_backend_def)
  then have get: "get_backends from_json db = Inr (map (the_backend a) (db_backend db))"
    unfolding get_backends_def by (intro collect_results_map) simp
  have id: "bk_backend_id (the_backend a r) = BackendId (br_name r)" for r
    by (simp add: the_backend_def case_prod_beta Let_def)
  have "distinct (map bk_backend_id (map (the_backend a) (db_backend db)))"
    using ok by (simp add: id comp_def distinct_map inj_on_def)
  moreover have "\<lparr>bk_backend_id = b, bk_state = s, bk_spec = q\<rparr> \<in> set (map (the_backend a) (db_backend db))
      \<longleftrightarrow> dbs_backends a b = Some (q, s)" for b q s
  proof
    assume "\<lparr>bk_backend_id = b, bk_state = s, bk_spec = q\<rparr> \<in> set (map (the_backend a) (db_backend db))"
    then obtain r where r: "r \<in> set (db_backend db)" "the_backend a r = \<lparr>bk_backend_id = b, bk_state = s, bk_spec = q\<rparr>"
      by auto
    then show "dbs_backends a b = Some (q, s)" using row [OF r(1)] by (auto simp: the_backend_def)
  next
    assume some: "dbs_backends a b = Some (q, s)"
    then obtain r where r: "backend_row db (backend_id_str b) = Some r"
      using db_rel_row_None [OF rel, of b] by (cases "backend_row db (backend_id_str b)") auto
    then have "r \<in> set (db_backend db)" "br_name r = backend_id_str b"
      by (auto simp: backend_row_def dest: find_keyD)
    moreover have "the_backend a r = \<lparr>bk_backend_id = b, bk_state = s, bk_spec = q\<rparr>"
      using some \<open>br_name r = backend_id_str b\<close> by (cases b) (simp add: the_backend_def)
    ultimately show "\<lparr>bk_backend_id = b, bk_state = s, bk_spec = q\<rparr> \<in> set (map (the_backend a) (db_backend db))"
      by (metis image_eqI list.set_map)
  qed
  ultimately show ?thesis using get by blast
qed

lemma get_proxy_route_address:
  assumes "db_ok db" and "get_proxy_route sub db = Some addr"
  shows "\<exists>r \<in> set (db_route db). rr_subdomain r = sub \<and> rr_address r = addr"
  using assms
  by (auto simp: get_proxy_route_row route_row_def split: option.splits if_splits dest: find_keyD)

text \<open>What a resolved route promises: a row whose backend is ready.\<close>

definition ready_route :: "DroneDatabase \<Rightarrow> string \<Rightarrow> string \<Rightarrow> bool" where
  "ready_route db sub addr \<longleftrightarrow>
     (\<exists>r \<in> set (db_route db). rr_subdomain r = sub \<and> rr_address r = addr \<and>
        (\<exists>n. rr_backend r = Some n \<and> map_option br_state (backend_row db n) = Some ''Ready''))"

lemma route_needs_ready:
  assumes "db_ok db" and "get_proxy_route sub db = Some addr"
  shows "ready_route db sub addr"
proof -
  obtain r where r: "route_row db sub = Some r"
      "map_option br_state (backend_row db (the (rr_backend r))) = Some ''Ready''" "rr_address r = addr"
    using assms by (auto simp: get_proxy_route_row split: option.splits if_splits)
  then have mem: "r \<in> set (db_route db)" "rr_subdomain r = sub"
    by (auto simp: route_row_def dest: find_keyD)
  then obtain n where "rr_backend r = Some n" using assms(1) by (auto simp: db_ok_def)
  then show ?thesis using r mem by (auto simp: ready_route_def)
qed

section \<open>Properties\<close>

lemma reached_db_ok:
  "run_steps (db_step to_json fk) ops drone_database_new = Some (db, outs) \<Longrightarrow> db_ok db"
  using db_inv.run_invar [of fk drone_database_new to_json ops db outs] db_ok_new
  by (simp add: db_invar_def)


text \<open>What the agent resumes after a restart. If decoding inverts encoding on the requests
  that were stored, then after every sequence of operations \<open>get_backends\<close> succeeds and returns
  each backend once, with exactly the request and the state the specification holds for it.\<close>

theorem get_backends_reads_back:
  assumes "\<forall>q. DbInsertBackend q \<in> set ops \<longrightarrow> from_json (to_json q) = Some q"
  shows "\<exists>db outs bs. run_steps (db_step to_json fk) ops drone_database_new = Some (db, outs) \<and>
    get_backends from_json db = Inr bs \<and> distinct (map bk_backend_id bs) \<and>
    (\<forall>b q s. \<lparr>bk_backend_id = b, bk_state = s, bk_spec = q\<rparr> \<in> set bs \<longleftrightarrow>
       dbs_backends (fst (run_spec (db_spec_step fk) ops spec_init)) b = Some (q, s))"
proof -
  let ?a = "fst (run_spec (db_spec_step fk) ops spec_init)"
  obtain db where run: "run_steps (db_step to_json fk) ops drone_database_new
      = Some (db, snd (run_spec (db_spec_step fk) ops spec_init))" and rel: "db_rel to_json db ?a"
    using db_sim.run_sim [OF db_rel_new run_guard_True] by blast
  have "from_json (to_json q) = Some q" if "dbs_backends ?a b = Some (q, s)" for b q s
    using run_spec_origin [OF that] assms by (simp add: spec_init_def)
  then show ?thesis using run db_rel_get_backends [OF rel] by blast
qed

theorem get_backends_reads_back_witness:
  "\<exists>db outs bs.
     run_steps (db_step (\<lambda>q. ''spec'') True)
       [DbInsertBackend (example_spawn ''d'' ''b''), DbUpdateState (BackendId ''b'') Starting]
       drone_database_new = Some (db, outs) \<and>
     get_backends (\<lambda>_. Some (example_spawn ''d'' ''b'')) db = Inr bs \<and>
     \<lparr>bk_backend_id = BackendId ''b'', bk_state = Starting, bk_spec = example_spawn ''d'' ''b''\<rparr> \<in> set bs"
proof -
  let ?ops = "[DbInsertBackend (example_spawn ''d'' ''b''), DbUpdateState (BackendId ''b'') Starting]"
  have "dbs_backends (fst (run_spec (db_spec_step True) ?ops spec_init)) (BackendId ''b'')
      = Some (example_spawn ''d'' ''b'', Starting)"
    by (simp add: spec_init_def example_spawn_def)
  then show ?thesis
    using get_backends_reads_back [of ?ops "\<lambda>_. Some (example_spawn ''d'' ''b'')" "\<lambda>q. ''spec''" True] by auto
qed

text \<open>No two subdomains are ever routed to the same address, so that when an address is used
  again for a new backend the route of the old one is gone.\<close>

theorem proxy_routes_disjoint:
  assumes "run_steps (db_step to_json fk) ops drone_database_new = Some (db, outs)"
    and "get_proxy_route sub db = Some addr" and "get_proxy_route sub' db = Some addr"
  shows "sub = sub'"
proof -
  have ok: "db_ok db" using reached_db_ok assms(1) by blast
  obtain r r' where r: "r \<in> set (db_route db)" "r' \<in> set (db_route db)"
      "rr_subdomain r = sub" "rr_subdomain r' = sub'" "rr_address r = addr" "rr_address r' = addr"
    using get_proxy_route_address [OF ok] assms(2,3) by blast
  then have "r = r'" using ok by (auto simp: db_ok_def distinct_map inj_on_def)
  with r show ?thesis by simp
qed

theorem proxy_routes_disjoint_witness:
  "\<exists>db outs. run_steps (db_step (\<lambda>q. ''spec'') True)
     [DbInsertBackend (example_spawn ''d'' ''b''), DbUpdateState (BackendId ''b'') Ready,
      DbInsertRoute (BackendId ''b'') ''b'' ''10.0.0.7:8080'' 5] drone_database_new = Some (db, outs)
   \<and> get_proxy_route ''b'' db = Some ''10.0.0.7:8080''
   \<and> (\<forall>sub. get_proxy_route sub db = Some ''10.0.0.7:8080'' \<longrightarrow> sub = ''b'')"
proof -
  let ?ops = "[DbInsertBackend (example_spawn ''d'' ''b''), DbUpdateState (BackendId ''b'') Ready,
      DbInsertRoute (BackendId ''b'') ''b'' ''10.0.0.7:8080'' 5]"
  obtain db outs where run: "run_steps (db_step (\<lambda>q. ''spec'') True) ?ops drone_database_new = Some (db, outs)"
      and rel: "db_rel (\<lambda>q. ''spec'') db (fst (run_spec (db_spec_step True) ?ops spec_init))"
    using db_sim.run_sim [OF db_rel_new run_guard_True] by blast
  have "get_proxy_route ''b'' db = Some ''10.0.0.7:8080''"
    unfolding db_rel_get_route [OF rel]
    by (simp add: spec_init_def example_spawn_def spec_route_def spec_put_route_def spec_state_def)
  then show ?thesis using run proxy_routes_disjoint [OF run] by blast
qed

end
