(* ===== verification/Core_Retry.thy ===== *)
theory Core_Retry
  imports Plane_Prelude
begin

text \<open>
  \<open>do_with_retry\<close> of \<open>core/src/retry.rs\<close> and the timer of \<open>core/src/timing.rs\<close>. The closure is a function from the number of the
  call to the result its future resolves to; the outcome records the result, how often the
  closure was called and the pauses taken in between. The counter is a \<open>u16\<close> as in the
  source; the loop terminates because it stays below \<open>retries\<close>.
\<close>

text \<open>\<open>Timer\<close> of \<open>core/src/timing.rs\<close>, which the log lines use. The clock is monotonic, and a difference
  below zero would be no time.\<close>

record Timer =
  tm_started :: systime

definition timer_new :: "systime \<Rightarrow> Timer" where
  "timer_new now = \<lparr>tm_started = now\<rparr>"

definition timer_duration :: "Timer \<Rightarrow> systime \<Rightarrow> duration" where
  "timer_duration self now = nat (now - tm_started self)"

record ('e, 'a) retry_outcome =
  ro_result :: "'e + 'a"
  ro_calls :: nat
  ro_sleeps :: "duration list"

definition retry_pause :: "duration \<Rightarrow> duration list" where
  "retry_pause delay = (if delay = 0 then [] else [delay])"

lemma unat_word_Suc:
  assumes "(a::u16) < r"
  shows "unat (a + 1) = Suc (unat a)"
proof -
  have "unat a < unat r" using assms by (simp add: word_less_nat_alt)
  moreover have "unat r < 2 ^ LENGTH(16)" by (rule unsigned_less)
  ultimately have "Suc (unat a) < 2 ^ LENGTH(16)" by simp
  then show ?thesis by (simp add: unat_word_ariths)
qed

function retry_loop ::
  "bool \<Rightarrow> (nat \<Rightarrow> 'e + 'a) \<Rightarrow> u16 \<Rightarrow> duration \<Rightarrow> u16 \<Rightarrow> nat \<Rightarrow> ('e, 'a) retry_outcome panics" where
  "retry_loop checks func retries delay attempt n =
     (case func n of
        Inr value \<Rightarrow> Some \<lparr>ro_result = Inr value, ro_calls = Suc n, ro_sleeps = []\<rparr>
      | Inl error \<Rightarrow>
          if attempt \<ge> retries then
            Some \<lparr>ro_result = Inl error, ro_calls = Suc n, ro_sleeps = []\<rparr>
          else if ar_add checks attempt 1 = None then None
          else map_option (\<lambda>r. r\<lparr>ro_sleeps := retry_pause delay @ ro_sleeps r\<rparr>)
                 (retry_loop checks func retries delay (attempt + 1) (Suc n)))"
  by pat_completeness auto
termination
  by (relation "measure (\<lambda>(checks, func, retries, delay, attempt, n). unat retries - unat attempt)")
    (auto simp: unat_word_Suc not_le word_less_nat_alt)

definition do_with_retry ::
  "bool \<Rightarrow> (nat \<Rightarrow> 'e + 'a) \<Rightarrow> u16 \<Rightarrow> duration \<Rightarrow> ('e, 'a) retry_outcome panics" where
  "do_with_retry checks func retries delay = retry_loop checks func retries delay 1 0"

declare retry_loop.simps [simp del]

text \<open>
  What the loop promises: with \<open>N\<close> the number of attempts allowed (at least one), the result
  is that of the first successful call among the first \<open>N\<close>, or the last error.
\<close>

definition deciding_call :: "(nat \<Rightarrow> 'e + 'a) \<Rightarrow> nat \<Rightarrow> nat \<Rightarrow> nat" where
  "deciding_call func N n =
     (case List.find (\<lambda>i. is_ok (func i)) [n..<N] of Some i \<Rightarrow> i | None \<Rightarrow> N - 1)"

definition retry_spec :: "(nat \<Rightarrow> 'e + 'a) \<Rightarrow> nat \<Rightarrow> duration \<Rightarrow> nat \<Rightarrow> ('e, 'a) retry_outcome" where
  "retry_spec func N delay n =
     (let i = deciding_call func N n in
      \<lparr>ro_result = func i, ro_calls = Suc i,
       ro_sleeps = concat (replicate (i - n) (retry_pause delay))\<rparr>)"

lemma deciding_call_ok: "is_ok (func n) \<Longrightarrow> n < N \<Longrightarrow> deciding_call func N n = n"
  by (simp add: deciding_call_def upt_rec)

lemma deciding_call_last: "\<not> is_ok (func n) \<Longrightarrow> Suc n = N \<Longrightarrow> deciding_call func N n = n"
  by (auto simp: deciding_call_def upt_rec)

lemma deciding_call_Suc:
  "\<not> is_ok (func n) \<Longrightarrow> Suc n < N \<Longrightarrow> deciding_call func N n = deciding_call func N (Suc n)"
  by (simp add: deciding_call_def upt_rec [of n])

lemma deciding_call_bounds:
  "n < N \<Longrightarrow> n \<le> deciding_call func N n \<and> deciding_call func N n < N"
  by (auto simp: deciding_call_def find_Some_iff split: option.splits)

lemma retry_loop_spec:
  assumes "unat attempt = Suc n" and "n < max 1 (unat retries)"
  shows "retry_loop checks func retries delay attempt n
    = Some (retry_spec func (max 1 (unat retries)) delay n)"
  using assms
proof (induction checks func retries delay attempt n rule: retry_loop.induct)
  case (1 checks func retries delay attempt n)
  let ?N = "max 1 (unat retries)"
  show ?case
  proof (cases "func n")
    case (Inr v)
    then show ?thesis using "1.prems"
      by (simp add: retry_loop.simps [of checks func] retry_spec_def deciding_call_ok)
  next
    case (Inl e)
    show ?thesis
    proof (cases "attempt \<ge> retries")
      case True
      then have "Suc n = ?N" using "1.prems" by (simp add: word_le_nat_alt)
      then show ?thesis using Inl True
        by (simp add: retry_loop.simps [of checks func] retry_spec_def deciding_call_last)
    next
      case False
      then have less: "attempt < retries" by simp
      then have suc: "unat (attempt + 1) = Suc (Suc n)"
        using "1.prems" by (simp add: unat_word_Suc)
      have n: "Suc n < ?N" using less "1.prems" by (simp add: word_less_nat_alt)
      have "unat (attempt + 1) < 2 ^ LENGTH(16)" by (rule unsigned_less)
      then have add: "ar_add checks attempt 1 \<noteq> None"
        using suc "1.prems"(1) by (simp add: ar_add_def)
      have IH: "retry_loop checks func retries delay (attempt + 1) (Suc n)
          = Some (retry_spec func ?N delay (Suc n))"
        using "1.IH" [OF Inl False add suc] n by simp
      have dc: "deciding_call func ?N n = deciding_call func ?N (Suc n)"
        using Inl n by (simp add: deciding_call_Suc)
      moreover have "Suc n \<le> deciding_call func ?N (Suc n)"
        using deciding_call_bounds [OF n] by blast
      ultimately have "deciding_call func ?N n - n = Suc (deciding_call func ?N (Suc n) - Suc n)"
        by simp
      then show ?thesis using Inl False add IH dc
        by (simp add: retry_loop.simps [of checks func] retry_spec_def Let_def)
    qed
  qed
qed

text \<open>C25: \<open>do_with_retry\<close> never panics, whatever the build's overflow checks, and agrees with
  its specification: it returns the first successful result among the first \<open>max 1 retries\<close>
  calls, or the error of the last of them, pausing exactly between the calls it makes.\<close>

theorem do_with_retry_correct:
  "do_with_retry checks func retries delay
     = Some (retry_spec func (max 1 (unat retries)) delay 0)"
  by (simp add: do_with_retry_def retry_loop_spec)

lemma do_with_retry_bounds:
  assumes "do_with_retry checks func retries delay = Some r"
  shows "1 \<le> ro_calls r" and "ro_calls r \<le> max 1 (unat retries)"
    and "sum_list (ro_sleeps r) = (ro_calls r - 1) * delay"
proof -
  let ?N = "max 1 (unat retries)"
  have r: "r = retry_spec func ?N delay 0"
    using assms by (simp add: do_with_retry_def retry_loop_spec)
  have "deciding_call func ?N 0 < ?N" using deciding_call_bounds [of 0 ?N func] by auto
  then show "1 \<le> ro_calls r" "ro_calls r \<le> ?N" using r by (auto simp: retry_spec_def Let_def)
  have "sum_list (concat (replicate k (retry_pause delay))) = k * delay" for k
    by (induction k) (auto simp: retry_pause_def)
  then show "sum_list (ro_sleeps r) = (ro_calls r - 1) * delay"
    using r by (simp add: retry_spec_def Let_def)
qed

end
