(* ===== verification/Executor.thy ===== *)
theory Executor
  imports Drone_Database Net_Text Core_Retry
begin

text \<open>
  The agent's executor (\<open>drone/src/agent/executor.rs\<close> with \<open>engine.rs\<close> and \<open>wait_port_ready\<close> of
  \<open>agent/mod.rs\<close>): the lifecycle of a backend, its interruption by signals and its recording in
  the database and on the message bus.

  The future of \<open>step\<close> is a little machine: \<open>phase\<close> says at which \<open>await\<close> it is suspended,
  \<open>answer\<close> is what the awaited operation resolves to, and \<open>poll_step\<close> runs the source from there to
  the next \<open>await\<close> that observes the outside. Every event of the executor (\<open>exec_event\<close>) is one
  atomic piece of one of its tasks, so that a list of events is an interleaving of all of them:
  the two branches of the \<open>select!\<close> in \<open>run_backend\<close> are the events \<open>EvPoll\<close> and \<open>EvRecv\<close>. A signal
  channel is the queue (of capacity one) of the run that owns the receiver; its sender lives in
  \<open>backend_to_listener\<close> only, so it is dropped when the entry is removed or overwritten.
\<close>

section \<open>Engine, signals and errors\<close>

datatype EngineBackendStatus =
    EngineUnknown
  | EngineRunning SocketAddr
  | EngineExited
  | EngineFailed
  | EngineTerminated

datatype Signal = Interrupt | Terminate

datatype ExecError =
    EngineError string
  | StopError string
  | UriError
  | HttpError string
  | SqlErr SqlError
  | OutOfRange
  | CheckedAddError

text \<open>
  Code outside the repository: the serde encoding of requests, whether sqlite enforces foreign
  keys, the text of IPv6 addresses, the URI parser, the range limits of \<open>chrono\<close>; and whether the
  build checks integer overflow.
\<close>

record drone_ext =
  x_to_json :: "SpawnRequest \<Rightarrow> string"
  x_from_json :: "string \<Rightarrow> SpawnRequest option"
  x_fk :: bool
  x_show_v6 :: "u16 list \<Rightarrow> string"
  x_uri_ok :: "string \<Rightarrow> bool"
  x_max_std :: duration
  x_max_utc :: systime
  x_checks :: bool

section \<open>One step of a backend\<close>

text \<open>\<open>get n\<close> is the outcome of the \<open>n\<close>-th HTTP request to the backend.\<close>

definition ready_uri :: "drone_ext \<Rightarrow> SocketAddr \<Rightarrow> string" where
  "ready_uri x addr =
     ''http://'' @ show_ip (x_show_v6 x) (sa_ip addr) @ '':'' @ show_nat (unat (sa_port addr)) @ ''/''"

definition wait_port_ready ::
  "drone_ext \<Rightarrow> SocketAddr \<Rightarrow> (nat \<Rightarrow> ExecError + unit) \<Rightarrow> (ExecError + unit) panics" where
  "wait_port_ready x addr get =
     (if \<not> x_uri_ok x (ready_uri x addr) then Some (Inl UriError)
      else map_option ro_result (do_with_retry (x_checks x) get 3000 (from_millis 10)))"

datatype idle = IdleOver | IdleSleep duration | IdleError ExecError

text \<open>
  One iteration of the idle loop: \<open>now1\<close> and \<open>now2\<close> are the two readings of the clock. A
  difference that is negative does not convert to a \<open>std::time::Duration\<close>.
\<close>

definition idle_check :: "drone_ext \<Rightarrow> duration \<Rightarrow> systime \<Rightarrow> systime \<Rightarrow> systime \<Rightarrow> idle" where
  "idle_check x max_idle last_active now1 now2 =
     (if max_idle > x_max_std x then IdleError OutOfRange
      else let next_check = last_active + int max_idle in
        if next_check > x_max_utc x then IdleError CheckedAddError
        else if next_check < now1 then IdleOver
        else if next_check - now2 < 0 then IdleError OutOfRange
        else IdleSleep (nat (next_check - now2)))"

datatype phase = AtStart | AwaitPort SocketAddr | AwaitRoute SocketAddr | AwaitIdle

datatype answer =
    ALoad "ExecError + unit"
  | AStatus "ExecError + EngineBackendStatus"
  | AHttp "nat \<Rightarrow> ExecError + unit"
  | ARoute bool int
  | AIdle bool systime systime
  | AStop "ExecError + unit"

datatype progress = Suspend phase | Done "ExecError + BackendState option" | Panicked

text \<open>
  An answer that does not belong to the pending operation leaves the future where it is. The
  flag of \<open>ARoute\<close> and \<open>AIdle\<close> is whether sqlite could execute the statement at all.
\<close>

definition poll_step ::
  "drone_ext \<Rightarrow> SpawnRequest \<Rightarrow> BackendState \<Rightarrow> phase \<Rightarrow> answer \<Rightarrow> DroneDatabase \<Rightarrow> DroneDatabase \<times> progress" where
  "poll_step x spec state ph ans db =
     (case state of
        Loading \<Rightarrow>
          (case (ph, ans) of
             (AtStart, ALoad r) \<Rightarrow> (db, Done (bindR r (\<lambda>_. Inr (Some Starting))))
           | _ \<Rightarrow> (db, Suspend ph))
      | Starting \<Rightarrow>
          (case (ph, ans) of
             (AtStart, AStatus (Inl e)) \<Rightarrow> (db, Done (Inl e))
           | (AtStart, AStatus (Inr (EngineRunning addr))) \<Rightarrow> (db, Suspend (AwaitPort addr))
           | (AtStart, AStatus (Inr _)) \<Rightarrow> (db, Done (Inr (Some ErrorStarting)))
           | (AwaitPort addr, AHttp get) \<Rightarrow>
               (db, case wait_port_ready x addr get of
                      None \<Rightarrow> Panicked
                    | Some (Inl e) \<Rightarrow> Done (Inl e)
                    | Some (Inr _) \<Rightarrow> Suspend (AwaitRoute addr))
           | (AwaitRoute addr, ARoute io now) \<Rightarrow>
               if \<not> io then (db, Done (Inl (SqlErr SqlIo)))
               else (case insert_proxy_route (x_fk x) now (sp_backend_id spec)
                            (backend_id_str (sp_backend_id spec))
                            (show_socket_addr (x_show_v6 x) addr) db of
                       (db', Inl e) \<Rightarrow> (db', Done (Inl (SqlErr e)))
                     | (db', Inr _) \<Rightarrow> (db', Done (Inr (Some Ready))))
           | _ \<Rightarrow> (db, Suspend ph))
      | Ready \<Rightarrow>
          (case (ph, ans) of
             (AtStart, AStatus (Inl e)) \<Rightarrow> (db, Done (Inl e))
           | (AtStart, AStatus (Inr EngineFailed)) \<Rightarrow> (db, Done (Inr (Some Failed)))
           | (AtStart, AStatus (Inr EngineExited)) \<Rightarrow> (db, Done (Inr (Some Exited)))
           | (AtStart, AStatus (Inr EngineTerminated)) \<Rightarrow> (db, Done (Inr (Some Swept)))
           | (AtStart, AStatus (Inr _)) \<Rightarrow> (db, Suspend AwaitIdle)
           | (AwaitIdle, AIdle io now1 now2) \<Rightarrow>
               (db, if \<not> io then Done (Inl (SqlErr SqlIo))
                    else case get_backend_last_active (sp_backend_id spec) db of
                           Inl e \<Rightarrow> Done (Inl (SqlErr e))
                         | Inr last_active \<Rightarrow>
                             (case idle_check x (sp_max_idle_secs spec) last_active now1 now2 of
                                IdleError e \<Rightarrow> Done (Inl e)
                              | IdleOver \<Rightarrow> Done (Inr (Some Swept))
                              | IdleSleep d \<Rightarrow> Suspend AwaitIdle))
           | _ \<Rightarrow> (db, Suspend ph))
      | _ \<Rightarrow>
          (case (ph, ans) of
             (AtStart, AStop (Inl e)) \<Rightarrow> (db, Done (Inl e))
           | (AtStart, AStop (Inr _)) \<Rightarrow> (db, Done (Inr None))
           | _ \<Rightarrow> (db, Suspend ph)))"

text \<open>The whole of \<open>step\<close>, without interruption.\<close>

fun step ::
  "drone_ext \<Rightarrow> SpawnRequest \<Rightarrow> BackendState \<Rightarrow> phase \<Rightarrow> answer list \<Rightarrow> DroneDatabase \<Rightarrow> DroneDatabase \<times> progress" where
  "step x spec state ph [] db = (db, Suspend ph)"
| "step x spec state ph (a # as) db =
     (case poll_step x spec state ph a db of
        (db', Suspend ph') \<Rightarrow> step x spec state ph' as db'
      | (db', p) \<Rightarrow> (db', p))"

section \<open>The executor\<close>

record backend_run =
  r_spec :: SpawnRequest
  r_state :: BackendState
  r_phase :: phase
  r_queue :: "Signal list"
  r_alive :: bool

record executor =
  xc_database :: DroneDatabase
  xc_published :: "BackendStateMessage list"
  xc_runs :: "backend_run list"
  xc_listener :: "BackendId \<rightharpoonup> nat"
  xc_monitor :: "BackendId set"

definition executor_new :: "DroneDatabase \<Rightarrow> executor" where
  "executor_new db = \<lparr>xc_database = db, xc_published = [], xc_runs = [],
     xc_listener = Map.empty, xc_monitor = {}\<rparr>"

text \<open>Whether the database write and the publication of an event succeed, and its clock.\<close>

record io =
  io_db :: bool
  io_nats :: bool
  io_now :: systime

definition run_backend_id :: "backend_run \<Rightarrow> BackendId" where
  "run_backend_id r = sp_backend_id (r_spec r)"

definition upd_run :: "nat \<Rightarrow> (backend_run \<Rightarrow> backend_run) \<Rightarrow> executor \<Rightarrow> executor" where
  "upd_run i f w = w\<lparr>xc_runs := (xc_runs w)[i := f (xc_runs w ! i)]\<rparr>"

definition publish_state :: "io \<Rightarrow> BackendState \<Rightarrow> BackendId \<Rightarrow> executor \<Rightarrow> executor" where
  "publish_state io st b w =
     (if io_nats io
      then w\<lparr>xc_published := xc_published w @ [backend_state_message_new (io_now io) st b]\<rparr> else w)"

definition exec_update_backend_state :: "io \<Rightarrow> BackendId \<Rightarrow> BackendState \<Rightarrow> executor \<Rightarrow> executor" where
  "exec_update_backend_state io b st w =
     publish_state io st b
       (if io_db io then w\<lparr>xc_database := update_backend_state b st (xc_database w)\<rparr> else w)"

text \<open>The start of \<open>run_backend\<close>: a new channel, whose sender replaces the one in the map.\<close>

definition register_run :: "SpawnRequest \<Rightarrow> BackendState \<Rightarrow> executor \<Rightarrow> executor" where
  "register_run spec st w =
     w\<lparr>xc_listener := (xc_listener w)(sp_backend_id spec \<mapsto> length (xc_runs w)),
       xc_runs := xc_runs w @ [\<lparr>r_spec = spec, r_state = st, r_phase = AtStart, r_queue = [], r_alive = True\<rparr>]\<rparr>"

text \<open>The end of \<open>run_backend\<close>.\<close>

definition finish_run :: "nat \<Rightarrow> executor \<Rightarrow> executor" where
  "finish_run i w =
     (let b = run_backend_id (xc_runs w ! i)
      in upd_run i (\<lambda>r. r\<lparr>r_alive := False\<rparr>)
           (w\<lparr>xc_monitor := xc_monitor w - {b}, xc_listener := (xc_listener w)(b := None)\<rparr>))"

definition start_monitor :: "BackendId \<Rightarrow> BackendState \<Rightarrow> executor \<Rightarrow> executor" where
  "start_monitor b st w = (if running st then w\<lparr>xc_monitor := insert b (xc_monitor w)\<rparr> else w)"

definition set_run_state :: "nat \<Rightarrow> BackendState \<Rightarrow> executor \<Rightarrow> executor" where
  "set_run_state i st = upd_run i (\<lambda>r. r\<lparr>r_state := st, r_phase := AtStart\<rparr>)"

text \<open>The \<open>match next_state\<close> of \<open>run_backend\<close>.\<close>

fun handle_next_state :: "io \<Rightarrow> nat \<Rightarrow> ExecError + BackendState option \<Rightarrow> executor \<Rightarrow> executor" where
  "handle_next_state io i (Inr (Some new_state)) w =
     (let b = run_backend_id (xc_runs w ! i)
      in exec_update_backend_state io b new_state (start_monitor b new_state (set_run_state i new_state w)))"
| "handle_next_state io i (Inr None) w = finish_run i w"
| "handle_next_state io i (Inl error) w =
     finish_run i
       (case r_state (xc_runs w ! i) of
          Loading \<Rightarrow> exec_update_backend_state io (run_backend_id (xc_runs w ! i)) ErrorLoading
                       (set_run_state i ErrorLoading w)
        | _ \<Rightarrow> w)"

definition start_backend :: "drone_ext \<Rightarrow> io \<Rightarrow> SpawnRequest \<Rightarrow> executor \<Rightarrow> executor" where
  "start_backend x io spec w =
     register_run spec Loading
       (publish_state io Loading (sp_backend_id spec)
          (if io_db io
           then w\<lparr>xc_database := fst (insert_backend (x_to_json x) spec (xc_database w))\<rparr> else w))"

datatype exec_out =
    OutNone
  | OutInterrupt bool
  | OutKilled
  | OutKillPending
  | OutSendError
  | OutUnknownBackend BackendId
  | OutResume "GetBackendsError + unit"

definition send_signal :: "nat \<Rightarrow> Signal \<Rightarrow> executor \<Rightarrow> executor" where
  "send_signal i sig = upd_run i (\<lambda>r. r\<lparr>r_queue := r_queue r @ [sig]\<rparr>)"

text \<open>\<open>send\<close> waits while the channel is full.\<close>

definition kill_backend :: "TerminationRequest \<Rightarrow> executor \<Rightarrow> executor \<times> exec_out" where
  "kill_backend req w =
     (case xc_listener w (tr_backend_id req) of
        None \<Rightarrow> (w, OutUnknownBackend (tr_backend_id req))
      | Some i \<Rightarrow>
          if \<not> r_alive (xc_runs w ! i) then (w, OutSendError)
          else if r_queue (xc_runs w ! i) \<noteq> [] then (w, OutKillPending)
          else (send_signal i Terminate w, OutKilled))"

definition container_event :: "BackendId \<Rightarrow> executor \<Rightarrow> executor \<times> exec_out" where
  "container_event b w =
     (case xc_listener w b of
        None \<Rightarrow> (w, OutNone)
      | Some i \<Rightarrow>
          if \<not> r_alive (xc_runs w ! i) \<or> r_queue (xc_runs w ! i) \<noteq> [] then (w, OutInterrupt False)
          else (send_signal i Interrupt w, OutInterrupt True))"

definition resume_backend :: "Backend \<Rightarrow> executor \<Rightarrow> executor" where
  "resume_backend bk w =
     register_run (bk_spec bk) (bk_state bk) (start_monitor (bk_backend_id bk) (bk_state bk) w)"

definition resume_backends :: "drone_ext \<Rightarrow> executor \<Rightarrow> executor \<times> exec_out" where
  "resume_backends x w =
     (case get_backends (x_from_json x) (xc_database w) of
        Inl e \<Rightarrow> (w, OutResume (Inl e))
      | Inr backends \<Rightarrow> (fold resume_backend backends w, OutResume (Inr ())))"

text \<open>The \<open>step\<close> branch of the \<open>select!\<close> in \<open>run_backend\<close>, and the loop body after it.\<close>

definition poll_run :: "drone_ext \<Rightarrow> nat \<Rightarrow> answer \<Rightarrow> io \<Rightarrow> executor \<Rightarrow> executor" where
  "poll_run x i ans io w =
     (if i < length (xc_runs w) \<and> r_alive (xc_runs w ! i)
      then (let r = xc_runs w ! i in
            case poll_step x (r_spec r) (r_state r) (r_phase r) ans (xc_database w) of
              (db, Suspend ph) \<Rightarrow> upd_run i (\<lambda>r. r\<lparr>r_phase := ph\<rparr>) (w\<lparr>xc_database := db\<rparr>)
            | (db, Done next_state) \<Rightarrow> handle_next_state io i next_state (w\<lparr>xc_database := db\<rparr>)
            | (db, Panicked) \<Rightarrow> upd_run i (\<lambda>r. r\<lparr>r_alive := False\<rparr>) (w\<lparr>xc_database := db\<rparr>))
      else w)"

text \<open>
  The \<open>recv\<close> branch: nothing is received in \<open>Swept\<close>; an interrupt restarts the step; when the
  sender was dropped and the queue is empty, \<open>run_backend\<close> returns at once.
\<close>

definition recv_run :: "nat \<Rightarrow> io \<Rightarrow> executor \<Rightarrow> executor" where
  "recv_run i io w =
     (if i < length (xc_runs w) \<and> r_alive (xc_runs w ! i) \<and> r_state (xc_runs w ! i) \<noteq> Swept
      then (case r_queue (xc_runs w ! i) of
              Interrupt # q \<Rightarrow> upd_run i (\<lambda>r. r\<lparr>r_queue := q, r_phase := AtStart\<rparr>) w
            | Terminate # q \<Rightarrow>
                handle_next_state io i (Inr (Some Terminated)) (upd_run i (\<lambda>r. r\<lparr>r_queue := q\<rparr>) w)
            | [] \<Rightarrow> if xc_listener w (run_backend_id (xc_runs w ! i)) = Some i then w
                     else upd_run i (\<lambda>r. r\<lparr>r_alive := False\<rparr>) w)
      else w)"

text \<open>\<open>EvTouch\<close> is the write of the proxy's connection recorder, which shares the database.\<close>

datatype exec_event =
    EvSpawn SpawnRequest io
  | EvResume
  | EvKill TerminationRequest
  | EvContainer BackendId
  | EvPoll nat answer io
  | EvRecv nat io
  | EvTouch "(string \<times> int) list"

fun exec_step :: "drone_ext \<Rightarrow> exec_event \<Rightarrow> executor \<Rightarrow> executor \<times> exec_out" where
  "exec_step x (EvSpawn spec io) w = (start_backend x io spec w, OutNone)"
| "exec_step x EvResume w = resume_backends x w"
| "exec_step x (EvKill req) w = kill_backend req w"
| "exec_step x (EvContainer b) w = container_event b w"
| "exec_step x (EvPoll i ans io) w = (poll_run x i ans io w, OutNone)"
| "exec_step x (EvRecv i io) w = (recv_run i io w, OutNone)"
| "exec_step x (EvTouch subs) w =
     (w\<lparr>xc_database := reset_last_active_times subs (xc_database w)\<rparr>, OutNone)"

fun exec_run :: "drone_ext \<Rightarrow> exec_event list \<Rightarrow> executor \<Rightarrow> executor" where
  "exec_run x [] w = w"
| "exec_run x (e # es) w = exec_run x es (fst (exec_step x e w))"

section \<open>Specification of the lifecycle\<close>

inductive lifecycle :: "BackendState \<Rightarrow> BackendState \<Rightarrow> bool" where
  loaded: "lifecycle Loading Starting"
| load_failed: "lifecycle Loading ErrorLoading"
| not_running: "lifecycle Starting ErrorStarting"
| started: "lifecycle Starting Ready"
| failed: "lifecycle Ready Failed"
| exited: "lifecycle Ready Exited"
| swept: "lifecycle Ready Swept"
| killed: "s \<noteq> Swept \<Longrightarrow> lifecycle s Terminated"

declare lifecycle.intros [intro]

inductive_cases lifecycle_toE: "lifecycle s TimedOutBeforeReady" "lifecycle s Loading"
inductive_cases lifecycle_fromE: "lifecycle Swept s"
inductive_simps lifecycle_Ready: "lifecycle s Ready"

lemma state_rank_le: "state_rank s \<le> 9"
  by (cases s) simp_all

lemma lifecycle_le: "lifecycle s t \<Longrightarrow> s \<le> t"
  by (induction rule: lifecycle.induct) (auto simp: state_order_defs intro: state_rank_le)

lemma lifecycle_star_le: "lifecycle\<^sup>*\<^sup>* s t \<Longrightarrow> s \<le> t"
  by (induction rule: rtranclp_induct) (auto dest: lifecycle_le)

lemma lifecycle_star_Swept: "lifecycle\<^sup>*\<^sup>* Swept t \<Longrightarrow> t = Swept"
  by (induction rule: rtranclp_induct) (auto elim: lifecycle_fromE)

lemma lifecycle_star_to:
  "lifecycle\<^sup>*\<^sup>* s TimedOutBeforeReady \<Longrightarrow> s = TimedOutBeforeReady"
  by (erule rtranclp.cases) (auto elim: lifecycle_toE)

lemma lifecycle_terminal: "lifecycle s t \<Longrightarrow> terminal s \<Longrightarrow> t = Terminated"
  by (induction rule: lifecycle.induct) auto

lemma poll_step_lifecycle:
  "poll_step x spec st ph ans db = (db', Done (Inr (Some st'))) \<Longrightarrow> lifecycle st st'"
  unfolding poll_step_def
  by (auto simp: bindR_Inr_iff
      split: BackendState.splits phase.splits answer.splits sum.splits EngineBackendStatus.splits
        option.splits if_splits prod.splits idle.splits)

section \<open>Frame lemmas\<close>

lemma upd_run_simps [simp]:
  "xc_database (upd_run i f w) = xc_database w"
  "xc_published (upd_run i f w) = xc_published w"
  "xc_listener (upd_run i f w) = xc_listener w"
  "xc_monitor (upd_run i f w) = xc_monitor w"
  "length (xc_runs (upd_run i f w)) = length (xc_runs w)"
  by (simp_all add: upd_run_def)

lemma upd_run_nth:
  "j < length (xc_runs w) \<Longrightarrow>
   xc_runs (upd_run i f w) ! j = (if i = j then f (xc_runs w ! j) else xc_runs w ! j)"
  by (simp add: upd_run_def nth_list_update)

lemma publish_state_simps [simp]:
  "xc_database (publish_state io st b w) = xc_database w"
  "xc_runs (publish_state io st b w) = xc_runs w"
  "xc_listener (publish_state io st b w) = xc_listener w"
  "xc_monitor (publish_state io st b w) = xc_monitor w"
  by (simp_all add: publish_state_def)

lemma exec_update_simps [simp]:
  "xc_runs (exec_update_backend_state io b st w) = xc_runs w"
  "xc_listener (exec_update_backend_state io b st w) = xc_listener w"
  "xc_monitor (exec_update_backend_state io b st w) = xc_monitor w"
  by (simp_all add: exec_update_backend_state_def)

lemma start_monitor_simps [simp]:
  "xc_database (start_monitor b st w) = xc_database w"
  "xc_published (start_monitor b st w) = xc_published w"
  "xc_runs (start_monitor b st w) = xc_runs w"
  "xc_listener (start_monitor b st w) = xc_listener w"
  by (simp_all add: start_monitor_def)

lemma finish_run_simps [simp]:
  "xc_database (finish_run i w) = xc_database w"
  "xc_published (finish_run i w) = xc_published w"
  "xc_listener (finish_run i w) = (xc_listener w)(run_backend_id (xc_runs w ! i) := None)"
  "xc_monitor (finish_run i w) = xc_monitor w - {run_backend_id (xc_runs w ! i)}"
  "length (xc_runs (finish_run i w)) = length (xc_runs w)"
  by (simp_all add: finish_run_def Let_def)

lemma finish_run_nth:
  "j < length (xc_runs w) \<Longrightarrow>
   xc_runs (finish_run i w) ! j = (if i = j then (xc_runs w ! j)\<lparr>r_alive := False\<rparr> else xc_runs w ! j)"
  by (simp add: finish_run_def Let_def upd_run_nth)

lemma set_run_state_simps [simp]:
  "xc_database (set_run_state i st w) = xc_database w"
  "xc_published (set_run_state i st w) = xc_published w"
  "xc_listener (set_run_state i st w) = xc_listener w"
  "xc_monitor (set_run_state i st w) = xc_monitor w"
  "length (xc_runs (set_run_state i st w)) = length (xc_runs w)"
  by (simp_all add: set_run_state_def)

lemma set_run_state_nth:
  "j < length (xc_runs w) \<Longrightarrow>
   xc_runs (set_run_state i st w) ! j =
     (if i = j then (xc_runs w ! j)\<lparr>r_state := st, r_phase := AtStart\<rparr> else xc_runs w ! j)"
  by (simp add: set_run_state_def upd_run_nth)

lemma run_backend_id_simps [simp]:
  "run_backend_id (r\<lparr>r_state := s\<rparr>) = run_backend_id r"
  "run_backend_id (r\<lparr>r_phase := ph\<rparr>) = run_backend_id r"
  "run_backend_id (r\<lparr>r_queue := q\<rparr>) = run_backend_id r"
  "run_backend_id (r\<lparr>r_alive := a\<rparr>) = run_backend_id r"
  by (simp_all add: run_backend_id_def)

lemmas run_nths = upd_run_nth finish_run_nth set_run_state_nth

section \<open>Runs only move forward\<close>

definition run_le :: "backend_run \<Rightarrow> backend_run \<Rightarrow> bool" where
  "run_le r r' \<longleftrightarrow> r_spec r' = r_spec r \<and> lifecycle\<^sup>*\<^sup>* (r_state r) (r_state r') \<and> (\<not> r_alive r \<longrightarrow> r' = r)"

definition runs_le :: "executor \<Rightarrow> executor \<Rightarrow> bool" where
  "runs_le w w' \<longleftrightarrow> length (xc_runs w) \<le> length (xc_runs w') \<and>
     (\<forall>i < length (xc_runs w). run_le (xc_runs w ! i) (xc_runs w' ! i))"

lemma run_le_refl [simp]: "run_le r r"
  by (simp add: run_le_def)

lemma runs_le_refl [simp]: "runs_le w w"
  by (simp add: runs_le_def)

lemma runs_le_trans [trans]: "runs_le u v \<Longrightarrow> runs_le v w \<Longrightarrow> runs_le u w"
  unfolding runs_le_def run_le_def by (metis (no_types, lifting) order_trans order_less_le_trans rtranclp_trans)

lemma runs_le_same: "xc_runs w = xc_runs w' \<Longrightarrow> runs_le w w'"
  by (simp add: runs_le_def)

lemma runs_le_one:
  assumes "length (xc_runs w') = length (xc_runs w)"
    and "\<And>j. j < length (xc_runs w) \<Longrightarrow> j \<noteq> i \<Longrightarrow> xc_runs w' ! j = xc_runs w ! j"
    and "i < length (xc_runs w) \<Longrightarrow> run_le (xc_runs w ! i) (xc_runs w' ! i)"
  shows "runs_le w w'"
  using assms by (auto simp: runs_le_def) (metis run_le_refl)

lemma runs_le_handle:
  assumes "r_alive (xc_runs w ! i)"
    and "\<And>st. next = Inr (Some st) \<Longrightarrow> lifecycle (r_state (xc_runs w ! i)) st"
  shows "runs_le w (handle_next_state io i next w)"
proof (cases "next")
  case (Inl e)
  then show ?thesis using assms
    by (intro runs_le_one [where i = i]) (auto simp: run_nths run_le_def split: BackendState.splits)
next
  case (Inr o')
  then show ?thesis using assms
    by (cases o') (auto intro!: runs_le_one [where i = i] simp: run_nths run_le_def Let_def)
qed

lemma runs_le_poll: "runs_le w (poll_run x i ans io w)"
proof (cases "i < length (xc_runs w) \<and> r_alive (xc_runs w ! i)")
  case True
  let ?r = "xc_runs w ! i"
  obtain db p where p: "poll_step x (r_spec ?r) (r_state ?r) (r_phase ?r) ans (xc_database w) = (db, p)"
    by (cases "poll_step x (r_spec ?r) (r_state ?r) (r_phase ?r) ans (xc_database w)")
  show ?thesis
  proof (cases p)
    case (Done nx)
    have "runs_le (w\<lparr>xc_database := db\<rparr>) (handle_next_state io i nx (w\<lparr>xc_database := db\<rparr>))"
      using True p Done poll_step_lifecycle by (intro runs_le_handle) auto
    moreover have "runs_le w (w\<lparr>xc_database := db\<rparr>)" by (simp add: runs_le_same)
    ultimately show ?thesis using True p Done by (auto simp: poll_run_def intro: runs_le_trans)
  qed (use True p in \<open>auto simp: poll_run_def run_nths run_le_def intro!: runs_le_one [where i = i]\<close>)
qed (auto simp: poll_run_def)

lemma runs_le_upd:
  "(i < length (xc_runs w) \<Longrightarrow> run_le (xc_runs w ! i) (f (xc_runs w ! i))) \<Longrightarrow> runs_le w (upd_run i f w)"
  by (rule runs_le_one [where i = i]) (auto simp: run_nths)

lemma runs_le_recv: "runs_le w (recv_run i io w)"
proof (cases "r_queue (xc_runs w ! i)")
  case Nil
  then show ?thesis by (auto simp: recv_run_def run_le_def intro!: runs_le_upd)
next
  case (Cons sig q)
  show ?thesis
  proof (cases "i < length (xc_runs w) \<and> r_alive (xc_runs w ! i) \<and> r_state (xc_runs w ! i) \<noteq> Swept")
    case True
    let ?w = "upd_run i (\<lambda>r. r\<lparr>r_queue := q\<rparr>) w"
    have "runs_le w ?w" using True by (intro runs_le_upd) (auto simp: run_le_def)
    moreover have "runs_le ?w (handle_next_state io i (Inr (Some Terminated)) ?w)"
      using True by (intro runs_le_handle) (auto simp: run_nths)
    ultimately show ?thesis using True Cons
      by (cases sig) (auto simp: recv_run_def run_le_def intro!: runs_le_upd intro: runs_le_trans)
  qed (auto simp: recv_run_def)
qed

lemma runs_le_register: "runs_le w (register_run spec st w)"
  by (auto simp: runs_le_def register_run_def nth_append)

lemma runs_le_resume: "runs_le w (fold resume_backend bs w)"
proof (induction bs arbitrary: w)
  case (Cons b bs)
  have "runs_le w (resume_backend b w)"
    unfolding resume_backend_def
    by (rule runs_le_trans [OF runs_le_same runs_le_register]) simp
  then show ?case using Cons.IH [of "resume_backend b w"] runs_le_trans by fastforce
qed simp

lemma runs_le_step: "runs_le w (fst (exec_step x e w))"
proof (cases e)
  case (EvSpawn spec io)
  show ?thesis unfolding EvSpawn exec_step.simps fst_conv start_backend_def
    by (rule runs_le_trans [OF runs_le_same runs_le_register]) simp
next
  case (EvKill req)
  then show ?thesis
    by (auto simp: kill_backend_def send_signal_def run_le_def split: option.splits intro!: runs_le_upd)
next
  case (EvContainer b)
  then show ?thesis
    by (auto simp: container_event_def send_signal_def run_le_def split: option.splits intro!: runs_le_upd)
next
  case EvResume
  then show ?thesis by (auto simp: resume_backends_def runs_le_resume split: sum.splits)
qed (auto simp: runs_le_poll runs_le_recv runs_le_same)

lemma runs_le_run: "runs_le w (exec_run x es w)"
proof (induction es arbitrary: w)
  case (Cons e es)
  show ?case using runs_le_trans [OF runs_le_step Cons.IH] by simp
qed simp

section \<open>Registration of runs\<close>

lemma wait_port_ready_total:
  "wait_port_ready x addr get =
     Some (if x_uri_ok x (ready_uri x addr)
           then ro_result (retry_spec get 3000 (from_millis 10) 0) else Inl UriError)"
  by (simp add: wait_port_ready_def do_with_retry_def retry_loop_spec)

lemma poll_step_no_panic: "snd (poll_step x spec st ph ans db) \<noteq> Panicked"
  unfolding poll_step_def
  by (auto simp: wait_port_ready_total
      split: BackendState.splits phase.splits answer.splits sum.splits EngineBackendStatus.splits
        option.splits if_splits prod.splits idle.splits)

text \<open>A sender in the map belongs to a live run of that backend, and no channel holds more than
  its capacity.\<close>

definition listeners_ok :: "executor \<Rightarrow> bool" where
  "listeners_ok w \<longleftrightarrow>
     (\<forall>b i. xc_listener w b = Some i \<longrightarrow>
        i < length (xc_runs w) \<and> run_backend_id (xc_runs w ! i) = b \<and> r_alive (xc_runs w ! i)) \<and>
     (\<forall>i < length (xc_runs w). length (r_queue (xc_runs w ! i)) \<le> 1)"

lemma listeners_okD:
  assumes "listeners_ok w" and "xc_listener w b = Some i"
  shows "i < length (xc_runs w)" "run_backend_id (xc_runs w ! i) = b" "r_alive (xc_runs w ! i)"
  using assms by (auto simp: listeners_ok_def)

lemma listeners_ok_finish: "listeners_ok w \<Longrightarrow> listeners_ok (finish_run i w)"
  unfolding listeners_ok_def by (auto simp: run_nths)

lemma listeners_ok_upd:
  assumes "listeners_ok w"
    and "\<And>r. run_backend_id (f r) = run_backend_id r"
    and "i < length (xc_runs w) \<Longrightarrow> length (r_queue (f (xc_runs w ! i))) \<le> 1"
    and "\<And>b. xc_listener w b = Some i \<Longrightarrow> r_alive (f (xc_runs w ! i))"
  shows "listeners_ok (upd_run i f w)"
  using assms unfolding listeners_ok_def by (auto simp: run_nths)

lemma listeners_ok_cong:
  "xc_runs w = xc_runs w' \<Longrightarrow> xc_listener w = xc_listener w' \<Longrightarrow> listeners_ok w \<Longrightarrow> listeners_ok w'"
  by (simp add: listeners_ok_def)

lemma listeners_ok_set_state: "listeners_ok w \<Longrightarrow> listeners_ok (set_run_state i st w)"
  unfolding set_run_state_def by (rule listeners_ok_upd) (auto simp: listeners_ok_def)

lemma listeners_ok_enter:
  assumes "listeners_ok w"
  shows "listeners_ok (exec_update_backend_state io b st (start_monitor b st (set_run_state i st w)))"
  by (rule listeners_ok_cong [OF _ _ listeners_ok_set_state [OF assms, of i st]]) simp_all

lemma listeners_ok_handle:
  assumes "listeners_ok w"
  shows "listeners_ok (handle_next_state io i next w)"
proof -
  have "listeners_ok (exec_update_backend_state io b st (set_run_state i st w))" for b st
    by (rule listeners_ok_cong [OF _ _ listeners_ok_set_state [OF assms, of i st]]) simp_all
  then show ?thesis
    using assms by (cases "(io, i, next, w)" rule: handle_next_state.cases)
      (auto simp: Let_def listeners_ok_enter intro: listeners_ok_finish split: BackendState.splits)
qed

lemma listeners_ok_register: "listeners_ok w \<Longrightarrow> listeners_ok (register_run spec st w)"
  unfolding listeners_ok_def register_run_def
  by (auto simp: nth_append run_backend_id_def less_Suc_eq)

lemma listeners_ok_poll:
  assumes "listeners_ok w"
  shows "listeners_ok (poll_run x i ans io w)"
proof -
  have db: "listeners_ok (w\<lparr>xc_database := db\<rparr>)" for db
    by (rule listeners_ok_cong [OF _ _ assms]) simp_all
  have suspend: "listeners_ok (upd_run i (\<lambda>r. r\<lparr>r_phase := ph\<rparr>) (w\<lparr>xc_database := db\<rparr>))"
    if "i < length (xc_runs w)" "r_alive (xc_runs w ! i)" for ph db
    using that assms by (intro listeners_ok_upd [OF db]) (auto simp: listeners_ok_def)
  let ?r = "xc_runs w ! i"
  show ?thesis
    using suspend listeners_ok_handle [OF db]
      poll_step_no_panic [of x "r_spec ?r" "r_state ?r" "r_phase ?r" ans "xc_database w"]
    by (auto simp: poll_run_def Let_def assms split: prod.splits progress.splits)
qed

lemma listeners_ok_recv:
  assumes "listeners_ok w"
  shows "listeners_ok (recv_run i io w)"
proof (cases "i < length (xc_runs w) \<and> r_alive (xc_runs w ! i) \<and> r_state (xc_runs w ! i) \<noteq> Swept")
  case True
  then have len: "length (r_queue (xc_runs w ! i)) \<le> 1" using assms by (simp add: listeners_ok_def)
  show ?thesis
  proof (cases "r_queue (xc_runs w ! i)")
    case Nil
    then show ?thesis using True assms listeners_okD(2) [OF assms]
      by (auto simp: recv_run_def intro!: listeners_ok_upd)
  next
    case (Cons sig q)
    then have "listeners_ok (upd_run i (\<lambda>r. r\<lparr>r_queue := q\<rparr>) w)"
      "listeners_ok (upd_run i (\<lambda>r. r\<lparr>r_queue := q, r_phase := AtStart\<rparr>) w)"
      using True len assms by (auto intro!: listeners_ok_upd)
    then show ?thesis using True Cons listeners_ok_handle
      by (cases sig) (simp_all add: recv_run_def del: handle_next_state.simps)
  qed
qed (use assms in \<open>auto simp: recv_run_def\<close>)

lemma listeners_ok_send:
  assumes "listeners_ok w" and "r_queue (xc_runs w ! i) = []" and "r_alive (xc_runs w ! i)"
  shows "listeners_ok (send_signal i sig w)"
  unfolding send_signal_def using assms by (intro listeners_ok_upd) auto

lemma listeners_ok_resume: "listeners_ok w \<Longrightarrow> listeners_ok (fold resume_backend bs w)"
proof (induction bs arbitrary: w)
  case (Cons bk bs)
  have "listeners_ok (start_monitor (bk_backend_id bk) (bk_state bk) w)"
    by (rule listeners_ok_cong [OF _ _ Cons.prems]) simp_all
  then show ?case using Cons.IH by (simp add: resume_backend_def listeners_ok_register)
qed simp

lemma listeners_ok_step:
  assumes "listeners_ok w"
  shows "listeners_ok (fst (exec_step x e w))"
proof (cases e)
  case (EvSpawn spec io)
  show ?thesis unfolding EvSpawn exec_step.simps fst_conv start_backend_def
    by (intro listeners_ok_register listeners_ok_cong [OF _ _ assms]) simp_all
next
  case EvResume
  then show ?thesis using assms by (auto simp: resume_backends_def listeners_ok_resume split: sum.splits)
next
  case (EvTouch subs)
  then show ?thesis using listeners_ok_cong [OF _ _ assms] by simp
qed (use assms in \<open>auto simp: kill_backend_def container_event_def listeners_ok_send
    listeners_ok_poll listeners_ok_recv split: option.splits\<close>)

lemma listeners_ok_run: "listeners_ok w \<Longrightarrow> listeners_ok (exec_run x es w)"
  by (induction es arbitrary: w) (simp_all add: listeners_ok_step)

lemma listeners_ok_new: "listeners_ok (executor_new db)"
  by (simp add: listeners_ok_def executor_new_def)

section \<open>What the database and the bus record\<close>

definition db_state :: "executor \<Rightarrow> BackendId \<Rightarrow> string option" where
  "db_state w b = map_option br_state (backend_row (xc_database w) (backend_id_str b))"

definition history :: "executor \<Rightarrow> BackendId \<Rightarrow> BackendState list" where
  "history w b = map bm_state (filter (\<lambda>m. bm_backend m = b) (xc_published w))"

definition history_ok :: "BackendState list \<Rightarrow> BackendState \<Rightarrow> bool" where
  "history_ok h st \<longleftrightarrow> h \<noteq> [] \<and> hd h = Loading \<and> last h = st \<and> successively lifecycle h"

text \<open>The state of every run is the one in the database and the last one published; a live run
  can be reached through the map of listeners.\<close>

definition recorded :: "executor \<Rightarrow> bool" where
  "recorded w \<longleftrightarrow>
     distinct (map run_backend_id (xc_runs w)) \<and>
     db_names (xc_database w) = backend_id_str ` run_backend_id ` set (xc_runs w) \<and>
     (\<forall>m \<in> set (xc_published w). bm_backend m \<in> run_backend_id ` set (xc_runs w)) \<and>
     (\<forall>i < length (xc_runs w).
        (let r = xc_runs w ! i; b = run_backend_id r in
         db_state w b = Some (state_to_string (r_state r)) \<and>
         history_ok (history w b) (r_state r) \<and>
         (r_alive r \<longrightarrow> xc_listener w b = Some i)))"

lemma recordedD:
  assumes "recorded w" and "i < length (xc_runs w)"
  shows "db_state w (run_backend_id (xc_runs w ! i)) = Some (state_to_string (r_state (xc_runs w ! i)))"
    and "history_ok (history w (run_backend_id (xc_runs w ! i))) (r_state (xc_runs w ! i))"
    and "r_alive (xc_runs w ! i) \<Longrightarrow> xc_listener w (run_backend_id (xc_runs w ! i)) = Some i"
  using assms by (auto simp: recorded_def Let_def)

lemma recorded_inj:
  assumes "recorded w" and "i < length (xc_runs w)" and "j < length (xc_runs w)"
    and "run_backend_id (xc_runs w ! i) = run_backend_id (xc_runs w ! j)"
  shows "i = j"
  using assms by (auto simp: recorded_def distinct_conv_nth)

lemma history_snoc:
  "history_ok h st \<Longrightarrow> lifecycle st st' \<Longrightarrow> history_ok (h @ [st']) st'"
  by (auto simp: history_ok_def successively_append_iff)

text \<open>Changes of a run that keep its identity and state, and changes of the routes.\<close>

lemma recorded_upd:
  assumes "recorded w"
    and "\<And>r. run_backend_id (f r) = run_backend_id r" and "\<And>r. r_state (f r) = r_state r"
    and "\<And>r. r_alive (f r) \<Longrightarrow> r_alive r"
  shows "recorded (upd_run i f w)"
proof -
  have ids: "map run_backend_id (xc_runs (upd_run i f w)) = map run_backend_id (xc_runs w)"
    using assms(2) by (intro nth_equalityI) (simp_all add: run_nths)
  then have "run_backend_id ` set (xc_runs (upd_run i f w)) = run_backend_id ` set (xc_runs w)"
    by (metis list.set_map)
  then show ?thesis using assms ids
    by (auto simp: recorded_def Let_def run_nths db_state_def history_def)
qed

lemma recorded_db:
  assumes "recorded w" and "db_backend db = db_backend (xc_database w)"
  shows "recorded (w\<lparr>xc_database := db\<rparr>)"
  using assms backend_row_cong [OF assms(2)]
  by (simp add: recorded_def db_names_def db_state_def history_def)

lemma recorded_finish:
  assumes "recorded w" and "i < length (xc_runs w)"
  shows "recorded (finish_run i w)"
proof -
  let ?b = "run_backend_id (xc_runs w ! i)"
  have "recorded (upd_run i (\<lambda>r. r\<lparr>r_alive := False\<rparr>) w)"
    using assms(1) by (rule recorded_upd) auto
  moreover have "xc_runs (finish_run i w) = xc_runs (upd_run i (\<lambda>r. r\<lparr>r_alive := False\<rparr>) w)"
    by (simp add: finish_run_def Let_def upd_run_def)
  moreover have "run_backend_id (xc_runs w ! j) = ?b \<Longrightarrow> j < length (xc_runs w) \<Longrightarrow> j = i" for j
    using recorded_inj [OF assms(1)] assms(2) by blast
  ultimately show ?thesis
    by (auto simp: recorded_def Let_def db_state_def history_def run_nths split: if_splits)
qed

lemma io_update:
  assumes "io_db io" and "io_nats io"
  shows "history (exec_update_backend_state io b st w) c = history w c @ (if b = c then [st] else [])"
    and "db_state (exec_update_backend_state io b st w) c =
      (if b = c then map_option (\<lambda>_. state_to_string st) (db_state w c) else db_state w c)"
    and "db_names (xc_database (exec_update_backend_state io b st w)) = db_names (xc_database w)"
    and "bm_backend ` set (xc_published (exec_update_backend_state io b st w))
      = insert b (bm_backend ` set (xc_published w))"
  using assms
  by (auto simp: exec_update_backend_state_def publish_state_def history_def db_state_def
      backend_state_message_new_def backend_row_update option.map_comp comp_def db_names_update)

lemma set_state_ids:
  "map run_backend_id (xc_runs (set_run_state i st w)) = map run_backend_id (xc_runs w)"
  by (intro nth_equalityI) (simp_all add: run_nths)

lemma recorded_enter:
  assumes rec: "recorded w" and i: "i < length (xc_runs w)"
    and lc: "lifecycle (r_state (xc_runs w ! i)) st" and io: "io_db io" "io_nats io"
  defines "b \<equiv> run_backend_id (xc_runs w ! i)"
  defines "w' \<equiv> exec_update_backend_state io b st (set_run_state i st w)"
  shows "recorded w'"
proof -
  have runs: "xc_runs w' = xc_runs (set_run_state i st w)" by (simp add: w'_def)
  have ids: "map run_backend_id (xc_runs w') = map run_backend_id (xc_runs w)"
    unfolding runs by (rule set_state_ids)
  then have idset: "run_backend_id ` set (xc_runs w') = run_backend_id ` set (xc_runs w)"
    by (metis list.set_map)
  have frame: "history (set_run_state i st w) = history w" "db_state (set_run_state i st w) = db_state w"
    by (simp_all add: history_def db_state_def fun_eq_iff)
  have pub: "bm_backend ` set (xc_published w') \<subseteq> run_backend_id ` set (xc_runs w')"
    using rec i unfolding w'_def io_update(4) [OF io] idset [unfolded w'_def]
    by (auto simp: recorded_def b_def)
  have "db_state w' (run_backend_id (xc_runs w' ! j)) = Some (state_to_string (r_state (xc_runs w' ! j))) \<and>
      history_ok (history w' (run_backend_id (xc_runs w' ! j))) (r_state (xc_runs w' ! j)) \<and>
      (r_alive (xc_runs w' ! j) \<longrightarrow> xc_listener w' (run_backend_id (xc_runs w' ! j)) = Some j)"
    if "j < length (xc_runs w')" for j
  proof -
    have j: "j < length (xc_runs w)" using that by (simp add: runs)
    have "b \<noteq> run_backend_id (xc_runs w ! j)" if "j \<noteq> i"
      using recorded_inj [OF rec i j] that by (auto simp: b_def)
    then show ?thesis
      using recordedD [OF rec j] recordedD(1,2) [OF rec i] history_snoc [OF _ lc] j
      unfolding runs w'_def io_update(1,2) [OF io] frame
      by (cases "j = i") (auto simp: run_nths b_def)
  qed
  moreover have "db_names (xc_database w') = backend_id_str ` run_backend_id ` set (xc_runs w')"
    using rec idset by (simp add: recorded_def w'_def io_update(3) [OF io])
  ultimately show ?thesis using ids pub rec
    by (simp add: recorded_def Let_def image_subset_iff)
qed

lemma recorded_monitor [simp]: "recorded (w\<lparr>xc_monitor := m\<rparr>) \<longleftrightarrow> recorded w"
  by (simp add: recorded_def db_state_def history_def)

lemma exec_update_monitor:
  "exec_update_backend_state io b st (start_monitor c st' w) =
     (exec_update_backend_state io b st w)\<lparr>xc_monitor := xc_monitor (start_monitor c st' w)\<rparr>"
  by (simp add: exec_update_backend_state_def publish_state_def start_monitor_def)

lemma recorded_handle:
  assumes "recorded w" and "i < length (xc_runs w)" and "io_db io" and "io_nats io"
    and "\<And>st. next = Inr (Some st) \<Longrightarrow> lifecycle (r_state (xc_runs w ! i)) st"
  shows "recorded (handle_next_state io i next w)"
proof (cases "next")
  case (Inl e)
  show ?thesis
  proof (cases "r_state (xc_runs w ! i) = Loading")
    case True
    then have "lifecycle (r_state (xc_runs w ! i)) ErrorLoading" by auto
    from recorded_enter [OF assms(1,2) this assms(3,4)] show ?thesis
      using Inl True assms(2) by (auto intro: recorded_finish)
  qed (use Inl assms in \<open>auto intro: recorded_finish split: BackendState.splits\<close>)
next
  case (Inr v)
  then show ?thesis using assms recorded_enter [OF assms(1,2) _ assms(3,4)]
    by (cases v) (auto simp: Let_def exec_update_monitor intro: recorded_finish)
qed

lemma insert_route_backends: "db_backend (fst (insert_proxy_route fk now b sub addr db)) = db_backend db"
  by (simp add: insert_proxy_route_def Let_def)

lemma poll_step_backends: "db_backend (fst (poll_step x spec st ph ans db)) = db_backend db"
proof -
  have "insert_proxy_route fk now b sub addr db = (db', v) \<Longrightarrow> db_backend db' = db_backend db" for fk now b sub addr db' v
    by (metis fst_conv insert_route_backends)
  then show ?thesis
    unfolding poll_step_def
    by (auto split: BackendState.splits phase.splits answer.splits sum.splits EngineBackendStatus.splits
        option.splits if_splits prod.splits idle.splits)
qed

lemma recorded_poll:
  assumes "recorded w" and "io_db io" and "io_nats io"
  shows "recorded (poll_run x i ans io w)"
proof (cases "i < length (xc_runs w) \<and> r_alive (xc_runs w ! i)")
  case True
  let ?r = "xc_runs w ! i"
  obtain db p where p: "poll_step x (r_spec ?r) (r_state ?r) (r_phase ?r) ans (xc_database w) = (db, p)"
    by (cases "poll_step x (r_spec ?r) (r_state ?r) (r_phase ?r) ans (xc_database w)")
  then have rec: "recorded (w\<lparr>xc_database := db\<rparr>)"
    using poll_step_backends [of x "r_spec ?r" "r_state ?r" "r_phase ?r" ans "xc_database w"]
    by (intro recorded_db [OF assms(1)]) simp
  show ?thesis
  proof (cases p)
    case (Done nx)
    have "recorded (handle_next_state io i nx (w\<lparr>xc_database := db\<rparr>))"
      using True p Done poll_step_lifecycle by (intro recorded_handle [OF rec] assms) auto
    then show ?thesis using True p Done by (simp add: poll_run_def)
  qed (use True p rec in \<open>auto simp: poll_run_def intro!: recorded_upd\<close>)
qed (use assms in \<open>auto simp: poll_run_def\<close>)

lemma recorded_recv:
  assumes "recorded w" and "io_db io" and "io_nats io"
  shows "recorded (recv_run i io w)"
proof (cases "i < length (xc_runs w) \<and> r_alive (xc_runs w ! i) \<and> r_state (xc_runs w ! i) \<noteq> Swept")
  case True
  show ?thesis
  proof (cases "r_queue (xc_runs w ! i)")
    case Nil
    then show ?thesis using True assms(1) by (auto simp: recv_run_def intro!: recorded_upd)
  next
    case (Cons sig q)
    have rec: "recorded (upd_run i (\<lambda>r. r\<lparr>r_queue := q\<rparr>) w)" using assms(1) by (rule recorded_upd) auto
    have "recorded (handle_next_state io i (Inr (Some Terminated)) (upd_run i (\<lambda>r. r\<lparr>r_queue := q\<rparr>) w))"
      using True by (intro recorded_handle [OF rec] assms) (auto simp: run_nths)
    then show ?thesis using True Cons assms(1)
      by (cases sig) (auto simp: recv_run_def simp del: handle_next_state.simps intro!: recorded_upd)
  qed
qed (use assms in \<open>auto simp: recv_run_def\<close>)

lemma recorded_send: "recorded w \<Longrightarrow> recorded (send_signal i sig w)"
  unfolding send_signal_def by (rule recorded_upd) auto

lemma recorded_spawn:
  assumes rec: "recorded w" and fresh: "sp_backend_id spec \<notin> run_backend_id ` set (xc_runs w)"
    and io: "io_db io" "io_nats io"
  shows "recorded (start_backend x io spec w)"
proof -
  let ?b = "sp_backend_id spec" and ?w = "start_backend x io spec w"
  let ?r = "\<lparr>r_spec = spec, r_state = Loading, r_phase = AtStart, r_queue = [], r_alive = True\<rparr>"
  have runs: "xc_runs ?w = xc_runs w @ [?r]" and listener: "xc_listener ?w = (xc_listener w)(?b \<mapsto> length (xc_runs w))"
    using io by (simp_all add: start_backend_def register_run_def)
  have names: "backend_id_str ?b \<notin> db_names (xc_database w)"
    using rec fresh by (auto simp: recorded_def)
  have db: "xc_database ?w = fst (insert_backend (x_to_json x) spec (xc_database w))"
    using io by (simp add: start_backend_def register_run_def)
  have dbs: "db_state ?w c = (if c = ?b then Some ''Loading'' else db_state w c)" for c
    using names backend_row_names [of "xc_database w" "backend_id_str ?b"]
    by (auto simp: db_state_def db backend_row_insert split: option.splits)
  have pub: "xc_published ?w = xc_published w @ [backend_state_message_new (io_now io) Loading ?b]"
    using io by (simp add: start_backend_def register_run_def publish_state_def)
  have "\<forall>m \<in> set (xc_published w). bm_backend m \<noteq> ?b" using rec fresh unfolding recorded_def by metis
  then have none: "history w ?b = []" by (simp add: history_def filter_empty_conv)
  have hist: "history ?w c = (if c = ?b then [Loading] else history w c)" for c
    using none by (auto simp: history_def pub backend_state_message_new_def)
  have "db_names (xc_database ?w) = insert (backend_id_str ?b) (db_names (xc_database w))"
    using names by (auto simp: db db_names_def insert_backend_def Let_def)
  moreover have "db_state ?w (run_backend_id r) = Some (state_to_string (r_state r)) \<and>
      history_ok (history ?w (run_backend_id r)) (r_state r) \<and>
      (r_alive r \<longrightarrow> xc_listener ?w (run_backend_id r) = Some j)"
    if "j < length (xc_runs ?w)" "r = xc_runs ?w ! j" for j r
  proof (cases "j < length (xc_runs w)")
    case True
    then have "run_backend_id (xc_runs w ! j) \<noteq> ?b" using fresh by (metis image_eqI nth_mem)
    then show ?thesis using True that recordedD [OF rec True]
      by (auto simp: runs nth_append dbs hist listener)
  next
    case False
    then have "j = length (xc_runs w)" "r = ?r" using that by (auto simp: runs nth_append)
    then show ?thesis by (auto simp: dbs hist listener run_backend_id_def history_ok_def)
  qed
  ultimately show ?thesis using rec fresh
    by (auto simp: recorded_def Let_def runs pub run_backend_id_def backend_state_message_new_def)
qed

fun io_ok :: "exec_event \<Rightarrow> bool" where
  "io_ok (EvSpawn _ io) = (io_db io \<and> io_nats io)"
| "io_ok (EvPoll _ _ io) = (io_db io \<and> io_nats io)"
| "io_ok (EvRecv _ io) = (io_db io \<and> io_nats io)"
| "io_ok EvResume = False"
| "io_ok _ = True"

fun spawned :: "exec_event list \<Rightarrow> BackendId list" where
  "spawned [] = []"
| "spawned (EvSpawn spec io # es) = sp_backend_id spec # spawned es"
| "spawned (_ # es) = spawned es"

lemma length_handle [simp]: "length (xc_runs (handle_next_state io i nx w)) = length (xc_runs w)"
  by (cases "(io, i, nx, w)" rule: handle_next_state.cases) (auto simp: Let_def split: BackendState.splits)

lemma length_step:
  "io_ok e \<Longrightarrow> length (xc_runs (fst (exec_step x e w))) = length (xc_runs w) + length (spawned [e])"
  by (cases e)
    (auto simp: start_backend_def register_run_def kill_backend_def container_event_def send_signal_def
      poll_run_def recv_run_def Let_def simp del: handle_next_state.simps
      split: option.splits prod.splits progress.splits list.splits Signal.splits)

lemma ids_step:
  assumes "io_ok e"
  shows "run_backend_id ` set (xc_runs (fst (exec_step x e w)))
    = run_backend_id ` set (xc_runs w) \<union> set (spawned [e])"
proof (cases "\<exists>spec io. e = EvSpawn spec io")
  case True
  then show ?thesis by (auto simp: start_backend_def register_run_def run_backend_id_def split: if_splits)
next
  case False
  then have none: "spawned [e] = []" by (cases e) auto
  let ?w = "fst (exec_step x e w)"
  have "map run_backend_id (xc_runs ?w) = map run_backend_id (xc_runs w)"
  proof (rule nth_equalityI)
    show len: "length (map run_backend_id (xc_runs ?w)) = length (map run_backend_id (xc_runs w))"
      using length_step [OF assms] none by simp
    fix i assume "i < length (map run_backend_id (xc_runs ?w))"
    then show "map run_backend_id (xc_runs ?w) ! i = map run_backend_id (xc_runs w) ! i"
      using runs_le_step [of w x e] len by (auto simp: runs_le_def run_le_def run_backend_id_def)
  qed
  then show ?thesis using none by (metis Un_empty_right empty_set list.set_map)
qed

lemma recorded_step:
  assumes "recorded w" and "io_ok e" and "set (spawned [e]) \<inter> run_backend_id ` set (xc_runs w) = {}"
  shows "recorded (fst (exec_step x e w))"
  using assms
  by (cases e)
    (auto simp: kill_backend_def container_event_def recorded_send recorded_poll recorded_recv
      recorded_spawn recorded_db reset_times_columns split: option.splits)

lemma spawned_Cons: "spawned (e # es) = spawned [e] @ spawned es"
  by (cases e) simp_all

lemma recorded_run:
  assumes "recorded w" and "\<forall>e \<in> set es. io_ok e" and "distinct (spawned es)"
    and "set (spawned es) \<inter> run_backend_id ` set (xc_runs w) = {}"
  shows "recorded (exec_run x es w)"
  using assms
proof (induction es arbitrary: w)
  case (Cons e es)
  have "distinct (spawned [e] @ spawned es)" using Cons.prems(3) spawned_Cons by metis
  moreover have "set (spawned [e] @ spawned es) \<inter> run_backend_id ` set (xc_runs w) = {}"
    using Cons.prems(4) spawned_Cons by metis
  ultimately have "recorded (fst (exec_step x e w))" and "distinct (spawned es)"
    and "set (spawned es) \<inter> run_backend_id ` set (xc_runs (fst (exec_step x e w))) = {}"
    using Cons.prems(1,2) recorded_step [of w e x] ids_step [of e x w] by auto
  with Cons.prems(2) show ?case using Cons.IH [of "fst (exec_step x e w)"] by simp
qed simp

lemma recorded_new: "recorded (executor_new drone_database_new)"
  by (simp add: recorded_def executor_new_def drone_database_new_def db_names_def)

section \<open>Single events\<close>

lemma reached_listeners_ok: "listeners_ok (exec_run x es (executor_new db))"
  using listeners_ok_run [OF listeners_ok_new] .

lemma poll_stop:
  "terminal st \<Longrightarrow> poll_step x spec st AtStart (AStop (Inr ())) db = (db, Done (Inr None))"
  by (cases st) (simp_all add: poll_step_def)

lemma recv_terminate:
  assumes "i < length (xc_runs w)" and "r_alive (xc_runs w ! i)" and "r_state (xc_runs w ! i) \<noteq> Swept"
    and "r_queue (xc_runs w ! i) = [Terminate]"
  shows "recv_run i io w = exec_update_backend_state io (run_backend_id (xc_runs w ! i)) Terminated
    (set_run_state i Terminated (upd_run i (\<lambda>r. r\<lparr>r_queue := []\<rparr>) w))"
  using assms by (simp add: recv_run_def Let_def run_nths start_monitor_def)

lemma history_update:
  "io_nats io \<Longrightarrow> history (exec_update_backend_state io b st w) b = history w b @ [st]"
  by (simp add: exec_update_backend_state_def publish_state_def history_def backend_state_message_new_def)

lemma db_state_update:
  "io_db io \<Longrightarrow> db_state (exec_update_backend_state io b st w) b =
     map_option (\<lambda>_. state_to_string st) (db_state w b)"
  by (simp add: exec_update_backend_state_def publish_state_def db_state_def backend_row_update
      option.map_comp comp_def)

lemma poll_route:
  assumes "i < length (xc_runs w)" and "r_alive (xc_runs w ! i)" and "r_state (xc_runs w ! i) = Starting"
    and "r_phase (xc_runs w ! i) = AwaitRoute addr" and "b = run_backend_id (xc_runs w ! i)"
    and "insert_proxy_route (x_fk x) now b (backend_id_str b) (show_socket_addr (x_show_v6 x) addr) (xc_database w)
      = (db, Inr ())" and "io_db io"
  shows "xc_database (poll_run x i (ARoute True now) io w) = update_backend_state b Ready db"
    and "r_state (xc_runs (poll_run x i (ARoute True now) io w) ! i) = Ready"
  using assms
  by (simp_all add: poll_run_def poll_step_def run_backend_id_def Let_def run_nths exec_update_backend_state_def)

lemma route_of_ready:
  assumes "db_ok db" and "insert_proxy_route fk now b sub addr db = (db', Inr ())"
    and "backend_id_str b \<in> db_names db"
  shows "get_proxy_route sub (update_backend_state b st db') = (if st = Ready then Some addr else None)"
proof -
  let ?db = "update_backend_state b st db'"
  have backends: "db_backend db' = db_backend db"
    using assms(2) insert_route_backends by (metis fst_conv)
  have ok: "db_ok ?db" using db_ok_insert_route [OF assms(1)] assms(2) db_ok_update_state by (metis fst_conv)
  have "db_route ?db = db_route db'" by (simp add: update_backend_state_def)
  then have row: "route_row ?db sub = Some \<lparr>rr_id = next_rowid (db_route db), rr_backend = Some (backend_id_str b),
      rr_subdomain = sub, rr_address = addr, rr_last_active = now\<rparr>"
    using route_row_put [OF assms(1,2)] route_row_cong by metis
  obtain r where "backend_row db (backend_id_str b) = Some r"
    using assms(3) backend_row_names [of db "backend_id_str b"] by (cases "backend_row db (backend_id_str b)") auto
  then have "map_option br_state (backend_row ?db (backend_id_str b)) = Some (state_to_string st)"
    using backend_row_cong [OF backends] by (simp add: backend_row_update)
  then show ?thesis using get_proxy_route_row [OF ok] row state_to_string_Ready [of st] by auto
qed

section \<open>Properties\<close>

text \<open>C5: a backend only moves along the lifecycle. Whatever the interleaving of spawns, resumes,
  kills, container events and steps, and whether or not the database and the bus accept the
  writes, the state of a run goes along \<open>lifecycle\<close>, hence up in the order of the states, its
  request does not change, nothing changes once the run has ended, and the state
  \<open>TimedOutBeforeReady\<close> is not entered.\<close>

theorem backend_lifecycle:
  assumes "i < length (xc_runs w)"
    and "r = xc_runs w ! i" and "r' = xc_runs (exec_run x es w) ! i"
  shows "i < length (xc_runs (exec_run x es w)) \<and> r_spec r' = r_spec r \<and>
    lifecycle\<^sup>*\<^sup>* (r_state r) (r_state r') \<and> r_state r \<le> r_state r' \<and>
    (\<not> r_alive r \<longrightarrow> r' = r) \<and>
    (r_state r' = TimedOutBeforeReady \<longrightarrow> r_state r = TimedOutBeforeReady)"
proof -
  have "run_le r r'" and "i < length (xc_runs (exec_run x es w))"
    using runs_le_run [of w x es] assms by (auto simp: runs_le_def)
  then show ?thesis using lifecycle_star_le lifecycle_star_to by (auto simp: run_le_def)
qed

definition example_io :: io where
  "example_io = \<lparr>io_db = True, io_nats = True, io_now = 0\<rparr>"

definition example_ext :: drone_ext where
  "example_ext = \<lparr>x_to_json = (\<lambda>_. ''spec''), x_from_json = (\<lambda>_. Some (example_spawn ''d'' ''b'')), x_fk = True,
     x_show_v6 = (\<lambda>_. ''::''), x_uri_ok = (\<lambda>_. True), x_max_std = 10 ^ 24, x_max_utc = 10 ^ 24,
     x_checks = True\<rparr>"

definition example_events :: "exec_event list" where
  "example_events =
     [EvSpawn (example_spawn ''d'' ''b'') example_io, EvPoll 0 (ALoad (Inr ())) example_io]"

definition example_world :: executor where
  "example_world = exec_run example_ext example_events (executor_new drone_database_new)"

lemma example_world_run:
  "xc_runs example_world = [\<lparr>r_spec = example_spawn ''d'' ''b'', r_state = Starting, r_phase = AtStart,
     r_queue = [], r_alive = True\<rparr>]"
  by (simp add: example_world_def example_events_def example_io_def example_ext_def executor_new_def
      start_backend_def register_run_def publish_state_def poll_run_def poll_step_def Let_def
      set_run_state_def upd_run_def)

lemma example_world_rest:
  "xc_listener example_world (BackendId ''b'') = Some 0"
  "db_state example_world (BackendId ''b'') = Some ''Starting''"
  by (simp_all add: example_world_def example_events_def example_io_def example_ext_def executor_new_def
      start_backend_def register_run_def publish_state_def poll_run_def poll_step_def Let_def
      set_run_state_def upd_run_def example_spawn_def db_state_def backend_row_def insert_backend_def
      drone_database_new_def exec_update_backend_state_def update_backend_state_def start_monitor_def
      run_backend_id_def)

theorem backend_lifecycle_witness:
  "Starting \<le> r_state (xc_runs (exec_run example_ext [EvKill \<lparr>tr_cluster_id = ClusterName ''c'',
     tr_backend_id = BackendId ''b''\<rparr>, EvRecv 0 example_io] example_world) ! 0)"
  using backend_lifecycle [of 0 example_world _ _ example_ext "[EvKill \<lparr>tr_cluster_id = ClusterName ''c'',
     tr_backend_id = BackendId ''b''\<rparr>, EvRecv 0 example_io]", OF _ refl refl]
  by (simp add: example_world_run del: exec_run.simps)



text \<open>C20: killing works. In every reachable state, a termination request for a backend whose run
  is registered, is not being swept and has no signal waiting is accepted; when the run
  receives the signal and the engine stops the container, the run ends in \<open>Terminated\<close>, its
  listener and its monitor are gone, and \<open>Terminated\<close> is what the database holds and what was
  published last.\<close>

theorem kill_backend_terminates:
  assumes "w = exec_run x es (executor_new db)"
    and "xc_listener w b = Some i" and "r_queue (xc_runs w ! i) = []"
    and "r_state (xc_runs w ! i) \<noteq> Swept" and "db_state w b \<noteq> None"
    and "io_db io" and "io_nats io" and "tr_backend_id req = b"
    and "w' = exec_run x [EvKill req, EvRecv i io, EvPoll i (AStop (Inr ())) io'] w"
  shows "snd (exec_step x (EvKill req) w) = OutKilled \<and>
    r_state (xc_runs w' ! i) = Terminated \<and> \<not> r_alive (xc_runs w' ! i) \<and>
    xc_listener w' b = None \<and> b \<notin> xc_monitor w' \<and>
    db_state w' b = Some ''Terminated'' \<and> last (history w' b) = Terminated"
proof -
  have "listeners_ok w" using assms(1) reached_listeners_ok by simp
  note run = listeners_okD [OF this assms(2)]
  let ?k = "send_signal i Terminate w"
  have kill: "exec_step x (EvKill req) w = (?k, OutKilled)"
    using assms(2,3,8) run by (simp add: kill_backend_def)
  let ?t = "exec_update_backend_state io b Terminated
      (set_run_state i Terminated (upd_run i (\<lambda>r. r\<lparr>r_queue := []\<rparr>) ?k))"
  have recv: "recv_run i io ?k = ?t"
    using run assms(3,4) recv_terminate [of i ?k io] by (simp add: send_signal_def run_nths)
  have poll: "poll_run x i (AStop (Inr ())) io' ?t = finish_run i ?t"
    using run by (simp add: poll_run_def poll_stop send_signal_def run_nths)
  have w': "w' = finish_run i ?t" using assms(9) kill recv poll by simp
  have state: "db_state ?t b = Some ''Terminated''"
    using assms(5) db_state_update [OF assms(6), of b Terminated "set_run_state i Terminated
        (upd_run i (\<lambda>r. r\<lparr>r_queue := []\<rparr>) ?k)"]
    by (auto simp: db_state_def send_signal_def)
  have "last (history ?t b) = Terminated" using history_update [OF assms(7)] by simp
  then show ?thesis
    using run kill state unfolding w'
    by (simp add: run_nths send_signal_def db_state_def history_def)
qed

theorem kill_backend_terminates_witness:
  "\<exists>w'. w' = exec_run example_ext [EvKill \<lparr>tr_cluster_id = ClusterName ''c'', tr_backend_id = BackendId ''b''\<rparr>,
       EvRecv 0 example_io, EvPoll 0 (AStop (Inr ())) example_io] example_world \<and>
     r_state (xc_runs w' ! 0) = Terminated \<and> \<not> r_alive (xc_runs w' ! 0)"
  using kill_backend_terminates [OF example_world_def example_world_rest(1) _ _ _ _ _ _ refl,
      of example_io "\<lparr>tr_cluster_id = ClusterName ''c'', tr_backend_id = BackendId ''b''\<rparr>" example_io]
  by (simp add: example_world_run example_world_rest(2) del: exec_run.simps)
    (simp add: example_io_def)

text \<open>One iteration of the idle loop. With the last activity of the backend at time \<open>t\<close>, the
  deadline \<open>t + max_idle_secs\<close> within the range of the clock, and two clock readings in order,
  the backend is swept exactly when the deadline has passed at the first reading, goes on
  waiting exactly when it has not passed at the second, and the run fails when it passes in
  between: then the run ends, the row stays \<open>Ready\<close> and nothing is left to sweep the backend.\<close>

theorem idle_loop_decides:
  assumes "get_backend_last_active (sp_backend_id spec) db = Inr t"
    and "deadline = t + int (sp_max_idle_secs spec)"
    and "sp_max_idle_secs spec \<le> x_max_std x" and "deadline \<le> x_max_utc x" and "now1 \<le> now2"
  shows "poll_step x spec Ready AwaitIdle (AIdle True now1 now2) db =
    (db, if deadline < now1 then Done (Inr (Some Swept))
         else if deadline < now2 then Done (Inl OutOfRange)
         else Suspend AwaitIdle)"
  using assms by (simp add: poll_step_def idle_check_def Let_def)

definition example_db :: DroneDatabase where
  "example_db = fst (insert_proxy_route True 100 (BackendId ''b'') ''b'' ''10.0.0.7:8080''
     (update_backend_state (BackendId ''b'') Ready
       (fst (insert_backend (\<lambda>_. ''spec'') (example_spawn ''d'' ''b'') drone_database_new))))"

lemma example_db_value:
  "example_db = \<lparr>db_backend = [\<lparr>br_name = ''b'', br_spec = ''spec'', br_state = ''Ready'', br_exit_code = None\<rparr>],
     db_route = [\<lparr>rr_id = 1, rr_backend = Some ''b'', rr_subdomain = ''b'', rr_address = ''10.0.0.7:8080'',
       rr_last_active = 100\<rparr>]\<rparr>"
  by (simp add: example_db_def insert_proxy_route_def update_backend_state_def insert_backend_def
      drone_database_new_def example_spawn_def next_rowid_def Let_def)

theorem idle_loop_decides_witness:
  "poll_step example_ext (example_spawn ''d'' ''b'') Ready AwaitIdle
     (AIdle True 109999999999 110000000001) example_db = (example_db, Done (Inl OutOfRange))"
  using idle_loop_decides [of "example_spawn ''d'' ''b''" example_db 100000000000 110000000000 example_ext
      109999999999 110000000001]
  by (simp add: example_db_value get_backend_last_active_def example_spawn_def example_ext_def from_secs_def)

text \<open>C40: a backend that does not answer on its port is stranded. When none of the 3000 requests
  of \<open>wait_port_ready\<close> succeeds, the run ends while the state stays \<open>Starting\<close>: nothing is written
  or published, the state \<open>TimedOutBeforeReady\<close> is not entered, the container is not stopped,
  and the backend can no longer be killed.\<close>

theorem port_timeout_strands_backend:
  assumes "i < length (xc_runs w)"
    and "r_alive (xc_runs w ! i)" and "r_state (xc_runs w ! i) = Starting"
    and "r_phase (xc_runs w ! i) = AwaitPort addr" and "\<forall>n < 3000. \<not> is_ok (get n)"
    and "tr_backend_id req = run_backend_id (xc_runs w ! i)"
    and "w' = exec_run x [EvPoll i (AHttp get) io] w"
  shows "r_state (xc_runs w' ! i) = Starting \<and> \<not> r_alive (xc_runs w' ! i) \<and>
    xc_database w' = xc_database w \<and> xc_published w' = xc_published w \<and>
    snd (exec_step x (EvKill req) w') = OutUnknownBackend (tr_backend_id req)"
proof -
  let ?n = "deciding_call get 3000 0"
  have "?n < 3000" using deciding_call_bounds [of 0 3000 get] by simp
  then have "\<not> is_ok (get ?n)" using assms(5) by blast
  then obtain e where "get ?n = Inl e" by (cases "get ?n") auto
  then have "\<exists>e'. wait_port_ready x addr get = Some (Inl e')"
    by (cases "x_uri_ok x (ready_uri x addr)") (simp_all add: wait_port_ready_total retry_spec_def Let_def)
  then obtain e' where "wait_port_ready x addr get = Some (Inl e')" by blast
  then have "poll_step x (r_spec (xc_runs w ! i)) Starting (AwaitPort addr) (AHttp get) (xc_database w)
      = (xc_database w, Done (Inl e'))"
    by (simp add: poll_step_def)
  then have "w' = finish_run i w" using assms(1-4,7) by (simp add: poll_run_def)
  then show ?thesis using assms(1,3,6) by (simp add: run_nths kill_backend_def)
qed

definition example_addr :: SocketAddr where
  "example_addr = SocketAddr (V4 10 0 0 7) 8080"

definition example_waiting :: executor where
  "example_waiting = exec_run example_ext [EvPoll 0 (AStatus (Inr (EngineRunning example_addr))) example_io] example_world"

lemma example_waiting_run:
  "xc_runs example_waiting = [\<lparr>r_spec = example_spawn ''d'' ''b'', r_state = Starting,
     r_phase = AwaitPort example_addr, r_queue = [], r_alive = True\<rparr>]"
  by (simp add: example_waiting_def poll_run_def example_world_run poll_step_def upd_run_def)

theorem port_timeout_strands_backend_witness:
  "\<exists>w'. w' = exec_run example_ext [EvPoll 0 (AHttp (\<lambda>_. Inl (HttpError ''refused''))) example_io] example_waiting \<and>
     r_state (xc_runs w' ! 0) = Starting \<and> \<not> r_alive (xc_runs w' ! 0) \<and>
     snd (exec_step example_ext (EvKill \<lparr>tr_cluster_id = ClusterName ''c'', tr_backend_id = BackendId ''b''\<rparr>) w')
       = OutUnknownBackend (BackendId ''b'')"
  using port_timeout_strands_backend [OF _ _ _ _ _ _ refl, of 0 example_waiting example_addr
      "\<lambda>_. Inl (HttpError ''refused'')" "\<lparr>tr_cluster_id = ClusterName ''c'', tr_backend_id = BackendId ''b''\<rparr>"
      example_ext example_io]
  by (simp add: example_waiting_run run_backend_id_def example_spawn_def del: exec_run.simps exec_step.simps)

text \<open>C39: spawning an id that is already running breaks the running backend. The request is not
  rejected: the failed insert is only logged. When the engine then refuses to load the second
  container, the row of the running backend says \<open>ErrorLoading\<close>, no route of the backend
  resolves any more, and it cannot be killed, while its run goes on.\<close>

theorem duplicate_spawn_breaks_running:
  assumes "w = exec_run x es (executor_new db)" and "db_ok (xc_database w)"
    and "xc_listener w b = Some i" and "r_state (xc_runs w ! i) = Ready"
    and "backend_id_str b \<in> db_names (xc_database w)"
    and "sp_backend_id spec = b" and "io_db io" and "tr_backend_id req = b"
    and "w' = exec_run x [EvSpawn spec io, EvPoll (length (xc_runs w)) (ALoad (Inl e)) io] w"
  shows "r_alive (xc_runs w' ! i) \<and> r_state (xc_runs w' ! i) = Ready \<and>
    db_state w' b = Some ''ErrorLoading'' \<and> b \<notin> xc_monitor w' \<and>
    snd (exec_step x (EvKill req) w') = OutUnknownBackend b \<and>
    (\<forall>r \<in> set (db_route (xc_database w')). rr_backend r = Some (backend_id_str b) \<longrightarrow>
       get_proxy_route (rr_subdomain r) (xc_database w') = None)"
proof -
  have "listeners_ok w" using assms(1) reached_listeners_ok by simp
  note run = listeners_okD [OF this assms(3)]
  let ?n = "length (xc_runs w)" and ?s = "start_backend x io spec w"
  let ?new = "\<lparr>r_spec = spec, r_state = Loading, r_phase = AtStart, r_queue = [], r_alive = True\<rparr>"
  have s: "xc_runs ?s = xc_runs w @ [?new]" "xc_database ?s = xc_database w" "xc_monitor ?s = xc_monitor w"
    using assms(5-7) by (simp_all add: start_backend_def register_run_def insert_backend_dup)
  have b: "run_backend_id ?new = b" using assms(6) by (simp add: run_backend_id_def)
  let ?u = "exec_update_backend_state io b ErrorLoading (set_run_state ?n ErrorLoading ?s)"
  have "?s\<lparr>xc_database := xc_database ?s\<rparr> = ?s" by simp
  then have same: "?s\<lparr>xc_database := xc_database w\<rparr> = ?s" by (simp only: s(2))
  have "poll_run x ?n (ALoad (Inl e)) io ?s = finish_run ?n ?u"
    using s b by (simp add: poll_run_def poll_step_def nth_append same)
  then have w': "w' = finish_run ?n ?u" using assms(9) by simp
  have nth: "xc_runs ?u ! i = xc_runs w ! i" "run_backend_id (xc_runs ?u ! ?n) = b"
    using run(1) s assms(6) by (simp_all add: run_nths nth_append run_backend_id_def)
  have db': "xc_database w' = update_backend_state b ErrorLoading (xc_database w)"
    using assms(7) s unfolding w' by (simp add: exec_update_backend_state_def)
  have row: "backend_row (xc_database w) (backend_id_str b) \<noteq> None"
    using assms(5) backend_row_names by metis
  then have state: "map_option br_state (backend_row (xc_database w') (backend_id_str b)) = Some ''ErrorLoading''"
    unfolding db' by (auto simp: backend_row_update)
  have ok: "db_ok (xc_database w')" unfolding db' by (rule db_ok_update_state [OF assms(2)])
  have routes: "get_proxy_route (rr_subdomain r) (xc_database w') = None"
    if "r \<in> set (db_route (xc_database w'))" "rr_backend r = Some (backend_id_str b)" for r
  proof -
    have "route_row (xc_database w') (rr_subdomain r) = Some r"
      using that(1) ok by (simp add: route_row_def db_ok_def find_key_Some)
    then show ?thesis using get_proxy_route_row [OF ok] that(2) state by auto
  qed
  have "xc_runs w' ! i = xc_runs w ! i" "xc_listener w' b = None" "b \<notin> xc_monitor w'"
    using nth run(1) s unfolding w' by (auto simp: finish_run_nth)
  then show ?thesis
    using run(3) assms(4,8) state routes by (simp add: db_state_def kill_backend_def)
qed

definition example_resumed :: executor where
  "example_resumed = exec_run example_ext [EvResume] (executor_new example_db)"

lemma example_resumed_value:
  "example_resumed = \<lparr>xc_database = example_db, xc_published = [],
     xc_runs = [\<lparr>r_spec = example_spawn ''d'' ''b'', r_state = Ready, r_phase = AtStart, r_queue = [], r_alive = True\<rparr>],
     xc_listener = [BackendId ''b'' \<mapsto> 0], xc_monitor = {BackendId ''b''}\<rparr>"
  by (simp add: example_resumed_def resume_backends_def executor_new_def get_backends_def example_db_value
      decode_backend_def state_from_str_def resume_backend_def start_monitor_def register_run_def
      example_ext_def) (simp add: example_spawn_def)

theorem duplicate_spawn_breaks_running_witness:
  "\<exists>w'. w' = exec_run example_ext [EvSpawn (example_spawn ''d'' ''b'') example_io,
       EvPoll 1 (ALoad (Inl (EngineError ''conflict''))) example_io] example_resumed \<and>
     r_alive (xc_runs w' ! 0) \<and> r_state (xc_runs w' ! 0) = Ready \<and>
     db_state w' (BackendId ''b'') = Some ''ErrorLoading''"
proof -
  have "db_ok (xc_database example_resumed)"
    by (simp add: example_resumed_value example_db_value db_ok_def state_from_str_def)
  moreover have "backend_id_str (BackendId ''b'') \<in> db_names (xc_database example_resumed)"
    by (simp add: example_resumed_value example_db_value db_names_def)
  ultimately show ?thesis
    using duplicate_spawn_breaks_running [OF example_resumed_def _ _ _ _ _ _ _ refl,
        of "BackendId ''b''" 0 "example_spawn ''d'' ''b''" example_io
          "\<lparr>tr_cluster_id = ClusterName ''c'', tr_backend_id = BackendId ''b''\<rparr>" "EngineError ''conflict''"]
    by (simp add: example_resumed_value example_spawn_def example_io_def del: exec_run.simps exec_step.simps)
qed

end
