(* ===== verification/Docker_Engine.thy ===== *)
theory Docker_Engine
  imports Executor
begin

text \<open>
  The Docker engine (\<open>drone/src/agent/engines/docker/mod.rs\<close> and \<open>util.rs\<close>): the container events
  that interrupt a backend, the status of a container, the configuration a container is created
  with, loading, stopping, and the stream of statistics.

  The Docker daemon is not code of the repository: its operations are the fields of \<open>docker_api\<close>, over
  an abstract state of the daemon, and every definition that calls it takes them as an
  argument. Times are nanoseconds, and the conversions to \<open>i64\<close> are at their width.
\<close>

section \<open>Helpers (\<open>util.rs\<close>)\<close>

datatype DockerError = DockerServerError nat string | DockerOther string

fun as_minutes :: "duration \<Rightarrow> nat" where
  "as_minutes d = d div 1000000000 div 60"

definition make_exposed_ports :: "u16 \<Rightarrow> string list" where
  "make_exposed_ports port = [show_nat (unat port) @ ''/tcp'']"

fun allow_not_found :: "DockerError + 'a \<Rightarrow> DockerError + unit" where
  "allow_not_found (Inr _) = Inr ()"
| "allow_not_found (Inl (DockerServerError code message)) =
     (if code = 404 then Inr () else Inl (DockerServerError code message))"
| "allow_not_found (Inl e) = Inl e"

datatype ContainerEventType =
    Attach | Commit | Copy | Create | Destroy | Detach | Die | ExecCreate | ExecDetach | ExecDie
  | ExecStart | Export | HealthStatus | Kill | Oom | Pause | Rename | Resize | Restart | Start
  | Stop | Top | Unpause | Update

record ContainerEvent =
  ce_event :: ContainerEventType
  ce_name :: string

text \<open>The optional fields of the daemon's event message that the code reads.\<close>

record EventMessage =
  em_action :: "string option"
  em_actor :: "(string \<times> string) list option option"

definition event_type :: "string \<Rightarrow> ContainerEventType option" where
  "event_type action =
     (if action = ''attach'' then Some Attach
      else if action = ''commit'' then Some Commit
      else if action = ''copy'' then Some Copy
      else if action = ''create'' then Some Create
      else if action = ''destroy'' then Some Destroy
      else if action = ''detach'' then Some Detach
      else if action = ''die'' then Some Die
      else if action = ''exec_create'' then Some ExecCreate
      else if action = ''exec_detach'' then Some ExecDetach
      else if action = ''exec_die'' then Some ExecDie
      else if action = ''exec_start'' then Some ExecStart
      else if action = ''export'' then Some Export
      else if action = ''health_status'' then Some HealthStatus
      else if action = ''kill'' then Some Kill
      else if action = ''oom'' then Some Oom
      else if action = ''pause'' then Some Pause
      else if action = ''rename'' then Some Rename
      else if action = ''resize'' then Some Resize
      else if action = ''restart'' then Some Restart
      else if action = ''start'' then Some Start
      else if action = ''stop'' then Some Stop
      else if action = ''top'' then Some Top
      else if action = ''unpause'' then Some Unpause
      else if action = ''update'' then Some Update
      else None)"

definition from_event_message :: "EventMessage \<Rightarrow> ContainerEvent option" where
  "from_event_message event =
     Option.bind (em_action event) (\<lambda>action.
     Option.bind (em_actor event) (\<lambda>attributes.
     Option.bind attributes (\<lambda>attrs.
     Option.bind (map_of attrs ''name'') (\<lambda>name.
     Option.bind (event_type (hd (split_on (CHR '':'') action))) (\<lambda>ev.
       Some \<lparr>ce_event = ev, ce_name = name\<rparr>)))))"

record NetworkSettings =
  ns_ip_address :: "string option"
  ns_networks :: "(string \<times> string option) list option"

record ContainerState =
  cs_running :: "bool option"
  cs_exit_code :: "int option"

record ContainerInspectResponse =
  ci_state :: "ContainerState option"
  ci_network_settings :: "NetworkSettings option"

datatype IpError = NoNetworkSettings | BadAddress string | NoIpOrNetworks | NotOneNetwork nat | NetworkWithoutIp

definition parse_container_ip :: "string \<Rightarrow> IpError + IpAddr" where
  "parse_container_ip s = ok_or (BadAddress s) (parse_ip s)"

definition get_ip_of_container :: "ContainerInspectResponse \<Rightarrow> IpError + IpAddr" where
  "get_ip_of_container resp =
     bindR (ok_or NoNetworkSettings (ci_network_settings resp)) (\<lambda>settings.
       case ns_ip_address settings of
         Some (c # cs) \<Rightarrow> parse_container_ip (c # cs)
       | _ \<Rightarrow>
           bindR (ok_or NoIpOrNetworks (ns_networks settings)) (\<lambda>networks.
             if length networks \<noteq> 1 then Inl (NotOneNetwork (length networks))
             else bindR (ok_or NetworkWithoutIp (snd (hd networks))) parse_container_ip))"

section \<open>Statistics\<close>

record StatsStream =
  ss_last :: "Stats option"
  ss_backend_id :: BackendId

definition stats_stream_new :: "BackendId \<Rightarrow> StatsStream" where
  "stats_stream_new backend_id = \<lparr>ss_last = None, ss_backend_id = backend_id\<rparr>"

text \<open>\<open>None\<close> is the panic of \<open>unwrap\<close> (or of the arithmetic under it).\<close>

fun poll_next ::
  "bool \<Rightarrow> 'f f64_ops \<Rightarrow> Stats option Poll \<Rightarrow> StatsStream \<Rightarrow>
     (StatsStream \<times> 'f BackendStatsMessage option Poll) panics" where
  "poll_next checks fl Pending s = Some (s, Pending)"
| "poll_next checks fl (PollReady None) s = Some (s, PollReady None)"
| "poll_next checks fl (PollReady (Some stat)) s =
     (case ss_last s of
        Some prev \<Rightarrow>
          (case from_stats_messages checks fl (ss_backend_id s) prev stat of
             Some (Inr v) \<Rightarrow> Some (s\<lparr>ss_last := Some stat\<rparr>, PollReady (Some v))
           | _ \<Rightarrow> None)
      | None \<Rightarrow> Some (s\<lparr>ss_last := Some stat\<rparr>, Pending))"

section \<open>The engine (\<open>mod.rs\<close>)\<close>

definition CONTAINER_PORT :: u16 where
  "CONTAINER_PORT = 8080"

record DockerInterface =
  di_runtime :: "string option"
  di_network :: "string option"

record Ulimit =
  ul_name :: string
  ul_soft :: "64 word"
  ul_hard :: "64 word"

text \<open>The fields of the container configuration that are set; all others have their default.\<close>

record ContainerConfig =
  cc_image :: string
  cc_env :: "string list"
  cc_exposed_ports :: "string list"
  cc_labels :: "(string \<times> string) list"
  cc_port_bindings :: "(string \<times> string) list"
  cc_network_mode :: "string option"
  cc_runtime :: "string option"
  cc_cpu_period :: "64 word option"
  cc_cpu_quota :: "64 word option"
  cc_ulimits :: "Ulimit list option"

text \<open>\<open>Duration\<close> has at most \<open>2 ^ 64 - 1\<close> seconds and 999999999 nanoseconds.\<close>

definition DURATION_MAX :: duration where
  "DURATION_MAX = (2 ^ 64 - 1) * 1000000000 + 999999999"

definition saturating_mul :: "duration \<Rightarrow> nat \<Rightarrow> duration" where
  "saturating_mul d n = min (d * n) DURATION_MAX"

text \<open>\<open>as_micros() as i64\<close>: the \<open>u128\<close> value, truncated to 64 bits.\<close>

definition micros_i64 :: "duration \<Rightarrow> 64 word" where
  "micros_i64 d = of_nat (d div 1000)"

definition cpu_quota :: "ResourceLimits \<Rightarrow> 64 word option" where
  "cpu_quota limits =
     map_option
       (\<lambda>percent.
          let cpu_period = (case rl_cpu_period limits of Some p \<Rightarrow> p | None \<Rightarrow> from_millis 100)
          in micros_i64 (saturating_mul cpu_period (unat (percent :: u8)) div 100))
       (rl_cpu_period_percent limits)"

definition cpu_ulimits :: "ResourceLimits \<Rightarrow> Ulimit list option" where
  "cpu_ulimits limits =
     map_option (\<lambda>t. [\<lparr>ul_name = ''cpu'', ul_soft = of_nat (as_minutes t), ul_hard = of_nat (as_minutes t)\<rparr>])
       (rl_cpu_time_limit limits)"

definition container_config ::
  "DockerInterface \<Rightarrow> string \<Rightarrow> string \<Rightarrow> (string \<times> string) list \<Rightarrow> ResourceLimits \<Rightarrow> ContainerConfig" where
  "container_config self name img env limits =
     \<lparr>cc_image = img,
      cc_env = map (\<lambda>(k, v). k @ ''='' @ v) env,
      cc_exposed_ports = make_exposed_ports CONTAINER_PORT,
      cc_labels = [(''dev.plane.managed'', ''true''), (''dev.plane.backend'', name)],
      cc_port_bindings = [(show_nat (unat CONTAINER_PORT) @ ''/tcp'', ''0'')],
      cc_network_mode = di_network self,
      cc_runtime = di_runtime self,
      cc_cpu_period = map_option micros_i64 (rl_cpu_period limits),
      cc_cpu_quota = cpu_quota limits,
      cc_ulimits = cpu_ulimits limits\<rparr>"

text \<open>The credentials as the client library takes them; its other fields have their default.\<close>

record BollardCredentials =
  bc_username :: "string option"
  bc_password :: "string option"

fun bollard_credentials :: "DockerCredentials \<Rightarrow> BollardCredentials" where
  "bollard_credentials (UsernamePassword username password) =
     \<lparr>bc_username = Some username, bc_password = Some password\<rparr>"

record 'd docker_api =
  dk_create_image :: "string \<Rightarrow> BollardCredentials option \<Rightarrow> 'd \<Rightarrow> 'd \<times> (DockerError + unit) list"
  dk_create_container :: "string \<Rightarrow> ContainerConfig \<Rightarrow> 'd \<Rightarrow> 'd \<times> (DockerError + string)"
  dk_start_container :: "string \<Rightarrow> 'd \<Rightarrow> 'd \<times> (DockerError + unit)"
  dk_stop_container :: "string \<Rightarrow> nat \<Rightarrow> 'd \<Rightarrow> 'd \<times> (DockerError + unit)"
  dk_remove_container :: "string \<Rightarrow> 'd \<Rightarrow> 'd \<times> (DockerError + unit)"
  dk_inspect_container :: "string \<Rightarrow> 'd \<Rightarrow> DockerError + ContainerInspectResponse"

fun drain_results :: "(DockerError + unit) list \<Rightarrow> DockerError + unit" where
  "drain_results [] = Inr ()"
| "drain_results (next # rest) = bindR next (\<lambda>_. drain_results rest)"

definition pull_image ::
  "'d docker_api \<Rightarrow> string \<Rightarrow> BollardCredentials option \<Rightarrow> 'd \<Rightarrow> 'd \<times> (DockerError + unit)" where
  "pull_image api img credentials d = apsnd drain_results (dk_create_image api img credentials d)"

definition stop_container :: "'d docker_api \<Rightarrow> string \<Rightarrow> 'd \<Rightarrow> 'd \<times> (DockerError + unit)" where
  "stop_container api name d =
     (case dk_stop_container api name 10 d of
        (d1, r1) \<Rightarrow>
          (case allow_not_found r1 of
             Inl e \<Rightarrow> (d1, Inl e)
           | Inr _ \<Rightarrow> apsnd allow_not_found (dk_remove_container api name d1)))"

definition run_container ::
  "'d docker_api \<Rightarrow> DockerInterface \<Rightarrow> string \<Rightarrow> string \<Rightarrow> (string \<times> string) list \<Rightarrow> ResourceLimits \<Rightarrow> 'd \<Rightarrow>
     'd \<times> (DockerError + unit)" where
  "run_container api self name img env limits d =
     (case dk_create_container api name (container_config self name img env limits) d of
        (d1, Inl e) \<Rightarrow> (d1, Inl e)
      | (d1, Inr container_id) \<Rightarrow> dk_start_container api container_id d1)"

definition load :: "'d docker_api \<Rightarrow> DockerInterface \<Rightarrow> SpawnRequest \<Rightarrow> 'd \<Rightarrow> 'd \<times> (DockerError + unit)" where
  "load api self req d =
     (let ex = sp_executable req
      in case pull_image api (ex_image ex) (map_option bollard_credentials (ex_credentials ex)) d of
           (d1, Inl e) \<Rightarrow> (d1, Inl e)
         | (d1, Inr _) \<Rightarrow>
             run_container api self (to_resource_name (sp_backend_id req)) (ex_image ex) (ex_env ex)
               (ex_resource_limits ex) d1)"

definition stop :: "'d docker_api \<Rightarrow> BackendId \<Rightarrow> 'd \<Rightarrow> 'd \<times> (DockerError + unit)" where
  "stop api backend d = stop_container api (to_resource_name backend) d"

datatype StatusError = InspectError DockerError | NoState | NoRunningField | IpFailure IpError

definition backend_status :: "'d docker_api \<Rightarrow> BackendId \<Rightarrow> 'd \<Rightarrow> StatusError + EngineBackendStatus" where
  "backend_status api backend d =
     (case dk_inspect_container api (to_resource_name backend) d of
        Inl (DockerServerError code message) \<Rightarrow>
          if code = 404 then Inr EngineUnknown else Inl (InspectError (DockerServerError code message))
      | Inl e \<Rightarrow> Inl (InspectError e)
      | Inr container \<Rightarrow>
          bindR (ok_or NoState (ci_state container)) (\<lambda>state.
          bindR (ok_or NoRunningField (cs_running state)) (\<lambda>running.
            if running then
              (case get_ip_of_container container of
                 Inl e \<Rightarrow> Inl (IpFailure e)
               | Inr ip \<Rightarrow> Inr (EngineRunning (SocketAddr ip CONTAINER_PORT)))
            else
              (case cs_exit_code state of
                 None \<Rightarrow> Inr EngineTerminated
               | Some code \<Rightarrow> if code = 0 then Inr EngineExited else Inr EngineFailed))))"

text \<open>The streams are functions on the items the daemon has sent so far.\<close>

definition interrupt_event :: "DockerError + EventMessage \<Rightarrow> BackendId option" where
  "interrupt_event event =
     (case event of
        Inl _ \<Rightarrow> None
      | Inr message \<Rightarrow>
          Option.bind (from_event_message message) (\<lambda>ev.
            if ce_event ev = Die then from_resource_name (ce_name ev) else None))"

definition interrupt_stream :: "(DockerError + EventMessage) list \<Rightarrow> BackendId list" where
  "interrupt_stream events = List.map_filter interrupt_event events"

record LogsOptions =
  lo_follow :: bool
  lo_stdout :: bool
  lo_stderr :: bool
  lo_since :: nat
  lo_until :: nat
  lo_timestamps :: bool
  lo_tail :: string

text \<open>\<open>logs name options\<close> is what the daemon has sent so far.\<close>

definition get_logs ::
  "(string \<Rightarrow> LogsOptions \<Rightarrow> (DockerError + LogOutput) list) \<Rightarrow> string \<Rightarrow> (DockerError + LogOutput) list" where
  "get_logs logs container_name =
     logs container_name \<lparr>lo_follow = True, lo_stdout = True, lo_stderr = True, lo_since = 0, lo_until = 0,
       lo_timestamps = True, lo_tail = ''all''\<rparr>"

definition log_stream ::
  "(string \<Rightarrow> LogsOptions \<Rightarrow> (DockerError + LogOutput) list) \<Rightarrow> BackendId \<Rightarrow> DroneLogMessage list" where
  "log_stream logs backend =
     List.map_filter (\<lambda>v. case v of Inl _ \<Rightarrow> None | Inr d \<Rightarrow> from_log_message backend d)
       (get_logs logs (to_resource_name backend))"

text \<open>\<open>get_stats\<close> asks once per tick and skips failures.\<close>

definition get_stats :: "(DockerError + Stats) option list \<Rightarrow> Stats list" where
  "get_stats replies =
     List.map_filter (\<lambda>r. case r of Some (Inr s) \<Rightarrow> Some s | _ \<Rightarrow> None) replies"

section \<open>Streams\<close>

text \<open>Polling the statistics with what the inner stream returns, poll by poll.\<close>

fun poll_stats ::
  "bool \<Rightarrow> 'f f64_ops \<Rightarrow> Stats option Poll list \<Rightarrow> StatsStream \<Rightarrow>
     'f BackendStatsMessage option Poll list panics" where
  "poll_stats checks fl [] s = Some []"
| "poll_stats checks fl (p # ps) s =
     (case poll_next checks fl p s of
        None \<Rightarrow> None
      | Some (s', r) \<Rightarrow> map_option ((#) r) (poll_stats checks fl ps s'))"

text \<open>What the code relies on in a reading of the statistics: all fields are there, the cache is
  part of the usage, and the total does not go down from one reading to the next.\<close>

definition stats_complete :: "Stats \<Rightarrow> bool" where
  "stats_complete s \<longleftrightarrow> st_mem_limit s \<noteq> None \<and> st_cpu_system s \<noteq> None \<and>
     (\<exists>usage m. st_mem_usage s = Some usage \<and> st_mem_stats s = Some m \<and> cache_mem m \<le> usage)"

definition stats_follow :: "Stats \<Rightarrow> Stats \<Rightarrow> bool" where
  "stats_follow a b \<longleftrightarrow> stats_complete a \<and> stats_complete b \<and> st_cpu_total a \<le> st_cpu_total b"

lemma from_stats_total:
  assumes "stats_follow a b"
  shows "\<exists>v. from_stats_messages checks fl bk a b = Some (Inr v) \<and> bs_backend_id v = bk"
proof -
  obtain limit usage m sys where b: "st_mem_limit b = Some limit" "st_mem_usage b = Some usage"
      "st_mem_stats b = Some m" "cache_mem m \<le> usage" "st_cpu_system b = Some sys"
    using assms unfolding stats_follow_def stats_complete_def by blast
  obtain sys' where a: "st_cpu_system a = Some sys'"
    using assms by (auto simp: stats_follow_def stats_complete_def)
  show ?thesis
    using assms a b by (simp add: from_stats_messages_def ar_sub_Some stats_follow_def)
qed

text \<open>One message per consecutive pair of readings.\<close>

definition stats_messages :: "bool \<Rightarrow> 'f f64_ops \<Rightarrow> BackendId \<Rightarrow> Stats list \<Rightarrow> 'f BackendStatsMessage list" where
  "stats_messages checks fl bk xs =
     map (\<lambda>(a, b). projr (the (from_stats_messages checks fl bk a b))) (zip xs (tl xs))"

lemma poll_stats_from:
  assumes "successively stats_follow (a # xs)"
  shows "poll_stats checks fl (map (\<lambda>x. PollReady (Some x)) xs) \<lparr>ss_last = Some a, ss_backend_id = bk\<rparr>
    = Some (map (\<lambda>v. PollReady (Some v)) (stats_messages checks fl bk (a # xs)))"
  using assms
proof (induction xs arbitrary: a)
  case (Cons b xs)
  then have "stats_follow a b" and rest: "successively stats_follow (b # xs)" by auto
  then obtain v where "from_stats_messages checks fl bk a b = Some (Inr v)" using from_stats_total by blast
  then show ?case using Cons.IH [OF rest] by (simp add: stats_messages_def)
qed (simp add: stats_messages_def)

lemma map_filter_Cons:
  "List.map_filter f (x # xs) = (case f x of None \<Rightarrow> List.map_filter f xs | Some y \<Rightarrow> y # List.map_filter f xs)"
  by (simp add: List.map_filter_def split: option.splits)

lemma interrupt_event_Some:
  "interrupt_event e = Some b \<longleftrightarrow>
     (\<exists>m action attrs. e = Inr m \<and> em_action m = Some action \<and> em_actor m = Some (Some attrs) \<and>
        map_of attrs ''name'' = Some (to_resource_name b) \<and> hd (split_on (CHR '':'') action) = ''die'')"
proof -
  have die: "event_type a = Some Die \<longleftrightarrow> a = ''die''" for a
    by (simp add: event_type_def)
  show ?thesis
    by (auto simp: interrupt_event_def from_event_message_def from_resource_name_Some bind_eq_Some_conv die
        split: sum.splits if_splits)
qed

lemma show_nat_8080: "show_nat 8080 = ''8080''"
proof -
  have d: "digit_char 8 = CHR ''8''" "digit_char 0 = CHR ''0''"
    by (simp_all add: digit_char_def char_of_def bit_iff_odd)
  show ?thesis
    by (simp add: show_nat.simps [of 8080] show_nat.simps [of 808] show_nat.simps [of 80] show_nat.simps [of 8] d)
qed

lemma backend_status_running:
  assumes "dk_inspect_container api (to_resource_name backend) d = Inr container"
    and "ci_state container = Some st" and "cs_running st = Some True"
    and "ci_network_settings container = Some settings"
    and "ns_ip_address settings = Some (show_ipv4 (a, b, c, e)) \<or>
      ns_ip_address settings \<in> {None, Some []} \<and> ns_networks settings = Some [(net, Some (show_ipv4 (a, b, c, e)))]"
  shows "backend_status api backend d = Inr (EngineRunning (SocketAddr (V4 a b c e) 8080)) \<and>
    show_socket_addr show_v6 (SocketAddr (V4 a b c e) 8080) = show_ipv4 (a, b, c, e) @ '':8080''"
proof -
  have "show_ipv4 (a, b, c, e) \<noteq> []" by (simp add: show_ipv4_def)
  then obtain y ys where y: "show_ipv4 (a, b, c, e) = y # ys" by (cases "show_ipv4 (a, b, c, e)") auto
  then have "parse_container_ip (y # ys) = Inr (V4 a b c e)"
    using parse_ip_show_ipv4 [of a b c e] by (simp add: parse_container_ip_def)
  then have "get_ip_of_container container = Inr (V4 a b c e)"
    using assms(4,5) y by (auto simp: get_ip_of_container_def)
  then show ?thesis using assms(1-3)
    by (simp add: backend_status_def CONTAINER_PORT_def show_nat_8080)
qed

section \<open>Properties\<close>

text \<open>Which container events interrupt a backend. Among the events of the daemon exactly those
  whose action is \<open>die\<close>, possibly with details after a colon, and whose \<open>name\<close> attribute is the
  container name of a backend are passed on, in order, as the id of that backend.\<close>

theorem interrupt_stream_exact:
  "(b \<in> set (interrupt_stream events) \<longleftrightarrow>
     (\<exists>m action attrs. Inr m \<in> set events \<and> em_action m = Some action \<and> em_actor m = Some (Some attrs) \<and>
        map_of attrs ''name'' = Some (to_resource_name b) \<and> hd (split_on (CHR '':'') action) = ''die'')) \<and>
   interrupt_stream (events @ later) = interrupt_stream events @ interrupt_stream later"
proof -
  have order: "interrupt_stream (events @ later) = interrupt_stream events @ interrupt_stream later"
    by (simp add: interrupt_stream_def List.map_filter_def)
  have "b \<in> set (interrupt_stream events) \<longleftrightarrow> (\<exists>e \<in> set events. interrupt_event e = Some b)"
    unfolding interrupt_stream_def by (induction events) (auto simp: map_filter_Cons List.map_filter_simps split: option.splits)
  then show ?thesis using order unfolding interrupt_event_Some by blast
qed

text \<open>The CPU quota. As long as period times percentage stays below the range of 64-bit
  microseconds, the quota handed to Docker is that percentage of the period (of 100 ms when no
  period is set), rounded down to microseconds, it is not negative, and for at most 100 percent
  it does not exceed the period.\<close>

theorem cpu_quota_is_share_of_period:
  assumes "rl_cpu_period_percent limits = Some p"
    and "period = (case rl_cpu_period limits of Some d \<Rightarrow> d | None \<Rightarrow> from_millis 100)"
    and "period * unat p < 2 ^ 63 * 100000"
  shows "\<exists>q. cpu_quota limits = Some q \<and> sint q = int (period * unat p div 100000) \<and>
    (unat p \<le> 100 \<longrightarrow> sint q \<le> int (period div 1000))"
proof -
  let ?v = "period * unat p div 100000"
  have "period * unat p \<le> DURATION_MAX" using assms(3) by (simp add: DURATION_MAX_def)
  then have some: "cpu_quota limits = Some (of_nat ?v)"
    using assms(1,2)
    by (simp add: cpu_quota_def micros_i64_def saturating_mul_def min_absorb1 div_mult2_eq [symmetric])
  have "?v < 2 ^ 63" using assms(3) by (simp add: less_mult_imp_div_less)
  then have val: "sint (of_nat ?v :: 64 word) = int ?v"
    by (simp add: signed_of_nat signed_take_bit_int_eq_self)
  have le: "?v \<le> period div 1000" if "unat p \<le> 100"
  proof -
    have "period * unat p \<le> period * 100" using that by simp
    then have "?v \<le> period * 100 div 100000" by (rule div_le_mono)
    then show ?thesis by (simp add: div_mult2_eq [of _ 100 1000, simplified, symmetric])
  qed
  show ?thesis
    using some val le by (intro exI [of _ "of_nat ?v"] conjI impI) (simp_all only: of_nat_le_iff)
qed

theorem cpu_quota_is_share_of_period_witness:
  "\<exists>q. cpu_quota \<lparr>rl_cpu_period = None, rl_cpu_period_percent = Some 50, rl_cpu_time_limit = None\<rparr> = Some q
     \<and> sint q = 50000"
  using cpu_quota_is_share_of_period [of "\<lparr>rl_cpu_period = None, rl_cpu_period_percent = Some 50,
      rl_cpu_time_limit = None\<rparr>" 50 "from_millis 100"]
  by (auto simp: from_millis_def)

text \<open>The address of a running container. When Docker reports the IPv4 address \<open>a.b.c.d\<close> of a
  running container, at the top of the network settings or, with that field missing or empty,
  in its only network, the status is running at \<open>a.b.c.d\<close> and port 8080, which is what the route
  of the backend will hold.\<close>

theorem backend_status_address:
  assumes "dk_inspect_container api (to_resource_name backend) d = Inr container"
    and "ci_state container = Some st" and "cs_running st = Some True"
    and "ci_network_settings container = Some settings"
    and "ns_ip_address settings = Some (show_ipv4 (a, b, c, e)) \<or>
      ns_ip_address settings \<in> {None, Some []} \<and> ns_networks settings = Some [(net, Some (show_ipv4 (a, b, c, e)))]"
  shows "backend_status api backend d = Inr (EngineRunning (SocketAddr (V4 a b c e) 8080)) \<and>
    show_socket_addr show_v6 (SocketAddr (V4 a b c e) 8080) = show_ipv4 (a, b, c, e) @ '':8080''"
  using assms by (rule backend_status_running)

definition example_container :: ContainerInspectResponse where
  "example_container = \<lparr>ci_state = Some \<lparr>cs_running = Some True, cs_exit_code = Some 0\<rparr>,
     ci_network_settings = Some \<lparr>ns_ip_address = Some [], ns_networks = Some [(''plane'', Some (show_ipv4 (10, 0, 0, 7)))]\<rparr>\<rparr>"

text \<open>A small daemon: the set of its containers.\<close>

definition example_daemon :: "string set docker_api" where
  "example_daemon =
     \<lparr>dk_create_image = (\<lambda>img cred d. (d, [Inr ()])),
      dk_create_container = (\<lambda>n c d. if n \<in> d then (d, Inl (DockerServerError 409 ''conflict'')) else (insert n d, Inr n)),
      dk_start_container = (\<lambda>n d. (d, Inr ())),
      dk_stop_container = (\<lambda>n t d. (d, if n \<in> d then Inr () else Inl (DockerServerError 404 ''absent''))),
      dk_remove_container = (\<lambda>n d. (d - {n}, if n \<in> d then Inr () else Inl (DockerServerError 404 ''absent''))),
      dk_inspect_container = (\<lambda>n d. if n \<in> d then Inr example_container else Inl (DockerServerError 404 ''absent''))\<rparr>"

theorem backend_status_address_witness:
  "backend_status example_daemon (BackendId ''b'') {''plane-b''} = Inr (EngineRunning (SocketAddr (V4 10 0 0 7) 8080))"
  using backend_status_address [of example_daemon "BackendId ''b''" "{''plane-b''}" example_container
      "\<lparr>cs_running = Some True, cs_exit_code = Some 0\<rparr>"
      "\<lparr>ns_ip_address = Some [], ns_networks = Some [(''plane'', Some (show_ipv4 (10, 0, 0, 7)))]\<rparr>" 10 0 0 7 "''plane''"]
  by (simp add: example_daemon_def example_container_def to_resource_name_def RESOURCE_PREFIX_def)

text \<open>Stopping is idempotent. If the daemon no longer has a container once its removal
  succeeded or found nothing, and answers 404 about containers it does not have, then after a
  successful stop the container is gone and stopping the backend again succeeds and changes
  nothing, as the executor does when it resumes a backend in a terminal state.\<close>

theorem stop_idempotent:
  assumes removed: "\<And>n d d' r. dk_remove_container api n d = (d', r) \<Longrightarrow> allow_not_found r = Inr () \<Longrightarrow> \<not> present n d'"
    and stop_absent: "\<And>n t d. \<not> present n d \<Longrightarrow> \<exists>m. dk_stop_container api n t d = (d, Inl (DockerServerError 404 m))"
    and remove_absent: "\<And>n d. \<not> present n d \<Longrightarrow> \<exists>m. dk_remove_container api n d = (d, Inl (DockerServerError 404 m))"
    and stopped: "stop api backend d = (d', Inr ())"
  shows "\<not> present (to_resource_name backend) d' \<and> stop api backend d' = (d', Inr ())"
proof -
  let ?n = "to_resource_name backend"
  have gone: "\<not> present ?n d'"
    using stopped removed
    by (auto simp: stop_def stop_container_def apsnd_def map_prod_def split: prod.splits sum.splits)
  obtain m m' where "dk_stop_container api ?n 10 d' = (d', Inl (DockerServerError 404 m))"
      "dk_remove_container api ?n d' = (d', Inl (DockerServerError 404 m'))"
    using stop_absent [OF gone] remove_absent [OF gone] by blast
  then show ?thesis using gone by (simp add: stop_def stop_container_def)
qed

theorem stop_idempotent_witness:
  "stop example_daemon (BackendId ''b'') {} = ({}, Inr ())"
proof -
  have s: "stop example_daemon (BackendId ''b'') {''plane-b''} = ({}, Inr ())"
    by (simp add: stop_def stop_container_def example_daemon_def to_resource_name_def RESOURCE_PREFIX_def)
  have "\<not> n \<in> d'" if "dk_remove_container example_daemon n d = (d', v)" for n d d' v
    using that by (auto simp: example_daemon_def)
  moreover have "\<exists>m. dk_stop_container example_daemon n t d = (d, Inl (DockerServerError 404 m))"
    if "\<not> n \<in> d" for n t d
    using that by (simp add: example_daemon_def)
  moreover have "\<exists>m. dk_remove_container example_daemon n d = (d, Inl (DockerServerError 404 m))"
    if "\<not> n \<in> d" for n d
    using that by (simp add: example_daemon_def)
  ultimately show ?thesis
    using stop_idempotent [of example_daemon "(\<in>)" "BackendId ''b''" "{''plane-b''}" "{}"] s by blast
qed

text \<open>The statistics stream. From readings that are complete and do not go back, it yields one
  message per consecutive pair of readings; the first poll with a reading returns \<open>Pending\<close>.\<close>

theorem stats_stream_pairs:
  assumes "successively stats_follow (x # xs)"
  shows "poll_stats checks fl (map (\<lambda>s. PollReady (Some s)) (x # xs)) (stats_stream_new b)
    = Some (Pending # map (\<lambda>v. PollReady (Some v)) (stats_messages checks fl b (x # xs))) \<and>
    length (stats_messages checks fl b (x # xs)) = length xs"
  using poll_stats_from [OF assms, of checks fl b] by (simp add: stats_messages_def stats_stream_new_def)

definition example_stats :: "u64 \<Rightarrow> Stats" where
  "example_stats n = \<lparr>st_mem_usage = Some 100, st_mem_limit = Some 200, st_mem_stats = Some (MS_V1 10),
     st_cpu_total = n, st_cpu_system = Some (2 * n)\<rparr>"

definition example_float :: "int f64_ops" where
  "example_float = \<lparr>f_of_u64 = uint, f_sub = (-), f_mul = (*), f_div = (div), f_hundred = 100\<rparr>"

theorem stats_stream_pairs_witness:
  "length (stats_messages True example_float (BackendId ''b'') [example_stats 1, example_stats 5]) = 1"
  using stats_stream_pairs [of "example_stats 1" "[example_stats 5]" True example_float "BackendId ''b''"]
  by (simp add: stats_follow_def stats_complete_def example_stats_def)

text \<open>A reading without memory usage, as Docker reports for a container that has just died,
  panics the statistics task: the error of \<open>from_stats_messages\<close> is unwrapped.\<close>

theorem stats_stream_panics_on_missing_usage:
  assumes "st_mem_usage cur = None"
  shows "poll_stats checks fl [PollReady (Some prev), PollReady (Some cur)]
    (stats_stream_new b) = None"
  using assms by (simp add: from_stats_messages_def stats_stream_new_def)

theorem stats_stream_panics_on_missing_usage_witness:
  "poll_stats True example_float [PollReady (Some (example_stats 1)),
     PollReady (Some ((example_stats 2)\<lparr>st_mem_usage := None\<rparr>))]
     (stats_stream_new (BackendId ''b'')) = None"
  using stats_stream_panics_on_missing_usage [of "(example_stats 2)\<lparr>st_mem_usage := None\<rparr>" True example_float
      "example_stats 1" "BackendId ''b''"]
  by simp

end
