(* ===== verification/Agent.thy ===== *)
theory Agent
  imports Docker_Engine
begin

text \<open>
  The agent of a drone (\<open>drone/src/agent/mod.rs\<close>), the monitor of a backend (\<open>agent/backend.rs\<close>) and
  the source of the drone's address (\<open>drone/src/ip.rs\<close>). The four loops that \<open>run_agent\<close> joins in
  its \<open>select!\<close> are the events of one machine around the executor: the first loop that fails ends
  the agent. \<open>version\<close> is the package version compiled in, \<open>fetch\<close> the body of an HTTP response.
\<close>

section \<open>The address of the drone (\<open>ip.rs\<close>)\<close>

datatype IpSource = IpLiteral IpAddr | IpApi string

datatype IpSourceError = FetchError string | ParseError string

fun get_ip :: "(string \<Rightarrow> IpSourceError + string) \<Rightarrow> IpSource \<Rightarrow> IpSourceError + IpAddr" where
  "get_ip fetch (IpLiteral ip) = Inr ip"
| "get_ip fetch (IpApi api) = bindR (fetch api) (\<lambda>text. ok_or (ParseError text) (parse_ip text))"

section \<open>Monitoring a backend (\<open>backend.rs\<close>)\<close>

text \<open>What one iteration of \<open>dns_loop\<close> publishes, and the pause after it.\<close>

definition dns_loop_record :: "(u16 list \<Rightarrow> string) \<Rightarrow> BackendId \<Rightarrow> IpAddr \<Rightarrow> ClusterName \<Rightarrow> SetDnsRecord" where
  "dns_loop_record show_v6 b ip cluster =
     \<lparr>sd_cluster = cluster, sd_kind = RecA, sd_name = backend_id_str b, sd_value = show_ip show_v6 ip\<rparr>"

definition dns_loop_pause :: duration where
  "dns_loop_pause = from_secs send_period"

text \<open>The times at which \<open>dns_loop\<close> publishes when its publications take the given times.\<close>

fun dns_loop_times :: "systime \<Rightarrow> duration list \<Rightarrow> systime list" where
  "dns_loop_times t [] = [t]"
| "dns_loop_times t (d # ds) = t # dns_loop_times (t + int d + int dns_loop_pause) ds"

text \<open>\<open>log_loop\<close> and \<open>stats_loop\<close> publish every item and go on when that fails.\<close>

fun publish_loop :: "('m \<Rightarrow> bool) \<Rightarrow> 'm list \<Rightarrow> 'm list" where
  "publish_loop publish [] = []"
| "publish_loop publish (v # vs) = (if publish v then v # publish_loop publish vs else publish_loop publish vs)"

text \<open>A monitor owns its three tasks: they are aborted when it is dropped.\<close>

datatype loop_state = LoopRunning | LoopEnded | LoopAborted

record BackendMonitor =
  mo_log_loop :: loop_state
  mo_stats_loop :: loop_state
  mo_dns_loop :: loop_state

definition backend_monitor_new :: BackendMonitor where
  "backend_monitor_new = \<lparr>mo_log_loop = LoopRunning, mo_stats_loop = LoopRunning, mo_dns_loop = LoopRunning\<rparr>"

definition abort_on_drop :: "loop_state \<Rightarrow> loop_state" where
  "abort_on_drop t = (if t = LoopRunning then LoopAborted else t)"

definition backend_monitor_drop :: "BackendMonitor \<Rightarrow> BackendMonitor" where
  "backend_monitor_drop m =
     \<lparr>mo_log_loop = abort_on_drop (mo_log_loop m), mo_stats_loop = abort_on_drop (mo_stats_loop m),
      mo_dns_loop = abort_on_drop (mo_dns_loop m)\<rparr>"

section \<open>The agent (\<open>mod.rs\<close>)\<close>

record agent =
  ag_drone_id :: DroneId
  ag_cluster :: ClusterName
  ag_executor :: executor
  ag_listening :: bool
  ag_ready :: bool
  ag_statuses :: "DroneStatusMessage list"

datatype AgentStop =
    SubscribeError
  | ResumeDbError
  | ResumeError GetBackendsError
  | RespondError
  | SubscriptionClosed string
  | StatusDbError

definition ready_status :: "string \<Rightarrow> agent \<Rightarrow> DroneStatusMessage" where
  "ready_status version a =
     \<lparr>ds_drone_id = ag_drone_id a, ds_cluster = ag_cluster a, ds_drone_version = version,
      ds_ready = ag_ready a,
      ds_running_backends = Some (of_nat (running_backends (xc_database (ag_executor a))))\<rparr>"

text \<open>The events of the loops. \<open>AgListen\<close> is the start of the spawn listener, \<open>AgSubscribeFailed\<close> a failed
  subscription of one of the other two; \<open>AgTask\<close> is a step of a task of the executor.\<close>

datatype agent_event =
    AgListen bool bool
  | AgSubscribeFailed
  | AgSpawn "SpawnRequest option" bool io
  | AgTerminate "TerminationRequest option" bool
  | AgDrain "DrainDrone option" bool
  | AgTick bool bool
  | AgTask exec_event

definition ready_loop_step :: "string \<Rightarrow> bool \<Rightarrow> bool \<Rightarrow> agent \<Rightarrow> AgentStop + agent" where
  "ready_loop_step version queried sent a =
     (if \<not> queried then Inl StatusDbError
      else Inr (if sent then a\<lparr>ag_statuses := ag_statuses a @ [ready_status version a]\<rparr> else a))"

text \<open>The start of \<open>listen_for_spawn_requests\<close>: \<open>subscribed\<close> and \<open>queried\<close> tell whether the subscription
  and the query for the stored backends succeeded.\<close>

definition listen_start :: "drone_ext \<Rightarrow> bool \<Rightarrow> bool \<Rightarrow> agent \<Rightarrow> AgentStop + agent" where
  "listen_start x subscribed queried a =
     (if ag_listening a then Inr a
      else if \<not> subscribed then Inl SubscribeError
      else if \<not> queried then Inl ResumeDbError
      else case resume_backends x (ag_executor a) of
             (w, OutResume (Inl e)) \<Rightarrow> Inl (ResumeError e)
           | (w, _) \<Rightarrow> Inr (a\<lparr>ag_executor := w, ag_listening := True\<rparr>))"

text \<open>One iteration of its loop, which is reached only after that.\<close>

definition spawn_request_step ::
  "drone_ext \<Rightarrow> SpawnRequest option \<Rightarrow> bool \<Rightarrow> io \<Rightarrow> agent \<Rightarrow> AgentStop + agent" where
  "spawn_request_step x req responded io a =
     (if \<not> ag_listening a then Inr a
      else case req of
        None \<Rightarrow> Inl (SubscriptionClosed ''spawn'')
      | Some r \<Rightarrow>
          if \<not> responded then Inl RespondError
          else Inr (a\<lparr>ag_executor := start_backend x io r (ag_executor a)\<rparr>))"

definition termination_request_step ::
  "TerminationRequest option \<Rightarrow> bool \<Rightarrow> agent \<Rightarrow> AgentStop + agent" where
  "termination_request_step req responded a =
     (case req of
        None \<Rightarrow> Inl (SubscriptionClosed ''terminate'')
      | Some r \<Rightarrow>
          if \<not> responded then Inl RespondError
          else Inr (a\<lparr>ag_executor := fst (kill_backend r (ag_executor a))\<rparr>))"

definition drain_step :: "DrainDrone option \<Rightarrow> bool \<Rightarrow> agent \<Rightarrow> AgentStop + agent" where
  "drain_step req responded a =
     (case req of
        None \<Rightarrow> Inl (SubscriptionClosed ''drain'')
      | Some r \<Rightarrow> if \<not> responded then Inl RespondError else Inr (a\<lparr>ag_ready := \<not> dd_drain r\<rparr>))"

fun is_task :: "exec_event \<Rightarrow> bool" where
  "is_task (EvSpawn _ _) = False"
| "is_task EvResume = False"
| "is_task (EvKill _) = False"
| "is_task _ = True"

fun agent_step :: "drone_ext \<Rightarrow> string \<Rightarrow> agent_event \<Rightarrow> agent \<Rightarrow> AgentStop + agent" where
  "agent_step x version (AgListen subscribed queried) a = listen_start x subscribed queried a"
| "agent_step x version AgSubscribeFailed a = Inl SubscribeError"
| "agent_step x version (AgSpawn req responded io) a = spawn_request_step x req responded io a"
| "agent_step x version (AgTerminate req responded) a = termination_request_step req responded a"
| "agent_step x version (AgDrain req responded) a = drain_step req responded a"
| "agent_step x version (AgTick queried sent) a = ready_loop_step version queried sent a"
| "agent_step x version (AgTask e) a =
     Inr (if is_task e then a\<lparr>ag_executor := fst (exec_step x e (ag_executor a))\<rparr> else a)"

fun agent_run :: "drone_ext \<Rightarrow> string \<Rightarrow> agent_event list \<Rightarrow> agent \<Rightarrow> AgentStop + agent" where
  "agent_run x version [] a = Inr a"
| "agent_run x version (e # es) a = bindR (agent_step x version e a) (agent_run x version es)"

datatype AgentStartError = DockerConnectError | NoIp IpSourceError | ConnectPublishError

text \<open>
  The start of \<open>run_agent\<close> up to its \<open>select!\<close>: the drone's address with ten attempts, the
  announcement of the drone, the executor and the initial value of the ready channel.
\<close>

definition run_agent_start ::
  "drone_ext \<Rightarrow> bool \<Rightarrow> (nat \<Rightarrow> IpSourceError + IpAddr) \<Rightarrow> bool \<Rightarrow> DroneId \<Rightarrow> ClusterName \<Rightarrow> DroneDatabase \<Rightarrow>
     (AgentStartError + DroneConnectRequest \<times> agent) panics" where
  "run_agent_start x docker_ok get publish_ok drone cluster db =
     (if \<not> docker_ok then Some (Inl DockerConnectError)
      else case do_with_retry (x_checks x) get 10 (from_secs 10) of
             None \<Rightarrow> None
           | Some outcome \<Rightarrow>
              Some (case ro_result outcome of
                      Inl e \<Rightarrow> Inl (NoIp e)
                    | Inr ip \<Rightarrow>
                        if \<not> publish_ok then Inl ConnectPublishError
                        else Inr (\<lparr>dc_drone_id = drone, dc_cluster = cluster, dc_ip = ip\<rparr>,
                                  \<lparr>ag_drone_id = drone, ag_cluster = cluster, ag_executor = executor_new db, ag_listening = False,
                                   ag_ready = True, ag_statuses = []\<rparr>)))"

section \<open>Lemmas\<close>

lemmas agent_step_defs = listen_start_def ready_loop_step_def spawn_request_step_def termination_request_step_def
  drain_step_def

lemmas agent_step_splits = if_splits option.splits prod.splits exec_out.splits sum.splits

lemma agent_run_append:
  "agent_run x version (es @ fs) a = bindR (agent_run x version es a) (agent_run x version fs)"
proof (induction es arbitrary: a)
  case (Cons e es)
  show ?case by (cases "agent_step x version e a") (simp_all add: Cons.IH)
qed simp

fun is_drain :: "agent_event \<Rightarrow> bool" where
  "is_drain (AgDrain _ _) = True"
| "is_drain _ = False"

lemma agent_step_keeps:
  assumes "agent_step x version e a = Inr a'"
  shows "ag_drone_id a' = ag_drone_id a" and "ag_cluster a' = ag_cluster a"
    and "\<not> is_drain e \<Longrightarrow> ag_ready a' = ag_ready a"
  using assms
  by (cases e; force simp: agent_step_defs split: agent_step_splits)+

lemma agent_run_statuses:
  assumes "agent_run x version es a = Inr a'" and "\<forall>e \<in> set es. \<not> is_drain e"
  shows "\<exists>new. ag_statuses a' = ag_statuses a @ new \<and>
    (\<forall>m \<in> set new. ds_ready m = ag_ready a \<and> ds_drone_id m = ag_drone_id a \<and> ds_cluster m = ag_cluster a)"
  using assms
proof (induction es arbitrary: a)
  case (Cons e es)
  then obtain b where b: "agent_step x version e a = Inr b" "agent_run x version es b = Inr a'"
    by (auto simp: bindR_Inr_iff)
  have keeps: "ag_drone_id b = ag_drone_id a" "ag_cluster b = ag_cluster a" "ag_ready b = ag_ready a"
    using agent_step_keeps [OF b(1)] Cons.prems(2) by auto
  have "\<exists>new. ag_statuses b = ag_statuses a @ new \<and>
      (\<forall>m \<in> set new. ds_ready m = ag_ready a \<and> ds_drone_id m = ag_drone_id a \<and> ds_cluster m = ag_cluster a)"
    using b(1)
    by (cases e) (auto simp: agent_step_defs ready_status_def split: agent_step_splits)
  then obtain new where new: "ag_statuses b = ag_statuses a @ new"
      "\<forall>m \<in> set new. ds_ready m = ag_ready a \<and> ds_drone_id m = ag_drone_id a \<and> ds_cluster m = ag_cluster a"
    by blast
  obtain new' where new': "ag_statuses a' = ag_statuses b @ new'"
      "\<forall>m \<in> set new'. ds_ready m = ag_ready a \<and> ds_drone_id m = ag_drone_id a \<and> ds_cluster m = ag_cluster a"
    using Cons.IH [OF b(2)] Cons.prems(2) keeps by auto
  show ?case
    by (rule exI [of _ "new @ new'"]) (use new new' in auto)
qed simp

text \<open>What resuming a list of backends with different ids adds to the executor.\<close>

definition resumed_run :: "Backend \<Rightarrow> backend_run" where
  "resumed_run bk = \<lparr>r_spec = bk_spec bk, r_state = bk_state bk, r_phase = AtStart, r_queue = [], r_alive = True\<rparr>"

lemma resume_backend_fields [simp]:
  "xc_runs (resume_backend bk w) = xc_runs w @ [resumed_run bk]"
  "xc_database (resume_backend bk w) = xc_database w"
  "xc_monitor (resume_backend bk w) = xc_monitor w \<union> (if running (bk_state bk) then {bk_backend_id bk} else {})"
  "xc_listener (resume_backend bk w) = (xc_listener w)(sp_backend_id (bk_spec bk) \<mapsto> length (xc_runs w))"
  by (auto simp: resume_backend_def register_run_def start_monitor_def resumed_run_def)

lemma resume_fold_fields:
  "xc_runs (fold resume_backend bs w) = xc_runs w @ map resumed_run bs"
  "xc_database (fold resume_backend bs w) = xc_database w"
  "xc_monitor (fold resume_backend bs w) = xc_monitor w \<union> bk_backend_id ` {bk \<in> set bs. running (bk_state bk)}"
  by (induction bs arbitrary: w) auto

lemma resume_fold_keeps:
  "b \<notin> (\<lambda>bk. sp_backend_id (bk_spec bk)) ` set bs \<Longrightarrow> xc_listener (fold resume_backend bs w) b = xc_listener w b"
  by (induction bs arbitrary: w) auto

lemma resume_fold_listener:
  assumes "distinct (map (\<lambda>bk. sp_backend_id (bk_spec bk)) bs)" and "i < length bs"
  shows "xc_listener (fold resume_backend bs w) (sp_backend_id (bk_spec (bs ! i))) = Some (length (xc_runs w) + i)"
  using assms
proof (induction bs arbitrary: w i)
  case (Cons bk bs)
  show ?case
  proof (cases i)
    case 0
    then show ?thesis using Cons.prems resume_fold_keeps [of "sp_backend_id (bk_spec bk)" bs "resume_backend bk w"] by simp
  next
    case (Suc j)
    then show ?thesis using Cons.prems Cons.IH [of j "resume_backend bk w"] by simp
  qed
qed simp

text \<open>The executor after resuming a list of backends that holds exactly the entries of a map.\<close>

lemma resumed_runs:
  assumes "distinct (map bk_backend_id bs)"
    and mem: "\<And>b q s. \<lparr>bk_backend_id = b, bk_state = s, bk_spec = q\<rparr> \<in> set bs \<longleftrightarrow> stored b = Some (q, s)"
    and id: "\<And>b q s. stored b = Some (q, s) \<Longrightarrow> sp_backend_id q = b"
    and w: "w = fold resume_backend bs (executor_new db)"
  shows "distinct (map run_backend_id (xc_runs w)) \<and> run_backend_id ` set (xc_runs w) = dom stored"
proof -
  have stored: "stored (bk_backend_id bk) = Some (bk_spec bk, bk_state bk)" if "bk \<in> set bs" for bk
    using mem [of "bk_backend_id bk" "bk_state bk" "bk_spec bk"] that by (cases bk) simp
  have "run_backend_id (resumed_run bk) = bk_backend_id bk" if "bk \<in> set bs" for bk
    using id [OF stored [OF that]] by (simp add: run_backend_id_def resumed_run_def)
  then have "map run_backend_id (xc_runs w) = map bk_backend_id bs"
    by (simp add: w resume_fold_fields executor_new_def)
  moreover have "dom stored = bk_backend_id ` set bs"
  proof (intro equalityI subsetI)
    fix b assume "b \<in> dom stored"
    then obtain q s where "\<lparr>bk_backend_id = b, bk_state = s, bk_spec = q\<rparr> \<in> set bs" using mem by auto
    then show "b \<in> bk_backend_id ` set bs" by (force intro: rev_image_eqI)
  qed (use stored in auto)
  ultimately show ?thesis using assms(1) by (metis list.set_map)
qed

lemma resumed_entry:
  assumes "distinct (map bk_backend_id bs)"
    and mem: "\<And>b q s. \<lparr>bk_backend_id = b, bk_state = s, bk_spec = q\<rparr> \<in> set bs \<longleftrightarrow> stored b = Some (q, s)"
    and id: "\<And>b q s. stored b = Some (q, s) \<Longrightarrow> sp_backend_id q = b"
    and w: "w = fold resume_backend bs (executor_new db)"
  shows "case stored b of None \<Rightarrow> xc_listener w b = None
    | Some (q, s) \<Rightarrow> \<exists>i < length (xc_runs w). xc_listener w b = Some i \<and>
        xc_runs w ! i = \<lparr>r_spec = q, r_state = s, r_phase = AtStart, r_queue = [], r_alive = True\<rparr> \<and>
        (b \<in> xc_monitor w \<longleftrightarrow> running s)"
proof -
  have stored: "stored (bk_backend_id bk) = Some (bk_spec bk, bk_state bk)" if "bk \<in> set bs" for bk
    using mem [of "bk_backend_id bk" "bk_state bk" "bk_spec bk"] that by (cases bk) simp
  then have ids: "map (\<lambda>bk. sp_backend_id (bk_spec bk)) bs = map bk_backend_id bs" using id by simp
  have runs: "xc_runs w = map resumed_run bs" "xc_monitor w = bk_backend_id ` {bk \<in> set bs. running (bk_state bk)}"
    by (simp_all add: w resume_fold_fields executor_new_def)
  show ?thesis
  proof (cases "stored b")
    case None
    then have "b \<notin> (\<lambda>bk. sp_backend_id (bk_spec bk)) ` set bs" using stored id by force
    then show ?thesis using None resume_fold_keeps [of b bs] by (simp add: w executor_new_def)
  next
    case (Some v)
    obtain q s where v: "v = (q, s)" by (cases v)
    then obtain i where i: "i < length bs" "bs ! i = \<lparr>bk_backend_id = b, bk_state = s, bk_spec = q\<rparr>"
      using Some mem [of b s q] by (auto simp: in_set_conv_nth)
    have "xc_listener w b = Some i"
      using resume_fold_listener [of bs i "executor_new db"] ids assms(1) i id [of b q s] Some v
      by (simp add: w executor_new_def)
    moreover have "b \<in> xc_monitor w \<longleftrightarrow> running s"
    proof
      assume "running s"
      moreover have "bs ! i \<in> set bs" using i(1) by simp
      ultimately show "b \<in> xc_monitor w" unfolding runs using i(2) by (force intro: rev_image_eqI)
    next
      assume "b \<in> xc_monitor w"
      then obtain bk where "bk \<in> set bs" "running (bk_state bk)" "b = bk_backend_id bk" unfolding runs by blast
      then show "running s" using stored Some v by auto
    qed
    ultimately show ?thesis using i Some v by (auto simp: runs resumed_run_def)
  qed
qed

section \<open>Properties\<close>

text \<open>C12: a restarted agent takes up every backend. After any operations on the database, if
  decoding inverts encoding on the stored requests, the spawn listener of a newly started agent
  resumes exactly one run for every stored backend, with its request and its state, registered
  under its id so that it can be killed, and with a monitor exactly if its state is a running
  one; there are no other runs, and spawn requests are handled only from then on.\<close>

theorem restart_resumes_backends:
  assumes "\<forall>q. DbInsertBackend q \<in> set ops \<longrightarrow> x_from_json x (x_to_json x q) = Some q"
    and "run_steps (db_step (x_to_json x) fk) ops drone_database_new = Some (db, outs)"
    and "run_agent_start x docker_ok get publish_ok drone cluster db = Some (Inr (announced, a))"
    and "stored = dbs_backends (fst (run_spec (db_spec_step fk) ops spec_init))"
  shows "agent_step x version (AgSpawn req responded io) a = Inr a \<and>
    (\<exists>a'. agent_step x version (AgListen True True) a = Inr a' \<and> ag_listening a' \<and>
      (\<forall>b. case stored b of
         None \<Rightarrow> xc_listener (ag_executor a') b = None
       | Some (q, s) \<Rightarrow> \<exists>i < length (xc_runs (ag_executor a')). xc_listener (ag_executor a') b = Some i \<and>
           xc_runs (ag_executor a') ! i = \<lparr>r_spec = q, r_state = s, r_phase = AtStart, r_queue = [], r_alive = True\<rparr> \<and>
           (b \<in> xc_monitor (ag_executor a') \<longleftrightarrow> running s)) \<and>
      distinct (map run_backend_id (xc_runs (ag_executor a'))) \<and>
      run_backend_id ` set (xc_runs (ag_executor a')) = dom stored)"
proof -
  have a: "ag_executor a = executor_new db" "\<not> ag_listening a"
    using assms(3) by (auto simp: run_agent_start_def split: if_splits option.splits sum.splits)
  obtain bs where bs: "get_backends (x_from_json x) db = Inr bs" "distinct (map bk_backend_id bs)"
      and mem: "\<And>b q s. \<lparr>bk_backend_id = b, bk_state = s, bk_spec = q\<rparr> \<in> set bs \<longleftrightarrow> stored b = Some (q, s)"
    using get_backends_reads_back [OF assms(1), of fk] assms(2,4) by auto
  have id: "sp_backend_id q = b" if "stored b = Some (q, s)" for b q s
    using run_spec_origin [of fk ops spec_init b q s] that assms(4) by (auto simp: spec_init_def)
  let ?w = "fold resume_backend bs (executor_new db)"
  define a' where "a' = a\<lparr>ag_executor := ?w, ag_listening := True\<rparr>"
  have a': "ag_executor a' = ?w" "ag_listening a'" by (simp_all add: a'_def)
  have step: "agent_step x version (AgListen True True) a = Inr a'"
    using a bs(1) by (simp add: a'_def listen_start_def resume_backends_def executor_new_def)
  have ignored: "agent_step x version (AgSpawn req responded io) a = Inr a"
    using a(2) by (simp add: spawn_request_step_def)
  have entries: "\<forall>b. case stored b of None \<Rightarrow> xc_listener (ag_executor a') b = None
      | Some (q, s) \<Rightarrow> \<exists>i < length (xc_runs (ag_executor a')). xc_listener (ag_executor a') b = Some i \<and>
          xc_runs (ag_executor a') ! i = \<lparr>r_spec = q, r_state = s, r_phase = AtStart, r_queue = [], r_alive = True\<rparr> \<and>
          (b \<in> xc_monitor (ag_executor a') \<longleftrightarrow> running s)"
    using bs(2) mem id by (intro allI resumed_entry [OF _ _ _ a'(1)]) blast+
  have "distinct (map run_backend_id (xc_runs (ag_executor a'))) \<and>
      run_backend_id ` set (xc_runs (ag_executor a')) = dom stored"
    using bs(2) mem id by (rule resumed_runs [OF _ _ _ a'(1)])
  with step ignored entries a'(2) show ?thesis by (intro conjI exI [of _ a']) blast+
qed

definition example_stored :: DroneDatabase where
  "example_stored = \<lparr>db_backend = [\<lparr>br_name = ''b'', br_spec = ''spec'', br_state = ''Ready'', br_exit_code = None\<rparr>],
     db_route = []\<rparr>"

theorem restart_resumes_backends_witness:
  "\<exists>announced a a'. run_agent_start example_ext True (\<lambda>_. Inr (V4 10 0 0 1)) True (DroneId ''d'') (ClusterName ''c'')
      example_stored = Some (Inr (announced, a)) \<and>
     agent_step example_ext ''v'' (AgListen True True) a = Inr a' \<and>
     dom (xc_listener (ag_executor a')) = {BackendId ''b''}"
proof -
  let ?ops = "[DbInsertBackend (example_spawn ''d'' ''b''), DbUpdateState (BackendId ''b'') Ready]"
  let ?stored = "dbs_backends (fst (run_spec (db_spec_step True) ?ops spec_init))"
  have run: "run_steps (db_step (x_to_json example_ext) True) ?ops drone_database_new
      = Some (example_stored, [OUnit (Inr ()), OUnit (Inr ())])"
    by (simp add: example_stored_def insert_backend_def drone_database_new_def example_spawn_def
        update_backend_state_def example_ext_def)
  have json: "\<forall>q. DbInsertBackend q \<in> set ?ops \<longrightarrow> x_from_json example_ext (x_to_json example_ext q) = Some q"
    by (simp add: example_ext_def)
  have stored: "?stored = [BackendId ''b'' \<mapsto> (example_spawn ''d'' ''b'', Ready)]"
    by (simp add: spec_init_def example_spawn_def fun_eq_iff)
  have call: "deciding_call (\<lambda>_. Inr (V4 10 0 0 1) :: IpSourceError + IpAddr) 10 0 = 0"
    by (simp add: deciding_call_def upt_rec)
  obtain announced a where start: "run_agent_start example_ext True (\<lambda>_. Inr (V4 10 0 0 1)) True (DroneId ''d'')
      (ClusterName ''c'') example_stored = Some (Inr (announced, a))"
    using call by (simp add: run_agent_start_def do_with_retry_def retry_loop_spec retry_spec_def Let_def)
  obtain a' where a': "agent_step example_ext ''v'' (AgListen True True) a = Inr a'"
      and entry: "\<forall>b. case ?stored b of None \<Rightarrow> xc_listener (ag_executor a') b = None
        | Some (q, s) \<Rightarrow> \<exists>i < length (xc_runs (ag_executor a')). xc_listener (ag_executor a') b = Some i \<and>
            xc_runs (ag_executor a') ! i = \<lparr>r_spec = q, r_state = s, r_phase = AtStart, r_queue = [], r_alive = True\<rparr> \<and>
            (b \<in> xc_monitor (ag_executor a') \<longleftrightarrow> running s)"
    using restart_resumes_backends [OF json run start refl, of "''v''" None True example_io] by blast
  have "xc_listener (ag_executor a') b = None \<longleftrightarrow> b \<noteq> BackendId ''b''" for b
    using spec [OF entry, of b] unfolding stored by (auto split: if_splits)
  then have "dom (xc_listener (ag_executor a')) = {BackendId ''b''}" by (auto simp: dom_def)
  then show ?thesis using start a' by blast
qed

end
