(* ===== verification/Connection_Tracker.thy ===== *)
theory Connection_Tracker
  imports Plane_Prelude "HOL-Library.Multiset"
begin

text \<open>
  The proxy's connection tracker (\<open>drone/src/proxy/connection_tracker.rs\<close>): the set of subdomains
  that were requested since the last report, and the counts of their open upgraded connections
  (\<open>u32\<close>, with the arithmetic of the build). The specification is a set and a multiset, and
  \<open>ct_sim\<close> shows that the tracker implements it as long as no counter is at its limit.

  \<open>get_and_clear_active_backends\<close> reads the shared set and clears it in two steps,
  \<open>collect_active\<close> and \<open>clear_events\<close>, between which other tasks may run.
\<close>

type_synonym dash_multiset = "(string \<times> u32) list"

record connection_tracker =
  ct_request_events :: "string list"
  ct_long_lived :: dash_multiset

definition connection_tracker_default :: connection_tracker where
  "connection_tracker_default = \<lparr>ct_request_events = [], ct_long_lived = []\<rparr>"

definition multiset_add :: "bool \<Rightarrow> string \<Rightarrow> dash_multiset \<Rightarrow> dash_multiset panics" where
  "multiset_add checks backend m =
     (case map_of m backend of
        Some d \<Rightarrow> map_option (\<lambda>d'. al_insert backend d' m) (ar_add checks d 1)
      | None \<Rightarrow> Some (al_insert backend 1 m))"

definition multiset_remove :: "bool \<Rightarrow> string \<Rightarrow> dash_multiset \<Rightarrow> dash_multiset panics" where
  "multiset_remove checks backend m =
     (case map_of m backend of
        Some d \<Rightarrow> map_option (\<lambda>d'. if d' = 0 then al_remove backend m else al_insert backend d' m)
                     (ar_sub checks d 1)
      | None \<Rightarrow> Some m)"

definition track_request :: "string \<Rightarrow> connection_tracker \<Rightarrow> connection_tracker" where
  "track_request backend t = t\<lparr>ct_request_events := List.insert backend (ct_request_events t)\<rparr>"

definition increment_connections :: "bool \<Rightarrow> string \<Rightarrow> connection_tracker \<Rightarrow> connection_tracker panics" where
  "increment_connections checks backend t =
     map_option (\<lambda>m. t\<lparr>ct_long_lived := m\<rparr>) (multiset_add checks backend (ct_long_lived t))"

definition decrement_connections :: "bool \<Rightarrow> string \<Rightarrow> connection_tracker \<Rightarrow> connection_tracker panics" where
  "decrement_connections checks backend t =
     map_option (\<lambda>m. t\<lparr>ct_long_lived := m\<rparr>) (multiset_remove checks backend (ct_long_lived t))"

text \<open>\<open>request_events.clone()\<close> clones the pointer: the open connections go into the shared set.\<close>

definition collect_active :: "connection_tracker \<Rightarrow> connection_tracker \<times> string list" where
  "collect_active t =
     (let t' = t\<lparr>ct_request_events := fold List.insert (map fst (ct_long_lived t)) (ct_request_events t)\<rparr>
      in (t', ct_request_events t'))"

definition clear_events :: "connection_tracker \<Rightarrow> connection_tracker" where
  "clear_events t = t\<lparr>ct_request_events := []\<rparr>"

definition get_and_clear_active_backends :: "connection_tracker \<Rightarrow> connection_tracker \<times> string list" where
  "get_and_clear_active_backends t = apfst clear_events (collect_active t)"

section \<open>Operations and specification\<close>

datatype ct_op = CtTrack string | CtIncrement string | CtDecrement string | CtGetAndClear

fun ct_step :: "bool \<Rightarrow> ct_op \<Rightarrow> connection_tracker \<Rightarrow> (connection_tracker \<times> string set) panics" where
  "ct_step checks (CtTrack b) t = Some (track_request b t, {})"
| "ct_step checks (CtIncrement b) t = map_option (\<lambda>t'. (t', {})) (increment_connections checks b t)"
| "ct_step checks (CtDecrement b) t = map_option (\<lambda>t'. (t', {})) (decrement_connections checks b t)"
| "ct_step checks CtGetAndClear t = Some (apsnd set (get_and_clear_active_backends t))"

record activity =
  av_requested :: "string set"
  av_open :: "string multiset"

definition activity_init :: activity where
  "activity_init = \<lparr>av_requested = {}, av_open = {#}\<rparr>"

fun activity_step :: "ct_op \<Rightarrow> activity \<Rightarrow> activity \<times> string set" where
  "activity_step (CtTrack b) a = (a\<lparr>av_requested := insert b (av_requested a)\<rparr>, {})"
| "activity_step (CtIncrement b) a = (a\<lparr>av_open := add_mset b (av_open a)\<rparr>, {})"
| "activity_step (CtDecrement b) a = (a\<lparr>av_open := av_open a - {#b#}\<rparr>, {})"
| "activity_step CtGetAndClear a =
     (a\<lparr>av_requested := {}\<rparr>, av_requested a \<union> set_mset (av_open a))"

fun below_limit :: "ct_op \<Rightarrow> activity \<Rightarrow> bool" where
  "below_limit (CtIncrement b) a \<longleftrightarrow> Suc (count (av_open a) b) < 2 ^ 32"
| "below_limit _ a \<longleftrightarrow> True"

definition word_count :: "nat \<Rightarrow> u32 option" where
  "word_count n = (if n = 0 then None else Some (of_nat n))"

definition counts_rel :: "dash_multiset \<Rightarrow> string multiset \<Rightarrow> bool" where
  "counts_rel m M \<longleftrightarrow> distinct (map fst m) \<and> (\<forall>b. count M b < 2 ^ 32) \<and>
     (\<forall>b. map_of m b = word_count (count M b))"

definition ct_rel :: "connection_tracker \<Rightarrow> activity \<Rightarrow> bool" where
  "ct_rel t a \<longleftrightarrow> set (ct_request_events t) = av_requested a \<and> counts_rel (ct_long_lived t) (av_open a)"

lemma unat_count: "n < 2 ^ 32 \<Longrightarrow> unat (of_nat n :: u32) = n"
  by (simp add: unat_of_nat take_bit_nat_eq_self)

lemma of_nat_count_eq_0:
  assumes "n < 2 ^ 32" and "(of_nat n :: u32) = 0"
  shows "n = 0"
  using unat_count [OF assms(1)] unfolding assms(2) by simp

lemma word_count_simps [simp]:
  "word_count 0 = None" "word_count (Suc n) = Some (of_nat (Suc n))"
  by (simp_all add: word_count_def)

lemma counts_rel_keys: "counts_rel m M \<Longrightarrow> fst ` set m = set_mset M"
proof -
  assume rel: "counts_rel m M"
  have "b \<in> fst ` set m \<longleftrightarrow> b \<in># M" for b
  proof -
    have "b \<in> fst ` set m \<longleftrightarrow> map_of m b \<noteq> None" by (simp only: map_of_eq_None_iff) simp
    also have "\<dots> \<longleftrightarrow> word_count (count M b) \<noteq> None" using rel by (simp add: counts_rel_def)
    also have "\<dots> \<longleftrightarrow> b \<in># M" by (simp add: word_count_def not_in_iff)
    finally show ?thesis .
  qed
  then show ?thesis by blast
qed

lemma counts_rel_add:
  assumes "counts_rel m M" and "Suc (count M b) < 2 ^ 32"
  shows "\<exists>m'. multiset_add checks b m = Some m' \<and> counts_rel m' (add_mset b M)"
proof (cases "count M b")
  case 0
  have "map_of m b = word_count (count M b)" using assms(1) unfolding counts_rel_def by blast
  then have "map_of m b = None" by (simp only: 0 word_count_simps)
  then show ?thesis using 0 assms by (auto simp: multiset_add_def counts_rel_def)
next
  case (Suc k)
  have "map_of m b = word_count (count M b)" using assms(1) unfolding counts_rel_def by blast
  then have some: "map_of m b = Some (of_nat (Suc k))" by (simp only: Suc word_count_simps)
  have "ar_add checks (of_nat (Suc k) :: u32) 1 = Some (of_nat (Suc k) + 1)"
    using assms(2) Suc unat_count [of "Suc k"] by (intro ar_add_Some) simp
  then have add: "multiset_add checks b m = Some (al_insert b (of_nat (Suc k) + 1) m)"
    using some by (simp only: multiset_add_def option.case option.map)
  have "counts_rel (al_insert b (of_nat (Suc k) + 1) m) (add_mset b M)"
    unfolding counts_rel_def
  proof (intro conjI allI)
    show "distinct (map fst (al_insert b (of_nat (Suc k) + 1) m))"
      using assms(1) by (simp add: counts_rel_def)
    show "count (add_mset b M) c < 2 ^ 32" for c using assms by (auto simp: counts_rel_def)
    show "map_of (al_insert b (of_nat (Suc k) + 1) m) c = word_count (count (add_mset b M) c)" for c
      using assms(1) Suc by (simp add: counts_rel_def)
  qed
  then show ?thesis using add by blast
qed

lemma counts_rel_remove:
  assumes "counts_rel m M"
  shows "\<exists>m'. multiset_remove checks b m = Some m' \<and> counts_rel m' (M - {#b#})"
proof -
  have row: "map_of m b = word_count (count M b)" and lim: "count M b < 2 ^ 32"
    using assms unfolding counts_rel_def by blast+
  show ?thesis
  proof (cases "count M b")
    case 0
    then have "M - {#b#} = M" by (simp add: count_eq_zero_iff)
    moreover have "map_of m b = None" using row by (simp only: 0 word_count_simps)
    ultimately show ?thesis using assms by (simp add: multiset_remove_def)
  next
    case (Suc k)
    have some: "map_of m b = Some (of_nat (Suc k))" using row by (simp only: Suc word_count_simps)
    have "unat (of_nat (Suc k) :: u32) = Suc k" using lim Suc by (intro unat_count) simp
    then have "(1 :: u32) \<le> of_nat (Suc k)" by (simp add: word_le_nat_alt)
    from ar_sub_Some [OF this, of checks] have sub: "ar_sub checks (of_nat (Suc k) :: u32) 1 = Some (of_nat k)"
      by simp
    show ?thesis
    proof (cases "k = 0")
      case True
      then show ?thesis using some sub assms Suc
        by (auto simp: multiset_remove_def counts_rel_def)
    next
      case False
      then obtain j where j: "k = Suc j" by (cases k) auto
      then have "(of_nat k :: u32) \<noteq> 0" using of_nat_count_eq_0 [of k] lim Suc by force
      then have "multiset_remove checks b m = Some (al_insert b (of_nat k) m)"
        using some sub by (simp add: multiset_remove_def)
      moreover have "counts_rel (al_insert b (of_nat k) m) (M - {#b#})"
        using assms Suc j by (auto simp: counts_rel_def less_imp_diff_less)
      ultimately show ?thesis by blast
    qed
  qed
qed

lemma set_fold_insert: "set (fold List.insert xs ys) = set xs \<union> set ys"
  by (induction xs arbitrary: ys) auto

interpretation ct_sim: simulation "ct_step checks" activity_step below_limit ct_rel for checks
proof unfold_locales
  fix t a x
  assume rel: "ct_rel t a" and "guard": "below_limit x a"
  then have c: "counts_rel (ct_long_lived t) (av_open a)" by (simp add: ct_rel_def)
  show "\<exists>t'. ct_step checks x t = Some (t', snd (activity_step x a)) \<and> ct_rel t' (fst (activity_step x a))"
  proof (cases x)
    case (CtTrack b)
    then show ?thesis using rel by (auto simp: ct_rel_def track_request_def)
  next
    case (CtIncrement b)
    then show ?thesis using counts_rel_add [OF c, of b checks] rel "guard"
      by (auto simp: ct_rel_def increment_connections_def)
  next
    case (CtDecrement b)
    then show ?thesis using counts_rel_remove [OF c, of checks b] rel
      by (auto simp: ct_rel_def decrement_connections_def)
  next
    case CtGetAndClear
    then show ?thesis using rel counts_rel_keys [OF c]
      by (auto simp: ct_rel_def get_and_clear_active_backends_def collect_active_def clear_events_def
          set_fold_insert)
  qed
qed

lemma ct_rel_default: "ct_rel connection_tracker_default activity_init"
  by (simp add: ct_rel_def counts_rel_def connection_tracker_default_def activity_init_def)

section \<open>Properties\<close>

text \<open>C21: the tracker reports what is active. On every sequence of requests, opened and closed
  upgraded connections and reports, as long as fewer than \<open>2 ^ 32 - 1\<close> connections of one
  backend are open, nothing panics and every report is the set of subdomains that were
  requested since the last report or have more connections opened than closed.\<close>

theorem connection_tracker_refines_activity:
  assumes "run_guard below_limit activity_step ops activity_init"
  shows "\<exists>t. run_steps (ct_step checks) ops connection_tracker_default
    = Some (t, snd (run_spec activity_step ops activity_init))"
  using ct_sim.run_sim [OF ct_rel_default assms] by blast

theorem connection_tracker_refines_activity_witness:
  "\<exists>t. run_steps (ct_step True)
     [CtTrack ''a'', CtIncrement ''b'', CtGetAndClear, CtGetAndClear, CtDecrement ''b'', CtGetAndClear]
     connection_tracker_default = Some (t, [{}, {}, {''a'', ''b''}, {''b''}, {}, {}])"
  using connection_tracker_refines_activity [of
      "[CtTrack ''a'', CtIncrement ''b'', CtGetAndClear, CtGetAndClear, CtDecrement ''b'', CtGetAndClear]" True]
  by (simp add: activity_init_def insert_commute)

text \<open>A request can be lost. A request that another task tracks after the report has read the
  set and before it clears it is neither in that report nor in the next one, unless the
  backend has an open connection or had already been requested.\<close>

theorem request_lost_in_clear:
  assumes "b \<notin> set (ct_request_events t)" and "b \<notin> fst ` set (ct_long_lived t)"
    and "collect_active t = (t1, reported)"
    and "get_and_clear_active_backends (clear_events (track_request b t1)) = (t2, reported')"
  shows "b \<notin> set reported \<and> b \<notin> set reported'"
  using assms
  by (auto simp: collect_active_def get_and_clear_active_backends_def clear_events_def track_request_def
      set_fold_insert)

theorem request_lost_in_clear_witness:
  "snd (get_and_clear_active_backends (clear_events (track_request ''b''
     (fst (collect_active connection_tracker_default))))) = []"
proof -
  have "''b'' \<notin> set (snd (get_and_clear_active_backends (clear_events (track_request ''b''
     (fst (collect_active connection_tracker_default))))))"
    using request_lost_in_clear [of "''b''" connection_tracker_default
        "fst (collect_active connection_tracker_default)" "snd (collect_active connection_tracker_default)"]
    by (metis connection_tracker_default_def connection_tracker.select_convs(1,2) empty_iff empty_set
        image_empty prod.collapse)
  then show ?thesis
    by (simp add: get_and_clear_active_backends_def collect_active_def clear_events_def track_request_def
        connection_tracker_default_def)
qed

end
