(* ===== verification/Proxy_Service.thy ===== *)
theory Proxy_Service
  imports Drone_Database Connection_Tracker Net_Text
begin

text \<open>
  The proxy of a drone (\<open>drone/src/proxy/service.rs\<close> and \<open>record_connections\<close> of
  \<open>drone/src/proxy/mod.rs\<close>): how a request is matched to a backend through its \<open>Host\<close> header, how its
  URI is rewritten, which requests are upgraded, and how the activity of the connection tracker
  reaches the database.

  The lookup in the database is an argument of \<open>handle\<close>; the locale \<open>route_lookup\<close> says what the proxy
  relies on, and it is interpreted on the drone database. The URI and header types of the \<open>http\<close>
  crate are records, with the operations of the crate that can fail as arguments (\<open>px_ext\<close>), and
  \<open>upstream\<close> is the backend's answer to a forwarded request.
\<close>

section \<open>Requests and responses\<close>

record Uri =
  u_scheme :: "string option"
  u_authority :: "string option"
  u_path_and_query :: "string option"

record Request =
  rq_method :: string
  rq_uri :: Uri
  rq_version :: string
  rq_headers :: "(string \<times> string) list"
  rq_body :: string

record Response =
  rs_status :: nat
  rs_headers :: "(string \<times> string) list"
  rs_body :: string

datatype ProxyError =
    Utf8Error
  | RouteError SqlError
  | InvalidAuthority
  | RewriteError
  | UpstreamError string
  | UpgradeError

record px_ext =
  px_authority :: "string \<Rightarrow> string option"
  px_from_parts :: "Uri \<Rightarrow> Uri option"
  px_to_str :: "string \<Rightarrow> string option"

record ProxyService =
  ps_cluster :: string
  ps_remote_ip :: IpAddr

definition UPGRADE :: string where
  "UPGRADE = ''upgrade''"

definition make_proxy_service_call :: "string \<Rightarrow> IpAddr \<Rightarrow> ProxyService" where
  "make_proxy_service_call cluster remote_ip = \<lparr>ps_cluster = cluster, ps_remote_ip = remote_ip\<rparr>"

text \<open>Method, URI and headers are kept; the builder starts with the default version.\<close>

definition clone_request :: "Request \<Rightarrow> Request" where
  "clone_request r = \<lparr>rq_method = rq_method r, rq_uri = rq_uri r, rq_version = ''HTTP/1.1'',
     rq_headers = rq_headers r, rq_body = []\<rparr>"

definition clone_response :: "Response \<Rightarrow> Response" where
  "clone_response r = \<lparr>rs_status = rs_status r, rs_headers = rs_headers r, rs_body = []\<rparr>"

definition rewrite_uri :: "px_ext \<Rightarrow> string \<Rightarrow> Uri \<Rightarrow> ProxyError + Uri" where
  "rewrite_uri x authority uri =
     bindR (ok_or InvalidAuthority (px_authority x authority)) (\<lambda>a.
       ok_or RewriteError (px_from_parts x (uri\<lparr>u_authority := Some a, u_scheme := Some ''http''\<rparr>)))"

section \<open>Handling a request\<close>

text \<open>
  What one call does: the response or error, the request sent to a backend, the tracker
  afterwards, and the subdomain for which a task was spawned that joins the two upgraded
  connections.
\<close>

record handled =
  hd_result :: "ProxyError + Response"
  hd_sent :: "Request option"
  hd_tracker :: connection_tracker
  hd_joined :: "string option"

definition handle_upgrade ::
  "(Request \<Rightarrow> string + Response) \<Rightarrow> bool \<Rightarrow> Request \<Rightarrow> string \<Rightarrow> connection_tracker \<Rightarrow> handled" where
  "handle_upgrade upstream response_upgrades req backend t =
     (let sent = clone_request req
      in case upstream sent of
           Inl e \<Rightarrow> \<lparr>hd_result = Inl (UpstreamError e), hd_sent = Some sent, hd_tracker = t, hd_joined = None\<rparr>
         | Inr response \<Rightarrow>
             if rs_status response = 101 then
               (if response_upgrades
                then \<lparr>hd_result = Inr (clone_response response), hd_sent = Some sent, hd_tracker = t,
                       hd_joined = Some backend\<rparr>
                else \<lparr>hd_result = Inl UpgradeError, hd_sent = Some sent, hd_tracker = t, hd_joined = None\<rparr>)
             else \<lparr>hd_result = Inr response, hd_sent = Some sent, hd_tracker = t, hd_joined = None\<rparr>)"

definition wants_upgrade :: "px_ext \<Rightarrow> Request \<Rightarrow> bool" where
  "wants_upgrade x req =
     (case map_of (rq_headers req) ''connection'' of
        None \<Rightarrow> False
      | Some v \<Rightarrow> str_contains UPGRADE
                    (to_lowercase (case px_to_str x v of Some s \<Rightarrow> s | None \<Rightarrow> [])))"

definition not_found :: Response where
  "not_found = \<lparr>rs_status = 404, rs_headers = [(''access-control-allow-origin'', ''*'')], rs_body = []\<rparr>"

definition strip_port :: "string \<Rightarrow> string" where
  "strip_port host = (case split_once (CHR '':'') host of Some (h, _) \<Rightarrow> h | None \<Rightarrow> host)"

definition proxy_respond :: "connection_tracker \<Rightarrow> ProxyError + Response \<Rightarrow> handled" where
  "proxy_respond t r = \<lparr>hd_result = r, hd_sent = None, hd_tracker = t, hd_joined = None\<rparr>"

definition handle ::
  "px_ext \<Rightarrow> (string \<Rightarrow> SqlError + string option) \<Rightarrow> (Request \<Rightarrow> string + Response) \<Rightarrow> bool \<Rightarrow>
     ProxyService \<Rightarrow> Request \<Rightarrow> connection_tracker \<Rightarrow> handled" where
  "handle x route upstream response_upgrades self req t =
     (case map_of (rq_headers req) ''host'' of
        None \<Rightarrow> proxy_respond t (Inr not_found)
      | Some host_bytes \<Rightarrow>
         (case from_utf8 host_bytes of
            None \<Rightarrow> proxy_respond t (Inl Utf8Error)
          | Some host \<Rightarrow>
             (case strip_suffix (''.'' @ ps_cluster self) (strip_port host) of
                None \<Rightarrow> proxy_respond t (Inr not_found)
              | Some subdomain \<Rightarrow>
                 (case route subdomain of
                    Inl e \<Rightarrow> proxy_respond t (Inl (RouteError e))
                  | Inr None \<Rightarrow> proxy_respond t (Inr not_found)
                  | Inr (Some addr) \<Rightarrow>
                     (let t' = track_request subdomain t
                      in case rewrite_uri x addr (rq_uri req) of
                           Inl e \<Rightarrow> proxy_respond t' (Inl e)
                         | Inr uri \<Rightarrow>
                            (let req' = req\<lparr>rq_uri := uri\<rparr>
                             in if wants_upgrade x req'
                                then handle_upgrade upstream response_upgrades req' subdomain t'
                                else \<lparr>hd_result = (case upstream req' of
                                                     Inl e \<Rightarrow> Inl (UpstreamError e) | Inr r \<Rightarrow> Inr r),
                                       hd_sent = Some req', hd_tracker = t', hd_joined = None\<rparr>))))))"

text \<open>One iteration of \<open>record_connections\<close>; \<open>clock n\<close> is \<open>unixepoch()\<close> in the \<open>n\<close>-th statement, and
  \<open>failed\<close> the number of statements executed before one failed, if one did: the error is logged.\<close>

definition record_connections ::
  "(nat \<Rightarrow> int) \<Rightarrow> nat option \<Rightarrow> connection_tracker \<Rightarrow> DroneDatabase \<Rightarrow> connection_tracker \<times> DroneDatabase" where
  "record_connections clock failed t db =
     (let (t', backends) = get_and_clear_active_backends t;
          statements = zip backends (map clock [0..<length backends]);
          executed = (case failed of None \<Rightarrow> statements | Some k \<Rightarrow> take k statements)
      in (t', reset_last_active_times executed db))"

section \<open>The interface to the routes\<close>

definition proxied_subdomain :: "ProxyService \<Rightarrow> Request \<Rightarrow> string option" where
  "proxied_subdomain self req =
     Option.bind (map_of (rq_headers req) ''host'') (\<lambda>v.
     Option.bind (from_utf8 v) (\<lambda>host. strip_suffix (''.'' @ ps_cluster self) (strip_port host)))"

text \<open>The request a backend gets: the original one with scheme and authority replaced.\<close>

definition forwards_to :: "px_ext \<Rightarrow> Request \<Rightarrow> string \<Rightarrow> Request \<Rightarrow> bool" where
  "forwards_to x req addr sent \<longleftrightarrow>
     (\<exists>a. px_authority x addr = Some a \<and>
        px_from_parts x ((rq_uri req)\<lparr>u_authority := Some a, u_scheme := Some ''http''\<rparr>) = Some (rq_uri sent)) \<and>
     rq_method sent = rq_method req \<and> rq_headers sent = rq_headers req"

lemma proxied_subdomain_host:
  assumes "map_of (rq_headers req) ''host'' = Some (sub @ ''.'' @ ps_cluster self)"
    and "from_utf8 (sub @ ''.'' @ ps_cluster self) = Some (sub @ ''.'' @ ps_cluster self)"
    and "CHR '':'' \<notin> set (sub @ ''.'' @ ps_cluster self)"
  shows "proxied_subdomain self req = Some sub"
proof -
  have "strip_port (sub @ ''.'' @ ps_cluster self) = sub @ ''.'' @ ps_cluster self"
    using split_once_None [THEN iffD2, OF assms(3)] by (simp add: strip_port_def)
  then show ?thesis using assms(1,2) strip_suffix_append [of "''.'' @ ps_cluster self" sub]
    by (simp add: proxied_subdomain_def)
qed

lemma rewrite_uri_Inr:
  "rewrite_uri x addr uri = Inr uri' \<longleftrightarrow>
     (\<exists>a. px_authority x addr = Some a \<and>
        px_from_parts x (uri\<lparr>u_authority := Some a, u_scheme := Some ''http''\<rparr>) = Some uri')"
  by (cases "px_authority x addr") (auto simp: rewrite_uri_def bindR_def ok_or_def split: option.splits)

lemmas handle_splits = option.splits sum.splits if_splits

lemma handle_sends:
  assumes "proxied_subdomain self req = Some sub" and "route sub = Inr (Some addr)" and "rewrite_uri x addr (rq_uri req) = Inr uri"
  shows "\<exists>sent. hd_sent (handle x route upstream up self req t) = Some sent \<and> rq_uri sent = uri"
  using assms
  by (auto simp: handle_def proxied_subdomain_def bind_eq_Some_conv Let_def handle_upgrade_def clone_request_def
      split: handle_splits)

locale route_lookup =
  fixes route :: "string \<Rightarrow> SqlError + string option"
    and allowed :: "string \<Rightarrow> string \<Rightarrow> bool"
  assumes route_allowed: "route sub = Inr (Some addr) \<Longrightarrow> allowed sub addr"
begin

lemma forwarded:
  assumes "hd_sent (handle x route upstream up self req t) = Some sent"
  shows "\<exists>sub addr. proxied_subdomain self req = Some sub \<and> allowed sub addr \<and>
    forwards_to x req addr sent \<and>
    hd_tracker (handle x route upstream up self req t) = track_request sub t"
  using assms
  by (auto simp: handle_def proxied_subdomain_def proxy_respond_def Let_def forwards_to_def handle_upgrade_def
      clone_request_def rewrite_uri_Inr dest: route_allowed split: handle_splits)

lemma joined:
  assumes "hd_joined (handle x route upstream up self req t) = Some sub"
  shows "proxied_subdomain self req = Some sub \<and> (\<exists>addr. allowed sub addr) \<and> wants_upgrade x req"
  using assms
  by (auto simp: handle_def proxied_subdomain_def proxy_respond_def Let_def handle_upgrade_def wants_upgrade_def
      dest: route_allowed split: handle_splits)

lemma unrouted:
  assumes "\<And>v. map_of (rq_headers req) ''host'' = Some v \<Longrightarrow> from_utf8 v \<noteq> None"
    and "\<And>sub. proxied_subdomain self req = Some sub \<Longrightarrow> route sub = Inr None"
  shows "handle x route upstream up self req t = proxy_respond t (Inr not_found)"
  using assms by (auto simp: handle_def proxied_subdomain_def split: option.splits)

end

interpretation db_routes: route_lookup
    "\<lambda>sub. if io then Inr (get_proxy_route sub db) else Inl SqlIo"
    "\<lambda>sub addr. db_ok db \<longrightarrow> ready_route db sub addr" for io db
  by unfold_locales (auto dest: route_needs_ready split: if_splits)

section \<open>The activity that reaches the database\<close>

lemma reset_times_row:
  assumes "route_row db sub = Some r"
  shows "\<exists>t. route_row (reset_last_active_times subs db) sub = Some (r\<lparr>rr_last_active := t\<rparr>) \<and>
    (if sub \<in> fst ` set subs then t \<in> snd ` set subs else t = rr_last_active r)"
  using assms
proof (induction subs db arbitrary: r rule: reset_last_active_times.induct)
  case (1 db)
  then show ?case by auto
next
  case (2 s now rest db)
  let ?r = "if sub = s then r\<lparr>rr_last_active := now\<rparr> else r"
  have "route_row (reset_last_active now s db) sub = Some ?r"
    using "2.prems" by (simp add: route_row_touch)
  from "2.IH" [OF this] obtain t where
    t: "route_row (reset_last_active_times rest (reset_last_active now s db)) sub
        = Some (?r\<lparr>rr_last_active := t\<rparr>)"
      "if sub \<in> fst ` set rest then t \<in> snd ` set rest else t = rr_last_active ?r" by blast
  then show ?case by (cases "sub = s") (auto split: if_splits)
qed

section \<open>Properties\<close>

text \<open>C8: the proxy only talks to ready backends. Whatever the sequence of database operations
  before, whether or not the lookup succeeds and whatever the backend answers, a request that
  is sent on goes to the address of a route whose subdomain is the one in the \<open>Host\<close> header and
  whose backend is \<open>Ready\<close>; its method and headers are those of the client, only scheme and
  authority of the URI are replaced, and the subdomain is marked active.\<close>

theorem proxy_forwards_only_to_ready:
  assumes "run_steps (db_step to_json fk) ops drone_database_new = Some (db, outs)"
    and "h = handle x (\<lambda>sub. if io then Inr (get_proxy_route sub db) else Inl SqlIo) upstream up self req t"
    and "hd_sent h = Some sent"
  shows "\<exists>sub addr. proxied_subdomain self req = Some sub \<and> ready_route db sub addr \<and>
    forwards_to x req addr sent \<and> hd_tracker h = track_request sub t"
  using db_routes.forwarded [of x io db upstream up self req t sent] assms reached_db_ok by blast

text \<open>Everything else is not found. A request without a \<open>Host\<close> header, for another domain, or
  for a subdomain that has no route to a ready backend, is answered with 404 and the CORS
  header, nothing is sent to any backend and the tracker is unchanged.\<close>

theorem proxy_not_found:
  assumes "\<And>v. map_of (rq_headers req) ''host'' = Some v \<Longrightarrow> from_utf8 v \<noteq> None"
    and "\<And>sub. proxied_subdomain self req = Some sub \<Longrightarrow> get_proxy_route sub db = None"
  shows "handle x (\<lambda>sub. Inr (get_proxy_route sub db)) upstream up self req t
    = \<lparr>hd_result = Inr \<lparr>rs_status = 404, rs_headers = [(''access-control-allow-origin'', ''*'')], rs_body = []\<rparr>,
       hd_sent = None, hd_tracker = t, hd_joined = None\<rparr>"
  using db_routes.unrouted [of req self True db x upstream up t] assms
  by (simp add: proxy_respond_def not_found_def)

text \<open>One round of \<open>record_connections\<close>. Every route keeps all its columns but the time of its
  last activity. That becomes a reading of the clock for the subdomains that were requested or
  have open connections, unless a database error stops the round before, and stays as it was for
  all others; the requests are forgotten in any case.\<close>

theorem record_connections_touches_active:
  assumes "route_row db sub = Some r" and "record_connections clock failed t db = (t', db')"
    and "active = set (ct_request_events t) \<union> fst ` set (ct_long_lived t)"
  shows "ct_request_events t' = [] \<and> db_backend db' = db_backend db \<and>
    (\<exists>time. route_row db' sub = Some (r\<lparr>rr_last_active := time\<rparr>) \<and>
       (sub \<in> active \<longrightarrow> (\<exists>n. time = clock n) \<or> failed \<noteq> None \<and> time = rr_last_active r) \<and>
       (sub \<notin> active \<longrightarrow> time = rr_last_active r))"
proof -
  let ?active = "snd (get_and_clear_active_backends t)"
  let ?all = "zip ?active (map clock [0..<length ?active])"
  let ?subs = "case failed of None \<Rightarrow> ?all | Some k \<Rightarrow> take k ?all"
  have split: "get_and_clear_active_backends t = (fst (get_and_clear_active_backends t), ?active)" by simp
  have "record_connections clock failed t db =
      (fst (get_and_clear_active_backends t), reset_last_active_times ?subs db)"
    unfolding record_connections_def Let_def by (subst split) (simp only: prod.case)
  then have t': "t' = fst (get_and_clear_active_backends t)" and db': "db' = reset_last_active_times ?subs db"
    using assms(2) by (simp_all only: prod.inject)
  have "map fst ?all = ?active" "map snd ?all = map clock [0..<length ?active]" by simp_all
  then have all: "fst ` set ?all = set ?active" "snd ` set ?all \<subseteq> range clock"
    by (metis list.set_map, metis image_mono list.set_map subset_UNIV)
  have "set ?subs \<subseteq> set ?all" by (auto split: option.splits dest: in_set_takeD)
  with all have sn: "snd ` set ?subs \<subseteq> range clock" and fs: "fst ` set ?subs \<subseteq> set ?active" by (blast, blast)
  have full: "fst ` set ?subs = set ?active" if "failed = None" using all that by simp
  have active: "set ?active = active"
    by (auto simp: assms(3) get_and_clear_active_backends_def collect_active_def set_fold_insert)
  obtain time where time: "route_row db' sub = Some (r\<lparr>rr_last_active := time\<rparr>)"
      "if sub \<in> fst ` set ?subs then time \<in> snd ` set ?subs else time = rr_last_active r"
    using reset_times_row [OF assms(1), of ?subs] db' by auto
  have "(sub \<in> active \<longrightarrow> (\<exists>n. time = clock n) \<or> failed \<noteq> None \<and> time = rr_last_active r) \<and>
      (sub \<notin> active \<longrightarrow> time = rr_last_active r)"
    using time(2) sn fs full unfolding active by (auto split: if_splits)
  moreover have "ct_request_events t' = []"
    unfolding t' by (simp add: get_and_clear_active_backends_def collect_active_def clear_events_def Let_def)
  moreover have "db_backend db' = db_backend db" unfolding db' by (rule reset_times_columns)
  ultimately show ?thesis using time(1) by blast
qed

section \<open>Witnesses\<close>

definition example_px :: px_ext where
  "example_px = \<lparr>px_authority = Some, px_from_parts = Some, px_to_str = Some\<rparr>"

definition example_service :: ProxyService where
  "example_service = make_proxy_service_call ''plane.test'' (V4 127 0 0 1)"

definition example_request :: "string \<Rightarrow> Request" where
  "example_request host = \<lparr>rq_method = ''GET'',
     rq_uri = \<lparr>u_scheme = None, u_authority = None, u_path_and_query = Some ''/x''\<rparr>,
     rq_version = ''HTTP/1.1'', rq_headers = [(''host'', host)], rq_body = []\<rparr>"

definition example_ops :: "db_op list" where
  "example_ops = [DbInsertBackend (example_spawn ''d'' ''b''), DbUpdateState (BackendId ''b'') Ready,
      DbInsertRoute (BackendId ''b'') ''b'' ''10.0.0.7:8080'' 5]"

definition example_routes :: DroneDatabase where
  "example_routes =
     \<lparr>db_backend = [\<lparr>br_name = ''b'', br_spec = ''spec'', br_state = ''Ready'', br_exit_code = None\<rparr>],
      db_route = [\<lparr>rr_id = 1, rr_backend = Some ''b'', rr_subdomain = ''b'',
        rr_address = ''10.0.0.7:8080'', rr_last_active = 5\<rparr>]\<rparr>"

lemma example_routes_run:
  "run_steps (db_step (\<lambda>_. ''spec'') True) example_ops drone_database_new
     = Some (example_routes, [OUnit (Inr ()), OUnit (Inr ()), OUnit (Inr ())])"
  by (simp add: example_ops_def example_routes_def insert_backend_def drone_database_new_def example_spawn_def
      update_backend_state_def insert_proxy_route_def next_rowid_def Let_def)

lemma example_host:
  "proxied_subdomain example_service (example_request ''b.plane.test:443'') = Some ''b''"
  "proxied_subdomain example_service (example_request ''b.other.test'') = None"
  by (simp_all add: proxied_subdomain_def example_service_def make_proxy_service_call_def
      example_request_def from_utf8_def strip_port_def strip_suffix_def)

lemma example_route: "get_proxy_route ''b'' example_routes = Some ''10.0.0.7:8080''"
  by (simp add: get_proxy_route_def example_routes_def route_state_def)

theorem proxy_forwards_only_to_ready_witness:
  "\<exists>sent. hd_sent (handle example_px (\<lambda>sub. if True then Inr (get_proxy_route sub example_routes) else Inl SqlIo)
       (\<lambda>_. Inr not_found) True example_service (example_request ''b.plane.test:443'') connection_tracker_default)
       = Some sent \<and> u_authority (rq_uri sent) = Some ''10.0.0.7:8080''
     \<and> (\<exists>addr. ready_route example_routes ''b'' addr)"
proof -
  let ?h = "handle example_px (\<lambda>sub. if True then Inr (get_proxy_route sub example_routes) else Inl SqlIo)
       (\<lambda>_. Inr not_found) True example_service (example_request ''b.plane.test:443'') connection_tracker_default"
  obtain sent where sent: "hd_sent ?h = Some sent" "u_authority (rq_uri sent) = Some ''10.0.0.7:8080''"
    using example_host(1) example_route
    by (auto simp: handle_def proxied_subdomain_def example_request_def Let_def rewrite_uri_def example_px_def
        wants_upgrade_def bind_eq_Some_conv split: option.splits)
  have "\<exists>sub addr. proxied_subdomain example_service (example_request ''b.plane.test:443'') = Some sub
      \<and> ready_route example_routes sub addr"
    using proxy_forwards_only_to_ready [OF example_routes_run refl sent(1)] by blast
  then have "\<exists>addr. ready_route example_routes ''b'' addr" using example_host(1) by simp
  then show ?thesis using sent by blast
qed

theorem proxy_not_found_witness:
  "hd_sent (handle example_px (\<lambda>sub. Inr (get_proxy_route sub example_routes)) (\<lambda>_. Inr not_found) True
     example_service (example_request ''b.other.test'') connection_tracker_default) = None"
  using proxy_not_found [of "example_request ''b.other.test''" example_service example_routes example_px
      "\<lambda>_. Inr not_found" True connection_tracker_default]
  by (simp add: example_host(2)) (simp add: example_request_def from_utf8_def)

theorem record_connections_touches_active_witness:
  "\<exists>r. route_row (snd (record_connections (\<lambda>_. 77) None (track_request ''b'' connection_tracker_default) example_routes)) ''b''
     = Some r \<and> rr_last_active r = 77"
proof -
  have "route_row example_routes ''b'' = Some (hd (db_route example_routes))"
    by (simp add: route_row_def example_routes_def)
  from record_connections_touches_active [OF this surjective_pairing [of "record_connections (\<lambda>_. 77) None
        (track_request ''b'' connection_tracker_default) example_routes"] refl]
  show ?thesis by (auto simp: track_request_def connection_tracker_default_def)
qed

end
