(* ===== verification/Core_Nats.thy ===== *)
theory Core_Nats
  imports Core_Messages Core_Retry
begin

text \<open>
  The typed wrappers around NATS (\<open>core/src/nats.rs\<close>) and the connection settings
  (\<open>core/src/nats_connection.rs\<close>). The client library, the JSON encoding and the URL parser are not
  code of the repository: \<open>decode\<close> and \<open>encode\<close> are the serde functions of a message type, a
  subscription is the list of the messages it will still deliver, and the results of the
  library's calls are arguments.
\<close>

section \<open>Subscriptions\<close>

record Message =
  ms_subject :: string
  ms_payload :: string
  ms_reply :: "string option"

datatype NatsError =
    NatsLibError string
  | BadPayload
  | EncodeError
  | NoReplySubject
  | ExpectedResponse
  | BadServerAddr
  | BadUrl

text \<open>The library's errors are turned into text; \<open>dbg\<close> prints them with \<open>{:?}\<close>.\<close>

definition nats_to_anyhow :: "('e \<Rightarrow> string) \<Rightarrow> 'e + 'a \<Rightarrow> NatsError + 'a" where
  "nats_to_anyhow dbg r =
     (case r of Inr v \<Rightarrow> Inr v | Inl err \<Rightarrow> Inl (NatsLibError (''NATS Error: '' @ dbg err)))"

definition nats_with_message :: "('e \<Rightarrow> string) \<Rightarrow> string \<Rightarrow> 'e + 'a \<Rightarrow> NatsError + 'a" where
  "nats_with_message dbg message r =
     (case r of
        Inr v \<Rightarrow> Inr v
      | Inl err \<Rightarrow> Inl (NatsLibError (''NATS Error: '' @ dbg err @ '' ('' @ message @ '')'')))"

text \<open>A message with its decoded value.\<close>

record 't MessageWithResponseHandle =
  mh_value :: 't
  mh_message :: Message

definition message_with_response_handle_new ::
  "(string \<Rightarrow> 't option) \<Rightarrow> Message \<Rightarrow> NatsError + 't MessageWithResponseHandle" where
  "message_with_response_handle_new decode m =
     bindR (ok_or BadPayload (decode (ms_payload m))) (\<lambda>v. Inr \<lparr>mh_value = v, mh_message = m\<rparr>)"

text \<open>Result, the message it was read from, and the rest of the subscription; a message that does
  not parse is skipped.\<close>

fun typed_next :: "(string \<Rightarrow> 't option) \<Rightarrow> Message list \<Rightarrow> ('t \<times> Message \<times> Message list) option" where
  "typed_next decode [] = None"
| "typed_next decode (m # ms) =
     (case message_with_response_handle_new decode m of
        Inr h \<Rightarrow> Some (mh_value h, mh_message h, ms)
      | Inl _ \<Rightarrow> typed_next decode ms)"

text \<open>\<open>lib\<close> is the library's subscription to a subject.\<close>

definition nats_subscribe ::
  "('e \<Rightarrow> string) \<Rightarrow> (string \<Rightarrow> 'e + Message list) \<Rightarrow> string \<Rightarrow> NatsError + Message list" where
  "nats_subscribe dbg lib subject = nats_to_anyhow dbg (lib subject)"

text \<open>
  Sending. The first definition of each pair builds the message handed to the client library, the
  second hands it over; \<open>lib\<close> is what the library then returns.
\<close>

definition respond_message :: "('r \<Rightarrow> string option) \<Rightarrow> Message \<Rightarrow> 'r \<Rightarrow> NatsError + Message" where
  "respond_message encode m response =
     bindR (ok_or NoReplySubject (ms_reply m)) (\<lambda>subject.
     bindR (ok_or EncodeError (encode response)) (\<lambda>payload.
       Inr \<lparr>ms_subject = subject, ms_payload = payload, ms_reply = None\<rparr>))"

definition respond ::
  "(Message \<Rightarrow> NatsError + unit) \<Rightarrow> ('r \<Rightarrow> string option) \<Rightarrow> Message \<Rightarrow> 'r \<Rightarrow> NatsError + unit" where
  "respond lib encode m response = bindR (respond_message encode m response) lib"

definition message_for :: "('m \<Rightarrow> string) \<Rightarrow> ('m \<Rightarrow> string option) \<Rightarrow> string option \<Rightarrow> 'm \<Rightarrow> NatsError + Message" where
  "message_for subject encode reply v =
     bindR (ok_or EncodeError (encode v)) (\<lambda>payload.
       Inr \<lparr>ms_subject = subject v, ms_payload = payload, ms_reply = reply\<rparr>)"

definition publish ::
  "(Message \<Rightarrow> NatsError + unit) \<Rightarrow> ('m \<Rightarrow> string) \<Rightarrow> ('m \<Rightarrow> string option) \<Rightarrow> 'm \<Rightarrow> NatsError + unit" where
  "publish lib subject encode v = bindR (message_for subject encode None v) lib"

text \<open>The library adds its own inbox to a request and returns the first message sent to it.\<close>

definition request ::
  "(Message \<Rightarrow> NatsError + Message) \<Rightarrow> ('m \<Rightarrow> string) \<Rightarrow> ('m \<Rightarrow> string option) \<Rightarrow> (string \<Rightarrow> 'r option) \<Rightarrow> 'm \<Rightarrow>
     NatsError + 'r" where
  "request lib subject encode decode v =
     bindR (bindR (message_for subject encode None v) lib) (\<lambda>result.
       ok_or BadPayload (decode (ms_payload result)))"

text \<open>\<open>split_request\<close> subscribes to a fresh inbox first; \<open>delayed_response\<close> reads the answer from it.\<close>

definition split_request ::
  "(string \<Rightarrow> NatsError + Message list) \<Rightarrow> (Message \<Rightarrow> NatsError + unit) \<Rightarrow> ('m \<Rightarrow> string) \<Rightarrow> ('m \<Rightarrow> string option) \<Rightarrow>
     string \<Rightarrow> 'm \<Rightarrow> NatsError + Message list" where
  "split_request subscribe lib subject encode inbox v =
     bindR (subscribe inbox) (\<lambda>subscription.
     bindR (bindR (message_for subject encode (Some inbox) v) lib) (\<lambda>_. Inr subscription))"

definition delayed_response :: "(string \<Rightarrow> 'r option) \<Rightarrow> Message list \<Rightarrow> NatsError + 'r" where
  "delayed_response decode ms =
     (case ms of
        [] \<Rightarrow> Inl ExpectedResponse
      | m # _ \<Rightarrow> ok_or BadPayload (decode (ms_payload m)))"

text \<open>JetStream: every message that was received is acknowledged, also one that does not parse.\<close>

fun jetstream_next ::
  "(string \<Rightarrow> 't option) \<Rightarrow> (string + Message) list \<Rightarrow> Message list \<times> ('t \<times> (string + Message) list) option" where
  "jetstream_next decode [] = ([], None)"
| "jetstream_next decode (Inl e # ms) = jetstream_next decode ms"
| "jetstream_next decode (Inr m # ms) =
     (case decode (ms_payload m) of
        Some v \<Rightarrow> ([m], Some (v, ms))
      | None \<Rightarrow> apfst ((#) m) (jetstream_next decode ms))"

definition NO_MESSAGES :: string where
  "NO_MESSAGES = ''error while processing messages from the stream: 404, Some('' @
     [CHR 0x22] @ ''No Messages'' @ [CHR 0x22] @ '')''"

fun nats_error_hack :: "(string + Message) option \<Rightarrow> NatsError + Message option" where
  "nats_error_hack (Some (Inr v)) = Inr (Some v)"
| "nats_error_hack (Some (Inl err)) = (if err = NO_MESSAGES then Inr None else Inl (NatsLibError err))"
| "nats_error_hack None = Inr None"

text \<open>
  The inner loop of \<open>get_all\<close> over one batch, with \<open>result\<close> and \<open>done\<close> as in the source, and the outer
  loop over the batches the consumer returns. \<open>None\<close> means that it is still waiting for a batch.
\<close>

fun fetch_batch ::
  "(string \<Rightarrow> 't option) \<Rightarrow> (string + Message) list \<Rightarrow> 't list \<Rightarrow> bool \<Rightarrow> NatsError + 't list \<times> bool" where
  "fetch_batch decode [] result done =
     bindR (nats_error_hack None) (\<lambda>_. Inr (result, done))"
| "fetch_batch decode (next # rest) result done =
     bindR (nats_error_hack (Some next)) (\<lambda>v.
       case v of
         None \<Rightarrow> Inr (result, done)
       | Some m \<Rightarrow>
           bindR (ok_or BadPayload (decode (ms_payload m))) (\<lambda>t.
             fetch_batch decode rest (result @ [t]) False))"

fun get_all_loop ::
  "(string \<Rightarrow> 't option) \<Rightarrow> (NatsError + (string + Message) list) list \<Rightarrow> 't list \<Rightarrow> (NatsError + 't list) option" where
  "get_all_loop decode [] result = None"
| "get_all_loop decode (Inl e # batches) result = Some (Inl e)"
| "get_all_loop decode (Inr batch # batches) result =
     (case fetch_batch decode batch result True of
        Inl e \<Rightarrow> Some (Inl e)
      | Inr (result', done) \<Rightarrow> if done then Some (Inr result') else get_all_loop decode batches result')"

section \<open>Streams are created before they are used\<close>

text \<open>The calls a client makes to the server, with their success, and the streams it knows.\<close>

datatype js_call = JsCreate string bool | JsPublish string string bool

record typed_nats =
  tn_created :: "string list"
  tn_calls :: "js_call list"

definition typed_nats_new :: typed_nats where
  "typed_nats_new = \<lparr>tn_created = [], tn_calls = []\<rparr>"

definition add_jetstream_stream :: "bool \<Rightarrow> stream_config \<Rightarrow> typed_nats \<Rightarrow> typed_nats \<times> (NatsError + unit)" where
  "add_jetstream_stream ok config n =
     (n\<lparr>tn_calls := tn_calls n @ [JsCreate (sc_name config) ok]\<rparr>,
      if ok then Inr () else Inl (NatsLibError ''get_or_create_stream''))"

definition ensure_jetstream_exists ::
  "bool \<Rightarrow> stream_config \<Rightarrow> typed_nats \<Rightarrow> typed_nats \<times> (NatsError + unit)" where
  "ensure_jetstream_exists ok config n =
     (if sc_name config \<in> set (tn_created n) then (n, Inr ())
      else case add_jetstream_stream ok config n of
             (n', Inl e) \<Rightarrow> (n', Inl e)
           | (n', Inr _) \<Rightarrow> (n'\<lparr>tn_created := List.insert (sc_name config) (tn_created n')\<rparr>, Inr ()))"

definition publish_jetstream ::
  "bool \<Rightarrow> bool \<Rightarrow> stream_config \<Rightarrow> string \<Rightarrow> typed_nats \<Rightarrow> typed_nats \<times> (NatsError + unit)" where
  "publish_jetstream create_ok publish_ok config subject n =
     (case ensure_jetstream_exists create_ok config n of
        (n', Inl e) \<Rightarrow> (n', Inl e)
      | (n', Inr _) \<Rightarrow>
          (n'\<lparr>tn_calls := tn_calls n' @ [JsPublish (sc_name config) subject publish_ok]\<rparr>,
           if publish_ok then Inr () else Inl (NatsLibError ''publish'')))"

definition subscribe_jetstream ::
  "bool \<Rightarrow> stream_config \<Rightarrow> NatsError + unit \<Rightarrow> typed_nats \<Rightarrow> typed_nats \<times> (NatsError + unit)" where
  "subscribe_jetstream create_ok config subscribed n =
     (fst (ensure_jetstream_exists create_ok config n), subscribed)"

definition get_all ::
  "(string \<Rightarrow> 't option) \<Rightarrow> bool \<Rightarrow> stream_config \<Rightarrow> NatsError + unit \<Rightarrow> NatsError + unit \<Rightarrow>
     (NatsError + (string + Message) list) list \<Rightarrow> typed_nats \<Rightarrow> typed_nats \<times> (NatsError + 't list) option" where
  "get_all decode create_ok config get_stream create_consumer batches n =
     (fst (ensure_jetstream_exists create_ok config n),
      case bindR get_stream (\<lambda>_. create_consumer) of
        Inl e \<Rightarrow> Some (Inl e)
      | Inr _ \<Rightarrow> get_all_loop decode batches [])"

section \<open>Connecting (\<open>nats_connection.rs\<close>)\<close>

datatype NatsAuthorization = AuthToken string | AuthUserAndPassword string string

record NatsConnectionSpec =
  nc_auth :: "NatsAuthorization option"
  nc_hosts :: "string list"

text \<open>The parts of a parsed URL that are read.\<close>

record url =
  url_username :: string
  url_password :: "string option"
  url_host :: "string option"

definition from_url :: "(string \<Rightarrow> url option) \<Rightarrow> string \<Rightarrow> NatsError + NatsConnectionSpec" where
  "from_url parse s =
     bindR (ok_or BadUrl (parse s)) (\<lambda>u.
       Inr \<lparr>nc_auth = (case url_password u of
                         Some password \<Rightarrow> Some (AuthUserAndPassword (url_username u) password)
                       | None \<Rightarrow> if url_username u \<noteq> [] then Some (AuthToken (url_username u)) else None),
            nc_hosts = [case url_host u of Some h \<Rightarrow> h | None \<Rightarrow> ''localhost'']\<rparr>)"

text \<open>\<open>None\<close> is the panic of \<open>todo!\<close>; the options are the token, if any.\<close>

fun connect_options :: "NatsConnectionSpec \<Rightarrow> string option panics" where
  "connect_options spec =
     (case nc_auth spec of
        None \<Rightarrow> Some None
      | Some (AuthToken token) \<Rightarrow> Some (Some token)
      | Some (AuthUserAndPassword _ _) \<Rightarrow> None)"

text \<open>\<open>connect addrs options n\<close> is the outcome of the \<open>n\<close>-th attempt.\<close>

definition connect_with_retry ::
  "bool \<Rightarrow> (string \<Rightarrow> bool) \<Rightarrow> (string list \<Rightarrow> string option \<Rightarrow> nat \<Rightarrow> NatsError + unit) \<Rightarrow>
     NatsConnectionSpec \<Rightarrow> (NatsError + unit) panics" where
  "connect_with_retry checks addr_ok connect spec =
     (if \<not> list_all addr_ok (nc_hosts spec) then Some (Inl BadServerAddr)
      else case connect_options spec of
             None \<Rightarrow> None
           | Some options \<Rightarrow>
               map_option ro_result
                 (do_with_retry checks (connect (nc_hosts spec) options) 30 (from_secs 10)))"

definition connect_once ::
  "(string \<Rightarrow> bool) \<Rightarrow> (string list \<Rightarrow> string option \<Rightarrow> nat \<Rightarrow> NatsError + unit) \<Rightarrow>
     NatsConnectionSpec \<Rightarrow> (NatsError + unit) panics" where
  "connect_once addr_ok connect spec =
     (if \<not> list_all addr_ok (nc_hosts spec) then Some (Inl BadServerAddr)
      else map_option (\<lambda>options. connect (nc_hosts spec) options 0) (connect_options spec))"

section \<open>Lemmas\<close>

lemma message_with_response_handle_simp [simp]:
  "message_with_response_handle_new decode m =
     (case decode (ms_payload m) of None \<Rightarrow> Inl BadPayload | Some v \<Rightarrow> Inr \<lparr>mh_value = v, mh_message = m\<rparr>)"
  by (cases "decode (ms_payload m)") (simp_all add: message_with_response_handle_new_def)

lemma typed_next_Some:
  "typed_next decode ms = Some (v, m, rest) \<longleftrightarrow>
     (\<exists>bad. ms = bad @ m # rest \<and> (\<forall>x \<in> set bad. decode (ms_payload x) = None) \<and> decode (ms_payload m) = Some v)"
proof (induction ms)
  case (Cons x ms)
  show ?case
  proof (cases "decode (ms_payload x)")
    case None
    then show ?thesis using Cons.IH
      by (auto simp: Cons_eq_append_conv)
  next
    case (Some u)
    then show ?thesis by (auto simp: Cons_eq_append_conv)
  qed
qed simp

lemma fetch_batch_all:
  assumes "\<forall>m \<in> set ms. decode (ms_payload m) = Some (f m)" and "tail = [] \<or> tail = [Inl NO_MESSAGES]"
  shows "fetch_batch decode (map Inr ms @ tail) result d = Inr (result @ map f ms, d \<and> ms = [])"
  using assms(1)
proof (induction ms arbitrary: result d)
  case Nil
  then show ?case using assms(2) by auto
next
  case (Cons m ms)
  then show ?case by simp
qed

definition server_batch :: "Message list \<Rightarrow> bool \<Rightarrow> (string + Message) list" where
  "server_batch ms ended = map Inr ms @ (if ended then [Inl NO_MESSAGES] else [])"

lemma get_all_loop_all:
  assumes "\<forall>(ms, _) \<in> set bs. ms \<noteq> [] \<and> (\<forall>m \<in> set ms. decode (ms_payload m) = Some (f m))"
  shows "get_all_loop decode (map (\<lambda>(ms, e). Inr (server_batch ms e)) bs @ Inr (server_batch [] e) # later) result
    = Some (Inr (result @ map f (concat (map fst bs))))"
  using assms
proof (induction bs arbitrary: result)
  case Nil
  show ?case using fetch_batch_all [of "[]" decode f "if e then [Inl NO_MESSAGES] else []" result True]
    by (simp add: server_batch_def)
next
  case (Cons b bs)
  obtain ms e' where b: "b = (ms, e')" by (cases b)
  have "fetch_batch decode (server_batch ms e') result True = Inr (result @ map f ms, False)"
    using Cons.prems b fetch_batch_all [of ms decode f "if e' then [Inl NO_MESSAGES] else []" result True]
    by (auto simp: server_batch_def)
  then show ?case using Cons b by simp
qed

text \<open>The calls in the log: publications come after the successful creation of their stream, which
  happens once, and the known streams are those that were created.\<close>

definition created_in :: "js_call list \<Rightarrow> string \<Rightarrow> bool" where
  "created_in calls s \<longleftrightarrow> JsCreate s True \<in> set calls"

fun calls_ok :: "js_call list \<Rightarrow> js_call list \<Rightarrow> bool" where
  "calls_ok before [] = True"
| "calls_ok before (JsCreate s ok # rest) = (\<not> created_in before s \<and> calls_ok (before @ [JsCreate s ok]) rest)"
| "calls_ok before (JsPublish s subj ok # rest) = (created_in before s \<and> calls_ok (before @ [JsPublish s subj ok]) rest)"

definition nats_ok :: "typed_nats \<Rightarrow> bool" where
  "nats_ok n \<longleftrightarrow> calls_ok [] (tn_calls n) \<and> (\<forall>s. s \<in> set (tn_created n) \<longleftrightarrow> created_in (tn_calls n) s)"

datatype js_op =
    OpPublish bool bool stream_config string
  | OpSubscribe bool stream_config "NatsError + unit"
  | OpGetAll bool stream_config "NatsError + unit" "NatsError + unit" "(NatsError + (string + Message) list) list"

fun js_step :: "js_op \<Rightarrow> typed_nats \<Rightarrow> (typed_nats \<times> (NatsError + unit)) panics" where
  "js_step (OpPublish create_ok publish_ok config subject) n =
     Some (publish_jetstream create_ok publish_ok config subject n)"
| "js_step (OpSubscribe create_ok config subscribed) n =
     Some (subscribe_jetstream create_ok config subscribed n)"
| "js_step (OpGetAll create_ok config get_stream create_consumer batches) n =
     (let (n', r) = get_all Some create_ok config get_stream create_consumer batches n
      in Some (n', case r of Some (Inl e) \<Rightarrow> Inl e | _ \<Rightarrow> Inr ()))"

lemma calls_ok_snoc:
  "calls_ok before (calls @ [c]) \<longleftrightarrow> calls_ok before calls \<and> calls_ok (before @ calls) [c]"
  by (induction before calls rule: calls_ok.induct) auto

lemma ensure_ok:
  assumes "nats_ok n" and "ensure_jetstream_exists ok config n = (n', r)"
  shows "nats_ok n' \<and> (r = Inr () \<longrightarrow> created_in (tn_calls n') (sc_name config))"
proof (cases "sc_name config \<in> set (tn_created n)")
  case True
  then show ?thesis using assms by (auto simp: ensure_jetstream_exists_def nats_ok_def)
next
  case False
  then have new: "\<not> created_in (tn_calls n) (sc_name config)" using assms(1) by (simp add: nats_ok_def)
  have n': "n' = n\<lparr>tn_calls := tn_calls n @ [JsCreate (sc_name config) ok],
      tn_created := (if ok then List.insert (sc_name config) (tn_created n) else tn_created n)\<rparr>"
    and r: "r = (if ok then Inr () else Inl (NatsLibError ''get_or_create_stream''))"
    using assms(2) False by (auto simp: ensure_jetstream_exists_def add_jetstream_stream_def split: if_splits)
  show ?thesis using new assms(1) unfolding n' r
    by (auto simp: nats_ok_def calls_ok_snoc created_in_def)
qed

lemma publish_ok:
  assumes "nats_ok n"
  shows "nats_ok (fst (publish_jetstream create_ok publish_ok config subject n))"
proof -
  obtain n' r where e: "ensure_jetstream_exists create_ok config n = (n', r)"
    by (cases "ensure_jetstream_exists create_ok config n")
  then show ?thesis using ensure_ok [OF assms e]
    by (cases r) (auto simp: publish_jetstream_def nats_ok_def calls_ok_snoc created_in_def)
qed

interpretation js_inv: step_invariant js_step nats_ok
proof unfold_locales
  fix n n' :: typed_nats and x :: js_op and v
  assume ok: "nats_ok n" and "step": "js_step x n = Some (n', v)"
  show "nats_ok n'"
  proof (cases x)
    case (OpPublish create_ok pub_ok config subject)
    then show ?thesis using publish_ok [OF ok, of create_ok pub_ok config subject] "step" by simp
  next
    case (OpSubscribe create_ok config subscribed)
    then show ?thesis
      using ensure_ok [OF ok, of create_ok config] "step"
      by (cases "ensure_jetstream_exists create_ok config n") (auto simp: subscribe_jetstream_def)
  next
    case (OpGetAll create_ok config get_stream create_consumer batches)
    then show ?thesis
      using ensure_ok [OF ok, of create_ok config] "step"
      by (cases "ensure_jetstream_exists create_ok config n") (auto simp: get_all_def)
  qed
qed

lemma calls_ok_split:
  "calls_ok before calls \<Longrightarrow> calls = xs @ JsPublish s subj ok # ys \<Longrightarrow> created_in (before @ xs) s"
proof (induction before calls arbitrary: xs rule: calls_ok.induct)
  case (2 before t ok' rest)
  then show ?case by (cases xs) auto
next
  case (3 before t subj' ok' rest)
  then show ?case by (cases xs) auto
qed simp

lemma calls_ok_once:
  "calls_ok before calls \<Longrightarrow> calls = xs @ JsCreate s ok # ys \<Longrightarrow> \<not> created_in (before @ xs) s"
proof (induction before calls arbitrary: xs rule: calls_ok.induct)
  case (2 before t ok' rest)
  then show ?case by (cases xs) auto
next
  case (3 before t subj' ok' rest)
  then show ?case by (cases xs) auto
qed simp

section \<open>Properties\<close>

text \<open>C30: \<open>get_all\<close> returns everything that is in the stream. If the stream and the consumer can be
  opened and the messages decode, then from any number of non-empty batches followed by an
  empty one, each batch ended or not by the error that stands for the end of the stream, it
  returns all messages of the batches, in order, and stops.\<close>

theorem get_all_complete:
  assumes "\<forall>(ms, _) \<in> set bs. ms \<noteq> [] \<and> (\<forall>m \<in> set ms. decode (ms_payload m) = Some (f m))"
  shows "snd (get_all decode create_ok config (Inr ()) (Inr ())
      (map (\<lambda>(ms, ended). Inr (server_batch ms ended)) bs @ Inr (server_batch [] ended) # later) n)
    = Some (Inr (map f (concat (map fst bs))))"
  using get_all_loop_all [OF assms, of ended later "[]"] by (simp add: get_all_def)

definition example_message :: "string \<Rightarrow> Message" where
  "example_message p = \<lparr>ms_subject = ''s'', ms_payload = p, ms_reply = None\<rparr>"

theorem get_all_complete_witness:
  "snd (get_all Some True status_stream_config (Inr ()) (Inr ())
     [Inr (server_batch [example_message ''a'', example_message ''b''] False),
      Inr (server_batch [example_message ''c''] True), Inr (server_batch [] True)] typed_nats_new)
   = Some (Inr [''a'', ''b'', ''c''])"
  using get_all_complete [of "[([example_message ''a'', example_message ''b''], False), ([example_message ''c''], True)]"
      Some ms_payload True status_stream_config True "[]" typed_nats_new]
  by (simp add: example_message_def)



text \<open>Connecting. With a token or without authentication, \<open>connect_with_retry\<close> does not panic and
  returns the outcome of the first successful of 30 attempts or of the last one. A URL with a
  password is accepted by \<open>from_url\<close>, but the connection then panics.\<close>

theorem connect_with_retry_outcome:
  "(list_all addr_ok (nc_hosts spec) \<and> nc_auth spec = map_option AuthToken token \<longrightarrow>
      connect_with_retry checks addr_ok connect spec =
        Some (connect (nc_hosts spec) token (deciding_call (connect (nc_hosts spec) token) 30 0))) \<and>
   (parse s = Some u \<and> url_password u \<noteq> None \<and> list_all addr_ok [case url_host u of Some h \<Rightarrow> h | None \<Rightarrow> ''localhost''] \<longrightarrow>
      (\<exists>spec'. from_url parse s = Inr spec' \<and> connect_with_retry checks addr_ok connect spec' = None))"
  by (cases token)
    (auto simp: connect_with_retry_def do_with_retry_def retry_loop_spec retry_spec_def from_url_def Let_def)

theorem connect_with_retry_outcome_witness:
  "connect_with_retry True (\<lambda>_. True) (\<lambda>_ _ n. if n = 2 then Inr () else Inl (NatsLibError ''refused''))
     \<lparr>nc_auth = None, nc_hosts = [''nats'']\<rparr> = Some (Inr ()) \<and>
   (\<exists>spec'. from_url (\<lambda>_. Some \<lparr>url_username = ''u'', url_password = Some ''p'', url_host = None\<rparr>) ''nats://u:p@'' = Inr spec' \<and>
      connect_with_retry True (\<lambda>_. True) (\<lambda>_ _ n. if n = 2 then Inr () else Inl (NatsLibError ''refused'')) spec' = None)"
proof -
  let ?c = "\<lambda>(_ :: string list) (_ :: string option) n. if n = (2 :: nat) then Inr () else Inl (NatsLibError ''refused'')"
  have d: "deciding_call (?c hosts token) 30 0 = 2" for hosts token
    by (simp add: deciding_call_def upt_rec)
  show ?thesis
    using connect_with_retry_outcome [of "\<lambda>_. True" "\<lparr>nc_auth = None, nc_hosts = [''nats'']\<rparr>" None True ?c
        "\<lambda>_. Some \<lparr>url_username = ''u'', url_password = Some ''p'', url_host = None\<rparr>" "''nats://u:p@''"
        "\<lparr>url_username = ''u'', url_password = Some ''p'', url_host = None\<rparr>"] d
    by simp
qed

text \<open>C33: requests and answers. If encoding and decoding are inverse on the two values, a subscriber
  that finds the request after messages it cannot read gets the value that was sent, its answer
  goes to the inbox of the requester, and the requester gets the value that was answered, both
  from \<open>request\<close> and from \<open>split_request\<close> with \<open>delayed_response\<close>.\<close>

theorem request_reply_roundtrip:
  assumes "\<And>p. encode v = Some p \<Longrightarrow> decode p = Some v" and "\<And>p. encode_r r = Some p \<Longrightarrow> decode_r p = Some r"
    and "message_for subject encode (Some inbox) v = Inr m" and "respond_message encode_r m r = Inr answer"
    and "\<forall>x \<in> set bad. decode (ms_payload x) = None"
    and "lib (m\<lparr>ms_reply := None\<rparr>) = Inr answer"
    and "subscribe inbox = Inr (answer # later)" and "sent m = Inr ()"
  shows "typed_next decode (bad @ m # ms) = Some (v, m, ms) \<and> ms_subject m = subject v \<and> ms_subject answer = inbox \<and>
    request lib subject encode decode_r v = Inr r \<and>
    bindR (split_request subscribe sent subject encode inbox v) (delayed_response decode_r) = Inr r"
proof -
  obtain p where p: "encode v = Some p" and m: "m = \<lparr>ms_subject = subject v, ms_payload = p, ms_reply = Some inbox\<rparr>"
    using assms(3) by (cases "encode v") (auto simp: message_for_def bindR_def)
  obtain q where q: "encode_r r = Some q" and a: "answer = \<lparr>ms_subject = inbox, ms_payload = q, ms_reply = None\<rparr>"
    using assms(4) m by (cases "encode_r r") (auto simp: respond_message_def bindR_def)
  have "typed_next decode (bad @ m # ms) = Some (v, m, ms)"
    using assms(1) [OF p] assms(5) m typed_next_Some by fastforce
  moreover have "request lib subject encode decode_r v = Inr r"
    using assms(2) [OF q] assms(6) a p m by (simp add: request_def message_for_def bindR_def)
  moreover have "bindR (split_request subscribe sent subject encode inbox v) (delayed_response decode_r) = Inr r"
    using assms(2) [OF q] assms(7,8) a p m by (simp add: split_request_def message_for_def delayed_response_def bindR_def)
  ultimately show ?thesis using m a by simp
qed

theorem request_reply_roundtrip_witness:
  "typed_next (\<lambda>p. if p = ''7'' then Some (7::nat) else None)
     [example_message ''x'', \<lparr>ms_subject = ''svc'', ms_payload = ''7'', ms_reply = Some ''inbox''\<rparr>]
     = Some (7, \<lparr>ms_subject = ''svc'', ms_payload = ''7'', ms_reply = Some ''inbox''\<rparr>, []) \<and>
   request (\<lambda>_. Inr \<lparr>ms_subject = ''inbox'', ms_payload = ''true'', ms_reply = None\<rparr>) (\<lambda>_. ''svc'') (\<lambda>_. Some ''7'')
     (\<lambda>p. Some (p = ''true'')) (7::nat) = Inr True"
  using request_reply_roundtrip [of "\<lambda>_. Some ''7''" "7::nat" "\<lambda>p. if p = ''7'' then Some (7::nat) else None"
      "\<lambda>b. Some (if b then ''true'' else ''false'')" True "\<lambda>p. Some (p = ''true'')" "\<lambda>_. ''svc''" "''inbox''"
      "\<lparr>ms_subject = ''svc'', ms_payload = ''7'', ms_reply = Some ''inbox''\<rparr>"
      "\<lparr>ms_subject = ''inbox'', ms_payload = ''true'', ms_reply = None\<rparr>" "[example_message ''x'']"
      "\<lambda>_. Inr \<lparr>ms_subject = ''inbox'', ms_payload = ''true'', ms_reply = None\<rparr>"
      "\<lambda>_. Inr [\<lparr>ms_subject = ''inbox'', ms_payload = ''true'', ms_reply = None\<rparr>]" "[]" "\<lambda>_. Inr ()" "[]"]
  by (simp add: message_for_def respond_message_def bindR_def example_message_def)

end
