(* ===== verification/Drone_Certs.thy ===== *)
theory Drone_Certs
  imports Core_Nats
begin

text \<open>
  The certificates of a drone: the paths and files of the key pair (\<open>drone/src/keys.rs\<close>), issuing a
  certificate over ACME and the refresh loop (\<open>drone/src/cert/mod.rs\<close>, \<open>cert/acme.rs\<close>), and the
  watcher through which the proxy picks up new files (\<open>drone/src/proxy/certs.rs\<close>).

  A path is the list of its components and a file system a map from paths to contents. The ACME
  client, the PEM and X.509 parsers and the key types of \<open>rustls\<close> are not code of the repository;
  what they return is an argument.
\<close>

section \<open>Files and keys (\<open>keys.rs\<close>)\<close>

type_synonym path = "string list"
type_synonym fs = "path \<rightharpoonup> string"

definition path_parent :: "path \<Rightarrow> path option" where
  "path_parent p = (if p = [] then None else Some (butlast p))"

record KeyCertPathPair =
  key_path :: path
  cert_path :: path

record CertifiedKey =
  ck_cert :: "string list"
  ck_key :: string

datatype CertError =
    IoError
  | PemError
  | NotASingleKey nat
  | UnsupportedKey
  | AcmeError string
  | CertNatsError
  | Base64Error
  | WatcherError
  | OutOfRangeError

text \<open>The PEM readers of \<open>rustls_pemfile\<close> and \<open>any_supported_type\<close> of \<open>rustls\<close>.\<close>

record pem_ext =
  pem_certs :: "string \<Rightarrow> string list option"
  pem_pkcs8_keys :: "string \<Rightarrow> string list option"
  pem_supported :: "string \<Rightarrow> string option"

definition load_certs :: "pem_ext \<Rightarrow> fs \<Rightarrow> path \<Rightarrow> CertError + string list" where
  "load_certs x fs filename =
     bindR (ok_or IoError (fs filename)) (\<lambda>content. ok_or PemError (pem_certs x content))"

definition load_private_key :: "pem_ext \<Rightarrow> fs \<Rightarrow> path \<Rightarrow> CertError + string" where
  "load_private_key x fs filename =
     bindR (ok_or IoError (fs filename)) (\<lambda>content.
     bindR (ok_or PemError (pem_pkcs8_keys x content)) (\<lambda>keys.
       if length keys \<noteq> 1 then Inl (NotASingleKey (length keys)) else Inr (keys ! 0)))"

definition load_certified_key :: "pem_ext \<Rightarrow> fs \<Rightarrow> KeyCertPathPair \<Rightarrow> CertError + CertifiedKey" where
  "load_certified_key x fs self =
     bindR (load_certs x fs (cert_path self)) (\<lambda>certificate.
     bindR (load_private_key x fs (key_path self)) (\<lambda>private_key.
     bindR (ok_or UnsupportedKey (pem_supported x private_key)) (\<lambda>signing_key.
       Inr \<lparr>ck_cert = certificate, ck_key = signing_key\<rparr>)))"

definition parent_paths :: "KeyCertPathPair \<Rightarrow> path list panics" where
  "parent_paths self =
     (case path_parent (key_path self) of
        None \<Rightarrow> None
      | Some key_parent_dir \<Rightarrow>
          (case path_parent (key_path self) of
             None \<Rightarrow> None
           | Some certificate_parent_dir \<Rightarrow>
               Some (if key_parent_dir = certificate_parent_dir then [key_parent_dir]
                     else [key_parent_dir, certificate_parent_dir])))"

section \<open>Picking up new files (\<open>proxy/certs.rs\<close>)\<close>

text \<open>\<open>cr_current\<close> is the value of the watch channel; the other two are captured by the callback.\<close>

record CertRefresher =
  cr_current :: "CertifiedKey option"
  cr_private_key :: "string option"
  cr_certificate :: "string list option"
  cr_watched :: "path list"

definition try_to_update_certs ::
  "pem_ext \<Rightarrow> fs \<Rightarrow> KeyCertPathPair \<Rightarrow> CertifiedKey option \<Rightarrow> CertifiedKey option \<times> (CertError + unit)" where
  "try_to_update_certs x fs pair current =
     (case load_certified_key x fs pair of
        Inl e \<Rightarrow> (current, Inl e)
      | Inr ck \<Rightarrow> (Some ck, Inr ()))"

text \<open>\<open>watcher_ok\<close> and \<open>watch_ok\<close> tell whether the watcher and each watch could be installed.\<close>

definition cert_refresher_new ::
  "pem_ext \<Rightarrow> bool \<Rightarrow> (path \<Rightarrow> bool) \<Rightarrow> fs \<Rightarrow> KeyCertPathPair \<Rightarrow> (CertError + CertRefresher) panics" where
  "cert_refresher_new x watcher_ok watch_ok fs pair =
     (if \<not> watcher_ok then Some (Inl WatcherError)
      else map_option
        (\<lambda>dirs. if list_all watch_ok dirs
                then Inr \<lparr>cr_current = fst (try_to_update_certs x fs pair None), cr_private_key = None,
                          cr_certificate = None, cr_watched = dirs\<rparr>
                else Inl WatcherError)
        (parent_paths pair))"

datatype FsEvent = CloseWrite "path list" | OtherFsEvent | WatchError

definition publish_pair :: "pem_ext \<Rightarrow> CertRefresher \<Rightarrow> CertRefresher" where
  "publish_pair x c =
     (case (cr_private_key c, cr_certificate c) of
        (Some key, Some cert) \<Rightarrow>
          (case pem_supported x key of
             None \<Rightarrow> c
           | Some pk \<Rightarrow> c\<lparr>cr_current := Some \<lparr>ck_cert = cert, ck_key = pk\<rparr>\<rparr>)
      | _ \<Rightarrow> c)"

text \<open>The callback, with the file system at the time it runs.\<close>

fun on_fs_event :: "pem_ext \<Rightarrow> KeyCertPathPair \<Rightarrow> fs \<Rightarrow> FsEvent \<Rightarrow> CertRefresher \<Rightarrow> CertRefresher" where
  "on_fs_event x pair fs (CloseWrite paths) c =
     (let key_step = (if key_path pair \<in> set paths
                      then (case load_private_key x fs (key_path pair) of
                              Inr key \<Rightarrow> Some (c\<lparr>cr_private_key := Some key\<rparr>) | Inl _ \<Rightarrow> None)
                      else Some c)
      in case key_step of
           None \<Rightarrow> c
         | Some c1 \<Rightarrow>
             (if cert_path pair \<in> set paths
              then (case load_certs x fs (cert_path pair) of
                      Inr cert \<Rightarrow> publish_pair x (c1\<lparr>cr_certificate := Some cert\<rparr>) | Inl _ \<Rightarrow> c1)
              else publish_pair x c1))"
| "on_fs_event x pair fs _ c = c"

text \<open>The watcher reports files in the watched directories only (non-recursive).\<close>

definition delivered :: "CertRefresher \<Rightarrow> FsEvent \<Rightarrow> bool" where
  "delivered c ev =
     (case ev of
        CloseWrite paths \<Rightarrow> list_ex (\<lambda>p. case path_parent p of Some d \<Rightarrow> d \<in> set (cr_watched c) | None \<Rightarrow> False) paths
      | _ \<Rightarrow> True)"

fun watch :: "pem_ext \<Rightarrow> KeyCertPathPair \<Rightarrow> (fs \<times> FsEvent) list \<Rightarrow> CertRefresher \<Rightarrow> CertRefresher" where
  "watch x pair [] c = c"
| "watch x pair ((fs, ev) # evs) c =
     watch x pair evs (if delivered c ev then on_fs_event x pair fs ev c else c)"

definition resolve :: "CertRefresher \<Rightarrow> CertifiedKey option" where
  "resolve c = cr_current c"

section \<open>Issuing a certificate (\<open>cert/mod.rs\<close>)\<close>

definition REFRESH_MARGIN :: duration where
  "REFRESH_MARGIN = from_secs (3600 * 24 * 15)"

definition MAX_SLEEP :: duration where
  "MAX_SLEEP = from_secs 3600"

text \<open>The account data of \<open>cert/acme.rs\<close>. The URL-safe base64 of the \<open>base64\<close> crate is an argument; a
  NATS client is named by the settings it was connected with.\<close>

record AcmeEabConfiguration =
  eab_key_id :: string
  eab_key :: "u8 list"

record AcmeConfiguration =
  acme_server :: string
  acme_admin_email :: string
  acme_eab :: "AcmeEabConfiguration option"

definition acme_eab_new :: "(string \<Rightarrow> u8 list option) \<Rightarrow> string \<Rightarrow> string \<Rightarrow> CertError + AcmeEabConfiguration" where
  "acme_eab_new decode key_id key_b64 =
     bindR (ok_or Base64Error (decode key_b64)) (\<lambda>key. Inr \<lparr>eab_key_id = key_id, eab_key = key\<rparr>)"

definition eab_key_b64 :: "(u8 list \<Rightarrow> string) \<Rightarrow> AcmeEabConfiguration \<Rightarrow> string" where
  "eab_key_b64 encode eab = encode (eab_key eab)"

text \<open>The key in a serialized configuration.\<close>

definition as_base64 :: "(u8 list \<Rightarrow> string) \<Rightarrow> u8 list \<Rightarrow> string" where
  "as_base64 encode key = encode key"

definition from_base64 :: "(string \<Rightarrow> u8 list option) \<Rightarrow> string \<Rightarrow> CertError + u8 list" where
  "from_base64 decode result = ok_or Base64Error (decode result)"

record CertOptions =
  co_cluster_domain :: string
  co_nats :: NatsConnectionSpec
  co_key_paths :: KeyCertPathPair
  co_email :: string
  co_acme_server_url :: string
  co_acme_eab_keypair :: "AcmeEabConfiguration option"

datatype AcmeStatus = StValid | StReady | StOther

text \<open>What the ACME server and the platform answer about one authorization, in the order asked.\<close>

record acme_auth =
  aa_challenge :: bool
  aa_key_authorization :: "CertError + string option"
  aa_request :: "CertError + bool"
  aa_publish :: "CertError + unit"
  aa_validate :: "CertError + unit"
  aa_challenge_status :: "CertError + AcmeStatus"
  aa_auth_status :: "CertError + AcmeStatus"

record acme_session =
  as_directory :: "CertError + unit"
  as_account :: "CertError + unit"
  as_order :: "CertError + unit"
  as_authorizations :: "CertError + acme_auth list"
  as_order_ready :: "CertError + AcmeStatus"
  as_private_key :: "CertError + string"
  as_finalize :: "CertError + unit"
  as_order_done :: "CertError + AcmeStatus"
  as_certificate :: "CertError + string list option"

datatype cert_message = MsgAcme SetAcmeDnsRecord | MsgDns SetDnsRecord

definition expect_status :: "AcmeStatus \<Rightarrow> string \<Rightarrow> AcmeStatus \<Rightarrow> CertError + unit" where
  "expect_status want message got = (if got = want then Inr () else Inl (AcmeError message))"

text \<open>One authorization: the messages sent, and the result.\<close>

definition authorize :: "string \<Rightarrow> acme_auth \<Rightarrow> cert_message list \<times> (CertError + unit)" where
  "authorize domain a =
     (if \<not> aa_challenge a then ([], Inl (AcmeError ''Couldn't obtain dns-01 challenge.''))
      else case bindR (aa_key_authorization a) (ok_or (AcmeError ''No authorization value.'')) of
        Inl e \<Rightarrow> ([], Inl e)
      | Inr value \<Rightarrow>
         (let m1 = MsgAcme \<lparr>sa_cluster = ClusterName domain, sa_value = value\<rparr>;
              m2 = MsgDns \<lparr>sd_cluster = ClusterName domain, sd_kind = RecTXT,
                           sd_name = ''_acme-challenge'', sd_value = value\<rparr>
          in case aa_request a of
               Inl e \<Rightarrow> ([m1], Inl e)
             | Inr accepted \<Rightarrow>
                 ([m1, m2],
                  bindR (aa_publish a) (\<lambda>_.
                  if \<not> accepted then Inl (AcmeError ''Platform rejected TXT record.'')
                  else bindR (aa_validate a) (\<lambda>_.
                       bindR (bindR (aa_challenge_status a) (expect_status StValid ''ACME challenge failed.'')) (\<lambda>_.
                       bindR (aa_auth_status a) (expect_status StValid ''ACME authorization failed.'')))))))"

fun authorize_all :: "string \<Rightarrow> acme_auth list \<Rightarrow> cert_message list \<times> (CertError + unit)" where
  "authorize_all domain [] = ([], Inr ())"
| "authorize_all domain (a # as) =
     (case authorize domain a of
        (ms, Inl e) \<Rightarrow> (ms, Inl e)
      | (ms, Inr _) \<Rightarrow> apfst ((@) ms) (authorize_all domain as))"

definition finish_order :: "acme_session \<Rightarrow> CertError + string \<times> string list" where
  "finish_order s =
     bindR (bindR (as_order_ready s) (expect_status StReady ''ACME order failed.'')) (\<lambda>_.
     bindR (as_private_key s) (\<lambda>pkey.
     bindR (as_finalize s) (\<lambda>_.
     bindR (bindR (as_order_done s) (expect_status StValid ''ACME order not valid.'')) (\<lambda>_.
     bindR (bindR (as_certificate s)
              (ok_or (AcmeError ''ACME order response didn't include certificate.''))) (\<lambda>cert.
       if cert = [] then Inl (AcmeError ''Certificate list is empty.'') else Inr (pkey, cert))))))"

definition get_certificate ::
  "string \<Rightarrow> acme_session \<Rightarrow> cert_message list \<times> (CertError + string \<times> string list)" where
  "get_certificate domain s =
     (case bindR (as_directory s) (\<lambda>_. bindR (as_account s) (\<lambda>_. bindR (as_order s) (\<lambda>_. as_authorizations s))) of
        Inl e \<Rightarrow> ([], Inl e)
      | Inr auths \<Rightarrow>
          (case authorize_all domain auths of
             (ms, Inl e) \<Rightarrow> (ms, Inl e)
           | (ms, Inr _) \<Rightarrow> (ms, finish_order s)))"

text \<open>
  \<open>File::options().create(true).write(true)\<close> does not truncate: writing from the start leaves
  what the old content had beyond the new one. \<open>std::fs::write\<close> replaces the file.
\<close>

definition write_over :: "path \<Rightarrow> string \<Rightarrow> fs \<Rightarrow> fs" where
  "write_over p new fs =
     fs(p \<mapsto> new @ drop (length new) (case fs p of Some old \<Rightarrow> old | None \<Rightarrow> []))"

definition write_file :: "path \<Rightarrow> string \<Rightarrow> fs \<Rightarrow> fs" where
  "write_file p new fs = fs(p \<mapsto> new)"

text \<open>
  The failures of the file operations: \<open>ff_open\<close> and \<open>ff_key_open\<close> tell whether the files could be
  opened, \<open>ff_cert\<close> and \<open>ff_key\<close> after how many bytes writing failed, if it did. A certificate that
  cannot be converted to PEM counts as a failed write, a key as a file that was not opened.
\<close>

record file_faults =
  ff_open :: bool
  ff_cert :: "nat option"
  ff_key_open :: bool
  ff_key :: "nat option"

definition refresh_certificate ::
  "CertOptions \<Rightarrow> acme_session \<Rightarrow> file_faults \<Rightarrow> fs \<Rightarrow> fs \<times> cert_message list \<times> (CertError + unit)" where
  "refresh_certificate opts s f fs =
     (let cert_file = cert_path (co_key_paths opts); key_file = key_path (co_key_paths opts)
      in case get_certificate (co_cluster_domain opts) s of
           (ms, Inl e) \<Rightarrow> (fs, ms, Inl e)
         | (ms, Inr (pkey, certs)) \<Rightarrow>
             if \<not> ff_open f then (fs, ms, Inl IoError)
             else case ff_cert f of
               Some n \<Rightarrow> (write_over cert_file (take n (concat certs)) fs, ms, Inl IoError)
             | None \<Rightarrow>
                (let fs1 = write_over cert_file (concat certs) fs
                 in if \<not> ff_key_open f then (fs1, ms, Inl IoError)
                    else case ff_key f of
                      Some n \<Rightarrow> (write_file key_file (take n pkey) fs1, ms, Inl IoError)
                    | None \<Rightarrow> (write_file key_file pkey fs1, ms, Inr ())))"

text \<open>\<open>not_after\<close> reads the end of validity (Unix seconds) from the first certificate of a PEM file.\<close>

definition cert_validity :: "(string \<Rightarrow> int option) \<Rightarrow> fs \<Rightarrow> path \<Rightarrow> systime option" where
  "cert_validity not_after fs p =
     Option.bind (fs p) (\<lambda>pem. map_option (\<lambda>secs. secs * 1000000000) (not_after pem))"

definition refresh_if_not_valid ::
  "(string \<Rightarrow> int option) \<Rightarrow> CertOptions \<Rightarrow> acme_session \<Rightarrow> file_faults \<Rightarrow> systime \<Rightarrow> fs \<Rightarrow>
     fs \<times> cert_message list \<times> (CertError + duration option)" where
  "refresh_if_not_valid not_after opts s f now fs =
     (let refresh = (case refresh_certificate opts s f fs of
                       (fs', ms, Inl e) \<Rightarrow> (fs', ms, Inl e) | (fs', ms, Inr _) \<Rightarrow> (fs', ms, Inr None))
      in case cert_validity not_after fs (cert_path (co_key_paths opts)) of
           None \<Rightarrow> refresh
         | Some valid_until \<Rightarrow>
             (let time_until_refresh = valid_until - int REFRESH_MARGIN - now
              in if time_until_refresh > 0 then (fs, [], Inr (Some (nat time_until_refresh))) else refresh))"

definition loop_sleep :: "CertError + duration option \<Rightarrow> duration" where
  "loop_sleep r =
     (case r of
        Inr (Some valid_until) \<Rightarrow> min valid_until MAX_SLEEP
      | Inr None \<Rightarrow> MAX_SLEEP
      | Inl _ \<Rightarrow> from_secs 3600)"

section \<open>Lemmas\<close>

definition auth_value :: "acme_auth \<Rightarrow> string option" where
  "auth_value a = (case aa_key_authorization a of Inr v \<Rightarrow> v | Inl _ \<Rightarrow> None)"

definition auth_granted :: "acme_auth \<Rightarrow> bool" where
  "auth_granted a \<longleftrightarrow> aa_challenge a \<and> aa_request a = Inr True \<and>
     aa_challenge_status a = Inr StValid \<and> aa_auth_status a = Inr StValid"

definition auth_messages :: "string \<Rightarrow> string \<Rightarrow> cert_message list" where
  "auth_messages domain value =
     [MsgAcme \<lparr>sa_cluster = ClusterName domain, sa_value = value\<rparr>,
      MsgDns \<lparr>sd_cluster = ClusterName domain, sd_kind = RecTXT, sd_name = ''_acme-challenge'', sd_value = value\<rparr>]"

lemma expect_status_Inr [simp]: "expect_status want m got = Inr v \<longleftrightarrow> got = want"
  by (simp add: expect_status_def)

lemma ok_or_Inr: "ok_or e v = Inr a \<longleftrightarrow> v = Some a"
  by (cases v) auto

lemma authorize_ok:
  assumes "authorize domain a = (ms, Inr v)"
  shows "\<exists>val. auth_value a = Some val \<and> auth_granted a \<and> ms = auth_messages domain val"
proof -
  have "aa_challenge a" using assms by (auto simp: authorize_def split: if_splits)
  then obtain val where val: "aa_key_authorization a = Inr (Some val)"
    using assms
    by (auto simp: authorize_def bindR_Inr_iff ok_or_Inr split: sum.splits)
  show ?thesis
    using assms val \<open>aa_challenge a\<close>
    by (auto simp: authorize_def auth_value_def auth_granted_def auth_messages_def bindR_Inr_iff Let_def
        split: sum.splits if_splits)
qed

lemma authorize_all_ok:
  "authorize_all domain as = (ms, Inr v) \<Longrightarrow>
   \<exists>vals. map auth_value as = map Some vals \<and> list_all auth_granted as \<and>
     ms = concat (map (auth_messages domain) vals)"
proof (induction as arbitrary: ms)
  case (Cons a as)
  obtain m1 r where a: "authorize domain a = (m1, r)" by (cases "authorize domain a")
  then obtain u where r: "r = Inr u" using Cons.prems by (cases r) auto
  then obtain m2 where m2: "authorize_all domain as = (m2, Inr v)" "ms = m1 @ m2"
    using Cons.prems a by (cases "authorize_all domain as") auto
  obtain val where "auth_value a = Some val" "auth_granted a" "m1 = auth_messages domain val"
    using authorize_ok a r by blast
  moreover obtain vals where "map auth_value as = map Some vals" "list_all auth_granted as"
      "m2 = concat (map (auth_messages domain) vals)"
    using Cons.IH m2(1) by blast
  ultimately show ?case using m2(2) by (intro exI [of _ "val # vals"]) simp
qed simp

lemma finish_order_ok: "finish_order s = Inr (pkey, certs) \<Longrightarrow>
   certs \<noteq> [] \<and> as_order_ready s = Inr StReady \<and> as_order_done s = Inr StValid \<and>
   as_private_key s = Inr pkey \<and> as_certificate s = Inr (Some certs)"
  by (auto simp: finish_order_def bindR_Inr_iff ok_or_Inr split: if_splits)

lemma watch_append: "watch x pair (es @ fs) c = watch x pair fs (watch x pair es c)"
  by (induction es arbitrary: c) auto

lemma publish_pair_watched [simp]: "cr_watched (publish_pair x c) = cr_watched c"
  by (simp add: publish_pair_def split: option.splits)

lemma on_fs_event_watched [simp]: "cr_watched (on_fs_event x pair fs ev c) = cr_watched c"
  by (cases ev) (auto simp: Let_def split: option.splits sum.splits)

lemma watch_watched [simp]: "cr_watched (watch x pair es c) = cr_watched c"
  by (induction es arbitrary: c) auto

lemma cert_event:
  assumes "load_certs x fs (cert_path pair) = Inr certs" and "key_path pair \<noteq> cert_path pair"
  shows "on_fs_event x pair fs (CloseWrite [cert_path pair]) c
    = publish_pair x (c\<lparr>cr_certificate := Some certs\<rparr>)"
  using assms by simp

lemma key_event:
  assumes "load_private_key x fs (key_path pair) = Inr key" and "key_path pair \<noteq> cert_path pair"
  shows "on_fs_event x pair fs (CloseWrite [key_path pair]) c
    = publish_pair x (c\<lparr>cr_private_key := Some key\<rparr>)"
  using assms by auto

lemma publish_pair_fields [simp]:
  "cr_certificate (publish_pair x c) = cr_certificate c" "cr_private_key (publish_pair x c) = cr_private_key c"
  by (simp_all add: publish_pair_def split: option.splits)

lemma publish_pair_current:
  assumes "cr_private_key c = Some key" and "cr_certificate c = Some cert" and "pem_supported x key = Some pk"
  shows "cr_current (publish_pair x c) = Some \<lparr>ck_cert = cert, ck_key = pk\<rparr>"
  using assms by (simp add: publish_pair_def)

section \<open>Properties\<close>

text \<open>C26: a certificate is only accepted after every challenge was met. If \<open>get_certificate\<close> returns
  a key and certificates, then the list is not empty, every authorization of the order had a
  \<open>dns-01\<close> challenge whose TXT record the platform accepted and which was found valid, the order
  went through ready to valid, and the messages sent are, in the order of the authorizations,
  one old-style and one new-style DNS record with the authorization's value.\<close>

theorem get_certificate_sound:
  assumes "get_certificate domain s = (ms, Inr (pkey, certs))"
  shows "certs \<noteq> [] \<and> as_order_ready s = Inr StReady \<and> as_order_done s = Inr StValid \<and>
    (\<exists>auths values. as_authorizations s = Inr auths \<and> list_all auth_granted auths \<and>
       map auth_value auths = map Some values \<and> ms = concat (map (auth_messages domain) values))"
proof -
  obtain auths where auths: "as_authorizations s = Inr auths"
      "authorize_all domain auths = (ms, Inr ())" "finish_order s = Inr (pkey, certs)"
    using assms by (auto simp: get_certificate_def bindR_Inr_iff split: sum.splits prod.splits)
  then show ?thesis using authorize_all_ok [OF auths(2)] finish_order_ok [OF auths(3)] by blast
qed

definition example_auth :: acme_auth where
  "example_auth = \<lparr>aa_challenge = True, aa_key_authorization = Inr (Some ''tok''), aa_request = Inr True,
     aa_publish = Inr (), aa_validate = Inr (), aa_challenge_status = Inr StValid, aa_auth_status = Inr StValid\<rparr>"

definition example_session :: acme_session where
  "example_session = \<lparr>as_directory = Inr (), as_account = Inr (), as_order = Inr (),
     as_authorizations = Inr [example_auth], as_order_ready = Inr StReady, as_private_key = Inr ''KEY'',
     as_finalize = Inr (), as_order_done = Inr StValid, as_certificate = Inr (Some [''CERT''])\<rparr>"

lemma example_certificate:
  "get_certificate ''plane.test'' example_session = (auth_messages ''plane.test'' ''tok'', Inr (''KEY'', [''CERT'']))"
  by (simp add: get_certificate_def example_session_def example_auth_def authorize_def finish_order_def
      expect_status_def auth_messages_def)

theorem get_certificate_sound_witness:
  "\<exists>auths. as_authorizations example_session = Inr auths \<and> list_all auth_granted auths"
  using get_certificate_sound [OF example_certificate] by blast

text \<open>C29: the proxy picks up a renewed pair. When key and certificate are different files of one
  directory, then after any earlier events the events of writing the certificate and then the
  key make the served pair exactly the one now in the files.\<close>

theorem cert_refresher_serves_new_pair:
  assumes "cert_refresher_new x watcher_ok watch_ok fs0 pair = Some (Inr c)"
    and "path_parent (cert_path pair) = path_parent (key_path pair)" and "key_path pair \<noteq> cert_path pair"
    and "load_certified_key x fs pair = Inr ck" and "load_certs x fs1 (cert_path pair) = load_certs x fs (cert_path pair)"
  shows "resolve (watch x pair (evs @ [(fs1, CloseWrite [cert_path pair]), (fs, CloseWrite [key_path pair])]) c) = Some ck"
proof -
  obtain dir where dir: "path_parent (key_path pair) = Some dir" "cr_watched c = [dir]"
    using assms(1) by (auto simp: cert_refresher_new_def parent_paths_def split: option.splits if_splits)
  obtain cert key pk where load: "load_certs x fs (cert_path pair) = Inr cert"
      "load_private_key x fs (key_path pair) = Inr key" "pem_supported x key = Some pk"
      "ck = \<lparr>ck_cert = cert, ck_key = pk\<rparr>"
    using assms(4) by (auto simp: load_certified_key_def bindR_Inr_iff ok_or_Inr)
  let ?c = "watch x pair evs c"
  have w: "cr_watched ?c = [dir]" using dir by simp
  have eq: "watch x pair [(fs1, CloseWrite [cert_path pair]), (fs, CloseWrite [key_path pair])] ?c
      = publish_pair x ((publish_pair x (?c\<lparr>cr_certificate := Some cert\<rparr>))\<lparr>cr_private_key := Some key\<rparr>)"
    using w dir assms(2,5) load cert_event [OF _ assms(3)] key_event [OF load(2) assms(3)]
    by (simp add: delivered_def del: on_fs_event.simps)
  show ?thesis unfolding resolve_def watch_append eq load(4)
    by (rule publish_pair_current [of _ key]) (simp_all add: load)
qed

text \<open>In between the served pair does not match. Once both files have been loaded through the
  watcher, the event for a newly written certificate makes the proxy serve the new certificate
  with the old key, until the event for the key is handled.\<close>

theorem cert_refresher_mixed_pair:
  assumes "delivered c (CloseWrite [cert_path pair])" and "key_path pair \<noteq> cert_path pair"
    and "cr_private_key c = Some old_key" and "pem_supported x old_key = Some pk"
    and "load_certs x fs (cert_path pair) = Inr new_certs"
  shows "resolve (watch x pair [(fs, CloseWrite [cert_path pair])] c) = Some \<lparr>ck_cert = new_certs, ck_key = pk\<rparr>"
  using assms cert_event [OF assms(5,2)] publish_pair_current [of "c\<lparr>cr_certificate := Some new_certs\<rparr>"]
  by (simp add: resolve_def del: on_fs_event.simps)

text \<open>Only the directory of the key is watched. When the certificate is in another directory, a
  change of the certificate is never noticed.\<close>

theorem cert_directory_not_watched:
  assumes "path_parent (key_path pair) = Some dir" and "path_parent (cert_path pair) \<noteq> Some dir"
    and "cert_refresher_new x watcher_ok watch_ok fs0 pair = Some (Inr c)"
  shows "parent_paths pair = Some [dir] \<and> watch x pair (map (\<lambda>fs. (fs, CloseWrite [cert_path pair])) fss) c = c"
proof -
  have paths: "parent_paths pair = Some [dir]" using assms(1) by (simp add: parent_paths_def)
  then have "cr_watched c = [dir]" using assms(3) by (auto simp: cert_refresher_new_def split: if_splits)
  then have "\<not> delivered c (CloseWrite [cert_path pair])"
    using assms(2) by (auto simp: delivered_def split: option.splits)
  then have "watch x pair (map (\<lambda>fs. (fs, CloseWrite [cert_path pair])) fss) c = c" by (induction fss) auto
  then show ?thesis using paths by blast
qed

text \<open>C27: what a renewal leaves in the files. After a successful renewal the key file holds exactly
  the new key, and the certificate file exactly the new certificates if and only if the old
  content was not longer: the rest of a longer old file stays behind them. No other file is
  touched, and without a new certificate no file at all.\<close>

theorem refresh_certificate_files:
  assumes "refresh_certificate opts s f fs = (fs', ms, r)" and "kp = key_path (co_key_paths opts)"
    and "cp = cert_path (co_key_paths opts)" and "kp \<noteq> cp" and "old = (case fs cp of Some c \<Rightarrow> c | None \<Rightarrow> [])"
  shows "(\<forall>p. p \<noteq> kp \<and> p \<noteq> cp \<longrightarrow> fs' p = fs p) \<and>
    (\<forall>e. snd (get_certificate (co_cluster_domain opts) s) = Inl e \<longrightarrow> fs' = fs \<and> r = Inl e) \<and>
    (is_ok r \<longrightarrow> (\<exists>pkey certs. get_certificate (co_cluster_domain opts) s = (ms, Inr (pkey, certs)) \<and>
       fs' kp = Some pkey \<and> fs' cp = Some (concat certs @ drop (length (concat certs)) old) \<and>
       (fs' cp = Some (concat certs) \<longleftrightarrow> length old \<le> length (concat certs))))"
proof (cases "get_certificate (co_cluster_domain opts) s")
  case (Pair ms1 res)
  then show ?thesis using assms
    by (cases res)
      (auto simp: refresh_certificate_def write_file_def write_over_def Let_def is_ok_def
        split: if_splits option.splits)
qed

text \<open>C28: the refresh loop. It never sleeps longer than an hour; while the certificate is valid for
  more than 15 days it changes nothing and wakes up no later than 15 days before the end of the
  validity; from then on, and without a readable certificate, every round asks for a new one.\<close>

theorem refresh_loop_timely:
  assumes "refresh_if_not_valid not_after opts s f now fs = (fs', ms, r)"
    and "v = cert_validity not_after fs (cert_path (co_key_paths opts))"
  shows "loop_sleep r \<le> from_secs 3600 \<and>
    (if \<exists>t. v = Some t \<and> now < t - int (from_secs (15 * 24 * 3600))
     then fs' = fs \<and> ms = [] \<and> now + int (loop_sleep r) \<le> the v - int (from_secs (15 * 24 * 3600))
     else fs' = fst (refresh_certificate opts s f fs) \<and> is_ok r = is_ok (snd (snd (refresh_certificate opts s f fs))))"
  using assms
  by (auto simp: refresh_if_not_valid_def loop_sleep_def MAX_SLEEP_def REFRESH_MARGIN_def from_secs_def Let_def
      split: option.splits if_splits prod.splits sum.splits)

section \<open>Witnesses\<close>

definition example_pem :: pem_ext where
  "example_pem = \<lparr>pem_certs = (\<lambda>s. Some [s]), pem_pkcs8_keys = (\<lambda>s. Some [s]), pem_supported = Some\<rparr>"

definition example_pair :: KeyCertPathPair where
  "example_pair = \<lparr>key_path = [''certs'', ''key.pem''], cert_path = [''certs'', ''cert.pem'']\<rparr>"

definition example_split_pair :: KeyCertPathPair where
  "example_split_pair = \<lparr>key_path = [''keys'', ''key.pem''], cert_path = [''certs'', ''cert.pem'']\<rparr>"

definition example_files :: "string \<Rightarrow> string \<Rightarrow> fs" where
  "example_files key cert = [[''certs'', ''key.pem''] \<mapsto> key, [''certs'', ''cert.pem''] \<mapsto> cert]"

definition example_refresher :: CertRefresher where
  "example_refresher = \<lparr>cr_current = None, cr_private_key = None, cr_certificate = None, cr_watched = [[''certs'']]\<rparr>"

lemma example_refresher_new: "cert_refresher_new example_pem True (\<lambda>_. True) Map.empty example_pair = Some (Inr example_refresher)"
  by (simp add: cert_refresher_new_def example_refresher_def parent_paths_def example_pair_def path_parent_def
      try_to_update_certs_def load_certified_key_def load_certs_def)

theorem cert_refresher_serves_new_pair_witness:
  "resolve (watch example_pem example_pair
     [(example_files ''K2'' ''C2'', CloseWrite [cert_path example_pair]),
      (example_files ''K2'' ''C2'', CloseWrite [key_path example_pair])] example_refresher)
     = Some \<lparr>ck_cert = [''C2''], ck_key = ''K2''\<rparr>"
  using cert_refresher_serves_new_pair [OF example_refresher_new, of "example_files ''K2'' ''C2''"
      "\<lparr>ck_cert = [''C2''], ck_key = ''K2''\<rparr>" "example_files ''K2'' ''C2''" "[]"]
  by (simp add: example_pair_def path_parent_def load_certified_key_def load_certs_def load_private_key_def
      example_files_def example_pem_def)

theorem cert_refresher_mixed_pair_witness:
  "resolve (watch example_pem example_pair [(example_files ''K2'' ''C2'', CloseWrite [cert_path example_pair])]
     (example_refresher\<lparr>cr_private_key := Some ''K1'', cr_certificate := Some [''C1'']\<rparr>))
     = Some \<lparr>ck_cert = [''C2''], ck_key = ''K1''\<rparr>"
  using cert_refresher_mixed_pair [of "example_refresher\<lparr>cr_private_key := Some ''K1'', cr_certificate := Some [''C1'']\<rparr>"
      example_pair "''K1''" example_pem "''K1''" "example_files ''K2'' ''C2''" "[''C2'']"]
  by (simp add: example_pair_def path_parent_def load_certs_def example_files_def example_pem_def
      example_refresher_def delivered_def)

theorem cert_directory_not_watched_witness:
  "\<exists>c. cert_refresher_new example_pem True (\<lambda>_. True) Map.empty example_split_pair = Some (Inr c) \<and>
     watch example_pem example_split_pair [(example_files ''K2'' ''C2'', CloseWrite [cert_path example_split_pair])] c = c"
proof -
  obtain c where c: "cert_refresher_new example_pem True (\<lambda>_. True) Map.empty example_split_pair = Some (Inr c)"
    by (simp add: cert_refresher_new_def parent_paths_def example_split_pair_def path_parent_def)
  then show ?thesis
    using cert_directory_not_watched [of example_split_pair "[''keys'']" example_pem True "\<lambda>_. True" Map.empty c
        "[example_files ''K2'' ''C2'']"]
    by (simp add: example_split_pair_def path_parent_def del: watch.simps)
qed

definition example_options :: CertOptions where
  "example_options = \<lparr>co_cluster_domain = ''plane.test'', co_nats = \<lparr>nc_auth = None, nc_hosts = [''nats'']\<rparr>,
     co_key_paths = example_pair, co_email = ''a@plane.test'', co_acme_server_url = ''https://acme'',
     co_acme_eab_keypair = None\<rparr>"

definition no_faults :: file_faults where
  "no_faults = \<lparr>ff_open = True, ff_cert = None, ff_key_open = True, ff_key = None\<rparr>"

theorem refresh_certificate_files_witness:
  "\<exists>fs' ms r. refresh_certificate example_options example_session no_faults (example_files ''K1'' ''LONGCERT'') = (fs', ms, r)
     \<and> fs' (cert_path example_pair) = Some ''CERTCERT''"
proof -
  obtain fs' ms r where run: "refresh_certificate example_options example_session no_faults
      (example_files ''K1'' ''LONGCERT'') = (fs', ms, r)" by (metis prod_cases3)
  moreover have "is_ok r"
    using run example_certificate
    by (auto simp: refresh_certificate_def example_options_def no_faults_def is_ok_def Let_def)
  ultimately have "\<exists>pkey certs. get_certificate ''plane.test'' example_session = (ms, Inr (pkey, certs)) \<and>
      fs' (cert_path example_pair) = Some (concat certs @ drop (length (concat certs)) ''LONGCERT'')"
    using refresh_certificate_files [OF run refl refl _ refl]
    by (auto simp: example_options_def example_pair_def example_files_def)
  then show ?thesis using run example_certificate by auto
qed

theorem refresh_loop_timely_witness:
  "fst (refresh_if_not_valid (\<lambda>_. Some 2000000) example_options example_session no_faults 0 (example_files ''K1'' ''C1''))
     = example_files ''K1'' ''C1''"
  using refresh_loop_timely [of "\<lambda>_. Some 2000000" example_options example_session no_faults 0 "example_files ''K1'' ''C1''"]
  by (cases "refresh_if_not_valid (\<lambda>_. Some 2000000) example_options example_session no_faults 0 (example_files ''K1'' ''C1'')")
    (simp add: cert_validity_def example_options_def example_pair_def example_files_def from_secs_def)

text \<open>A key that is written to a configuration is read back, and one that is given in base64 is kept.\<close>

lemma base64_key_roundtrip:
  assumes "\<And>k. decode (encode k) = Some k"
  shows "from_base64 decode (as_base64 encode key) = Inr key"
    and "acme_eab_new decode key_id (eab_key_b64 encode eab) = Inr \<lparr>eab_key_id = key_id, eab_key = eab_key eab\<rparr>"
  using assms by (simp_all add: from_base64_def as_base64_def acme_eab_new_def eab_key_b64_def ok_or_def bindR_def)

end
