(* ===== verification/Core_Logging.thy ===== *)
theory Core_Logging
  imports Core_Messages
begin

text \<open>
  The logging layer (\<open>core/src/logging.rs\<close>): the fields a span or an event records, how an event
  inherits the fields of the spans around it, and the bounded channel through which log messages
  reach NATS. JSON values are the type \<open>'j\<close>, with the parser of \<open>serde_json\<close> as an argument.
\<close>

section \<open>Recording fields\<close>

record 'j json_ext =
  js_parse :: "string \<Rightarrow> 'j option"
  js_string :: "string \<Rightarrow> 'j"

text \<open>A field is recorded as a value (\<open>f64\<close>, \<open>i64\<close>, \<open>u64\<close>, \<open>bool\<close>, \<open>str\<close>) or through its \<open>Debug\<close> text.\<close>

datatype 'j recorded_value = RecordValue 'j | RecordDebug string

type_synonym 'j JsonVisitor = "string \<rightharpoonup> 'j"

fun field_value :: "'j json_ext \<Rightarrow> 'j recorded_value \<Rightarrow> 'j" where
  "field_value x (RecordValue v) = v"
| "field_value x (RecordDebug s) = (case js_parse x s of Some v \<Rightarrow> v | None \<Rightarrow> js_string x s)"

definition visit_record :: "'j json_ext \<Rightarrow> string \<times> 'j recorded_value \<Rightarrow> 'j JsonVisitor \<Rightarrow> 'j JsonVisitor" where
  "visit_record x f m = m(fst f \<mapsto> field_value x (snd f))"

definition visit_fields :: "'j json_ext \<Rightarrow> (string \<times> 'j recorded_value) list \<Rightarrow> 'j JsonVisitor \<Rightarrow> 'j JsonVisitor" where
  "visit_fields x fs m = fold (visit_record x) fs m"

section \<open>Spans and events\<close>

text \<open>The visitor stored with each span.\<close>

type_synonym 'j spans = "nat \<rightharpoonup> 'j JsonVisitor"

definition inherited :: "'j spans \<Rightarrow> nat option \<Rightarrow> 'j JsonVisitor" where
  "inherited spans parent =
     (case parent of
        Some p \<Rightarrow> (case spans p of Some v \<Rightarrow> v | None \<Rightarrow> Map.empty)
      | None \<Rightarrow> Map.empty)"

definition on_new_span ::
  "'j json_ext \<Rightarrow> nat \<Rightarrow> nat option \<Rightarrow> (string \<times> 'j recorded_value) list \<Rightarrow> 'j spans \<Rightarrow> 'j spans" where
  "on_new_span x sid parent attrs spans = spans(sid \<mapsto> visit_fields x attrs (inherited spans parent))"

record 'j LogMessage =
  lm_component :: Component
  lm_target :: string
  lm_name :: string
  lm_severity :: string
  lm_time :: systime
  lm_fields :: "'j JsonVisitor"

definition event_message ::
  "'j json_ext \<Rightarrow> Component \<Rightarrow> string \<Rightarrow> string \<Rightarrow> string \<Rightarrow> systime \<Rightarrow> nat option \<Rightarrow>
     (string \<times> 'j recorded_value) list \<Rightarrow> 'j spans \<Rightarrow> 'j LogMessage" where
  "event_message x component target name level now current recorded spans =
     \<lparr>lm_component = component, lm_target = target, lm_name = name, lm_severity = level, lm_time = now,
      lm_fields = visit_fields x recorded (inherited spans current)\<rparr>"

section \<open>The channel to NATS\<close>

definition LOG_BUFFER :: nat where
  "LOG_BUFFER = 128"

record 'm log_channel =
  lc_queue :: "'m list"
  lc_published :: "'m list"
  lc_attached :: bool

definition tracing_init :: "'m log_channel" where
  "tracing_init = \<lparr>lc_queue = [], lc_published = [], lc_attached = False\<rparr>"

text \<open>\<open>attach_nats\<close> takes the receiver; a second call fails.\<close>

definition attach_nats :: "'m log_channel \<Rightarrow> 'm log_channel \<times> bool" where
  "attach_nats c = (if lc_attached c then (c, False) else (c\<lparr>lc_attached := True\<rparr>, True))"

text \<open>\<open>try_send\<close> at the end of \<open>on_event\<close>: a message is dropped when the buffer is full.\<close>

definition try_send_log :: "'m \<Rightarrow> 'm log_channel \<Rightarrow> 'm log_channel \<times> bool" where
  "try_send_log m c =
     (if length (lc_queue c) < LOG_BUFFER then (c\<lparr>lc_queue := lc_queue c @ [m]\<rparr>, True) else (c, False))"

text \<open>One iteration of \<open>do_logs\<close>; a failed publication loses the message.\<close>

definition do_logs_step :: "bool \<Rightarrow> 'm log_channel \<Rightarrow> 'm log_channel" where
  "do_logs_step published c =
     (if \<not> lc_attached c then c
      else case lc_queue c of
             [] \<Rightarrow> c
           | m # rest \<Rightarrow> c\<lparr>lc_queue := rest, lc_published := lc_published c @ (if published then [m] else [])\<rparr>)"

text \<open>\<open>LogError\<close>: the error events that consuming a result or an option emits.\<close>

definition log_error_result :: "('e \<Rightarrow> string) \<Rightarrow> string \<Rightarrow> 'e + 'a \<Rightarrow> (string option \<times> string) list" where
  "log_error_result dbg message r = (case r of Inl error \<Rightarrow> [(Some (dbg error), message)] | Inr _ \<Rightarrow> [])"

definition log_error_option :: "string \<Rightarrow> 'a option \<Rightarrow> (string option \<times> string) list" where
  "log_error_option message v = (case v of None \<Rightarrow> [(None, message)] | Some _ \<Rightarrow> [])"

datatype 'm log_op = LogEmit 'm | LogAttach | LogPublish bool

fun log_step :: "'m log_op \<Rightarrow> 'm log_channel \<Rightarrow> ('m log_channel \<times> bool) panics" where
  "log_step (LogEmit m) c = Some (try_send_log m c)"
| "log_step LogAttach c = Some (attach_nats c)"
| "log_step (LogPublish ok) c = Some (do_logs_step ok c, ok)"

fun emitted :: "'m log_op list \<Rightarrow> 'm list" where
  "emitted [] = []"
| "emitted (LogEmit m # ops) = m # emitted ops"
| "emitted (_ # ops) = emitted ops"

section \<open>Lemmas\<close>

lemma visit_fields_value:
  "visit_fields x fs m k =
     (case map_of (rev (map (\<lambda>f. (fst f, field_value x (snd f))) fs)) k of Some v \<Rightarrow> Some v | None \<Rightarrow> m k)"
proof (induction fs arbitrary: m)
  case (Cons f fs)
  have "visit_fields x (f # fs) m = visit_fields x fs (visit_record x f m)" by (simp add: visit_fields_def)
  then show ?case
    by (simp add: Cons.IH visit_record_def map_add_def split: option.split)
qed (simp add: visit_fields_def)

lemma visit_fields_append: "visit_fields x (fs @ gs) m = visit_fields x gs (visit_fields x fs m)"
  by (simp add: visit_fields_def)

interpretation log_bound: step_invariant log_step "\<lambda>c. length (lc_queue c) \<le> LOG_BUFFER"
proof unfold_locales
  fix c c' :: "'a log_channel" and op v
  assume "length (lc_queue c) \<le> LOG_BUFFER" and "log_step op c = Some (c', v)"
  then show "length (lc_queue c') \<le> LOG_BUFFER"
    by (cases op) (auto simp: try_send_log_def attach_nats_def do_logs_step_def split: if_splits list.splits)
qed

lemma subseq_drop_mid: "subseq (p @ q) es \<Longrightarrow> q = m # r \<Longrightarrow> subseq (p @ r) es"
  by (metis list_emb_append_mono subseq_order.order_refl subseq_order.order_trans subseq_Cons')

lemma log_step_order:
  assumes "subseq (lc_published c @ lc_queue c) es" and "log_step op c = Some (c', v)"
  shows "subseq (lc_published c' @ lc_queue c') (es @ emitted [op])"
proof (cases op)
  case (LogEmit m)
  have "subseq ((lc_published c @ lc_queue c) @ [m]) (es @ [m])"
    using assms(1) by (intro list_emb_append_mono) auto
  moreover have "subseq (lc_published c @ lc_queue c) (es @ [m])" using assms(1) by (rule list_emb_prefix)
  ultimately show ?thesis using LogEmit assms(2) by (auto simp: try_send_log_def split: if_splits)
next
  case (LogPublish ok)
  show ?thesis
  proof (cases "lc_queue c")
    case Nil
    then show ?thesis using LogPublish assms by (auto simp: do_logs_step_def split: if_splits)
  next
    case (Cons m r)
    then show ?thesis using LogPublish assms subseq_drop_mid [OF assms(1) Cons]
      by (auto simp: do_logs_step_def split: if_splits)
  qed
qed (use assms in \<open>auto simp: attach_nats_def split: if_splits\<close>)

lemma emitted_Cons: "emitted (op # ops) = emitted [op] @ emitted ops"
  by (cases op) simp_all

lemma log_run_order:
  "run_steps log_step ops c = Some (c', vs) \<Longrightarrow> subseq (lc_published c @ lc_queue c) es \<Longrightarrow>
   subseq (lc_published c' @ lc_queue c') (es @ emitted ops)"
proof (induction ops arbitrary: c vs es)
  case (Cons op ops)
  then obtain c1 v vs1 where c1: "log_step op c = Some (c1, v)" "run_steps log_step ops c1 = Some (c', vs1)"
    by (auto split: option.splits)
  from Cons.IH [OF c1(2) log_step_order [OF Cons.prems(2) c1(1)]] show ?case
    by (simp add: emitted_Cons [of op ops])
qed simp

lemma log_run_unattached:
  "run_steps log_step ops c = Some (c', vs) \<Longrightarrow> LogAttach \<notin> set ops \<Longrightarrow> \<not> lc_attached c \<Longrightarrow>
   lc_queue c = take LOG_BUFFER es \<Longrightarrow>
   lc_published c' = lc_published c \<and> lc_queue c' = take LOG_BUFFER (es @ emitted ops)"
proof (induction ops arbitrary: c vs es)
  case (Cons op ops)
  then obtain c1 v vs1 where c1: "log_step op c = Some (c1, v)" "run_steps log_step ops c1 = Some (c', vs1)"
    by (auto split: option.splits)
  have "\<not> lc_attached c1 \<and> lc_published c1 = lc_published c \<and> lc_queue c1 = take LOG_BUFFER (es @ emitted [op])"
    using Cons.prems c1(1)
    by (cases op) (auto simp: try_send_log_def do_logs_step_def split: if_splits)
  then show ?case using Cons.IH [OF c1(2), of "es @ emitted [op]"] Cons.prems(2)
    by (simp add: emitted_Cons [of op ops])
qed simp

section \<open>Properties\<close>

text \<open>A chain of nested spans, each opened inside the previous one.\<close>

fun open_spans ::
  "'j json_ext \<Rightarrow> nat \<Rightarrow> nat option \<Rightarrow> (string \<times> 'j recorded_value) list list \<Rightarrow> 'j spans \<Rightarrow> 'j spans \<times> nat option" where
  "open_spans x sid parent [] spans = (spans, parent)"
| "open_spans x sid parent (attrs # inner) spans =
     open_spans x (Suc sid) (Some sid) inner (on_new_span x sid parent attrs spans)"

lemma inherited_None [simp]: "inherited spans None = Map.empty"
  by (simp add: inherited_def)

lemma open_spans_inherited:
  "open_spans x sid parent chain spans = (spans', current) \<Longrightarrow>
   inherited spans' current = visit_fields x (concat chain) (inherited spans parent)"
proof (induction x sid parent chain spans rule: open_spans.induct)
  case (1 x sid parent spans)
  then show ?case by (simp add: visit_fields_def)
next
  case (2 x sid parent attrs inner spans)
  have "inherited (on_new_span x sid parent attrs spans) (Some sid) = visit_fields x attrs (inherited spans parent)"
    by (simp add: inherited_def on_new_span_def)
  then show ?case using 2 by (simp add: visit_fields_append)
qed

text \<open>The fields of a log message. For an event inside a chain of nested spans, every field of
  the message has the value the event recorded last for it, otherwise the one the innermost span
  that records it gave it, and there are no other fields.\<close>

theorem log_message_fields:
  assumes "open_spans x 0 None chain Map.empty = (spans, current)"
  shows "lm_fields (event_message x component target name level now current recorded spans) k =
    map_of (rev (map (\<lambda>f. (fst f, field_value x (snd f))) (concat chain @ recorded))) k"
proof -
  have "inherited spans current = visit_fields x (concat chain) Map.empty"
    using open_spans_inherited [OF assms] by simp
  then have "lm_fields (event_message x component target name level now current recorded spans) =
    visit_fields x (concat chain @ recorded) Map.empty"
    by (simp only: event_message_def visit_fields_append LogMessage.simps)
  then show ?thesis by (simp add: visit_fields_value del: rev_map map_append split: option.split)
qed

theorem log_message_fields_witness:
  "\<exists>spans. open_spans \<lparr>js_parse = (\<lambda>s. if s = ''7'' then Some (7::nat) else None), js_string = length\<rparr> 0 None
      [[(''a'', RecordValue 1), (''b'', RecordValue 2)], [(''b'', RecordDebug ''7'')]] Map.empty = (spans, Some 1) \<and>
    lm_fields (event_message \<lparr>js_parse = (\<lambda>s. if s = ''7'' then Some 7 else None), js_string = length\<rparr>
      Controller ''t'' ''n'' ''INFO'' 0 (Some 1) [(''c'', RecordDebug ''xyz'')] spans) ''b'' = Some 7"
proof -
  let ?x = "\<lparr>js_parse = (\<lambda>s. if s = ''7'' then Some (7::nat) else None), js_string = length\<rparr>"
  let ?chain = "[[(''a'', RecordValue 1), (''b'', RecordValue 2)], [(''b'', RecordDebug ''7'')]]"
  obtain spans where run: "open_spans ?x 0 None ?chain Map.empty = (spans, Some 1)" by simp
  show ?thesis
    using run log_message_fields [OF run, of Controller "''t''" "''n''" "''INFO''" 0 "[(''c'', RecordDebug ''xyz'')]" "''b''"]
    by (auto simp del: open_spans.simps)
qed

text \<open>C35: the log channel. In every sequence of emitted messages, attachments and publications, the
  buffer never exceeds its 128 entries, nothing is published before NATS is attached, and what is
  published, followed by what waits, is a subsequence of what was emitted: messages are lost when
  the buffer is full or a publication fails, and never reordered or duplicated.\<close>

theorem log_channel_order:
  assumes "run_steps log_step ops tracing_init = Some (c, vs)"
  shows "length (lc_queue c) \<le> 128 \<and> subseq (lc_published c @ lc_queue c) (emitted ops) \<and>
    (LogAttach \<notin> set ops \<longrightarrow> lc_published c = [] \<and> lc_queue c = take 128 (emitted ops))"
proof -
  have "length (lc_queue c) \<le> LOG_BUFFER"
    using log_bound.run_invar [OF _ assms] by (simp add: tracing_init_def)
  moreover have "subseq (lc_published c @ lc_queue c) (emitted ops)"
    using log_run_order [OF assms, of "[]"] by (simp add: tracing_init_def)
  moreover have "lc_published c = [] \<and> lc_queue c = take 128 (emitted ops)" if "LogAttach \<notin> set ops"
    using log_run_unattached [OF assms, of "[]"] that by (simp add: tracing_init_def LOG_BUFFER_def)
  ultimately show ?thesis by (simp add: LOG_BUFFER_def)
qed

theorem log_channel_order_witness:
  "\<exists>c vs. run_steps log_step [LogEmit 1, LogPublish True, LogAttach, LogEmit (2::nat), LogPublish False, LogPublish True]
     tracing_init = Some (c, vs) \<and> subseq (lc_published c @ lc_queue c) [1, 2] \<and> lc_published c = [2]"
proof -
  let ?ops = "[LogEmit 1, LogPublish True, LogAttach, LogEmit (2::nat), LogPublish False, LogPublish True]"
  obtain c vs where run: "run_steps log_step ?ops tracing_init = Some (c, vs)" and "lc_published c = [2]"
    by (simp add: try_send_log_def attach_nats_def do_logs_step_def tracing_init_def LOG_BUFFER_def)
  then show ?thesis using log_channel_order [OF run] by auto
qed

end
