(* ===== verification/Startup.thy ===== *)
theory Startup
  imports Scheduler Dns_Server Agent Proxy_Service Drone_Certs Core_Logging
begin

text \<open>
  How the two services start: reading the configuration (\<open>core/src/cli.rs\<close>), the configurations
  and plans (\<open>controller/src/config.rs\<close>, \<open>controller/src/plan.rs\<close>, \<open>drone/src/config.rs\<close>,
  \<open>drone/src/plan.rs\<close>) and the main functions (\<open>controller/src/run.rs\<close>, \<open>drone/src/run.rs\<close>). The
  sources of the configuration, the connection attempts, opening the database, random ids and
  the order in which event loops fail are arguments. A connected client is named by the settings
  it was connected with.
\<close>

section \<open>Reading the configuration (\<open>cli.rs\<close>)\<close>

record CliArgs =
  ca_dump_config :: bool
  ca_config_file :: "string option"

datatype StartError =
    ConfigError string
  | TracingError
  | StartNats NatsError
  | StartDb
  | AttachTwice
  | StartCert CertError
  | BadSoaEmail
  | NonAsciiSoaEmail
  | BindError
  | StartDocker DockerError
  | LoopError string
  | NoEventLoops
  | SignalsError
  | RuntimeError

text \<open>Dumping the configuration ends in \<open>todo!\<close>.\<close>

definition init_cli ::
  "(string option \<Rightarrow> StartError + 'c) \<Rightarrow> ('c \<Rightarrow> StartError + string) \<Rightarrow> CliArgs \<Rightarrow> (StartError + 'c) panics" where
  "init_cli build to_json args =
     (case build (ca_config_file args) of
        Inl e \<Rightarrow> Some (Inl e)
      | Inr config \<Rightarrow>
          if ca_dump_config args
          then (case to_json config of Inl e \<Rightarrow> Some (Inl e) | Inr _ \<Rightarrow> None)
          else Some (Inr config))"

record start_env =
  se_checks :: bool
  se_addr_ok :: "string \<Rightarrow> bool"
  se_connect :: "string list \<Rightarrow> string option \<Rightarrow> nat \<Rightarrow> NatsError + unit"
  se_uuid :: string
  se_db :: "string \<Rightarrow> DroneDatabase option"
  se_tracing :: bool

definition connect_client :: "start_env \<Rightarrow> NatsConnectionSpec \<Rightarrow> (StartError + NatsConnectionSpec) panics" where
  "connect_client env spec =
     map_option (\<lambda>r. case r of Inl e \<Rightarrow> Inl (StartNats e) | Inr _ \<Rightarrow> Inr spec)
       (connect_with_retry (se_checks env) (se_addr_ok env) (se_connect env) spec)"

text \<open>
  \<open>try_join_all\<close> over event loops that never return a value: \<open>None\<close> when there are none, otherwise
  the error of the loop that failed first, or the loops as long as none has failed. \<open>failures\<close>
  lists the failures in the order of time, by position.
\<close>

definition try_join_all :: "(nat \<times> StartError) list \<Rightarrow> 'f list \<Rightarrow> (StartError + 'f list) option" where
  "try_join_all failures futs =
     (if futs = [] then None
      else Some (case List.find (\<lambda>(i, _). i < length futs) failures of
                   Some (_, e) \<Rightarrow> Inl e
                 | None \<Rightarrow> Inr futs))"

section \<open>The controller\<close>

record DnsOptions =
  do_port :: u16
  do_bind_ip :: IpAddr
  do_soa_email :: "string option"

definition default_port :: u16 where
  "default_port = 53"

definition default_bind_ip :: IpAddr where
  "default_bind_ip = V4 0 0 0 0"

record ControllerConfig =
  cc_nats :: NatsConnectionSpec
  cc_scheduler :: "unit option"
  cc_dns :: "DnsOptions option"

record DnsPlan =
  dnp_port :: u16
  dnp_bind_ip :: IpAddr
  dnp_soa_email :: "string option"
  dnp_nc :: NatsConnectionSpec

record ControllerPlan =
  cp_nats :: NatsConnectionSpec
  cp_scheduler_plan :: "unit option"
  cp_dns_plan :: "DnsPlan option"

text \<open>\<open>from_ascii\<close> is \<open>Name::from_ascii\<close> of the DNS library.\<close>

definition soa_name :: "(string \<Rightarrow> string option) \<Rightarrow> string option \<Rightarrow> StartError + string option" where
  "soa_name from_ascii configured =
     (case configured of
        None \<Rightarrow> Inr None
      | Some email \<Rightarrow>
          bindR (ok_or BadSoaEmail (format_rname email)) (\<lambda>formatted.
          bindR (ok_or NonAsciiSoaEmail (from_ascii formatted)) (\<lambda>name. Inr (Some name))))"

definition dns_plan :: "(string \<Rightarrow> string option) \<Rightarrow> NatsConnectionSpec \<Rightarrow> DnsOptions option \<Rightarrow> StartError + DnsPlan option" where
  "dns_plan from_ascii nats dns =
     (case dns of
        None \<Rightarrow> Inr None
      | Some options \<Rightarrow>
          bindR (soa_name from_ascii (do_soa_email options)) (\<lambda>soa.
            Inr (Some \<lparr>dnp_port = do_port options, dnp_bind_ip = do_bind_ip options,
                       dnp_soa_email = soa, dnp_nc = nats\<rparr>)))"

definition from_controller_config ::
  "start_env \<Rightarrow> (string \<Rightarrow> string option) \<Rightarrow> ControllerConfig \<Rightarrow> (StartError + ControllerPlan) panics" where
  "from_controller_config env from_ascii config =
     map_option (\<lambda>r.
         bindR r (\<lambda>nats.
         bindR (dns_plan from_ascii nats (cc_dns config)) (\<lambda>dns.
           Inr \<lparr>cp_nats = nats, cp_scheduler_plan = cc_scheduler config, cp_dns_plan = dns\<rparr>)))
       (connect_client env (cc_nats config))"

text \<open>The start of the DNS server: it listens on UDP and TCP on the configured address.\<close>

definition serve_dns ::
  "(IpAddr \<times> u16 \<Rightarrow> bool) \<Rightarrow> (IpAddr \<times> u16 \<Rightarrow> bool) \<Rightarrow> DnsPlan \<Rightarrow> StartError + dns_server" where
  "serve_dns bind_udp bind_tcp plan =
     (let ip_port_pair = (dnp_bind_ip plan, dnp_port plan)
      in if \<not> bind_udp ip_port_pair then Inl BindError
         else if \<not> bind_tcp ip_port_pair then Inl BindError
         else Inr (dns_server_new (dnp_soa_email plan)))"

datatype controller_loop = RunScheduler NatsConnectionSpec | ServeDns DnsPlan

definition controller_loops :: "ControllerPlan \<Rightarrow> controller_loop list" where
  "controller_loops plan =
     (if cp_scheduler_plan plan \<noteq> None then [RunScheduler (cp_nats plan)] else []) @
     (case cp_dns_plan plan of Some dns \<Rightarrow> [ServeDns dns] | None \<Rightarrow> [])"

definition controller_main ::
  "start_env \<Rightarrow> (string \<Rightarrow> string option) \<Rightarrow> (StartError + ControllerConfig) panics \<Rightarrow> (nat \<times> StartError) list \<Rightarrow>
     (StartError + controller_loop list) panics" where
  "controller_main env from_ascii config failures =
     (if \<not> se_tracing env then Some (Inl TracingError)
      else case config of
             None \<Rightarrow> None
           | Some (Inl e) \<Rightarrow> Some (Inl e)
           | Some (Inr config) \<Rightarrow>
               (case from_controller_config env from_ascii config of
                  None \<Rightarrow> None
                | Some (Inl e) \<Rightarrow> Some (Inl e)
                | Some (Inr plan) \<Rightarrow>
                    Some (if \<not> snd (attach_nats (tracing_init :: unit log_channel)) then Inl AttachTwice
                          else case try_join_all failures (controller_loops plan) of
                                 Some r \<Rightarrow> r
                               | None \<Rightarrow> Inl NoEventLoops)))"

section \<open>The drone\<close>

datatype DockerConnection = DkSocket string | DkHttp string

definition default_docker_connection :: DockerConnection where
  "default_docker_connection = DkSocket ''/var/run/docker.sock''"

record DockerConfig =
  dk_runtime :: "string option"
  dk_connection :: DockerConnection
  dk_network :: "string option"

definition default_docker_config :: DockerConfig where
  "default_docker_config = \<lparr>dk_runtime = None, dk_connection = default_docker_connection, dk_network = None\<rparr>"

record ProxyConfig =
  pc_bind_ip :: IpAddr
  pc_https_port :: u16

definition default_bind_address :: IpAddr where
  "default_bind_address = V4 0 0 0 0"

definition default_https_port :: u16 where
  "default_https_port = 443"

record AgentConfig =
  agc_docker :: DockerConfig
  agc_ip :: IpSource
  agc_drone_id :: "DroneId option"

record DroneConfig =
  fc_drone_id :: "DroneId option"
  fc_db_path :: string
  fc_cluster_domain :: string
  fc_nats :: "NatsConnectionSpec option"
  fc_cert :: "KeyCertPathPair option"
  fc_acme :: "AcmeConfiguration option"
  fc_agent :: "AgentConfig option"
  fc_proxy :: "ProxyConfig option"

definition default_db_path :: string where
  "default_db_path = ''drone.sqlite3''"

record ProxyOptions =
  po_db :: DroneDatabase
  po_bind_ip :: IpAddr
  po_bind_port :: u16
  po_key_pair :: "KeyCertPathPair option"
  po_cluster_domain :: string

record AgentOptions =
  ao_drone_id :: DroneId
  ao_nats :: NatsConnectionSpec
  ao_cluster_domain :: ClusterName
  ao_db :: DroneDatabase
  ao_docker_options :: DockerConfig
  ao_ip :: IpSource

record DronePlan =
  dp_proxy_options :: "ProxyOptions option"
  dp_agent_options :: "AgentOptions option"
  dp_cert_options :: "CertOptions option"
  dp_nats :: "NatsConnectionSpec option"
  dp_drone_id :: DroneId

text \<open>The Docker client of the agent; \<open>connect\<close> is the connection to the daemon.\<close>

definition docker_try_new :: "(DockerConnection \<Rightarrow> DockerError + unit) \<Rightarrow> DockerConfig \<Rightarrow> StartError + DockerInterface" where
  "docker_try_new connect config =
     (case connect (dk_connection config) of
        Inl e \<Rightarrow> Inl (StartDocker e)
      | Inr _ \<Rightarrow> Inr \<lparr>di_runtime = dk_runtime config, di_network = dk_network config\<rparr>)"

text \<open>
  The start of the proxy server: over TLS when there is a key pair, otherwise over plain HTTP.
  \<open>hyper\<close>'s \<open>Server::bind\<close> panics when the address cannot be bound, \<open>AddrIncoming::bind\<close> returns the error.
\<close>

record proxy_server =
  sv_cluster :: string
  sv_bind_address :: "IpAddr \<times> u16"
  sv_certs :: "CertRefresher option"

definition run_server ::
  "pem_ext \<Rightarrow> bool \<Rightarrow> (path \<Rightarrow> bool) \<Rightarrow> fs \<Rightarrow> (IpAddr \<times> u16 \<Rightarrow> bool) \<Rightarrow> ProxyOptions \<Rightarrow>
     (StartError + proxy_server) panics" where
  "run_server x watcher_ok watch_ok fs bind options =
     (let bind_address = (po_bind_ip options, po_bind_port options)
      in case po_key_pair options of
           Some key_pair \<Rightarrow>
             (case cert_refresher_new x watcher_ok watch_ok fs key_pair of
                None \<Rightarrow> None
              | Some (Inl e) \<Rightarrow> Some (Inl (StartCert e))
              | Some (Inr cert_refresher) \<Rightarrow>
                  Some (if bind bind_address
                        then Inr \<lparr>sv_cluster = po_cluster_domain options, sv_bind_address = bind_address,
                                  sv_certs = Some cert_refresher\<rparr>
                        else Inl BindError))
         | None \<Rightarrow>
             if bind bind_address
             then Some (Inr \<lparr>sv_cluster = po_cluster_domain options, sv_bind_address = bind_address, sv_certs = None\<rparr>)
             else None)"

text \<open>\<open>serve\<close> runs the recorder of connections and the server on one new tracker. The recorder never returns,
  so that \<open>select!\<close> ends with the server and with what it returns.\<close>

definition proxy_serve ::
  "pem_ext \<Rightarrow> bool \<Rightarrow> (path \<Rightarrow> bool) \<Rightarrow> fs \<Rightarrow> (IpAddr \<times> u16 \<Rightarrow> bool) \<Rightarrow> ProxyOptions \<Rightarrow>
     (StartError + proxy_server \<times> connection_tracker) panics" where
  "proxy_serve x watcher_ok watch_ok fs bind options =
     map_option (\<lambda>result. bindR result (\<lambda>server. Inr (server, connection_tracker_default)))
       (run_server x watcher_ok watch_ok fs bind options)"

text \<open>The two \<open>expect\<close> calls of the certificate options and the one of the agent options panic.\<close>

definition plan_cert :: "DroneConfig \<Rightarrow> NatsConnectionSpec option \<Rightarrow> CertOptions option panics" where
  "plan_cert config nats =
     (case fc_acme config of
        None \<Rightarrow> Some None
      | Some acme_config \<Rightarrow>
          Option.bind (fc_cert config) (\<lambda>key_paths.
          Option.bind nats (\<lambda>nc.
            Some (Some \<lparr>co_cluster_domain = fc_cluster_domain config, co_nats = nc, co_key_paths = key_paths,
                        co_email = acme_admin_email acme_config, co_acme_server_url = acme_server acme_config,
                        co_acme_eab_keypair = acme_eab acme_config\<rparr>))))"

definition plan_proxy :: "DroneConfig \<Rightarrow> DroneDatabase \<Rightarrow> ProxyOptions option" where
  "plan_proxy config db =
     map_option (\<lambda>proxy_config.
         \<lparr>po_db = db, po_bind_ip = pc_bind_ip proxy_config, po_bind_port = pc_https_port proxy_config,
          po_key_pair = fc_cert config, po_cluster_domain = fc_cluster_domain config\<rparr>)
       (fc_proxy config)"

definition plan_agent ::
  "DroneConfig \<Rightarrow> DroneId \<Rightarrow> NatsConnectionSpec option \<Rightarrow> DroneDatabase \<Rightarrow> AgentOptions option panics" where
  "plan_agent config drone_id nats db =
     (case fc_agent config of
        None \<Rightarrow> Some None
      | Some agent_config \<Rightarrow>
          Option.bind nats (\<lambda>nc.
            Some (Some \<lparr>ao_drone_id = drone_id, ao_nats = nc,
                        ao_cluster_domain = ClusterName (fc_cluster_domain config), ao_db = db,
                        ao_docker_options = agc_docker agent_config, ao_ip = agc_ip agent_config\<rparr>)))"

definition connect_optional ::
  "start_env \<Rightarrow> NatsConnectionSpec option \<Rightarrow> (StartError + NatsConnectionSpec option) panics" where
  "connect_optional env nats =
     (case nats of
        None \<Rightarrow> Some (Inr None)
      | Some spec \<Rightarrow> map_option (\<lambda>r. bindR r (\<lambda>n. Inr (Some n))) (connect_client env spec))"

definition from_drone_config :: "start_env \<Rightarrow> DroneConfig \<Rightarrow> (StartError + DronePlan) panics" where
  "from_drone_config env config =
     (let drone_id = (case fc_drone_id config of Some d \<Rightarrow> d | None \<Rightarrow> DroneId (se_uuid env))
      in case connect_optional env (fc_nats config) of
           None \<Rightarrow> None
         | Some (Inl e) \<Rightarrow> Some (Inl e)
         | Some (Inr nats) \<Rightarrow>
             (case se_db env (fc_db_path config) of
                None \<Rightarrow> Some (Inl StartDb)
              | Some db \<Rightarrow>
                  Option.bind (plan_cert config nats) (\<lambda>cert_options.
                  Option.bind (plan_agent config drone_id nats db) (\<lambda>agent_options.
                    Some (Inr \<lparr>dp_proxy_options = plan_proxy config db, dp_agent_options = agent_options,
                               dp_cert_options = cert_options, dp_nats = nats, dp_drone_id = drone_id\<rparr>)))))"

datatype drone_loop = RefreshLoop CertOptions | ServeProxy ProxyOptions | RunAgent AgentOptions

definition drone_loops :: "DronePlan \<Rightarrow> drone_loop list" where
  "drone_loops plan =
     (case dp_cert_options plan of Some c \<Rightarrow> [RefreshLoop c] | None \<Rightarrow> []) @
     (case dp_proxy_options plan of Some p \<Rightarrow> [ServeProxy p] | None \<Rightarrow> []) @
     (case dp_agent_options plan of Some a \<Rightarrow> [RunAgent a] | None \<Rightarrow> [])"

text \<open>The certificate is checked, with up to five retries, before any loop starts; \<open>refresh c n\<close> is
  the outcome of the \<open>n\<close>-th call of \<open>refresh_if_not_valid\<close>.\<close>

definition initial_refresh ::
  "start_env \<Rightarrow> (CertOptions \<Rightarrow> nat \<Rightarrow> CertError + duration option) \<Rightarrow> DronePlan \<Rightarrow> (StartError + unit) panics" where
  "initial_refresh env refresh plan =
     (case dp_cert_options plan of
        None \<Rightarrow> Some (Inr ())
      | Some cert_options \<Rightarrow>
          map_option (\<lambda>outcome. case ro_result outcome of Inl e \<Rightarrow> Inl (StartCert e) | Inr _ \<Rightarrow> Inr ())
            (do_with_retry (se_checks env) (refresh cert_options) 5 (from_secs 10)))"

definition drone_main ::
  "start_env \<Rightarrow> (CertOptions \<Rightarrow> nat \<Rightarrow> CertError + duration option) \<Rightarrow> (StartError + DroneConfig) panics \<Rightarrow>
     (nat \<times> StartError) list \<Rightarrow> (StartError + drone_loop list) panics" where
  "drone_main env refresh config failures =
     (case config of
        None \<Rightarrow> None
      | Some (Inl e) \<Rightarrow> Some (Inl e)
      | Some (Inr config) \<Rightarrow>
          (let drone_id = (case fc_drone_id config of Some d \<Rightarrow> d | None \<Rightarrow> DroneId (se_uuid env))
           in if \<not> se_tracing env then Some (Inl TracingError)
              else case from_drone_config env (config\<lparr>fc_drone_id := Some drone_id\<rparr>) of
                None \<Rightarrow> None
              | Some (Inl e) \<Rightarrow> Some (Inl e)
              | Some (Inr plan) \<Rightarrow>
                  if dp_nats plan \<noteq> None \<and> \<not> snd (attach_nats (tracing_init :: unit log_channel))
                  then Some (Inl AttachTwice)
                  else case initial_refresh env refresh plan of
                    None \<Rightarrow> None
                  | Some (Inl e) \<Rightarrow> Some (Inl e)
                  | Some (Inr _) \<Rightarrow>
                      Some (case try_join_all failures (drone_loops plan) of
                              Some r \<Rightarrow> r
                            | None \<Rightarrow> Inl NoEventLoops)))"

text \<open>The processes. \<open>signals\<close> and \<open>runtime\<close> tell whether the signal handlers and the tokio runtime could be
  set up. SIGINT and SIGTERM end a process at once, with status 0.\<close>

datatype 'l process = ProcessMain "(StartError + 'l list) panics" | ProcessExit nat

definition drone_run ::
  "bool \<Rightarrow> bool \<Rightarrow> bool \<Rightarrow> (StartError + drone_loop list) panics \<Rightarrow> drone_loop process" where
  "drone_run signals runtime signalled main =
     (if \<not> signals then ProcessMain (Some (Inl SignalsError))
      else if signalled then ProcessExit 0
      else if \<not> runtime then ProcessMain (Some (Inl RuntimeError))
      else ProcessMain main)"

definition controller_run ::
  "bool \<Rightarrow> bool \<Rightarrow> bool \<Rightarrow> (StartError + controller_loop list) panics \<Rightarrow> controller_loop process" where
  "controller_run signals runtime signalled main =
     (if \<not> signals then ProcessMain (Some (Inl SignalsError))
      else if signalled then ProcessExit 0
      else if \<not> runtime then ProcessMain (Some (Inl RuntimeError))
      else ProcessMain main)"

section \<open>Lemmas\<close>

lemma attach_first [simp]: "snd (attach_nats tracing_init)"
  by (simp add: attach_nats_def tracing_init_def)

lemma connect_client_spec:
  assumes "connect_client env spec = Some (Inr n)"
  shows "n = spec"
proof -
  obtain r :: "NatsError + unit" where "(case r of Inl e \<Rightarrow> Inl (StartNats e) | Inr _ \<Rightarrow> Inr spec) = (Inr n :: StartError + NatsConnectionSpec)"
    using assms by (auto simp: connect_client_def)
  then show ?thesis by (cases r) auto
qed

lemma connect_optional_spec: "connect_optional env nats = Some (Inr n) \<Longrightarrow> n = nats"
  by (auto simp: connect_optional_def bindR_Inr_iff dest: connect_client_spec split: option.splits)

lemma plan_cert_cases:
  "plan_cert c nats = None \<longleftrightarrow> fc_acme c \<noteq> None \<and> (fc_cert c = None \<or> nats = None)"
  "plan_cert c nats = Some None \<longleftrightarrow> fc_acme c = None"
  by (auto simp: plan_cert_def split: option.splits Option.bind_splits)

lemma plan_agent_cases:
  "plan_agent c d nats db = None \<longleftrightarrow> fc_agent c \<noteq> None \<and> nats = None"
  "plan_agent c d nats db = Some None \<longleftrightarrow> fc_agent c = None"
  by (auto simp: plan_agent_def split: option.splits Option.bind_splits)

lemma plan_agent_Some:
  "plan_agent c d nats db = Some (Some a) \<Longrightarrow>
     ao_db a = db \<and> ao_drone_id a = d \<and> ao_cluster_domain a = ClusterName (fc_cluster_domain c) \<and> Some (ao_nats a) = nats"
  by (auto simp: plan_agent_def split: option.splits Option.bind_splits)

lemma plan_cert_Some:
  "plan_cert c nats = Some (Some opts) \<Longrightarrow>
     co_cluster_domain opts = fc_cluster_domain c \<and> Some (co_key_paths opts) = fc_cert c \<and> Some (co_nats opts) = nats"
  by (auto simp: plan_cert_def split: option.splits Option.bind_splits)

lemma plan_proxy_cases:
  "plan_proxy c db = None \<longleftrightarrow> fc_proxy c = None"
  "plan_proxy c db = Some p \<Longrightarrow> po_db p = db \<and> po_cluster_domain p = fc_cluster_domain c \<and> po_key_pair p = fc_cert c"
  by (auto simp: plan_proxy_def)

fun loop_name :: "drone_loop \<Rightarrow> string" where
  "loop_name (RefreshLoop _) = ''refresh''"
| "loop_name (ServeProxy _) = ''proxy''"
| "loop_name (RunAgent _) = ''agent''"

definition configured_loops :: "DroneConfig \<Rightarrow> string list" where
  "configured_loops c =
     (if fc_acme c \<noteq> None then [''refresh''] else []) @ (if fc_proxy c \<noteq> None then [''proxy''] else []) @
     (if fc_agent c \<noteq> None then [''agent''] else [])"

text \<open>What a plan takes from its configuration.\<close>

definition plan_matches :: "DroneConfig \<Rightarrow> DroneDatabase \<Rightarrow> DronePlan \<Rightarrow> bool" where
  "plan_matches c db plan \<longleftrightarrow>
     map loop_name (drone_loops plan) = configured_loops c \<and> dp_nats plan = fc_nats c \<and>
     (case dp_proxy_options plan of None \<Rightarrow> True
      | Some p \<Rightarrow> po_db p = db \<and> po_cluster_domain p = fc_cluster_domain c \<and> po_key_pair p = fc_cert c) \<and>
     (case dp_agent_options plan of None \<Rightarrow> True
      | Some a \<Rightarrow> ao_db a = db \<and> ao_drone_id a = dp_drone_id plan \<and> hostname (ao_cluster_domain a) = fc_cluster_domain c \<and>
          Some (ao_nats a) = fc_nats c) \<and>
     (case dp_cert_options plan of None \<Rightarrow> True
      | Some opts \<Rightarrow> co_cluster_domain opts = fc_cluster_domain c \<and> Some (co_key_paths opts) = fc_cert c \<and>
          Some (co_nats opts) = fc_nats c)"

lemma plan_matches_config:
  assumes "plan_cert c (fc_nats c) = Some cert" and "plan_agent c d (fc_nats c) db = Some ag"
  shows "plan_matches c db \<lparr>dp_proxy_options = plan_proxy c db, dp_agent_options = ag,
           dp_cert_options = cert, dp_nats = fc_nats c, dp_drone_id = d\<rparr>"
proof -
  have cert: "cert = None \<longleftrightarrow> fc_acme c = None" using assms(1) plan_cert_cases(2) [of c "fc_nats c"] by auto
  have ag: "ag = None \<longleftrightarrow> fc_agent c = None" using assms(2) plan_agent_cases(2) [of c d "fc_nats c" db] by auto
  show ?thesis
    using cert ag plan_proxy_cases [of c db] assms plan_agent_Some [of c d "fc_nats c" db] plan_cert_Some [of c "fc_nats c"]
    by (auto simp: plan_matches_def drone_loops_def configured_loops_def split: option.splits)
qed

lemma run_server_tls:
  assumes "run_server x watcher_ok watch_ok fs bind options = Some (Inr sv)"
  shows "sv_certs sv = None \<longleftrightarrow> po_key_pair options = None"
    and "po_key_pair options = Some kp \<Longrightarrow> load_certified_key x fs kp = Inr ck \<Longrightarrow>
      map_option resolve (sv_certs sv) = Some (Some ck)"
  using assms
  by (auto simp: run_server_def cert_refresher_new_def try_to_update_certs_def resolve_def Let_def
      split: option.splits sum.splits if_splits)

text \<open>A proxy starts with no activity, and over TLS exactly with a key pair.\<close>

lemma proxy_serve_starts:
  assumes "proxy_serve x watcher_ok watch_ok fs bind options = Some (Inr (sv, t))"
  shows "ct_rel t activity_init" and "sv_certs sv = None \<longleftrightarrow> po_key_pair options = None"
  using assms run_server_tls(1) ct_rel_default by (auto simp: proxy_serve_def bindR_Inr_iff)

lemma from_drone_config_matches:
  assumes "from_drone_config env c = Some (Inr plan)"
  shows "\<exists>db. plan_matches c db plan"
proof -
  let ?d = "case fc_drone_id c of Some d \<Rightarrow> d | None \<Rightarrow> DroneId (se_uuid env)"
  obtain nats where nats: "connect_optional env (fc_nats c) = Some (Inr nats)"
    using assms by (auto simp: from_drone_config_def Let_def split: option.splits sum.splits)
  then have "nats = fc_nats c" by (rule connect_optional_spec)
  with nats assms obtain db cert ag where "plan_cert c (fc_nats c) = Some cert" "plan_agent c ?d (fc_nats c) db = Some ag"
      and "plan = \<lparr>dp_proxy_options = plan_proxy c db, dp_agent_options = ag, dp_cert_options = cert,
        dp_nats = fc_nats c, dp_drone_id = ?d\<rparr>"
    by (auto simp: from_drone_config_def Let_def split: option.splits Option.bind_splits)
  then show ?thesis using plan_matches_config by blast
qed

lemma retry_result_ok:
  assumes "do_with_retry checks func retries delay = Some out" and "is_ok (ro_result out)"
  shows "\<exists>n < max 1 (unat retries). is_ok (func n)"
proof -
  let ?N = "max 1 (unat retries)"
  have "ro_result out = func (deciding_call func ?N 0)"
    using assms(1) by (auto simp: do_with_retry_def retry_loop_spec retry_spec_def Let_def)
  moreover have "deciding_call func ?N 0 < ?N" using deciding_call_bounds [of 0 ?N func] by auto
  ultimately show ?thesis using assms(2) by metis
qed

lemma initial_refresh_ok:
  assumes "initial_refresh env refresh plan = Some (Inr u)" and "dp_cert_options plan = Some opts"
  shows "\<exists>n < 5. is_ok (refresh opts n)"
proof -
  obtain out where out: "do_with_retry (se_checks env) (refresh opts) 5 (from_secs 10) = Some out"
      "(case ro_result out of Inl e \<Rightarrow> Inl (StartCert e) | Inr _ \<Rightarrow> Inr ()) = (Inr u :: StartError + unit)"
    using assms by (auto simp: initial_refresh_def)
  then have "is_ok (ro_result out)" by (cases "ro_result out") (auto simp: is_ok_def)
  then show ?thesis using retry_result_ok [OF out(1)] by simp
qed

section \<open>Properties\<close>


definition example_env :: start_env where
  "example_env = \<lparr>se_checks = True, se_addr_ok = (\<lambda>_. True), se_connect = (\<lambda>_ _ _. Inr ()), se_uuid = ''u'',
     se_db = (\<lambda>_. Some drone_database_new), se_tracing = True\<rparr>"

lemma example_env_simps [simp]:
  "se_checks example_env" "se_uuid example_env = ''u''" "se_db example_env path = Some drone_database_new"
  "se_tracing example_env"
  by (simp_all add: example_env_def)

definition example_spec :: NatsConnectionSpec where
  "example_spec = \<lparr>nc_auth = None, nc_hosts = [''nats'']\<rparr>"

lemma example_connect: "connect_client example_env example_spec = Some (Inr example_spec)"
proof -
  have "deciding_call (\<lambda>_. Inr () :: NatsError + unit) 30 0 = 0" by (simp add: deciding_call_def upt_rec)
  then show ?thesis
    by (simp add: connect_client_def connect_with_retry_def example_env_def example_spec_def do_with_retry_def
        retry_loop_spec retry_spec_def Let_def)
qed

definition example_config :: DroneConfig where
  "example_config = \<lparr>fc_drone_id = None, fc_db_path = default_db_path, fc_cluster_domain = ''plane.test'',
     fc_nats = Some example_spec, fc_cert = Some example_pair,
     fc_acme = Some \<lparr>acme_server = ''https://acme'', acme_admin_email = ''a@plane.test'', acme_eab = None\<rparr>,
     fc_agent = None, fc_proxy = Some \<lparr>pc_bind_ip = default_bind_address, pc_https_port = default_https_port\<rparr>\<rparr>"


text \<open>C37: what runs in a drone process. If \<open>drone_main\<close> is running, then its event loops are exactly
  the configured ones and there is at least one; if certificates are renewed, one of the first
  five checks had succeeded; and the proxy and the agent share the database, so that the proxy
  sees the routes the agent writes. If no loop is configured and nothing else fails, it ends with
  an error.\<close>

theorem drone_main_runs_configured:
  assumes "drone_main env refresh (Some (Inr c)) failures = Some r"
  shows "(\<forall>loops. r = Inr loops \<longrightarrow>
      loops \<noteq> [] \<and> map loop_name loops = configured_loops c \<and>
      (\<forall>i e. (i, e) \<in> set failures \<longrightarrow> length loops \<le> i) \<and>
      (\<forall>opts. RefreshLoop opts \<in> set loops \<longrightarrow> (\<exists>n < 5. is_ok (refresh opts n))) \<and>
      (\<forall>p a. ServeProxy p \<in> set loops \<and> RunAgent a \<in> set loops \<longrightarrow> po_db p = ao_db a)) \<and>
    (configured_loops c = [] \<longrightarrow> \<not> is_ok r)"
proof -
  let ?d = "case fc_drone_id c of Some d \<Rightarrow> d | None \<Rightarrow> DroneId (se_uuid env)"
  let ?c = "c\<lparr>fc_drone_id := Some ?d\<rparr>"
  show ?thesis
  proof (cases r)
    case (Inr loops)
    then obtain plan where plan: "from_drone_config env ?c = Some (Inr plan)"
        and refreshed: "initial_refresh env refresh plan = Some (Inr ())"
        and joined: "try_join_all failures (drone_loops plan) = Some (Inr loops)"
      using assms by (auto simp: drone_main_def Let_def split: if_splits option.splits sum.splits)
    obtain db where matches: "plan_matches ?c db plan" using from_drone_config_matches [OF plan] by blast
    have loops: "loops = drone_loops plan" "loops \<noteq> []" "\<forall>i e. (i, e) \<in> set failures \<longrightarrow> length loops \<le> i"
      using joined by (auto simp: try_join_all_def find_None_iff split: if_splits option.splits)
    have "\<exists>n < 5. is_ok (refresh opts n)" if "RefreshLoop opts \<in> set loops" for opts
      using that initial_refresh_ok [OF refreshed, of opts] unfolding loops(1)
      by (auto simp: drone_loops_def split: option.splits)
    moreover have "po_db p = ao_db a" if "ServeProxy p \<in> set loops" "RunAgent a \<in> set loops" for p a
      using that matches unfolding loops(1)
      by (auto simp: drone_loops_def plan_matches_def split: option.splits)
    moreover have "map loop_name loops = configured_loops c"
      using matches loops(1) by (simp add: plan_matches_def configured_loops_def)
    ultimately show ?thesis using Inr loops by auto
  qed (simp add: is_ok_def)
qed

theorem drone_main_runs_configured_witness:
  "\<exists>loops. drone_main example_env (\<lambda>_ n. if n = 1 then Inr None else Inl (AcmeError ''down'')) (Some (Inr example_config)) []
     = Some (Inr loops) \<and> map loop_name loops = [''refresh'', ''proxy'']"
proof -
  let ?refresh = "\<lambda>(_ :: CertOptions) n. if n = (1::nat) then Inr None else Inl (AcmeError ''down'') :: CertError + duration option"
  have d: "deciding_call (?refresh opts) 5 0 = 1" for opts by (simp add: deciding_call_def upt_rec is_ok_def)
  obtain loops where run: "drone_main example_env ?refresh (Some (Inr example_config)) [] = Some (Inr loops)"
    using d by (simp add: drone_main_def from_drone_config_def Let_def connect_optional_def example_config_def
        example_connect bindR_def plan_cert_def plan_agent_def plan_proxy_def initial_refresh_def try_join_all_def
        drone_loops_def do_with_retry_def retry_loop_spec retry_spec_def)
  then show ?thesis
    using drone_main_runs_configured [OF run] by (simp add: configured_loops_def example_config_def)
qed

text \<open>What runs in a controller process. If \<open>controller_main\<close> is running, it runs the scheduler
  exactly if it is configured, and the DNS server exactly if it is configured, on the configured
  port and with the mailbox made of the configured email address; there is at least one of them.
  With an address that has no at sign the controller does not start.\<close>

theorem controller_main_runs_configured:
  assumes "controller_main env from_ascii (Some (Inr c)) failures = Some r"
  shows "(\<forall>loops. r = Inr loops \<longrightarrow>
      loops \<noteq> [] \<and> (\<forall>n. RunScheduler n \<in> set loops \<longleftrightarrow> cc_scheduler c \<noteq> None \<and> n = cc_nats c) \<and>
      (cc_dns c = None \<longleftrightarrow> (\<forall>p. ServeDns p \<notin> set loops)) \<and>
      (\<forall>p. ServeDns p \<in> set loops \<longrightarrow> (\<exists>opts. cc_dns c = Some opts \<and> dnp_port p = do_port opts \<and> dnp_nc p = cc_nats c \<and>
         dnp_soa_email p = Option.bind (do_soa_email opts) (\<lambda>e. Option.bind (format_rname e) from_ascii) \<and>
         (dnp_soa_email p = None \<longleftrightarrow> do_soa_email opts = None)))) \<and>
    (\<forall>opts e. cc_dns c = Some opts \<and> do_soa_email opts = Some e \<and> CHR ''@'' \<notin> set e \<longrightarrow> \<not> is_ok r)"
proof -
  have main: ?thesis if eq: "r = Inr loops" for loops
  proof -
    obtain plan where plan: "from_controller_config env from_ascii c = Some (Inr plan)"
        and loops: "try_join_all failures (controller_loops plan) = Some (Inr loops)"
      using assms eq by (auto simp: controller_main_def split: if_splits option.splits sum.splits)
    obtain nats where "connect_client env (cc_nats c) = Some (Inr nats)" and
        p: "dns_plan from_ascii nats (cc_dns c) = Inr (cp_dns_plan plan)" "cp_nats plan = nats"
          "cp_scheduler_plan plan = cc_scheduler c"
      using plan by (auto simp: from_controller_config_def bindR_Inr_iff)
    then have nats: "nats = cc_nats c" using connect_client_spec by blast
    have l: "loops = controller_loops plan" "loops \<noteq> []"
      using loops by (auto simp: try_join_all_def split: if_splits option.splits)
    show ?thesis
    proof (cases "cc_dns c")
      case None
      then show ?thesis using l p nats eq by (auto simp: dns_plan_def controller_loops_def split: option.splits)
    next
      case (Some opts)
      then obtain soa where soa: "soa_name from_ascii (do_soa_email opts) = Inr soa"
          "cp_dns_plan plan = Some \<lparr>dnp_port = do_port opts, dnp_bind_ip = do_bind_ip opts, dnp_soa_email = soa, dnp_nc = nats\<rparr>"
        using p(1) by (auto simp: dns_plan_def bindR_Inr_iff)
      have dot: "CHR ''@'' \<in> set e" if "do_soa_email opts = Some e" for e
        using soa(1) that split_once_None [of "CHR ''@''" e]
        by (cases "split_once (CHR ''@'') e") (auto simp: soa_name_def format_rname_def bindR_def)
      have val: "soa = Option.bind (do_soa_email opts) (\<lambda>e. Option.bind (format_rname e) from_ascii)"
          "soa = None \<longleftrightarrow> do_soa_email opts = None"
        using soa(1) by (auto simp: soa_name_def bindR_Inr_iff ok_or_Inr split: option.splits)
      have "ServeDns q \<in> set loops \<longleftrightarrow> Some q = cp_dns_plan plan" for q
        using l(1) soa(2) by (auto simp: controller_loops_def split: if_splits)
      moreover have "RunScheduler n \<in> set loops \<longleftrightarrow> cc_scheduler c \<noteq> None \<and> n = cc_nats c" for n
        using l(1) p nats soa(2) by (auto simp: controller_loops_def split: if_splits)
      ultimately show ?thesis using soa(2) val Some eq l(2) dot nats by simp
    qed
  qed
  show ?thesis
  proof (cases r)
    case (Inr loops)
    then show ?thesis by (rule main)
  qed (simp add: is_ok_def)
qed

theorem controller_main_runs_configured_witness:
  "\<exists>loops. controller_main example_env Some (Some (Inr \<lparr>cc_nats = example_spec, cc_scheduler = Some (),
       cc_dns = Some \<lparr>do_port = default_port, do_bind_ip = default_bind_ip, do_soa_email = Some ''a@b.c''\<rparr>\<rparr>)) [] = Some (Inr loops) \<and>
     RunScheduler example_spec \<in> set loops"
proof -
  let ?c = "\<lparr>cc_nats = example_spec, cc_scheduler = Some (),
       cc_dns = Some \<lparr>do_port = default_port, do_bind_ip = default_bind_ip, do_soa_email = Some ''a@b.c''\<rparr>\<rparr>"
  obtain loops where run: "controller_main example_env Some (Some (Inr ?c)) [] = Some (Inr loops)"
    by (simp add: controller_main_def from_controller_config_def example_connect bindR_def dns_plan_def soa_name_def
        ok_or_def format_rname_def try_join_all_def controller_loops_def)
  then show ?thesis using controller_main_runs_configured [OF run] by simp
qed

end
