(* ===== verification/Cli.thy ===== *)
theory Cli
  imports Core_Nats Net_Text
begin

text \<open>
  The command line client (\<open>cli/src/main.rs\<close>): what each command sends over NATS and what it
  prints. The answers of the other side are arguments; \<open>ce_paint\<close> colours a text as the \<open>colored\<close>
  crate does, \<open>ce_show_time\<close> prints a time as \<open>chrono\<close> does.
\<close>

section \<open>Commands\<close>

datatype Command =
    ListDrones
  | ListDns
  | Spawn (spawn_cluster: string) (spawn_image: string) (spawn_timeout: u64)
  | Status "string option"
  | Drain (drain_drone: string) (drain_cluster: string) (drain_cancel: bool)
  | Terminate (term_cluster: string) (term_backend: string)

record Opts =
  op_nats :: "string option"
  op_command :: Command

text \<open>The calls a command makes; the replies come from the environment.\<close>

datatype cli_call =
    SubscribeStates string
  | GetDrones string
  | GetDns string
  | RequestSchedule ScheduleRequest
  | RequestTermination TerminationRequest
  | RequestDrain DrainDrone

datatype out_line = Println string | LogError string

record cli_env =
  ce_parse_url :: "string \<Rightarrow> url option"
  ce_addr_ok :: "string \<Rightarrow> bool"
  ce_connect :: "string list \<Rightarrow> string option \<Rightarrow> nat \<Rightarrow> NatsError + unit"
  ce_paint :: "string \<Rightarrow> string \<Rightarrow> string"
  ce_show_time :: "systime \<Rightarrow> string"
  ce_states :: "string \<Rightarrow> NatsError + BackendStateMessage list"
  ce_drones :: "string \<Rightarrow> NatsError + DroneStatusMessage list"
  ce_dns :: "string \<Rightarrow> NatsError + SetDnsRecord list"
  ce_schedule :: "ScheduleRequest \<Rightarrow> NatsError + ScheduleResponse"
  ce_terminate :: "TerminationRequest \<Rightarrow> NatsError + unit"
  ce_drain :: "DrainDrone \<Rightarrow> NatsError + unit"

definition TAB :: string where
  "TAB = [CHR 0x09]"

definition spawn_message :: "string \<Rightarrow> string \<Rightarrow> u64 \<Rightarrow> ScheduleRequest" where
  "spawn_message cluster img timeout =
     \<lparr>sq_cluster = ClusterName cluster, sq_backend_id = None, sq_max_idle_secs = from_secs (unat timeout),
      sq_metadata = [],
      sq_executable = \<lparr>ex_image = img, ex_env = [], ex_credentials = None,
                       ex_resource_limits = default_resource_limits\<rparr>,
      sq_require_bearer_token = False\<rparr>"

section \<open>Output\<close>

definition state_line :: "cli_env \<Rightarrow> BackendStateMessage \<Rightarrow> out_line" where
  "state_line e m =
     Println (ce_paint e ''bright_cyan'' (backend_id_str (bm_backend m)) @ TAB @
              ce_paint e ''bright_magenta'' (state_to_string (bm_state m)) @ TAB @
              ce_paint e ''blue'' (ce_show_time e (bm_time m)))"

definition drone_line :: "cli_env \<Rightarrow> DroneStatusMessage \<Rightarrow> out_line" where
  "drone_line e m =
     Println (ce_paint e ''bright_green'' (drone_id_str (ds_drone_id m)) @ TAB @
              ce_paint e ''bright_cyan'' (hostname (ds_cluster m)))"

definition dns_line :: "cli_env \<Rightarrow> SetDnsRecord \<Rightarrow> out_line" where
  "dns_line e r =
     Println (ce_paint e ''bright_magenta'' (sd_name r) @ ''.'' @
              ce_paint e ''bright_blue'' (hostname (sd_cluster r)) @ TAB @
              ce_paint e ''bright_cyan'' (dns_record_type_display (sd_kind r)) @ TAB @
              ce_paint e ''bold'' (sd_value r))"

definition backend_url :: "BackendId \<Rightarrow> string \<Rightarrow> string" where
  "backend_url backend_id cluster = ''https://'' @ backend_id_str backend_id @ ''.'' @ cluster"

fun schedule_lines :: "cli_env \<Rightarrow> string \<Rightarrow> ScheduleResponse \<Rightarrow> out_line list" where
  "schedule_lines e cluster (Scheduled drone backend_id bearer_token) =
     [Println ''Backend scheduled.'',
      Println (''URL: '' @ ce_paint e ''bright_green'' (backend_url backend_id cluster)),
      Println (''Drone: '' @ ce_paint e ''bright_blue'' (drone_id_str drone)),
      Println (''Backend ID: '' @ ce_paint e ''bright_blue'' (backend_id_str backend_id))] @
     (case bearer_token of
        Some token \<Rightarrow> [Println (''Bearer token: '' @ ce_paint e ''bright_blue'' token)]
      | None \<Rightarrow> [])"
| "schedule_lines e cluster NoDroneAvailable =
     [LogError ''Could not schedule backend because no drone was available for cluster.'']"

text \<open>The match of \<open>main\<close>, with \<open>?\<close> on every answer: the call that is made, and the lines printed.\<close>

fun run_command :: "cli_env \<Rightarrow> Command \<Rightarrow> cli_call \<times> (NatsError + out_line list)" where
  "run_command e (Status backend) =
     (let subject = (case backend of
                       Some b \<Rightarrow> backend_state_subscribe_subject (BackendId b)
                     | None \<Rightarrow> backend_state_wildcard_subject)
      in (SubscribeStates subject, bindR (ce_states e subject) (\<lambda>ms. Inr (map (state_line e) ms))))"
| "run_command e ListDrones =
     (GetDrones status_subscribe_subject,
      bindR (ce_drones e status_subscribe_subject) (\<lambda>drones.
        Inr (Println (''Found '' @ show_nat (length drones) @ '' drones:'') # map (drone_line e) drones)))"
| "run_command e (Spawn cluster img timeout) =
     (let request = spawn_message cluster img timeout
      in (RequestSchedule request,
          bindR (ce_schedule e request) (\<lambda>r. Inr (schedule_lines e cluster r))))"
| "run_command e ListDns =
     (GetDns set_dns_subscribe_subject,
      bindR (ce_dns e set_dns_subscribe_subject) (\<lambda>results.
        Inr (Println (''Found '' @ show_nat (length results) @ '' DNS records:'') # map (dns_line e) results)))"
| "run_command e (Terminate cluster backend) =
     (let request = \<lparr>tr_cluster_id = ClusterName cluster, tr_backend_id = BackendId backend\<rparr>
      in (RequestTermination request,
          bindR (ce_terminate e request) (\<lambda>_.
            Inr [Println (ce_paint e ''bright_green'' ''Terminated successfully'')])))"
| "run_command e (Drain drone cluster cancel) =
     (let drain = \<not> cancel;
          request = \<lparr>dd_drone = DroneId drone, dd_cluster = ClusterName cluster, dd_drain = drain\<rparr>
      in (RequestDrain request,
          bindR (ce_drain e request) (\<lambda>_.
            Inr [Println (ce_paint e ''bright_green''
                   (if drain then ''Draining started on drone.'' else ''Draining cancelled on drone.''))])))"

definition cli_main :: "cli_env \<Rightarrow> Opts \<Rightarrow> (NatsError + out_line list) panics" where
  "cli_main e opts =
     (case from_url (ce_parse_url e) (case op_nats opts of Some u \<Rightarrow> u | None \<Rightarrow> ''nats://localhost'') of
        Inl err \<Rightarrow> Some (Inl err)
      | Inr spec \<Rightarrow>
          map_option (\<lambda>r. bindR r (\<lambda>_. snd (run_command e (op_command opts))))
            (connect_once (ce_addr_ok e) (ce_connect e) spec))"

end
