(* ===== verification/Tls_Stream.thy ===== *)
theory Tls_Stream
  imports Core_Messages
begin

text \<open>
  The TLS stream of the proxy (\<open>drone/src/proxy/tls.rs\<close>): a connection that finishes its handshake
  on the first read or write that finds it complete, and hands everything else to the inner
  stream. The handshake future and the inner stream are \<open>tokio_rustls\<close>: what polling them returns is an
  argument of each operation, \<open>'s\<close> is the state of the inner stream.
\<close>

datatype 's tls_state = Handshaking | Streaming 's

record 's TlsStream =
  tl_state :: "'s tls_state"
  tl_remote_ip :: IpAddr

text \<open>A new connection starts with the handshake; the peer address is read before it.\<close>

definition tls_stream_new :: "IpAddr \<Rightarrow> 's TlsStream" where
  "tls_stream_new remote_ip = \<lparr>tl_state = Handshaking, tl_remote_ip = remote_ip\<rparr>"

fun poll_accept :: "('e + IpAddr) option Poll \<Rightarrow> ('e + 's TlsStream) option Poll" where
  "poll_accept Pending = Pending"
| "poll_accept (PollReady (Some (Inr sock))) = PollReady (Some (Inr (tls_stream_new sock)))"
| "poll_accept (PollReady (Some (Inl e))) = PollReady (Some (Inl e))"
| "poll_accept (PollReady None) = PollReady None"

text \<open>\<open>poll_read\<close> and \<open>poll_write\<close> have the same shape: \<open>io\<close> is the operation on the inner stream.\<close>

definition poll_io ::
  "('e + 's) Poll \<Rightarrow> ('s \<Rightarrow> 's \<times> ('e + 'v) Poll) \<Rightarrow> 's TlsStream \<Rightarrow> 's TlsStream \<times> ('e + 'v) Poll" where
  "poll_io accept io self =
     (case tl_state self of
        Handshaking \<Rightarrow>
          (case accept of
             Pending \<Rightarrow> (self, Pending)
           | PollReady (Inr stream) \<Rightarrow> (case io stream of (stream', result) \<Rightarrow> (self\<lparr>tl_state := Streaming stream'\<rparr>, result))
           | PollReady (Inl err) \<Rightarrow> (self, PollReady (Inl err)))
      | Streaming stream \<Rightarrow> (case io stream of (stream', result) \<Rightarrow> (self\<lparr>tl_state := Streaming stream'\<rparr>, result)))"

definition poll_read ::
  "('e + 's) Poll \<Rightarrow> ('s \<Rightarrow> 's \<times> ('e + 'v) Poll) \<Rightarrow> 's TlsStream \<Rightarrow> 's TlsStream \<times> ('e + 'v) Poll" where
  "poll_read accept read self = poll_io accept read self"

definition poll_write ::
  "('e + 's) Poll \<Rightarrow> ('s \<Rightarrow> 's \<times> ('e + 'v) Poll) \<Rightarrow> 's TlsStream \<Rightarrow> 's TlsStream \<times> ('e + 'v) Poll" where
  "poll_write accept write self = poll_io accept write self"

definition poll_flush ::
  "('s \<Rightarrow> 's \<times> ('e + unit) Poll) \<Rightarrow> 's TlsStream \<Rightarrow> 's TlsStream \<times> ('e + unit) Poll" where
  "poll_flush io self =
     (case tl_state self of
        Handshaking \<Rightarrow> (self, PollReady (Inr ()))
      | Streaming stream \<Rightarrow> (case io stream of (stream', result) \<Rightarrow> (self\<lparr>tl_state := Streaming stream'\<rparr>, result)))"

definition poll_shutdown ::
  "('s \<Rightarrow> 's \<times> ('e + unit) Poll) \<Rightarrow> 's TlsStream \<Rightarrow> 's TlsStream \<times> ('e + unit) Poll" where
  "poll_shutdown io self =
     (case tl_state self of
        Handshaking \<Rightarrow> (self, PollReady (Inr ()))
      | Streaming stream \<Rightarrow> (case io stream of (stream', result) \<Rightarrow> (self\<lparr>tl_state := Streaming stream'\<rparr>, result)))"

section \<open>Sequences of operations\<close>

datatype ('s, 'e) tls_op =
    TlsRead "('e + 's) Poll" "'s \<Rightarrow> 's \<times> ('e + nat) Poll"
  | TlsWrite "('e + 's) Poll" "'s \<Rightarrow> 's \<times> ('e + nat) Poll"
  | TlsFlush "'s \<Rightarrow> 's \<times> ('e + unit) Poll"
  | TlsShutdown "'s \<Rightarrow> 's \<times> ('e + unit) Poll"

text \<open>The second component is the number of bytes a read or write moved.\<close>

definition moved :: "('e + nat) Poll \<Rightarrow> nat option" where
  "moved r = (case r of PollReady (Inr n) \<Rightarrow> Some n | _ \<Rightarrow> None)"

fun tls_step :: "('s, 'e) tls_op \<Rightarrow> 's TlsStream \<Rightarrow> ('s TlsStream \<times> nat option) panics" where
  "tls_step (TlsRead accept io) s = Some (apsnd moved (poll_read accept io s))"
| "tls_step (TlsWrite accept io) s = Some (apsnd moved (poll_write accept io s))"
| "tls_step (TlsFlush io) s = Some (fst (poll_flush io s), None)"
| "tls_step (TlsShutdown io) s = Some (fst (poll_shutdown io s), None)"

fun completes_handshake :: "('s, 'e) tls_op \<Rightarrow> bool" where
  "completes_handshake (TlsRead (PollReady (Inr _)) _) = True"
| "completes_handshake (TlsWrite (PollReady (Inr _)) _) = True"
| "completes_handshake _ = False"

lemma tls_step_waiting:
  assumes "tl_state s = Handshaking" and "\<not> completes_handshake op"
  shows "tls_step op s = Some (s, None)"
  using assms
  by (cases op rule: completes_handshake.cases)
    (auto simp: poll_read_def poll_write_def poll_io_def poll_flush_def poll_shutdown_def moved_def)

lemma tls_step_ip: "tls_step op s = Some (s', v) \<Longrightarrow> tl_remote_ip s' = tl_remote_ip s"
  by (cases op)
    (auto simp: poll_read_def poll_write_def poll_io_def poll_flush_def poll_shutdown_def
      split: tls_state.splits Poll.splits sum.splits prod.splits)

lemma tls_step_streaming:
  "tls_step op s = Some (s', v) \<Longrightarrow> tl_state s \<noteq> Handshaking \<or> completes_handshake op \<Longrightarrow> tl_state s' \<noteq> Handshaking"
  by (cases op rule: completes_handshake.cases)
    (auto simp: poll_read_def poll_write_def poll_io_def poll_flush_def poll_shutdown_def
      split: tls_state.splits prod.splits)

interpretation tls_ip: step_invariant tls_step "\<lambda>s. tl_remote_ip s = ip" for ip
  by unfold_locales (simp add: tls_step_ip)

interpretation tls_up: step_invariant tls_step "\<lambda>s. tl_state s \<noteq> Handshaking"
  by unfold_locales (blast dest: tls_step_streaming)

section \<open>Properties\<close>

text \<open>C34: no data before the handshake. On a new connection, in every sequence of reads, writes,
  flushes and shutdowns, nothing is read or written before an operation that finds the
  handshake complete; the connection is streaming from the first such operation on, and the
  address of the peer never changes.\<close>

theorem tls_no_data_before_handshake:
  assumes "\<forall>op \<in> set before. \<not> completes_handshake op"
    and "run_steps tls_step before (tls_stream_new ip) = Some (s, vs)"
    and "run_steps tls_step after s = Some (s', vs')"
  shows "s = tls_stream_new ip \<and> vs = replicate (length before) None \<and> tl_remote_ip s' = ip \<and>
    ((\<exists>op \<in> set after. completes_handshake op) \<longrightarrow> tl_state s' \<noteq> Handshaking)"
proof -
  have waiting: "run_steps tls_step before (tls_stream_new ip) = Some (tls_stream_new ip, replicate (length before) None)"
    using assms(1) by (induction before) (auto simp: tls_step_waiting tls_stream_new_def)
  then have s: "s = tls_stream_new ip" "vs = replicate (length before) None" using assms(2) by auto
  have ip: "tl_remote_ip s' = ip" using tls_ip.run_invar [OF _ assms(3)] s by (simp add: tls_stream_new_def)
  have "tl_state s' \<noteq> Handshaking" if "\<exists>op \<in> set after. completes_handshake op"
    using that assms(3)
  proof (induction after arbitrary: s vs')
    case (Cons op ops)
    then obtain s1 v vs1 where s1: "tls_step op s = Some (s1, v)" "run_steps tls_step ops s1 = Some (s', vs1)"
      by (auto split: option.splits)
    show ?case
    proof (cases "completes_handshake op")
      case True
      then show ?thesis using tls_step_streaming [OF s1(1)] tls_up.run_invar [OF _ s1(2)] by blast
    next
      case False
      then show ?thesis using Cons.IH [OF _ s1(2)] Cons.prems(1) by auto
    qed
  qed simp
  then show ?thesis using s ip by blast
qed

theorem tls_no_data_before_handshake_witness:
  "\<exists>s vs. run_steps tls_step
       ([TlsRead Pending (\<lambda>s. (s, PollReady (Inr 5))), TlsFlush (\<lambda>s. (s, Pending))] :: (nat, string) tls_op list)
     (tls_stream_new (V4 127 0 0 1)) = Some (s :: nat TlsStream, vs) \<and> vs = [None, None]"
proof -
  let ?ops = "[TlsRead Pending (\<lambda>s. (s, PollReady (Inr 5))), TlsFlush (\<lambda>s. (s, Pending))] :: (nat, string) tls_op list"
  obtain s vs where run: "run_steps tls_step ?ops (tls_stream_new (V4 127 0 0 1)) = Some (s, vs)"
    by (simp add: poll_read_def poll_io_def tls_stream_new_def poll_flush_def)
  have "vs = [None, None]"
    using tls_no_data_before_handshake [OF _ run, of "[]" s "[]"] by (simp add: numeral_2_eq_2)
  then show ?thesis using run by blast
qed

end
