(* ===== verification/Proxy_Connections.thy ===== *)
theory Proxy_Connections
  imports Proxy_Service Tls_Stream
begin

text \<open>
  The connections of the proxy (\<open>drone/src/proxy/service.rs\<close>): the service that is made for each
  incoming stream, the logging wrapper around \<open>handle\<close>, and the tasks that join the two sides of an
  upgraded connection, as one machine with the connection tracker and the reports of
  \<open>record_connections\<close>.

  Copying the bytes is \<open>tokio::io::copy_bidirectional\<close>, so its result is an argument of the event
  that ends it: \<open>CopyOk a_to_b b_to_a\<close> with the byte counts of the two directions, where \<open>a\<close> is the
  first argument, the connection to the backend, and \<open>b\<close> the one to the client.
\<close>

section \<open>Making a service for a stream\<close>

record MakeProxyService =
  mp_cluster :: string

definition make_proxy_service_new :: "string \<Rightarrow> MakeProxyService" where
  "make_proxy_service_new cluster = \<lparr>mp_cluster = cluster\<rparr>"

record AddrStream =
  as_remote_addr :: SocketAddr

definition call_addr_stream :: "MakeProxyService \<Rightarrow> AddrStream \<Rightarrow> ProxyService" where
  "call_addr_stream self req = make_proxy_service_call (mp_cluster self) (sa_ip (as_remote_addr req))"

definition call_tls_stream :: "MakeProxyService \<Rightarrow> 's TlsStream \<Rightarrow> ProxyService" where
  "call_tls_stream self req = make_proxy_service_call (mp_cluster self) (tl_remote_ip req)"

section \<open>Log lines and the joining task\<close>

datatype copy_result = CopyOk nat nat | CopyUnexpectedEof | CopyError string

datatype proxy_log =
    WarnHandling ProxyError
  | InfoClosed nat nat nat
  | InfoClosedEof nat
  | ErrorUpgraded nat string
  | ErrorUpgradingRequest string

definition warn_handle :: "handled \<Rightarrow> handled \<times> proxy_log list" where
  "warn_handle h = (h, case hd_result h of Inl e \<Rightarrow> [WarnHandling e] | Inr _ \<Rightarrow> [])"

text \<open>Whole seconds; a clock that went back counts as no time.\<close>

definition upgrade_duration :: "systime \<Rightarrow> systime \<Rightarrow> nat" where
  "upgrade_duration started now = nat (now - started) div 1000000000"

text \<open>\<open>InfoClosed from_client from_server duration\<close>, with the names of the source.\<close>

fun copied_log :: "nat \<Rightarrow> copy_result \<Rightarrow> proxy_log" where
  "copied_log duration (CopyOk a_to_b b_to_a) = InfoClosed a_to_b b_to_a duration"
| "copied_log duration CopyUnexpectedEof = InfoClosedEof duration"
| "copied_log duration (CopyError e) = ErrorUpgraded duration e"

datatype task_stage = AwaitUpgrade | Copying systime | TaskDone

record upgrade_task =
  ut_backend :: string
  ut_stage :: task_stage

section \<open>The proxy as one machine\<close>

record proxy_state =
  pv_tracker :: connection_tracker
  pv_tasks :: "upgrade_task list"
  pv_log :: "proxy_log list"

definition proxy_init :: proxy_state where
  "proxy_init = \<lparr>pv_tracker = connection_tracker_default, pv_tasks = [], pv_log = []\<rparr>"

datatype proxy_event =
    PxRequest "string \<Rightarrow> SqlError + string option" "Request \<Rightarrow> string + Response" bool ProxyService Request
  | PxUpgraded nat "string + systime"
  | PxCopied nat copy_result systime
  | PxReport

definition set_stage :: "nat \<Rightarrow> task_stage \<Rightarrow> proxy_state \<Rightarrow> proxy_state" where
  "set_stage i st s = s\<lparr>pv_tasks := (pv_tasks s)[i := (pv_tasks s ! i)\<lparr>ut_stage := st\<rparr>]\<rparr>"

definition px_log :: "proxy_log list \<Rightarrow> proxy_state \<Rightarrow> proxy_state" where
  "px_log ls s = s\<lparr>pv_log := pv_log s @ ls\<rparr>"

definition proxy_call ::
  "px_ext \<Rightarrow> (string \<Rightarrow> SqlError + string option) \<Rightarrow> (Request \<Rightarrow> string + Response) \<Rightarrow> bool \<Rightarrow>
     ProxyService \<Rightarrow> Request \<Rightarrow> proxy_state \<Rightarrow> proxy_state \<times> handled" where
  "proxy_call x route upstream up self req s =
     (case warn_handle (handle x route upstream up self req (pv_tracker s)) of
        (h, logs) \<Rightarrow>
          (px_log logs (s\<lparr>pv_tracker := hd_tracker h,
             pv_tasks := pv_tasks s @ (case hd_joined h of
                            None \<Rightarrow> [] | Some b \<Rightarrow> [\<lparr>ut_backend = b, ut_stage = AwaitUpgrade\<rparr>])\<rparr>), h))"

text \<open>The spawned task up to \<open>copy_bidirectional\<close>, and from there to its end.\<close>

definition task_upgraded :: "bool \<Rightarrow> nat \<Rightarrow> string + systime \<Rightarrow> proxy_state \<Rightarrow> proxy_state panics" where
  "task_upgraded checks i r s =
     (if i < length (pv_tasks s) \<and> ut_stage (pv_tasks s ! i) = AwaitUpgrade
      then (case r of
              Inl e \<Rightarrow> Some (px_log [ErrorUpgradingRequest e] (set_stage i TaskDone s))
            | Inr started \<Rightarrow>
                map_option (\<lambda>t. set_stage i (Copying started) (s\<lparr>pv_tracker := t\<rparr>))
                  (increment_connections checks (ut_backend (pv_tasks s ! i)) (pv_tracker s)))
      else Some s)"

definition task_copied :: "bool \<Rightarrow> nat \<Rightarrow> copy_result \<Rightarrow> systime \<Rightarrow> proxy_state \<Rightarrow> proxy_state panics" where
  "task_copied checks i result now s =
     (if i < length (pv_tasks s)
      then (case ut_stage (pv_tasks s ! i) of
              Copying started \<Rightarrow>
                map_option (\<lambda>t. px_log [copied_log (upgrade_duration started now) result]
                                  (set_stage i TaskDone (s\<lparr>pv_tracker := t\<rparr>)))
                  (decrement_connections checks (ut_backend (pv_tasks s ! i)) (pv_tracker s))
            | _ \<Rightarrow> Some s)
      else Some s)"

text \<open>The output of an event is what a report returned.\<close>

fun px_step :: "bool \<Rightarrow> px_ext \<Rightarrow> proxy_event \<Rightarrow> proxy_state \<Rightarrow> (proxy_state \<times> string list) panics" where
  "px_step checks x (PxRequest route upstream up self req) s =
     Some (fst (proxy_call x route upstream up self req s), [])"
| "px_step checks x (PxUpgraded i r) s = map_option (\<lambda>s'. (s', [])) (task_upgraded checks i r s)"
| "px_step checks x (PxCopied i result now) s = map_option (\<lambda>s'. (s', [])) (task_copied checks i result now s)"
| "px_step checks x PxReport s =
     (case get_and_clear_active_backends (pv_tracker s) of (t, active) \<Rightarrow> Some (s\<lparr>pv_tracker := t\<rparr>, active))"

section \<open>Open connections are counted\<close>

definition copying :: "upgrade_task \<Rightarrow> bool" where
  "copying u = (case ut_stage u of Copying _ \<Rightarrow> True | _ \<Rightarrow> False)"

definition open_upgrades :: "upgrade_task list \<Rightarrow> string multiset" where
  "open_upgrades us = mset (map ut_backend (filter copying us))"

lemma copying_simps [simp]:
  "copying (u\<lparr>ut_stage := Copying t\<rparr>)" "\<not> copying (u\<lparr>ut_stage := TaskDone\<rparr>)"
  "\<not> copying \<lparr>ut_backend = b, ut_stage = AwaitUpgrade\<rparr>" "ut_stage u = AwaitUpgrade \<Longrightarrow> \<not> copying u"
  by (simp_all add: copying_def)

lemma open_upgrades_Nil [simp]: "open_upgrades [] = {#}"
  by (simp add: open_upgrades_def)

lemma open_upgrades_append [simp]: "open_upgrades (us @ vs) = open_upgrades us + open_upgrades vs"
  by (simp add: open_upgrades_def)

lemma open_upgrades_Cons [simp]:
  "open_upgrades (u # us) = (if copying u then add_mset (ut_backend u) (open_upgrades us) else open_upgrades us)"
  by (simp add: open_upgrades_def)

lemma open_upgrades_upd:
  assumes "i < length us" and "us ! i = u"
  shows "open_upgrades (us[i := v]) + open_upgrades [u] = open_upgrades us + open_upgrades [v]"
proof -
  have "us = take i us @ [u] @ drop (Suc i) us" using id_take_nth_drop [OF assms(1)] assms(2) by simp
  then have "open_upgrades us = open_upgrades (take i us) + open_upgrades [u] + open_upgrades (drop (Suc i) us)"
    by (metis add.assoc open_upgrades_append)
  then show ?thesis using assms(1) by (simp add: upd_conv_take_nth_drop)
qed

lemma count_open_le: "count (open_upgrades us) b \<le> length us"
proof -
  have "count (open_upgrades us) b \<le> size (open_upgrades us)" by (rule count_le_size)
  also have "\<dots> \<le> length us" by (simp only: open_upgrades_def size_mset length_map length_filter_le)
  finally show ?thesis .
qed

text \<open>The state of the machine with the number of events so far: there are at most as many tasks.\<close>

definition counted :: "nat \<Rightarrow> proxy_state \<Rightarrow> bool" where
  "counted n s \<longleftrightarrow> length (pv_tasks s) \<le> n \<and> counts_rel (ct_long_lived (pv_tracker s)) (open_upgrades (pv_tasks s))"

lemma handle_long_lived: "ct_long_lived (hd_tracker (handle x route upstream up self req t)) = ct_long_lived t"
  by (simp add: handle_def proxy_respond_def handle_upgrade_def track_request_def Let_def
      split: option.splits sum.splits)

lemma counted_request: "counted n s \<Longrightarrow> counted (Suc n) (fst (proxy_call x route upstream up self req s))"
  by (auto simp: counted_def proxy_call_def warn_handle_def px_log_def handle_long_lived split: option.splits)

lemma counted_upgraded:
  assumes "counted n s" and "n < 2 ^ 32 - 1"
  shows "\<exists>s'. task_upgraded checks i r s = Some s' \<and> counted (Suc n) s'"
proof (cases "i < length (pv_tasks s) \<and> ut_stage (pv_tasks s ! i) = AwaitUpgrade")
  case True
  let ?u = "pv_tasks s ! i"
  have rel: "counts_rel (ct_long_lived (pv_tracker s)) (open_upgrades (pv_tasks s))"
    and len: "length (pv_tasks s) \<le> n" using assms(1) by (simp_all add: counted_def)
  have upd: "open_upgrades ((pv_tasks s)[i := ?u\<lparr>ut_stage := st\<rparr>]) =
      open_upgrades (pv_tasks s) + open_upgrades [?u\<lparr>ut_stage := st\<rparr>]" for st
    using open_upgrades_upd [of i "pv_tasks s" ?u "?u\<lparr>ut_stage := st\<rparr>"] True by simp
  show ?thesis
  proof (cases r)
    case (Inl e)
    then show ?thesis using True rel len upd [of TaskDone]
      by (simp add: task_upgraded_def counted_def px_log_def set_stage_def)
  next
    case (Inr started)
    have "Suc (count (open_upgrades (pv_tasks s)) (ut_backend ?u)) < 2 ^ 32"
      using count_open_le [of "pv_tasks s" "ut_backend ?u"] len assms(2) by simp
    from counts_rel_add [OF rel this] obtain m where
      "multiset_add checks (ut_backend ?u) (ct_long_lived (pv_tracker s)) = Some m"
      "counts_rel m (add_mset (ut_backend ?u) (open_upgrades (pv_tasks s)))" by blast
    then show ?thesis using True Inr len upd [of "Copying started"]
      by (simp add: task_upgraded_def counted_def set_stage_def increment_connections_def)
  qed
next
  case False
  then show ?thesis using assms(1) by (auto simp: task_upgraded_def counted_def)
qed

lemma counted_copied:
  assumes "counted n s"
  shows "\<exists>s'. task_copied checks i result now s = Some s' \<and> counted (Suc n) s'"
proof (cases "i < length (pv_tasks s) \<and> copying (pv_tasks s ! i)")
  case True
  let ?u = "pv_tasks s ! i"
  obtain started where st: "ut_stage ?u = Copying started" using True by (auto simp: copying_def split: task_stage.splits)
  have rel: "counts_rel (ct_long_lived (pv_tracker s)) (open_upgrades (pv_tasks s))"
    and len: "length (pv_tasks s) \<le> n" using assms by (simp_all add: counted_def)
  have "open_upgrades ((pv_tasks s)[i := ?u\<lparr>ut_stage := TaskDone\<rparr>]) = open_upgrades (pv_tasks s) - {#ut_backend ?u#}"
    using open_upgrades_upd [of i "pv_tasks s" ?u "?u\<lparr>ut_stage := TaskDone\<rparr>"] True
    by (simp add: eq_diff_eq) (metis add_mset_remove_trivial)
  moreover from counts_rel_remove [OF rel] obtain m where
    "multiset_remove checks (ut_backend ?u) (ct_long_lived (pv_tracker s)) = Some m"
    "counts_rel m (open_upgrades (pv_tasks s) - {#ut_backend ?u#})" by blast
  ultimately show ?thesis using True st len
    by (simp add: task_copied_def counted_def set_stage_def px_log_def decrement_connections_def)
next
  case False
  then show ?thesis using assms by (auto simp: task_copied_def counted_def copying_def split: task_stage.splits)
qed

lemma counted_report:
  assumes "counted n s" and "get_and_clear_active_backends (pv_tracker s) = (t, active)"
  shows "counted (Suc n) (s\<lparr>pv_tracker := t\<rparr>) \<and>
    set active = set (ct_request_events (pv_tracker s)) \<union> set_mset (open_upgrades (pv_tasks s))"
proof -
  have "counts_rel (ct_long_lived (pv_tracker s)) (open_upgrades (pv_tasks s))" using assms(1) by (simp add: counted_def)
  from counts_rel_keys [OF this] show ?thesis using assms
    by (auto simp: counted_def get_and_clear_active_backends_def collect_active_def clear_events_def set_fold_insert Let_def)
qed

lemma counted_step:
  assumes "counted n s" and "n < 2 ^ 32 - 1"
  shows "\<exists>s' v. px_step checks x e s = Some (s', v) \<and> counted (Suc n) s'"
proof (cases e)
  case (PxReport)
  then show ?thesis using counted_report [OF assms(1)] by (simp split: prod.splits)
qed (use counted_request [OF assms(1)] counted_upgraded [OF assms] counted_copied [OF assms(1)] in
    \<open>fastforce\<close>)+

lemma counted_run:
  assumes "counted n s" and "n + length es < 2 ^ 32"
  shows "\<exists>s' vs. run_steps (px_step checks x) es s = Some (s', vs) \<and> counted (n + length es) s'"
  using assms
proof (induction es arbitrary: n s)
  case (Cons e es)
  obtain s1 v where s1: "px_step checks x e s = Some (s1, v)" "counted (Suc n) s1"
    using counted_step [OF Cons.prems(1)] Cons.prems(2) by fastforce
  then show ?case using Cons.IH [OF s1(2)] Cons.prems(2) by fastforce
qed auto

lemma counted_init: "counted 0 proxy_init"
  by (simp add: counted_def proxy_init_def connection_tracker_default_def counts_rel_def)

section \<open>Properties\<close>


text \<open>Two clients upgrade a connection to \<open>b\<close>; the second upgrade fails.\<close>

definition example_upgrades :: "proxy_event list" where
  "example_upgrades =
     (let upgrade = PxRequest (\<lambda>sub. Inr (Some ''10.0.0.7:8080''))
            (\<lambda>_. Inr \<lparr>rs_status = 101, rs_headers = [], rs_body = []\<rparr>) True example_service
            ((example_request ''b.plane.test'')\<lparr>rq_headers := [(''host'', ''b.plane.test''), (''connection'', ''Upgrade'')]\<rparr>)
      in [upgrade, upgrade, PxUpgraded 0 (Inr 5), PxUpgraded 1 (Inl ''closed''), PxReport])"


end
