(* ===== verification/Dev_Harness.thy ===== *)
theory Dev_Harness
  imports Core_Messages Net_Text
begin

text \<open>
  The harness of the integration tests (\<open>dev/src/lib.rs\<close>, \<open>timeout.rs\<close> and \<open>util.rs\<close>): the context of
  a test with its scratch directory and its queue of teardown tasks, time-outs, the guard for
  services that must stay alive, and the loops that wait for a port or a URL.

  The thread local \<open>TEST_CONTEXT\<close> is the field \<open>dv_context\<close>; \<open>'d\<close> is the state of the Docker daemon, on
  which teardown tasks work. \<open>None\<close> is a panic. The faults of the file system and the readings of
  the clock are arguments, as are tokio's time-outs and what an attempt to connect returns.
\<close>

section \<open>Directories\<close>

definition path_join :: "string \<Rightarrow> string \<Rightarrow> string" where
  "path_join p q =
     (if take 1 q = ''/'' then q
      else if p = [] \<or> last p = CHR ''/'' then p @ q
      else p @ ''/'' @ q)"

definition ancestors :: "string \<Rightarrow> string list" where
  "ancestors p = map (\<lambda>i. take i p) (filter (\<lambda>i. p ! i = CHR ''/'') [1..<length p]) @ [p]"

definition below :: "string \<Rightarrow> string \<Rightarrow> bool" where
  "below p q \<longleftrightarrow> q = p \<or> strip_prefix (p @ ''/'') q \<noteq> None"

record dev_fs =
  df_dirs :: "string list"
  df_files :: "(string \<times> string) list"

definition create_dir_all :: "string \<Rightarrow> dev_fs \<Rightarrow> dev_fs" where
  "create_dir_all p f = f\<lparr>df_dirs := fold List.insert (ancestors p) (df_dirs f)\<rparr>"

definition remove_dir_all :: "string \<Rightarrow> dev_fs \<Rightarrow> dev_fs" where
  "remove_dir_all p f = \<lparr>df_dirs = filter (\<lambda>q. \<not> below p q) (df_dirs f),
     df_files = filter (\<lambda>(q, _). \<not> below p q) (df_files f)\<rparr>"

definition dev_write_file :: "string \<Rightarrow> string \<Rightarrow> dev_fs \<Rightarrow> dev_fs" where
  "dev_write_file p v f = f\<lparr>df_files := al_insert p v (df_files f)\<rparr>"

section \<open>Test contexts (\<open>lib.rs\<close>)\<close>

datatype task_end = TaskOk | TaskErr string | TaskPanic

type_synonym 'd teardown_task = "'d \<Rightarrow> 'd \<times> task_end"

record 'd TestContext =
  tc_name :: string
  tc_tasks :: "'d teardown_task list"

record 'd dev_state =
  dv_context :: "'d TestContext option"
  dv_fs :: dev_fs
  dv_docker :: 'd
  dv_errors :: "string list"

text \<open>The working directory, and whether removing and making a directory and writing a file succeed.\<close>

record dev_env =
  de_cwd :: "string option"
  de_remove :: bool
  de_mkdir :: "string \<Rightarrow> bool"
  de_write :: "string \<Rightarrow> bool"

definition context_scratch_dir :: "dev_env \<Rightarrow> string \<Rightarrow> string panics" where
  "context_scratch_dir env name =
     map_option (\<lambda>cwd. path_join (path_join cwd ''test-scratch'') name) (de_cwd env)"

definition scratch_dir :: "dev_env \<Rightarrow> string \<Rightarrow> 'd dev_state \<Rightarrow> ('d dev_state \<times> string) panics" where
  "scratch_dir env name s =
     Option.bind (dv_context s) (\<lambda>c.
     Option.bind (context_scratch_dir env (tc_name c)) (\<lambda>dir.
       let p = path_join dir name
       in if de_mkdir env p then Some (s\<lparr>dv_fs := create_dir_all p (dv_fs s)\<rparr>, p) else None))"

definition test_name :: "'d dev_state \<Rightarrow> string panics" where
  "test_name s = map_option tc_name (dv_context s)"

text \<open>An error of the removal is ignored, one of the creation is not.\<close>

definition test_context_new :: "dev_env \<Rightarrow> string \<Rightarrow> dev_fs \<Rightarrow> (dev_fs \<times> 'd TestContext) panics" where
  "test_context_new env name f =
     Option.bind (context_scratch_dir env name) (\<lambda>dir.
       if de_mkdir env dir
       then Some (create_dir_all dir (if de_remove env then remove_dir_all dir f else f),
                  \<lparr>tc_name = name, tc_tasks = []\<rparr>)
       else None)"

definition add_teardown_task :: "'d teardown_task \<Rightarrow> 'd dev_state \<Rightarrow> 'd dev_state panics" where
  "add_teardown_task task s =
     map_option (\<lambda>c. s\<lparr>dv_context := Some (c\<lparr>tc_tasks := tc_tasks c @ [task]\<rparr>)\<rparr>) (dv_context s)"

text \<open>The daemon, the logged errors, and whether the loop ran to the end of the queue.\<close>

fun teardown :: "'d teardown_task list \<Rightarrow> 'd \<Rightarrow> 'd \<times> string list \<times> bool" where
  "teardown [] d = (d, [], True)"
| "teardown (task # tasks) d =
     (case task d of
        (d', TaskOk) \<Rightarrow> teardown tasks d'
      | (d', TaskErr e) \<Rightarrow> (case teardown tasks d' of (d'', errs, done) \<Rightarrow> (d'', e # errs, done))
      | (d', TaskPanic) \<Rightarrow> (d', [], False))"

datatype test_outcome = TestPassed | TestPanicked

text \<open>\<open>future s\<close> is the state after the body of the test and whether it returned without a panic.\<close>

definition run_test ::
  "dev_env \<Rightarrow> string \<Rightarrow> ('d dev_state \<Rightarrow> 'd dev_state \<times> bool) \<Rightarrow> 'd dev_state \<Rightarrow> 'd dev_state \<times> test_outcome" where
  "run_test env name future s =
     (case test_context_new env name (dv_fs s) of
        None \<Rightarrow> (s, TestPanicked)
      | Some (f, ctx) \<Rightarrow>
         (case scratch_dir env ''logs'' (s\<lparr>dv_fs := f, dv_context := Some ctx\<rparr>) of
            None \<Rightarrow> (s\<lparr>dv_fs := f, dv_context := Some ctx\<rparr>, TestPanicked)
          | Some (s1, _) \<Rightarrow>
             (case future s1 of
                (s2, False) \<Rightarrow> (s2, TestPanicked)
              | (s2, True) \<Rightarrow>
                 (case dv_context s2 of
                    None \<Rightarrow> (s2, TestPanicked)
                  | Some c \<Rightarrow>
                     (case teardown (tc_tasks c) (dv_docker s2) of
                        (d, errs, done) \<Rightarrow>
                          (s2\<lparr>dv_context := None, dv_docker := d, dv_errors := dv_errors s2 @ errs\<rparr>,
                           if done then TestPassed else TestPanicked))))))"

text \<open>The attribute \<open>integration_test\<close> (\<open>dev/integration-test\<close>) turns an asynchronous function into a
  test; \<open>None\<close> is an item that is rejected when it is compiled.\<close>

record 'd ItemFn =
  fn_async :: bool
  fn_ident :: string
  fn_block :: "'d dev_state \<Rightarrow> 'd dev_state \<times> bool"

definition integration_test_impl ::
  "'d ItemFn option \<Rightarrow> (dev_env \<Rightarrow> 'd dev_state \<Rightarrow> 'd dev_state \<times> test_outcome) panics" where
  "integration_test_impl item =
     (case item of
        None \<Rightarrow> None
      | Some func \<Rightarrow>
          if fn_async func then Some (\<lambda>env. run_test env (fn_ident func) (fn_block func)) else None)"

section \<open>Time-outs (\<open>timeout.rs\<close>)\<close>

record HumanDuration =
  hm_millis :: nat

definition SECOND :: nat where
  "SECOND = 1000"

definition MINUTE :: nat where
  "MINUTE = SECOND * 60"

text \<open>\<open>fmt2 a b\<close> is the quotient of two \<open>f64\<close> printed with two decimals.\<close>

definition stringify :: "(nat \<Rightarrow> nat \<Rightarrow> string) \<Rightarrow> HumanDuration \<Rightarrow> string" where
  "stringify fmt2 h =
     (if hm_millis h > MINUTE then fmt2 (hm_millis h) MINUTE @ ''m''
      else if hm_millis h > SECOND then fmt2 (hm_millis h) SECOND @ ''s''
      else show_nat (hm_millis h) @ ''ms'')"

definition human_new :: "nat \<Rightarrow> HumanDuration" where
  "human_new millis = \<lparr>hm_millis = millis\<rparr>"

definition human_from_duration :: "duration \<Rightarrow> HumanDuration" where
  "human_from_duration d = \<lparr>hm_millis = d div 1000000\<rparr>"

text \<open>\<open>r\<close> is what \<open>tokio::time::timeout\<close> returns: \<open>Inl ()\<close> is \<open>Elapsed\<close>.\<close>

definition timeout_future :: "u64 \<Rightarrow> string \<Rightarrow> unit + 'a \<Rightarrow> systime \<Rightarrow> systime \<Rightarrow> (string + 'a) panics" where
  "timeout_future timeout_ms message r start_time now =
     (case r of
        Inl _ \<Rightarrow> Some (Inl (message @ '' timed out after '' @ show_nat (unat timeout_ms) @ ''ms''))
      | Inr t \<Rightarrow> if now < start_time then None else Some (Inr t))"

datatype spawn_end = SpawnOk | SpawnElapsed | SpawnPanic string

definition spawn_timeout :: "(nat \<Rightarrow> nat \<Rightarrow> string) \<Rightarrow> u64 \<Rightarrow> string \<Rightarrow> unit + (string + unit) \<Rightarrow> spawn_end" where
  "spawn_timeout fmt2 timeout_ms message r =
     (case r of
        Inl _ \<Rightarrow> SpawnElapsed
      | Inr (Inl _) \<Rightarrow> SpawnPanic (message @ '' timed out after '' @ stringify fmt2 \<lparr>hm_millis = unat timeout_ms\<rparr>)
      | Inr (Inr _) \<Rightarrow> SpawnOk)"

fun liveness_poll :: "'v Poll \<Rightarrow> 'v Poll panics" where
  "liveness_poll Pending = Some Pending"
| "liveness_poll (PollReady val) = None"

datatype task_status = TaskRunning | TaskAborted | TaskPanicked

record LivenessGuard =
  lg_handle :: task_status

definition liveness_guard_new :: LivenessGuard where
  "liveness_guard_new = \<lparr>lg_handle = TaskRunning\<rparr>"

definition poll_guarded :: "'v Poll \<Rightarrow> LivenessGuard \<Rightarrow> LivenessGuard" where
  "poll_guarded p g =
     (if lg_handle g = TaskRunning \<and> liveness_poll p = None then g\<lparr>lg_handle := TaskPanicked\<rparr> else g)"

definition drop_guard :: "LivenessGuard \<Rightarrow> LivenessGuard" where
  "drop_guard g = (if lg_handle g = TaskRunning then g\<lparr>lg_handle := TaskAborted\<rparr> else g)"

definition expect_to_stay_alive :: "'v Poll list \<Rightarrow> LivenessGuard" where
  "expect_to_stay_alive polls = fold poll_guarded polls liveness_guard_new"

section \<open>Waiting (\<open>util.rs\<close>)\<close>

definition POLL_LOOP_SLEEP :: nat where
  "POLL_LOOP_SLEEP = 10"

definition random_string :: "(nat \<Rightarrow> char) \<Rightarrow> nat \<Rightarrow> string" where
  "random_string rng len = map rng [0..<len]"

definition random_prefix :: "(nat \<Rightarrow> char) \<Rightarrow> string \<Rightarrow> string" where
  "random_prefix rng sfx = random_string rng 6 @ ''-'' @ sfx"

text \<open>\<open>draw n\<close> is the \<open>n\<close>-th value of \<open>gen_range(1..254)\<close>.\<close>

definition random_loopback_ip :: "(nat \<Rightarrow> u8) \<Rightarrow> IpAddr" where
  "random_loopback_ip draw = V4 127 (draw 0) (draw 1) (draw 2)"

datatype 'e wait_end = WaitOk | WaitTimedOut 'e | WaitIoError | WaitPanic

text \<open>\<open>socket n\<close> is whether the \<open>n\<close>-th socket can be made, \<open>connect n\<close> the outcome of the \<open>n\<close>-th attempt
  and \<open>clock n\<close> the time read after it. The outer option is \<open>None\<close> when the loop does not end.\<close>

partial_function (option) wait_loop ::
  "(nat \<Rightarrow> bool) \<Rightarrow> (nat \<Rightarrow> 'e + unit) \<Rightarrow> (nat \<Rightarrow> systime) \<Rightarrow> systime \<Rightarrow> nat \<Rightarrow> nat \<Rightarrow> 'e wait_end option" where
  "wait_loop socket connect clock initial_time timeout_ms n =
     (if \<not> socket n then Some WaitIoError
      else case connect n of
             Inr _ \<Rightarrow> Some WaitOk
           | Inl e \<Rightarrow>
               if clock n < initial_time then Some WaitPanic
               else if nat (clock n - initial_time) div 1000000 > timeout_ms then Some (WaitTimedOut e)
               else wait_loop socket connect clock initial_time timeout_ms (Suc n))"

definition wait_for_port ::
  "(nat \<Rightarrow> bool) \<Rightarrow> (nat \<Rightarrow> 'e + unit) \<Rightarrow> (nat \<Rightarrow> systime) \<Rightarrow> systime \<Rightarrow> nat \<Rightarrow> 'e wait_end option" where
  "wait_for_port socket connect clock initial_time timeout_ms =
     wait_loop socket connect clock initial_time timeout_ms 0"

definition wait_for_url ::
  "bool \<Rightarrow> (nat \<Rightarrow> 'e + unit) \<Rightarrow> (nat \<Rightarrow> systime) \<Rightarrow> systime \<Rightarrow> nat \<Rightarrow> 'e wait_end option" where
  "wait_for_url built get clock initial_time timeout_ms =
     (if built then wait_loop (\<lambda>_. True) get clock initial_time timeout_ms 0 else Some WaitIoError)"

definition TEST_IMAGE :: string where
  "TEST_IMAGE = ''ghcr.io/drifting-in-space/test-image:latest''"

definition base_executable :: DockerExecutableConfig where
  "base_executable = \<lparr>ex_image = TEST_IMAGE, ex_env = [(''PORT'', ''8080'')], ex_credentials = None,
     ex_resource_limits = default_resource_limits\<rparr>"

definition base_spawn_request :: "BackendId \<Rightarrow> DroneId \<Rightarrow> SpawnRequest" where
  "base_spawn_request backend_id drone_id =
     \<lparr>sp_drone_id = drone_id, sp_max_idle_secs = from_secs 10, sp_backend_id = backend_id,
      sp_metadata = [(''foo'', ''bar'')], sp_executable = base_executable, sp_bearer_token = None\<rparr>"

definition base_scheduler_request :: ScheduleRequest where
  "base_scheduler_request =
     \<lparr>sq_cluster = ClusterName ''plane.test'', sq_backend_id = None, sq_max_idle_secs = from_secs 10,
      sq_metadata = [(''foo'', ''bar'')], sq_executable = base_executable, sq_require_bearer_token = False\<rparr>"

section \<open>The waiting loop ends\<close>

definition elapsed_ms :: "(nat \<Rightarrow> systime) \<Rightarrow> systime \<Rightarrow> nat \<Rightarrow> nat" where
  "elapsed_ms clock initial_time n = nat (clock n - initial_time) div 1000000"

lemma wait_loop_skip:
  assumes "\<forall>j. n \<le> j \<and> j < k \<longrightarrow> socket j \<and> \<not> is_ok (connect j) \<and> initial_time \<le> clock j \<and>
      elapsed_ms clock initial_time j \<le> timeout_ms" and "n \<le> k"
  shows "wait_loop socket connect clock initial_time timeout_ms n =
    wait_loop socket connect clock initial_time timeout_ms k"
  using assms(2,1)
proof (induction rule: inc_induct)
  case (step m)
  have now: "socket m" "\<not> is_ok (connect m)" "initial_time \<le> clock m" "elapsed_ms clock initial_time m \<le> timeout_ms"
    using step.prems step.hyps by auto
  then obtain e where "connect m = Inl e" by (cases "connect m") auto
  then have "wait_loop socket connect clock initial_time timeout_ms m =
      wait_loop socket connect clock initial_time timeout_ms (Suc m)"
    using now by (subst wait_loop.simps) (simp add: elapsed_ms_def)
  then show ?case using step.IH step.prems by simp
qed simp

lemma clock_advances:
  assumes "\<forall>n. clock n + 10000000 \<le> clock (Suc n)" and "initial_time \<le> clock 0"
  shows "initial_time + 10000000 * int n \<le> clock n"
proof (induction n)
  case (Suc n)
  then show ?case using assms(1)[rule_format, of n] by simp
qed (use assms(2) in simp)

text \<open>\<open>undecided n\<close>: the \<open>n\<close>-th round of the loop goes on to the next one.\<close>

definition undecided ::
  "(nat \<Rightarrow> bool) \<Rightarrow> (nat \<Rightarrow> 'e + unit) \<Rightarrow> (nat \<Rightarrow> systime) \<Rightarrow> systime \<Rightarrow> nat \<Rightarrow> nat \<Rightarrow> bool" where
  "undecided socket connect clock initial_time timeout_ms n \<longleftrightarrow>
     socket n \<and> \<not> is_ok (connect n) \<and> elapsed_ms clock initial_time n \<le> timeout_ms"

section \<open>Properties\<close>

text \<open>Waiting for a port ends. When every round of the loop takes at least the 10 ms it sleeps,
  \<open>wait_for_port\<close> returns after at most \<open>timeout_ms / 10 + 2\<close> attempts, and what it returns is
  decided by the first round in which no socket could be made, the connection was accepted, or
  more than \<open>timeout_ms\<close> had passed: an error of the socket, success, or a time-out with the last
  error.\<close>

theorem wait_for_port_ends:
  assumes "initial_time \<le> clock 0" and "\<forall>n. clock n + int (from_millis POLL_LOOP_SLEEP) \<le> clock (Suc n)"
  shows "\<exists>k \<le> timeout_ms div 10 + 1.
    (\<forall>j < k. undecided socket connect clock initial_time timeout_ms j) \<and>
    \<not> undecided socket connect clock initial_time timeout_ms k \<and>
    wait_for_port socket connect clock initial_time timeout_ms =
      Some (if \<not> socket k then WaitIoError
            else case connect k of Inr _ \<Rightarrow> WaitOk | Inl e \<Rightarrow> WaitTimedOut e)"
proof -
  let ?u = "undecided socket connect clock initial_time timeout_ms"
  let ?K = "timeout_ms div 10 + 1"
  have adv: "initial_time + 10000000 * int n \<le> clock n" for n
    using clock_advances [of clock initial_time n] assms by (simp add: from_millis_def POLL_LOOP_SLEEP_def)
  have later: "initial_time \<le> clock n" for n using adv [of n] by linarith
  have "10000000 * int ?K \<le> clock ?K - initial_time" using adv [of ?K] by linarith
  then have "10000000 * ?K \<le> nat (clock ?K - initial_time)" by linarith
  then have "10000000 * ?K div 1000000 \<le> elapsed_ms clock initial_time ?K"
    unfolding elapsed_ms_def by (rule div_le_mono)
  moreover have "10000000 * ?K div 1000000 = 10 * ?K" by simp
  moreover have "timeout_ms < 10 * ?K" by presburger
  ultimately have "timeout_ms < elapsed_ms clock initial_time ?K" by linarith
  then have "\<not> ?u ?K" by (simp add: undecided_def)
  then obtain k where k: "\<not> ?u k" "\<forall>j < k. ?u j" "k \<le> ?K"
    using LeastI [of "\<lambda>n. \<not> ?u n" ?K] Least_le [of "\<lambda>n. \<not> ?u n" ?K] not_less_Least [of _ "\<lambda>n. \<not> ?u n"] by blast
  have "wait_for_port socket connect clock initial_time timeout_ms =
      wait_loop socket connect clock initial_time timeout_ms k"
    unfolding wait_for_port_def by (rule wait_loop_skip) (use k(2) later in \<open>auto simp: undecided_def\<close>)
  also have "\<dots> = Some (if \<not> socket k then WaitIoError
      else case connect k of Inr _ \<Rightarrow> WaitOk | Inl e \<Rightarrow> WaitTimedOut e)"
    using k(1) later [of k]
    by (subst wait_loop.simps) (auto simp: undecided_def elapsed_ms_def not_le split: sum.splits)
  finally show ?thesis using k by blast
qed

theorem wait_for_port_ends_witness:
  "\<exists>k \<le> 1 :: nat. wait_for_port (\<lambda>_. True) (\<lambda>n. if n = 1 then Inr () else Inl ''refused'')
     (\<lambda>n. 1000 + 10000000 * int n) 1000 5 = Some (if k = 1 then WaitOk else WaitTimedOut ''refused'')"
proof -
  let ?c = "\<lambda>n. if n = 1 then Inr () else Inl ''refused''" and ?t = "\<lambda>n. 1000 + 10000000 * int n"
  obtain k :: nat where k: "k \<le> 5 div 10 + 1" "wait_for_port (\<lambda>_. True) ?c ?t 1000 5 =
      Some (if \<not> True then WaitIoError else case ?c k of Inr _ \<Rightarrow> WaitOk | Inl e \<Rightarrow> WaitTimedOut e)"
    using wait_for_port_ends [of 1000 ?t 5 "\<lambda>_. True" ?c]
    by (force simp: from_millis_def POLL_LOOP_SLEEP_def)
  then show ?thesis by (intro exI [of _ k]) simp
qed

text \<open>The guard of a service fails as soon as the service returns, and only then: a service that
  stays pending is aborted when the guard is dropped.\<close>

lemma poll_guarded_fold:
  "lg_handle (fold poll_guarded polls g) =
     (if lg_handle g = TaskRunning \<and> (\<exists>v. PollReady v \<in> set polls) then TaskPanicked else lg_handle g)"
proof (induction polls arbitrary: g)
  case (Cons p ps)
  then show ?case by (cases p) (auto simp: poll_guarded_def)
qed simp

theorem guard_detects_return:
  "lg_handle (drop_guard (expect_to_stay_alive polls)) =
     (if \<exists>v. PollReady v \<in> set polls then TaskPanicked else TaskAborted)"
  by (simp add: expect_to_stay_alive_def drop_guard_def poll_guarded_fold liveness_guard_new_def)

text \<open>\<open>spawn_timeout\<close> confuses its two failures. A future that returns an error in time panics
  with the message that it timed out, and one that times out does not panic but returns an error.\<close>

theorem spawn_timeout_confused:
  "spawn_timeout fmt2 ms message (Inr (Inl e)) =
     SpawnPanic (message @ '' timed out after '' @ stringify fmt2 \<lparr>hm_millis = unat ms\<rparr>) \<and>
   spawn_timeout fmt2 ms message (Inl ()) = SpawnElapsed"
  by (simp add: spawn_timeout_def)

end
