(* ===== verification/Dev_Resources.thy ===== *)
theory Dev_Resources
  imports Dev_Harness Docker_Engine Drone_Certs
begin

text \<open>
  The resources of the integration tests (\<open>dev/src/container.rs\<close> and \<open>dev/src/resources/\<close>): containers
  that are started for a test and handed to its teardown when they are dropped, and on top of
  them a NATS server, the ACME server Pebble, self-signed certificates and small web servers.

  The Docker client is the record \<open>dev_docker\<close> over an abstract state of the daemon. A test body is a
  list of actions that start and drop containers; everything it still holds at its end is dropped,
  also when it panics.
\<close>

section \<open>Containers (\<open>container.rs\<close>)\<close>

record ContainerSpec =
  sc_name :: string
  sc_image :: string
  sc_environment :: "(string \<times> string) list"
  sc_command :: "string list"
  sc_volumes :: "(string \<times> string) list"

text \<open>The fields of the configuration that are set.\<close>

record DevConfig =
  dg_hostname :: string
  dg_env :: "string list"
  dg_cmd :: "string list"
  dg_image :: string
  dg_binds :: "string list"

definition as_config :: "ContainerSpec \<Rightarrow> DevConfig" where
  "as_config self =
     \<lparr>dg_hostname = sc_name self,
      dg_env = map (\<lambda>(k, v). k @ ''='' @ v) (sc_environment self),
      dg_cmd = sc_command self,
      dg_image = sc_image self,
      dg_binds = map (\<lambda>(s, d). s @ '':'' @ d) (sc_volumes self)\<rparr>"

record ContainerId =
  id_name :: string
  id_hint :: string

definition container_id_new :: "string \<Rightarrow> string \<Rightarrow> ContainerId" where
  "container_id_new name hint = \<lparr>id_name = name, id_hint = hint\<rparr>"

definition container_id_deref :: "ContainerId \<Rightarrow> string" where
  "container_id_deref self = id_name self"

definition short_name :: "ContainerId \<Rightarrow> string" where
  "short_name self = take 12 (id_name self)"

definition container_id_display :: "ContainerId \<Rightarrow> string" where
  "container_id_display self = short_name self @ '' ('' @ id_hint self @ '')''"

record 'd dev_docker =
  dd_connected :: bool
  dd_create_image :: "string \<Rightarrow> 'd \<Rightarrow> 'd \<times> (DockerError + unit) list"
  dd_create_container :: "DevConfig \<Rightarrow> 'd \<Rightarrow> 'd \<times> (DockerError + string)"
  dd_start_container :: "string \<Rightarrow> 'd \<Rightarrow> 'd \<times> (DockerError + unit)"
  dd_inspect_container :: "string \<Rightarrow> 'd \<Rightarrow> DockerError + ContainerInspectResponse"
  dd_stop_container :: "string \<Rightarrow> 'd \<Rightarrow> 'd \<times> (DockerError + unit)"
  dd_remove_container :: "string \<Rightarrow> 'd \<Rightarrow> 'd \<times> (DockerError + unit)"

datatype DevError =
    DevConnect
  | DevPull DockerError
  | DevCreate DockerError
  | DevStart DockerError
  | DevInspect DockerError
  | DevLogFile
  | DevWait "string wait_end"
  | DevNats
  | DevCert
  | DevIo

record ContainerResource =
  rc_id :: ContainerId
  rc_ip :: "u8 \<times> u8 \<times> u8 \<times> u8"

definition dev_pull_image :: "'d dev_docker \<Rightarrow> string \<Rightarrow> 'd \<Rightarrow> 'd \<times> (DockerError + unit)" where
  "dev_pull_image docker name d = apsnd drain_results (dd_create_image docker name d)"

text \<open>The three calls of \<open>unwrap\<close> on the way to the address.\<close>

definition container_ip :: "ContainerInspectResponse \<Rightarrow> (u8 \<times> u8 \<times> u8 \<times> u8) panics" where
  "container_ip resp =
     Option.bind (ci_network_settings resp) (\<lambda>ns. Option.bind (ns_ip_address ns) parse_ipv4)"

text \<open>The calls of the daemon up to the started container.\<close>

definition start_dev_container :: "'d dev_docker \<Rightarrow> ContainerSpec \<Rightarrow> 'd \<Rightarrow> 'd \<times> (DevError + string)" where
  "start_dev_container docker spec d =
     (if \<not> dd_connected docker then (d, Inl DevConnect)
      else case dev_pull_image docker (sc_image spec) d of
             (d1, Inl e) \<Rightarrow> (d1, Inl (DevPull e))
           | (d1, Inr _) \<Rightarrow>
              (case dd_create_container docker (as_config spec) d1 of
                 (d2, Inl e) \<Rightarrow> (d2, Inl (DevCreate e))
               | (d2, Inr cid) \<Rightarrow>
                  (case dd_start_container docker cid d2 of
                     (d3, Inl e) \<Rightarrow> (d3, Inl (DevStart e))
                   | (d3, Inr _) \<Rightarrow> (d3, Inr cid))))"

definition container_resource_new ::
  "dev_env \<Rightarrow> 'd dev_docker \<Rightarrow> ContainerSpec \<Rightarrow> 'd dev_state \<Rightarrow> 'd dev_state \<times> (DevError + ContainerResource) panics" where
  "container_resource_new env docker spec s =
     (case start_dev_container docker spec (dv_docker s) of
        (d, Inl e) \<Rightarrow> (s\<lparr>dv_docker := d\<rparr>, Some (Inl e))
      | (d, Inr cid) \<Rightarrow>
         (let s1 = s\<lparr>dv_docker := d\<rparr>
          in case dd_inspect_container docker cid d of
               Inl e \<Rightarrow> (s1, Some (Inl (DevInspect e)))
             | Inr resp \<Rightarrow>
                (case container_ip resp of
                   None \<Rightarrow> (s1, None)
                 | Some ip \<Rightarrow>
                    (case scratch_dir env ''logs'' s1 of
                       None \<Rightarrow> (s1, None)
                     | Some (s2, dir) \<Rightarrow>
                        (let log_file = path_join dir (sc_name spec @ ''.txt'')
                         in if \<not> de_write env log_file then (s2, Some (Inl DevLogFile))
                            else (s2\<lparr>dv_fs := dev_write_file log_file [] (dv_fs s2)\<rparr>,
                                  Some (Inr \<lparr>rc_id = \<lparr>id_name = cid, id_hint = sc_name spec\<rparr>, rc_ip = ip\<rparr>)))))))"

text \<open>What the logging task has written after some items of the log stream.\<close>

fun log_file_content :: "(DockerError + string) list \<Rightarrow> string" where
  "log_file_content (Inr v # rest) = v @ log_file_content rest"
| "log_file_content _ = []"

definition container_task :: "'d dev_docker \<Rightarrow> string \<Rightarrow> 'd teardown_task" where
  "container_task docker cid d =
     (case dd_stop_container docker cid d of
        (d1, Inl _) \<Rightarrow> (d1, TaskPanic)
      | (d1, Inr _) \<Rightarrow>
         (case dd_remove_container docker cid d1 of
            (d2, Inl _) \<Rightarrow> (d2, TaskPanic)
          | (d2, Inr _) \<Rightarrow> (d2, TaskOk)))"

definition drop_container :: "'d dev_docker \<Rightarrow> ContainerResource \<Rightarrow> 'd dev_state \<Rightarrow> 'd dev_state panics" where
  "drop_container docker r s = add_teardown_task (container_task docker (id_name (rc_id r))) s"

text \<open>An early return or a panic that drops a container on its way out.\<close>

definition fail_dropping ::
  "'d dev_docker \<Rightarrow> ContainerResource \<Rightarrow> 'd dev_state \<Rightarrow> (DevError + 'a) panics \<Rightarrow> 'd dev_state \<times> (DevError + 'a) panics" where
  "fail_dropping docker container s r =
     (case drop_container docker container s of None \<Rightarrow> (s, None) | Some s' \<Rightarrow> (s', r))"

section \<open>Test bodies\<close>

datatype test_action = ActStart ContainerSpec | ActDrop nat | ActPanic

fun drop_all :: "'d dev_docker \<Rightarrow> ContainerResource list \<Rightarrow> 'd dev_state \<Rightarrow> 'd dev_state panics" where
  "drop_all docker [] s = Some s"
| "drop_all docker (r # rs) s = Option.bind (drop_container docker r s) (drop_all docker rs)"

fun test_actions ::
  "dev_env \<Rightarrow> 'd dev_docker \<Rightarrow> test_action list \<Rightarrow> ContainerResource list \<Rightarrow> 'd dev_state \<Rightarrow>
     'd dev_state \<times> ContainerResource list \<times> bool" where
  "test_actions env docker [] held s = (s, held, True)"
| "test_actions env docker (ActStart spec # as) held s =
     (case container_resource_new env docker spec s of
        (s', None) \<Rightarrow> (s', held, False)
      | (s', Some (Inl _)) \<Rightarrow> test_actions env docker as held s'
      | (s', Some (Inr r)) \<Rightarrow> test_actions env docker as (held @ [r]) s')"
| "test_actions env docker (ActDrop i # as) held s =
     (if i < length held
      then (case drop_container docker (held ! i) s of
              None \<Rightarrow> (s, held, False)
            | Some s' \<Rightarrow> test_actions env docker as (take i held @ drop (Suc i) held) s')
      else test_actions env docker as held s)"
| "test_actions env docker (ActPanic # as) held s = (s, held, False)"

definition test_body :: "dev_env \<Rightarrow> 'd dev_docker \<Rightarrow> test_action list \<Rightarrow> 'd dev_state \<Rightarrow> 'd dev_state \<times> bool" where
  "test_body env docker as s =
     (case test_actions env docker as [] s of
        (s', held, ok) \<Rightarrow> (case drop_all docker held s' of None \<Rightarrow> (s', False) | Some s'' \<Rightarrow> (s'', ok)))"

section \<open>Fixtures (\<open>resources/\<close>)\<close>

definition NATS_TOKEN :: string where
  "NATS_TOKEN = ''mytoken''"

definition nats_spec :: ContainerSpec where
  "nats_spec = \<lparr>sc_name = ''nats'', sc_image = ''docker.io/nats:2.8'', sc_environment = [],
     sc_command = [''--jetstream'', ''--auth'', NATS_TOKEN], sc_volumes = []\<rparr>"

definition connection_spec :: "ContainerResource \<Rightarrow> NatsConnectionSpec" where
  "connection_spec container =
     \<lparr>nc_auth = Some (AuthToken NATS_TOKEN), nc_hosts = [show_ipv4 (rc_ip container)]\<rparr>"

definition nats_connection ::
  "(string \<Rightarrow> bool) \<Rightarrow> (string list \<Rightarrow> string option \<Rightarrow> nat \<Rightarrow> NatsError + unit) \<Rightarrow> ContainerResource \<Rightarrow>
     (NatsError + unit) panics" where
  "nats_connection addr_ok connect container = connect_once addr_ok connect (connection_spec container)"

text \<open>\<open>wait\<close> is the outcome of waiting for port 4222; \<open>connect token host\<close> and \<open>subscribed\<close> are the
  library's answers. Every early return after the container has been made drops it.\<close>

definition nats_new ::
  "dev_env \<Rightarrow> 'd dev_docker \<Rightarrow> string wait_end \<Rightarrow> (string \<Rightarrow> string \<Rightarrow> bool) \<Rightarrow> bool \<Rightarrow> 'd dev_state \<Rightarrow>
     'd dev_state \<times> (DevError + ContainerResource) panics" where
  "nats_new env docker wait connect subscribed s =
     (case container_resource_new env docker nats_spec s of
        (s1, Some (Inr container)) \<Rightarrow>
          (case wait of
             WaitOk \<Rightarrow>
               if \<not> connect NATS_TOKEN (show_ipv4 (rc_ip container))
               then fail_dropping docker container s1 (Some (Inl DevNats))
               else (case scratch_dir env ''logs'' s1 of
                       None \<Rightarrow> fail_dropping docker container s1 None
                     | Some (s2, dir) \<Rightarrow>
                        (let output = path_join dir ''nats-wiretap.txt'';
                             s3 = s2\<lparr>dv_fs := dev_write_file output [] (dv_fs s2)\<rparr>
                         in if \<not> de_write env output then fail_dropping docker container s2 (Some (Inl DevIo))
                            else if \<not> subscribed then fail_dropping docker container s3 (Some (Inl DevNats))
                            else (s3, Some (Inr container))))
           | WaitPanic \<Rightarrow> fail_dropping docker container s1 None
           | w \<Rightarrow> fail_dropping docker container s1 (Some (Inl (DevWait w))))
      | (s1, r) \<Rightarrow> (s1, r))"

text \<open>A line of the wiretap; \<open>dbg\<close> prints the reply with \<open>{:?}\<close>. A payload that is not UTF-8 panics.\<close>

definition wiretap_line :: "(string option \<Rightarrow> string) \<Rightarrow> string \<Rightarrow> Message \<Rightarrow> string panics" where
  "wiretap_line dbg now v =
     map_option (\<lambda>message. now @ '' '' @ ms_subject v @ '' '' @ dbg (ms_reply v) @ '': '' @ message @ [CHR 0x0A])
       (from_utf8 (ms_payload v))"

record SelfSignedCert =
  ss_key_pem :: string
  ss_cert_pem :: string
  ss_path :: string
  ss_cert_path :: string
  ss_key_path :: string

text \<open>\<open>generate\<close> is \<open>rcgen\<close>: the private key and the certificate for the names, in PEM.\<close>

definition self_signed_cert_new ::
  "dev_env \<Rightarrow> (string list \<Rightarrow> (string \<times> string) option) \<Rightarrow> string \<Rightarrow> string list \<Rightarrow> 'd dev_state \<Rightarrow>
     'd dev_state \<times> (DevError + SelfSignedCert) panics" where
  "self_signed_cert_new env generate name subject_alt_names s =
     (case scratch_dir env name s of
        None \<Rightarrow> (s, None)
      | Some (s1, path) \<Rightarrow>
         (let key = path_join path ''selfsigned.key''; cert = path_join path ''selfsigned.pem''
          in case generate subject_alt_names of
               None \<Rightarrow> (s1, Some (Inl DevCert))
             | Some (key_pem, cert_pem) \<Rightarrow>
                 if \<not> de_write env cert then (s1, Some (Inl DevIo))
                 else (let s2 = s1\<lparr>dv_fs := dev_write_file cert cert_pem (dv_fs s1)\<rparr>
                       in if \<not> de_write env key then (s2, Some (Inl DevIo))
                          else (s2\<lparr>dv_fs := dev_write_file key key_pem (dv_fs s2)\<rparr>,
                                Some (Inr \<lparr>ss_key_pem = key_pem, ss_cert_pem = cert_pem, ss_path = path,
                                           ss_cert_path = cert, ss_key_path = key\<rparr>)))))"

text \<open>\<open>None\<close> is the panic on a path that is not UTF-8.\<close>

definition self_signed_cert_path :: "SelfSignedCert \<Rightarrow> string panics" where
  "self_signed_cert_path self = from_utf8 (ss_path self)"

text \<open>The configuration of Pebble; \<open>to_json\<close> is serde.\<close>

record PebbleConfig =
  pb_listen :: string
  pb_management :: string
  pb_certificate :: string
  pb_private_key :: string
  pb_http_port :: nat
  pb_tls_port :: nat
  pb_ocsp :: string
  pb_mac_keys :: "(string \<times> string) list"
  pb_binding_required :: bool

definition pebble_config :: "(u8 list \<Rightarrow> string) \<Rightarrow> AcmeEabConfiguration option \<Rightarrow> PebbleConfig" where
  "pebble_config encode eab_keypair =
     (let keys = (case eab_keypair of None \<Rightarrow> [] | Some k \<Rightarrow> [(eab_key_id k, eab_key_b64 encode k)])
      in \<lparr>pb_listen = ''0.0.0.0:443'', pb_management = ''0.0.0.0:15000'',
          pb_certificate = ''/etc/auth/selfsigned.pem'', pb_private_key = ''/etc/auth/selfsigned.key'',
          pb_http_port = 5002, pb_tls_port = 5001, pb_ocsp = [], pb_mac_keys = keys,
          pb_binding_required = (keys \<noteq> [])\<rparr>)"

definition pebble_spec :: "string \<Rightarrow> string \<Rightarrow> ContainerSpec" where
  "pebble_spec config_dir certs_dir =
     \<lparr>sc_name = ''pebble'', sc_image = ''docker.io/letsencrypt/pebble:latest'',
      sc_environment = [(''PEBBLE_VA_ALWAYS_VALID'', ''1'')],
      sc_command = [''/usr/bin/pebble'', ''-config'', ''/etc/pebble/config.json''],
      sc_volumes = [(config_dir, ''/etc/pebble''), (certs_dir, ''/etc/auth'')]\<rparr>"

record Pebble =
  pe_container :: ContainerResource
  pe_certs :: SelfSignedCert

definition directory_url :: "ContainerResource \<Rightarrow> string" where
  "directory_url container = ''https://'' @ show_ipv4 (rc_ip container) @ ''/dir''"

definition pebble_new_impl ::
  "dev_env \<Rightarrow> 'd dev_docker \<Rightarrow> (string list \<Rightarrow> (string \<times> string) option) \<Rightarrow> (u8 list \<Rightarrow> string) \<Rightarrow>
     (PebbleConfig \<Rightarrow> string) \<Rightarrow> (string \<Rightarrow> string wait_end) \<Rightarrow> AcmeEabConfiguration option \<Rightarrow> 'd dev_state \<Rightarrow>
     'd dev_state \<times> (DevError + Pebble) panics" where
  "pebble_new_impl env docker generate encode to_json wait eab_keypair s =
     (case self_signed_cert_new env generate ''pebble-certs'' [''localhost''] s of
        (s1, None) \<Rightarrow> (s1, None)
      | (s1, Some (Inl e)) \<Rightarrow> (s1, Some (Inl e))
      | (s1, Some (Inr certs)) \<Rightarrow>
         (case scratch_dir env ''pebble-config'' s1 of
            None \<Rightarrow> (s1, None)
          | Some (s2, config_dir) \<Rightarrow>
             (let config = path_join config_dir ''config.json''
              in if \<not> de_write env config then (s2, Some (Inl DevIo))
                 else (let s2' = s2\<lparr>dv_fs := dev_write_file config (to_json (pebble_config encode eab_keypair)) (dv_fs s2)\<rparr>
                       in case (from_utf8 config_dir, self_signed_cert_path certs) of
                            (Some config_volume, Some certs_volume) \<Rightarrow>
                              (case container_resource_new env docker (pebble_spec config_volume certs_volume) s2' of
                                 (s3, None) \<Rightarrow> (s3, None)
                               | (s3, Some (Inl e)) \<Rightarrow> (s3, Some (Inl e))
                               | (s3, Some (Inr container)) \<Rightarrow>
                                  (case wait (directory_url container) of
                                     WaitOk \<Rightarrow> (s3, Some (Inr \<lparr>pe_container = container, pe_certs = certs\<rparr>))
                                   | WaitPanic \<Rightarrow> fail_dropping docker container s3 None
                                   | w \<Rightarrow> fail_dropping docker container s3 (Some (Inl (DevWait w)))))
                          | _ \<Rightarrow> (s2', None)))))"

definition pebble_new ::
  "dev_env \<Rightarrow> 'd dev_docker \<Rightarrow> (string list \<Rightarrow> (string \<times> string) option) \<Rightarrow> (u8 list \<Rightarrow> string) \<Rightarrow>
     (PebbleConfig \<Rightarrow> string) \<Rightarrow> (string \<Rightarrow> string wait_end) \<Rightarrow> 'd dev_state \<Rightarrow>
     'd dev_state \<times> (DevError + Pebble) panics" where
  "pebble_new env docker generate encode to_json wait s = pebble_new_impl env docker generate encode to_json wait None s"

definition pebble_new_eab ::
  "dev_env \<Rightarrow> 'd dev_docker \<Rightarrow> (string list \<Rightarrow> (string \<times> string) option) \<Rightarrow> (u8 list \<Rightarrow> string) \<Rightarrow>
     (PebbleConfig \<Rightarrow> string) \<Rightarrow> (string \<Rightarrow> string wait_end) \<Rightarrow> AcmeEabConfiguration \<Rightarrow> 'd dev_state \<Rightarrow>
     'd dev_state \<times> (DevError + Pebble) panics" where
  "pebble_new_eab env docker generate encode to_json wait eab_keypair s =
     pebble_new_impl env docker generate encode to_json wait (Some eab_keypair) s"

text \<open>The HTTP client that trusts the certificate of Pebble; \<open>from_pem\<close> and \<open>build\<close> are reqwest.\<close>

record 'c client_builder =
  cb_root_certificates :: "'c list"
  cb_accept_invalid_hostnames :: bool

definition pebble_client ::
  "(string \<Rightarrow> 'c option) \<Rightarrow> ('c client_builder \<Rightarrow> 'h option) \<Rightarrow> Pebble \<Rightarrow> DevError + 'h" where
  "pebble_client from_pem build self =
     (case from_pem (ss_cert_pem (pe_certs self)) of
        None \<Rightarrow> Inl DevCert
      | Some cert \<Rightarrow>
          (case build \<lparr>cb_root_certificates = [cert], cb_accept_invalid_hostnames = True\<rparr> of
             None \<Rightarrow> Inl DevCert
           | Some client \<Rightarrow> Inr client))"

text \<open>Small web servers (\<open>server.rs\<close>): an answer is the text of the handler with status 200, and the
  web socket server sends text and binary messages back in order. \<open>None\<close> is the panic when the stream
  fails.\<close>

record DevServer =
  sv_address :: SocketAddr

definition server_address :: "(nat \<Rightarrow> u8) \<Rightarrow> SocketAddr" where
  "server_address draw = SocketAddr (random_loopback_ip draw) 8080"

partial_function (option) wait_ready :: "(nat \<Rightarrow> unit + ('e + unit)) \<Rightarrow> nat \<Rightarrow> (string + unit) option" where
  "wait_ready attempt n =
     (case attempt n of
        Inr (Inr _) \<Rightarrow> Some (Inr ())
      | Inr (Inl _) \<Rightarrow> wait_ready attempt (Suc n)
      | Inl _ \<Rightarrow> Some (Inl ''Timed out before ready.''))"

definition server_new :: "(nat \<Rightarrow> u8) \<Rightarrow> (nat \<Rightarrow> unit + ('e + unit)) \<Rightarrow> (string + DevServer) option" where
  "server_new draw attempt =
     map_option (\<lambda>r. bindR r (\<lambda>_. Inr \<lparr>sv_address = server_address draw\<rparr>)) (wait_ready attempt 0)"

definition server_url :: "(u16 list \<Rightarrow> string) \<Rightarrow> DevServer \<Rightarrow> string" where
  "server_url show_v6 self = ''http://'' @ show_socket_addr show_v6 (sv_address self)"

datatype ws_message = WsText string | WsBinary string | WsPing string | WsPong string | WsClose

fun ws_data :: "ws_message \<Rightarrow> bool" where
  "ws_data (WsText _) = True"
| "ws_data (WsBinary _) = True"
| "ws_data _ = False"

fun ws_echo :: "(string + ws_message) list \<Rightarrow> ws_message list panics" where
  "ws_echo [] = Some []"
| "ws_echo (Inl e # ms) = None"
| "ws_echo (Inr m # ms) = map_option (\<lambda>out. if ws_data m then m # out else out) (ws_echo ms)"

text \<open>\<open>serve_web_sockets\<close> panics if it cannot bind. Its task serves one connection after the other: the
  next one is accepted when the stream of the last one has ended. It returns when accepting fails and
  panics when a handshake or a stream does; a connection is the outcome of its handshake.\<close>

definition serve_web_sockets :: "(nat \<Rightarrow> u8) \<Rightarrow> bool \<Rightarrow> DevServer panics" where
  "serve_web_sockets draw bound = (if bound then Some \<lparr>sv_address = server_address draw\<rparr> else None)"

datatype task_state = TaskRunning | TaskReturned | TaskPanicked | TaskAborted

fun ws_accept_loop :: "(unit + (unit + (string + ws_message) list)) list \<Rightarrow> ws_message list list \<times> task_state" where
  "ws_accept_loop [] = ([], TaskRunning)"
| "ws_accept_loop (Inl _ # conns) = ([], TaskReturned)"
| "ws_accept_loop (Inr (Inl _) # conns) = ([], TaskPanicked)"
| "ws_accept_loop (Inr (Inr stream) # conns) =
     (case ws_echo stream of
        None \<Rightarrow> ([], TaskPanicked)
      | Some out \<Rightarrow> (let (outs, st) = ws_accept_loop conns in (out # outs, st)))"

text \<open>Dropping a server aborts its task, if it still runs.\<close>

definition drop_server :: "task_state \<Rightarrow> task_state" where
  "drop_server st = (if st = TaskRunning then TaskAborted else st)"

section \<open>The image of the tests (\<open>dev/test-server\<close>)\<close>

definition parse_i32 :: "string \<Rightarrow> int option" where
  "parse_i32 s =
     (let (neg, digits) = (case s of
            c # cs \<Rightarrow> if c = CHR ''-'' then (True, cs) else if c = CHR ''+'' then (False, cs) else (False, s)
          | [] \<Rightarrow> (False, []))
      in if digits = [] \<or> \<not> list_all is_digit digits then None
         else let n = int (dec_val digits); v = (if neg then - n else n)
              in if - (2 ^ 31) \<le> v \<and> v < 2 ^ 31 then Some v else None)"

datatype server_reply = ReplyHello | ReplyExit int | ReplyPanic

definition test_server_handle :: "string \<Rightarrow> server_reply" where
  "test_server_handle path =
     (case strip_prefix ''/exit/'' path of
        Some code \<Rightarrow> (case parse_i32 code of Some c \<Rightarrow> ReplyExit c | None \<Rightarrow> ReplyPanic)
      | None \<Rightarrow> ReplyHello)"

definition parse_uint :: "nat \<Rightarrow> string \<Rightarrow> nat option" where
  "parse_uint bound s =
     (let digits = (if take 1 s = ''+'' then drop 1 s else s)
      in if digits = [] \<or> \<not> list_all is_digit digits \<or> dec_val digits \<ge> bound then None
         else Some (dec_val digits))"

datatype server_main = ExitAfter nat int | ServeOn nat

definition test_server_main :: "(string \<Rightarrow> string option) \<Rightarrow> server_main panics" where
  "test_server_main var =
     (let serve = map_option ServeOn (parse_uint (2 ^ 16) (case var ''PORT'' of Some p \<Rightarrow> p | None \<Rightarrow> ''8080''))
      in case var ''EXIT_CODE'' of
           None \<Rightarrow> serve
         | Some c \<Rightarrow>
            (case parse_i32 c of
               None \<Rightarrow> None
             | Some exit_code \<Rightarrow>
                (case var ''EXIT_TIMEOUT'' of
                   None \<Rightarrow> serve
                 | Some t \<Rightarrow> map_option (\<lambda>ms. ExitAfter ms exit_code) (parse_uint (2 ^ 64) t))))"

section \<open>Teardown\<close>

text \<open>What the harness relies on of the daemon: a new container has a new name and nothing else changes
  which containers there are but a removal, and stopping and removing a container that is there
  succeeds.\<close>

definition dev_docker_ok :: "'d dev_docker \<Rightarrow> (string \<Rightarrow> 'd \<Rightarrow> bool) \<Rightarrow> bool" where
  "dev_docker_ok docker present \<longleftrightarrow>
     (\<forall>img d m. present m (fst (dd_create_image docker img d)) \<longleftrightarrow> present m d) \<and>
     (\<forall>c d m. present m (fst (dd_create_container docker c d)) \<longleftrightarrow>
        present m d \<or> snd (dd_create_container docker c d) = Inr m) \<and>
     (\<forall>c d m. snd (dd_create_container docker c d) = Inr m \<longrightarrow> \<not> present m d) \<and>
     (\<forall>n d m. present m (fst (dd_start_container docker n d)) \<longleftrightarrow> present m d) \<and>
     (\<forall>n d m. present m (fst (dd_stop_container docker n d)) \<longleftrightarrow> present m d) \<and>
     (\<forall>n d. present n d \<longrightarrow> snd (dd_stop_container docker n d) = Inr ()) \<and>
     (\<forall>n d. present n d \<longrightarrow> snd (dd_remove_container docker n d) = Inr () \<and>
        (\<forall>m. present m (fst (dd_remove_container docker n d)) \<longleftrightarrow> m \<noteq> n \<and> present m d))"

lemma dev_docker_okD:
  assumes "dev_docker_ok docker present"
  shows "present m (fst (dd_create_image docker img d)) \<longleftrightarrow> present m d"
    and "present m (fst (dd_create_container docker c d)) \<longleftrightarrow>
      present m d \<or> snd (dd_create_container docker c d) = Inr m"
    and "snd (dd_create_container docker c d) = Inr m \<Longrightarrow> \<not> present m d"
    and "present m (fst (dd_start_container docker n d)) \<longleftrightarrow> present m d"
    and "present m (fst (dd_stop_container docker n d)) \<longleftrightarrow> present m d"
    and "present n d \<Longrightarrow> snd (dd_stop_container docker n d) = Inr ()"
    and "present n d \<Longrightarrow> snd (dd_remove_container docker n d) = Inr ()"
    and "present n d \<Longrightarrow> present m (fst (dd_remove_container docker n d)) \<longleftrightarrow> m \<noteq> n \<and> present m d"
  using assms unfolding dev_docker_ok_def by simp_all

lemma container_task_ok:
  assumes "dev_docker_ok docker present" and "present n d"
  shows "\<exists>d'. container_task docker n d = (d', TaskOk) \<and> (\<forall>m. present m d' \<longleftrightarrow> m \<noteq> n \<and> present m d)"
proof -
  obtain d1 r1 where stopped: "dd_stop_container docker n d = (d1, r1)" by fastforce
  then have r1: "r1 = Inr ()" and d1: "present m d1 \<longleftrightarrow> present m d" for m
    using dev_docker_okD(6) [OF assms] dev_docker_okD(5) [OF assms(1), of m n d] by simp_all
  obtain d2 r2 where removed: "dd_remove_container docker n d1 = (d2, r2)" by fastforce
  then have "r2 = Inr ()" and "present m d2 \<longleftrightarrow> m \<noteq> n \<and> present m d1" for m
    using dev_docker_okD(7,8) [OF assms(1), of n d1] assms(2) d1 by simp_all
  then show ?thesis using stopped removed r1 d1 by (simp add: container_task_def)
qed

lemma teardown_removes:
  assumes "dev_docker_ok docker present" and "distinct q" and "\<forall>n \<in> set q. present n d"
  shows "\<exists>d'. teardown (map (container_task docker) q) d = (d', [], True) \<and>
    (\<forall>m. present m d' \<longleftrightarrow> m \<notin> set q \<and> present m d)"
  using assms(2,3)
proof (induction q arbitrary: d)
  case (Cons n q)
  obtain d1 where d1: "container_task docker n d = (d1, TaskOk)" "\<forall>m. present m d1 \<longleftrightarrow> m \<noteq> n \<and> present m d"
    using container_task_ok [OF assms(1), of n d] Cons.prems(2) by auto
  then have "\<forall>m \<in> set q. present m d1" using Cons.prems by auto
  from Cons.IH [OF _ this] obtain d' where
    "teardown (map (container_task docker) q) d1 = (d', [], True)" "\<forall>m. present m d' \<longleftrightarrow> m \<notin> set q \<and> present m d1"
    using Cons.prems(1) by auto
  then show ?case using d1 by auto
qed simp

text \<open>The names of the containers a test holds or has queued for teardown are those that were not
  there before.\<close>

definition body_inv :: "'d dev_docker \<Rightarrow> (string \<Rightarrow> 'd \<Rightarrow> bool) \<Rightarrow> 'd \<Rightarrow> ContainerResource list \<Rightarrow> 'd dev_state \<Rightarrow> bool" where
  "body_inv docker present d0 held s \<longleftrightarrow>
     (\<exists>c q. dv_context s = Some c \<and> tc_tasks c = map (container_task docker) q \<and>
        (let names = map (\<lambda>r. id_name (rc_id r)) held @ q
         in distinct names \<and> (\<forall>m \<in> set names. \<not> present m d0) \<and>
            (\<forall>m. present m (dv_docker s) \<longleftrightarrow> present m d0 \<or> m \<in> set names)))"

lemma body_invI:
  assumes "dv_context s = Some c" and "tc_tasks c = map (container_task docker) q"
    and "names = map (\<lambda>r. id_name (rc_id r)) held @ q"
    and "distinct names" and "\<forall>m \<in> set names. \<not> present m d0"
    and "\<forall>m. present m (dv_docker s) \<longleftrightarrow> present m d0 \<or> m \<in> set names"
  shows "body_inv docker present d0 held s"
  using assms unfolding body_inv_def Let_def by blast

lemma body_invE:
  assumes "body_inv docker present d0 held s"
  obtains c q where "dv_context s = Some c" "tc_tasks c = map (container_task docker) q"
    "distinct (map (\<lambda>r. id_name (rc_id r)) held @ q)"
    "\<forall>m \<in> set (map (\<lambda>r. id_name (rc_id r)) held @ q). \<not> present m d0"
    "\<forall>m. present m (dv_docker s) \<longleftrightarrow> present m d0 \<or> m \<in> set (map (\<lambda>r. id_name (rc_id r)) held @ q)"
  using assms unfolding body_inv_def Let_def by blast

lemma start_creates:
  assumes "dev_docker_ok docker present" and "start_dev_container docker spec d = (d', Inr cid)"
  shows "\<not> present cid d" and "present m d' \<longleftrightarrow> present m d \<or> m = cid"
proof -
  obtain d1 r1 where pull: "dd_create_image docker (sc_image spec) d = (d1, r1)" by fastforce
  obtain d2 r2 where create: "dd_create_container docker (as_config spec) d1 = (d2, r2)" by fastforce
  have "r2 = Inr cid" "d' = fst (dd_start_container docker cid d2)"
    using assms(2) pull create
    by (auto simp: start_dev_container_def dev_pull_image_def split: if_splits sum.splits prod.splits)
  moreover have "present m d1 \<longleftrightarrow> present m d" for m using dev_docker_okD(1) [OF assms(1)] pull by (metis fst_conv)
  moreover have "present m d2 \<longleftrightarrow> present m d1 \<or> r2 = Inr m" 
    using dev_docker_okD(2) [OF assms(1), of m "as_config spec" d1] create by simp
  moreover have "present m (fst (dd_start_container docker cid d2)) \<longleftrightarrow> present m d2"
    using dev_docker_okD(4) [OF assms(1)] .
  moreover have "r2 = Inr cid \<Longrightarrow> \<not> present cid d1"
    using dev_docker_okD(3) [OF assms(1), of "as_config spec" d1] create by simp
  ultimately show "\<not> present cid d" and "present m d' \<longleftrightarrow> present m d \<or> m = cid" by auto
qed

lemma body_inv_start:
  assumes "dev_docker_ok docker present" and "body_inv docker present d0 held s"
    and "container_resource_new env docker spec s = (s', Some (Inr r))"
  shows "body_inv docker present d0 (held @ [r]) s'"
proof -
  obtain d cid where d: "start_dev_container docker spec (dv_docker s) = (d, Inr cid)"
    and r: "id_name (rc_id r) = cid" and s': "dv_docker s' = d" "dv_context s' = dv_context s"
    using assms(3)
    by (auto simp: container_resource_new_def scratch_dir_def Let_def bind_eq_Some_conv
        split: prod.splits sum.splits option.splits if_splits)
  note new = start_creates [OF assms(1) d]
  obtain c q where cq: "dv_context s = Some c" "tc_tasks c = map (container_task docker) q"
    "distinct (map (\<lambda>r. id_name (rc_id r)) held @ q)"
    "\<forall>m \<in> set (map (\<lambda>r. id_name (rc_id r)) held @ q). \<not> present m d0"
    "\<forall>m. present m (dv_docker s) \<longleftrightarrow> present m d0 \<or> m \<in> set (map (\<lambda>r. id_name (rc_id r)) held @ q)"
    using body_invE [OF assms(2)] .
  show ?thesis
    using cq new s' r by (intro body_invI [of s' c docker q, OF _ _ refl]) auto
qed

lemma body_inv_drop:
  assumes "body_inv docker present d0 held s" and "i < length held"
  shows "\<exists>s'. drop_container docker (held ! i) s = Some s' \<and>
    body_inv docker present d0 (take i held @ drop (Suc i) held) s'"
proof -
  let ?names = "map (\<lambda>r. id_name (rc_id r))"
  obtain c q where cq: "dv_context s = Some c" "tc_tasks c = map (container_task docker) q"
    "distinct (?names held @ q)" "\<forall>m \<in> set (?names held @ q). \<not> present m d0"
    "\<forall>m. present m (dv_docker s) \<longleftrightarrow> present m d0 \<or> m \<in> set (?names held @ q)"
    using body_invE [OF assms(1)] .
  let ?n = "id_name (rc_id (held ! i))"
  let ?s = "s\<lparr>dv_context := Some (c\<lparr>tc_tasks := tc_tasks c @ [container_task docker ?n]\<rparr>)\<rparr>"
  have "held = take i held @ [held ! i] @ drop (Suc i) held" using id_take_nth_drop [OF assms(2)] by simp
  then have held: "?names held = ?names (take i held) @ [?n] @ ?names (drop (Suc i) held)"
    by (metis list.simps(8,9) map_append)
  have "drop_container docker (held ! i) s = Some ?s"
    using cq(1) by (simp add: drop_container_def add_teardown_task_def)
  moreover have "body_inv docker present d0 (take i held @ drop (Suc i) held) ?s"
    using cq unfolding held by (intro body_invI [of ?s _ docker "q @ [?n]", OF _ _ refl]) auto
  ultimately show ?thesis by blast
qed

text \<open>No start of the body fails and it does not panic by itself.\<close>

fun starts_ok :: "dev_env \<Rightarrow> 'd dev_docker \<Rightarrow> test_action list \<Rightarrow> ContainerResource list \<Rightarrow> 'd dev_state \<Rightarrow> bool" where
  "starts_ok env docker [] held s = True"
| "starts_ok env docker (ActStart spec # as) held s =
     (case container_resource_new env docker spec s of
        (s', Some (Inr r)) \<Rightarrow> starts_ok env docker as (held @ [r]) s' | _ \<Rightarrow> False)"
| "starts_ok env docker (ActDrop i # as) held s =
     (if i < length held
      then (case drop_container docker (held ! i) s of
              None \<Rightarrow> False | Some s' \<Rightarrow> starts_ok env docker as (take i held @ drop (Suc i) held) s')
      else starts_ok env docker as held s)"
| "starts_ok env docker (ActPanic # as) held s = False"

lemma body_inv_actions:
  assumes "dev_docker_ok docker present" and "body_inv docker present d0 held s" and "starts_ok env docker as held s"
  shows "\<exists>s' held'. test_actions env docker as held s = (s', held', True) \<and> body_inv docker present d0 held' s'"
  using assms(2,3)
proof (induction "as" arbitrary: held s)
  case (Cons a as)
  show ?case
  proof (cases a)
    case (ActStart spec)
    then obtain s1 r where new: "container_resource_new env docker spec s = (s1, Some (Inr r))"
      and ok: "starts_ok env docker as (held @ [r]) s1"
      using Cons.prems(2) by (auto split: prod.splits option.splits sum.splits)
    show ?thesis using Cons.IH [OF body_inv_start [OF assms(1) Cons.prems(1) new] ok] new ActStart by simp
  next
    case (ActDrop i)
    show ?thesis
    proof (cases "i < length held")
      case True
      then obtain s1 where s1: "drop_container docker (held ! i) s = Some s1"
        "body_inv docker present d0 (take i held @ drop (Suc i) held) s1"
        using body_inv_drop [OF Cons.prems(1)] by blast
      then show ?thesis using Cons.IH [OF s1(2)] Cons.prems(2) ActDrop True by simp
    qed (use Cons ActDrop in simp)
  qed (use Cons.prems(2) in simp)
qed simp

lemma body_inv_drop_all:
  "body_inv docker present d0 held s \<Longrightarrow> \<exists>s'. drop_all docker held s = Some s' \<and> body_inv docker present d0 [] s'"
proof (induction held arbitrary: s)
  case (Cons r rs)
  then show ?case using body_inv_drop [OF Cons.prems, of 0] by auto
qed simp

lemma body_inv_start_test:
  assumes "test_context_new env name (dv_fs s) = Some (f, ctx)"
    and "scratch_dir env ''logs'' (s\<lparr>dv_fs := f, dv_context := Some ctx\<rparr>) = Some (s1, dir)"
  shows "body_inv docker present (dv_docker s) [] s1"
proof -
  have "tc_tasks ctx = []" "dv_context s1 = Some ctx" "dv_docker s1 = dv_docker s"
    using assms by (auto simp: test_context_new_def scratch_dir_def bind_eq_Some_conv Let_def split: if_splits)
  then show ?thesis by (intro body_invI [of s1 ctx docker "[]", OF _ _ refl]) auto
qed

section \<open>Properties\<close>


text \<open>A test that panics is not torn down: its containers are queued but stay.\<close>

theorem panicking_test_keeps_containers:
  assumes "test_context_new env name (dv_fs s) = Some (f, ctx)"
    and "scratch_dir env ''logs'' (s\<lparr>dv_fs := f, dv_context := Some ctx\<rparr>) = Some (s1, dir)"
    and "test_body env docker acts s1 = (s2, False)"
  shows "run_test env name (test_body env docker acts) s = (s2, TestPanicked)"
  using assms by (simp add: run_test_def)

text \<open>A daemon that knows the names of its containers and gives out longer and longer ones.\<close>

definition example_fresh :: "string list \<Rightarrow> string" where
  "example_fresh d = replicate (Suc (sum_list (map length d))) CHR ''c''"

lemma example_fresh_new: "example_fresh d \<notin> set d"
proof
  assume "example_fresh d \<in> set d"
  then have "length (example_fresh d) \<in> set (map length d)" by simp
  then have "length (example_fresh d) \<le> sum_list (map length d)" by (intro member_le_sum_list) simp_all
  then show False by (simp add: example_fresh_def)
qed

definition example_dev_docker :: "string list dev_docker" where
  "example_dev_docker =
     \<lparr>dd_connected = True,
      dd_create_image = (\<lambda>img d. (d, [Inr ()])),
      dd_create_container = (\<lambda>c d. (example_fresh d # d, Inr (example_fresh d))),
      dd_start_container = (\<lambda>n d. (d, Inr ())),
      dd_inspect_container = (\<lambda>n d. Inr \<lparr>ci_state = None, ci_network_settings =
        Some \<lparr>ns_ip_address = Some (show_ipv4 (10, 0, 0, 2)), ns_networks = None\<rparr>\<rparr>),
      dd_stop_container = (\<lambda>n d. (d, if n \<in> set d then Inr () else Inl (DockerServerError 404 ''absent''))),
      dd_remove_container = (\<lambda>n d. (removeAll n d, if n \<in> set d then Inr () else Inl (DockerServerError 404 ''absent'')))\<rparr>"

lemma example_dev_docker_ok: "dev_docker_ok example_dev_docker (\<lambda>m d. m \<in> set d)"
  using example_fresh_new by (auto simp: dev_docker_ok_def example_dev_docker_def)

definition example_dev_env :: dev_env where
  "example_dev_env = \<lparr>de_cwd = Some ''/w'', de_remove = True, de_mkdir = (\<lambda>_. True), de_write = (\<lambda>_. True)\<rparr>"

definition example_dev_state :: "string list dev_state" where
  "example_dev_state = \<lparr>dv_context = None, dv_fs = \<lparr>df_dirs = [], df_files = []\<rparr>, dv_docker = [], dv_errors = []\<rparr>"

lemma example_starts:
  assumes "dv_context s = Some c"
  shows "starts_ok example_dev_env example_dev_docker [ActStart nats_spec] [] s"
  using assms
  by (auto simp: container_resource_new_def start_dev_container_def dev_pull_image_def example_dev_docker_def
      container_ip_def parse_show_ipv4 scratch_dir_def context_scratch_dir_def example_dev_env_def Let_def)


text \<open>The fixtures fit what they are used with: the NATS client logs in with the token the server is
  started with, Pebble asks for an account binding exactly when one is given, the web socket
  server returns the data messages, and the image of the tests listens on the port the
  Docker engine exposes.\<close>

lemma nats_fixture_token:
  "connect_options (connection_spec container) = Some (Some (last (sc_command nats_spec)))"
  by (simp add: connection_spec_def nats_spec_def)

lemma pebble_binding_required: "pb_binding_required (pebble_config encode eab) \<longleftrightarrow> eab \<noteq> None"
  by (cases eab) (simp_all add: pebble_config_def)

lemma ws_echo_data: "ws_echo (map Inr ms) = Some (filter ws_data ms)"
  by (induction ms) auto

text \<open>The connections before the first that fails are all served, in order.\<close>

lemma ws_accept_loop_serves:
  "ws_accept_loop (map (\<lambda>ms. Inr (Inr (map Inr ms))) conns @ rest) =
     (let (outs, st) = ws_accept_loop rest in (map (filter ws_data) conns @ outs, st))"
  by (induction conns) (auto simp: ws_echo_data Let_def split: prod.splits)

lemma test_image_port:
  "test_server_main (map_of (ex_env base_executable)) = Some (ServeOn (unat CONTAINER_PORT))"
  by (simp add: test_server_main_def base_executable_def parse_uint_def dec_val_def is_digit_def CONTAINER_PORT_def)

end
