(* ===== verification/Engine_Run.thy ===== *)
theory Engine_Run
  imports Docker_Engine
begin

text \<open>
  The executor on its engine (\<open>drone/src/agent/engine.rs\<close>): the trait \<open>Engine\<close> as a record of
  operations, the Docker engine as an instance of it, and the drone as one machine in which the
  engine answers the calls that a run of the executor makes at the start of a step.

  A call of the engine is one atomic event that changes the state of the engine and continues
  the run. In between the state of the engine may change on its own: containers may go away at any
  time, and the container of a backend may appear while its run is loading, which covers the
  partial effects of a load that is cut short by a signal. A call whose future was dropped has no
  effect later on. The locale \<open>container_engine\<close> is the contract the executor relies on.
\<close>

section \<open>The trait and its Docker instance\<close>

record 'd engine =
  en_load :: "SpawnRequest \<Rightarrow> 'd \<Rightarrow> 'd \<times> (ExecError + unit)"
  en_status :: "BackendId \<Rightarrow> 'd \<Rightarrow> ExecError + EngineBackendStatus"
  en_stop :: "BackendId \<Rightarrow> 'd \<Rightarrow> 'd \<times> (ExecError + unit)"

fun docker_text :: "DockerError \<Rightarrow> string" where
  "docker_text (DockerServerError code message) = message"
| "docker_text (DockerOther message) = message"

fun status_text :: "StatusError \<Rightarrow> string" where
  "status_text (InspectError e) = docker_text e"
| "status_text NoState = ''No state found for container.''"
| "status_text NoRunningField = ''State found but no running field for container.''"
| "status_text (IpFailure _) = ''No address.''"

definition err_map :: "('e \<Rightarrow> 'f) \<Rightarrow> 'e + 'a \<Rightarrow> 'f + 'a" where
  "err_map f r = (case r of Inl e \<Rightarrow> Inl (f e) | Inr v \<Rightarrow> Inr v)"

definition docker_engine :: "'d docker_api \<Rightarrow> DockerInterface \<Rightarrow> 'd engine" where
  "docker_engine api self =
     \<lparr>en_load = (\<lambda>spec d. apsnd (err_map (\<lambda>e. EngineError (docker_text e))) (load api self spec d)),
      en_status = (\<lambda>b d. err_map (\<lambda>e. EngineError (status_text e)) (backend_status api b d)),
      en_stop = (\<lambda>b d. apsnd (err_map (\<lambda>e. StopError (docker_text e))) (stop api b d))\<rparr>"

section \<open>The drone as one machine\<close>

text \<open>The call a step makes first, in each state.\<close>

definition engine_answer :: "'d engine \<Rightarrow> SpawnRequest \<Rightarrow> BackendState \<Rightarrow> 'd \<Rightarrow> 'd \<times> answer" where
  "engine_answer eng spec state d =
     (case state of
        Loading \<Rightarrow> apsnd ALoad (en_load eng spec d)
      | Starting \<Rightarrow> (d, AStatus (en_status eng (sp_backend_id spec) d))
      | Ready \<Rightarrow> (d, AStatus (en_status eng (sp_backend_id spec) d))
      | _ \<Rightarrow> apsnd AStop (en_stop eng (sp_backend_id spec) d))"

fun stop_result :: "BackendId \<Rightarrow> answer \<Rightarrow> (BackendId \<times> (ExecError + unit)) list" where
  "stop_result b (AStop r) = [(b, r)]"
| "stop_result b _ = []"

text \<open>\<open>dw_stops\<close> records the results of the calls of \<open>stop\<close>.\<close>

record 'd drone_world =
  dw_exec :: executor
  dw_engine :: 'd
  dw_stops :: "(BackendId \<times> (ExecError + unit)) list"

datatype 'd dw_event =
    DwEngine nat io
  | DwExec exec_event
  | DwOutside 'd

definition call_engine :: "'d engine \<Rightarrow> drone_ext \<Rightarrow> nat \<Rightarrow> io \<Rightarrow> 'd drone_world \<Rightarrow> 'd drone_world" where
  "call_engine eng x i io s =
     (let w = dw_exec s; r = xc_runs w ! i
      in if i < length (xc_runs w) \<and> r_alive r \<and> r_phase r = AtStart
         then (case engine_answer eng (r_spec r) (r_state r) (dw_engine s) of
                 (d, ans) \<Rightarrow> \<lparr>dw_exec = poll_run x i ans io w, dw_engine = d,
                              dw_stops = dw_stops s @ stop_result (run_backend_id r) ans\<rparr>)
         else s)"

fun dw_step :: "'d engine \<Rightarrow> drone_ext \<Rightarrow> 'd dw_event \<Rightarrow> 'd drone_world \<Rightarrow> 'd drone_world" where
  "dw_step eng x (DwEngine i io) s = call_engine eng x i io s"
| "dw_step eng x (DwExec e) s = s\<lparr>dw_exec := fst (exec_step x e (dw_exec s))\<rparr>"
| "dw_step eng x (DwOutside d) s = s\<lparr>dw_engine := d\<rparr>"

fun dw_run :: "'d engine \<Rightarrow> drone_ext \<Rightarrow> 'd dw_event list \<Rightarrow> 'd drone_world \<Rightarrow> 'd drone_world" where
  "dw_run eng x [] s = s"
| "dw_run eng x (e # es) s = dw_run eng x es (dw_step eng x e s)"

definition drone_start :: "DroneDatabase \<Rightarrow> 'd \<Rightarrow> 'd drone_world" where
  "drone_start db d = \<lparr>dw_exec = executor_new db, dw_engine = d, dw_stops = []\<rparr>"

section \<open>Allowed events\<close>

fun engine_event :: "exec_event \<Rightarrow> bool" where
  "engine_event (EvPoll _ (ALoad _) _) = True"
| "engine_event (EvPoll _ (AStatus _) _) = True"
| "engine_event (EvPoll _ (AStop _) _) = True"
| "engine_event _ = False"

definition loading :: "BackendId \<Rightarrow> executor \<Rightarrow> bool" where
  "loading b w \<longleftrightarrow> (\<exists>r \<in> set (xc_runs w). run_backend_id r = b \<and> r_alive r \<and> r_state r = Loading)"

fun dw_allowed :: "('d \<Rightarrow> bool) \<Rightarrow> (BackendId \<Rightarrow> 'd \<Rightarrow> bool) \<Rightarrow> 'd dw_event \<Rightarrow> 'd drone_world \<Rightarrow> bool" where
  "dw_allowed lawful has (DwEngine i io) s = True"
| "dw_allowed lawful has (DwExec e) s = (\<not> engine_event e)"
| "dw_allowed lawful has (DwOutside d) s =
     ((lawful (dw_engine s) \<longrightarrow> lawful d) \<and> (\<forall>b. has b d \<longrightarrow> has b (dw_engine s) \<or> loading b (dw_exec s)))"

fun dw_allowed_run ::
  "('d \<Rightarrow> bool) \<Rightarrow> (BackendId \<Rightarrow> 'd \<Rightarrow> bool) \<Rightarrow> 'd engine \<Rightarrow> drone_ext \<Rightarrow> 'd dw_event list \<Rightarrow> 'd drone_world \<Rightarrow> bool" where
  "dw_allowed_run lawful has eng x [] s = True"
| "dw_allowed_run lawful has eng x (e # es) s =
     (dw_allowed lawful has e s \<and> dw_allowed_run lawful has eng x es (dw_step eng x e s))"

section \<open>Distinct runs stay registered\<close>

abbreviation run_ids :: "executor \<Rightarrow> BackendId list" where
  "run_ids w \<equiv> map run_backend_id (xc_runs w)"

definition registered :: "executor \<Rightarrow> bool" where
  "registered w \<longleftrightarrow>
     (\<forall>i < length (xc_runs w). r_alive (xc_runs w ! i) \<longrightarrow> xc_listener w (run_backend_id (xc_runs w ! i)) = Some i)"

lemma run_ids_take:
  assumes "runs_le w w'"
  shows "run_ids w = take (length (xc_runs w)) (run_ids w')"
  using assms by (intro nth_equalityI) (auto simp: runs_le_def run_le_def run_backend_id_def)

lemma distinct_before: "runs_le w w' \<Longrightarrow> distinct (run_ids w') \<Longrightarrow> distinct (run_ids w)"
  using run_ids_take distinct_take by metis

lemma registered_cong:
  "xc_runs w = xc_runs w' \<Longrightarrow> xc_listener w = xc_listener w' \<Longrightarrow> registered w \<Longrightarrow> registered w'"
  by (simp add: registered_def)

lemma registered_upd:
  assumes "registered w" and "\<And>r. run_backend_id (f r) = run_backend_id r"
    and "i < length (xc_runs w) \<Longrightarrow> r_alive (f (xc_runs w ! i)) \<Longrightarrow> r_alive (xc_runs w ! i)"
  shows "registered (upd_run i f w)"
  using assms by (auto simp: registered_def run_nths)

lemma registered_finish:
  assumes "registered w" and "distinct (run_ids w)" and "i < length (xc_runs w)"
  shows "registered (finish_run i w)"
  using assms distinct_conv_nth [of "run_ids w"] by (auto simp: registered_def run_nths)

lemma registered_register:
  assumes "registered w" and "distinct (run_ids (register_run spec st w))"
  shows "registered (register_run spec st w)"
  using assms by (auto simp: registered_def register_run_def nth_append run_backend_id_def less_Suc_eq)
    (metis image_eqI nth_mem)

lemma registered_set_state: "registered w \<Longrightarrow> registered (set_run_state i st w)"
  unfolding set_run_state_def by (rule registered_upd) auto

lemma run_ids_set_state [simp]: "run_ids (set_run_state i st w) = run_ids w"
  by (rule nth_equalityI) (auto simp: run_nths)

lemma registered_handle:
  assumes "registered w" and "distinct (run_ids w)" and "i < length (xc_runs w)"
  shows "registered (handle_next_state io i nx w)"
proof -
  have enter: "registered (exec_update_backend_state io b st (set_run_state i st w))" for b st
    by (rule registered_cong [OF _ _ registered_set_state [OF assms(1), of i st]]) simp_all
  have enter': "registered (exec_update_backend_state io b st (start_monitor b st (set_run_state i st w)))" for b st
    by (rule registered_cong [OF _ _ registered_set_state [OF assms(1), of i st]]) simp_all
  have "registered (finish_run i (exec_update_backend_state io b st (set_run_state i st w)))" for b st
    using assms(2,3) by (intro registered_finish [OF enter]) (simp_all del: map_map)
  then show ?thesis
    using assms enter' by (cases "(io, i, nx, w)" rule: handle_next_state.cases)
      (auto simp: Let_def registered_finish split: BackendState.splits)
qed

lemma registered_poll:
  assumes "registered w" and "distinct (run_ids w)"
  shows "registered (poll_run x i ans io w)"
proof -
  have db: "registered (w\<lparr>xc_database := db\<rparr>)" for db by (rule registered_cong [OF _ _ assms(1)]) simp_all
  have "registered (upd_run i (\<lambda>r. r\<lparr>r_phase := ph\<rparr>) (w\<lparr>xc_database := db\<rparr>))" for ph db
    by (rule registered_upd [OF db]) auto
  moreover have "registered (upd_run i (\<lambda>r. r\<lparr>r_alive := False\<rparr>) (w\<lparr>xc_database := db\<rparr>))" for db
    by (rule registered_upd [OF db]) auto
  moreover have "i < length (xc_runs w) \<Longrightarrow> registered (handle_next_state io i nx (w\<lparr>xc_database := db\<rparr>))" for nx db
    using registered_handle [OF db] assms(2) by simp
  ultimately show ?thesis
    using assms(1) by (auto simp: poll_run_def Let_def split: prod.splits progress.splits)
qed

lemma registered_recv:
  assumes "registered w" and "distinct (run_ids w)"
  shows "registered (recv_run i io w)"
proof -
  have "registered (upd_run i (\<lambda>r. r\<lparr>r_queue := q\<rparr>) w)" for q by (rule registered_upd [OF assms(1)]) auto
  moreover have "run_ids (upd_run i (\<lambda>r. r\<lparr>r_queue := q\<rparr>) w) = run_ids w" for q
    by (rule nth_equalityI) (auto simp: run_nths)
  ultimately have "i < length (xc_runs w) \<Longrightarrow>
      registered (handle_next_state io i nx (upd_run i (\<lambda>r. r\<lparr>r_queue := q\<rparr>) w))" for nx q
    using registered_handle assms(2) by (metis upd_run_simps(5))
  then show ?thesis using assms(1)
    by (auto simp: recv_run_def simp del: handle_next_state.simps intro!: registered_upd split: list.splits Signal.splits)
qed

lemma registered_resume:
  "registered w \<Longrightarrow> distinct (run_ids (fold resume_backend bs w)) \<Longrightarrow> registered (fold resume_backend bs w)"
proof (induction bs arbitrary: w)
  case (Cons bk bs)
  have "distinct (run_ids (resume_backend bk w))"
    using Cons.prems(2) distinct_before [OF runs_le_resume [of "resume_backend bk w" bs]] by simp
  moreover have "registered (start_monitor (bk_backend_id bk) (bk_state bk) w)"
    by (rule registered_cong [OF _ _ Cons.prems(1)]) simp_all
  ultimately have "registered (resume_backend bk w)"
    unfolding resume_backend_def by (intro registered_register)
  then show ?case using Cons.IH Cons.prems(2) by simp
qed simp

lemma registered_step:
  assumes "registered w" and "distinct (run_ids (fst (exec_step x e w)))"
  shows "registered (fst (exec_step x e w))"
proof -
  have dist: "distinct (run_ids w)" using distinct_before [OF runs_le_step assms(2)] .
  show ?thesis
  proof (cases e)
    case (EvSpawn spec io)
    have "registered (publish_state io Loading (sp_backend_id spec) (if io_db io
        then w\<lparr>xc_database := fst (insert_backend (x_to_json x) spec (xc_database w))\<rparr> else w))"
      by (rule registered_cong [OF _ _ assms(1)]) simp_all
    then show ?thesis using assms(2) EvSpawn unfolding EvSpawn exec_step.simps fst_conv start_backend_def
      by (intro registered_register) (simp_all add: start_backend_def)
  next
    case EvResume
    then show ?thesis using assms registered_resume by (auto simp: resume_backends_def split: sum.splits)
  next
    case (EvTouch subs)
    then show ?thesis using registered_cong [OF _ _ assms(1)] by simp
  qed (use assms dist in \<open>auto simp: kill_backend_def container_event_def send_signal_def registered_poll
      registered_recv intro!: registered_upd split: option.splits\<close>)
qed

section \<open>Who may own a container\<close>

text \<open>A run may have a container while it is alive, when it ended on an error before a terminal
  state or in \<open>ErrorLoading\<close>, and when a call of \<open>stop\<close> for it failed.\<close>

definition may_own :: "(BackendId \<times> (ExecError + unit)) list \<Rightarrow> backend_run \<Rightarrow> bool" where
  "may_own stops r \<longleftrightarrow> r_alive r \<or> r_state r \<in> {Starting, Ready, ErrorLoading} \<or>
     (\<exists>e. (run_backend_id r, Inl e) \<in> set stops)"

lemma may_own_more: "may_own stops r \<Longrightarrow> may_own (stops @ later) r"
  by (auto simp: may_own_def)

lemma finished_nth:
  assumes "i < length (xc_runs w)" and "r_alive (xc_runs w ! i)"
    and "\<not> r_alive (xc_runs (handle_next_state io i nx w) ! i)"
  shows "nx = Inr None \<and> r_state (xc_runs (handle_next_state io i nx w) ! i) = r_state (xc_runs w ! i) \<or>
    (\<exists>e. nx = Inl e) \<and> r_state (xc_runs (handle_next_state io i nx w) ! i)
      = (if r_state (xc_runs w ! i) = Loading then ErrorLoading else r_state (xc_runs w ! i))"
  using assms
  by (cases "(io, i, nx, w)" rule: handle_next_state.cases) (auto simp: Let_def run_nths split: BackendState.splits)

lemma handle_nth_other:
  assumes "j < length (xc_runs w)" and "i \<noteq> j"
  shows "xc_runs (handle_next_state io i nx w) ! j = xc_runs w ! j"
  using assms
  by (cases "(io, i, nx, w)" rule: handle_next_state.cases) (auto simp: Let_def run_nths split: BackendState.splits)

text \<open>Only the answers of the engine end a run in \<open>Loading\<close> or in a terminal state.\<close>

lemma poll_step_other_answer:
  assumes "poll_step x spec st ph ans db = (db', Done nx)" and "\<not> engine_event (EvPoll i ans io)"
  shows "st \<in> {Starting, Ready} \<and> nx \<noteq> Inr None"
  using assms unfolding poll_step_def
  by (auto split: BackendState.splits phase.splits answer.splits sum.splits EngineBackendStatus.splits
      option.splits if_splits prod.splits idle.splits)

lemma poll_run_nth_other:
  assumes "j < length (xc_runs w)" and "i \<noteq> j"
  shows "xc_runs (poll_run x i ans io w) ! j = xc_runs w ! j"
  using assms
  by (auto simp: poll_run_def Let_def run_nths handle_nth_other simp del: handle_next_state.simps
      split: prod.splits progress.splits)

lemma poll_run_other_answer:
  assumes "\<not> engine_event (EvPoll i ans io)" and "j < length (xc_runs w)" and "may_own stops (xc_runs w ! j)"
  shows "may_own stops (xc_runs (poll_run x i ans io w) ! j)"
proof (cases "i = j \<and> r_alive (xc_runs w ! j)")
  case False
  then have "xc_runs (poll_run x i ans io w) ! j = xc_runs w ! j"
    using poll_run_nth_other [OF assms(2)] by (cases "i = j") (auto simp: poll_run_def)
  then show ?thesis using assms(3) by simp
next
  case True
  let ?r = "xc_runs w ! j"
  obtain db p where p: "poll_step x (r_spec ?r) (r_state ?r) (r_phase ?r) ans (xc_database w) = (db, p)"
    by (cases "poll_step x (r_spec ?r) (r_state ?r) (r_phase ?r) ans (xc_database w)")
  show ?thesis
  proof (cases p)
    case (Done nx)
    let ?h = "handle_next_state io i nx (w\<lparr>xc_database := db\<rparr>)"
    have h: "poll_run x i ans io w = ?h" using True assms(2) p Done by (simp add: poll_run_def)
    have "r_state ?r \<in> {Starting, Ready}" "nx \<noteq> Inr None"
      using poll_step_other_answer [OF p [unfolded Done] assms(1)] by auto
    then show ?thesis
      using finished_nth [of j "w\<lparr>xc_database := db\<rparr>" io nx] True assms(2) unfolding h may_own_def by auto
  next
    case (Suspend ph)
    then show ?thesis using True assms(2) p by (simp add: poll_run_def may_own_def run_nths)
  next
    case Panicked
    then show ?thesis
      using p poll_step_no_panic [of x "r_spec ?r" "r_state ?r" "r_phase ?r" ans "xc_database w"] by simp
  qed
qed

lemma recv_run_nth:
  assumes "registered w" and "j < length (xc_runs w)" and "may_own stops (xc_runs w ! j)"
  shows "may_own stops (xc_runs (recv_run i io w) ! j)"
proof (cases "i = j \<and> r_alive (xc_runs w ! j)")
  case True
  then have "r_alive (xc_runs (recv_run i io w) ! j)"
    using assms(1,2) by (auto simp: recv_run_def registered_def run_nths Let_def split: list.splits Signal.splits)
  then show ?thesis by (simp add: may_own_def)
next
  case False
  then have "xc_runs (recv_run i io w) ! j = xc_runs w ! j"
    using assms(2) by (auto simp: recv_run_def run_nths Let_def split: list.splits Signal.splits)
  then show ?thesis using assms(3) by simp
qed

lemma resume_keeps_runs:
  "j < length (xc_runs w) \<Longrightarrow> xc_runs (fold resume_backend bs w) ! j = xc_runs w ! j"
proof (induction bs arbitrary: w)
  case (Cons bk bs)
  then have "j < length (xc_runs (resume_backend bk w))"
    by (simp add: resume_backend_def register_run_def)
  then show ?case using Cons by (simp add: resume_backend_def register_run_def nth_append)
qed simp

lemma exec_keeps_owner:
  assumes "registered w" and "\<not> engine_event e"
    and "j < length (xc_runs w)" and "may_own stops (xc_runs w ! j)"
  shows "may_own stops (xc_runs (fst (exec_step x e w)) ! j)"
proof (cases e)
  case (EvPoll i ans io)
  then show ?thesis using poll_run_other_answer assms(2-4) by simp
next
  case (EvRecv i io)
  then show ?thesis using recv_run_nth assms(1,3,4) by simp
next
  case EvResume
  then show ?thesis using assms(3,4) resume_keeps_runs by (auto simp: resume_backends_def split: sum.splits)
next
  case (EvSpawn spec io)
  then show ?thesis using assms(3,4) by (simp add: start_backend_def register_run_def nth_append)
qed (use assms(3,4) in \<open>auto simp: kill_backend_def container_event_def send_signal_def run_nths may_own_def
    split: option.splits\<close>)

text \<open>What the answer of the engine does to the run that asked.\<close>

lemma engine_keeps_owner:
  assumes "i < length (xc_runs w)" and "r = xc_runs w ! i" and "r_alive r" and "r_phase r = AtStart"
    and "engine_answer eng (r_spec r) (r_state r) d = (d', ans)"
    and "\<not> (terminal (r_state r) \<and> snd (en_stop eng (run_backend_id r) d) = Inr ())"
  shows "may_own (stops @ stop_result (run_backend_id r) ans) (xc_runs (poll_run x i ans io w) ! i)"
proof -
  let ?w = "\<lambda>db. w\<lparr>xc_database := db\<rparr>"
  obtain db p where p: "poll_step x (r_spec r) (r_state r) AtStart ans (xc_database w) = (db, p)"
    by (cases "poll_step x (r_spec r) (r_state r) AtStart ans (xc_database w)")
  have run: "poll_run x i ans io w =
      (case p of Suspend ph \<Rightarrow> upd_run i (\<lambda>r. r\<lparr>r_phase := ph\<rparr>) (?w db)
       | Done nx \<Rightarrow> handle_next_state io i nx (?w db)
       | Panicked \<Rightarrow> upd_run i (\<lambda>r. r\<lparr>r_alive := False\<rparr>) (?w db))"
    using assms(1-4) p by (simp add: poll_run_def)
  show ?thesis
  proof (cases p)
    case (Done nx)
    note fin = finished_nth [of i "?w db" io nx]
    have "nx \<noteq> Inr None \<and> (terminal (r_state r) \<longrightarrow> (\<exists>e. stop_result (run_backend_id r) ans = [(run_backend_id r, Inl e)]))"
      using p assms(5,6) unfolding Done engine_answer_def poll_step_def
      by (auto simp: run_backend_id_def apsnd_def map_prod_def bindR_def
          split: BackendState.splits prod.splits sum.splits EngineBackendStatus.splits)
    moreover have "run_backend_id (xc_runs (handle_next_state io i nx (?w db)) ! i) = run_backend_id r"
      using runs_le_poll [of w x i ans io] assms(1,2) Done run by (auto simp: runs_le_def run_le_def run_backend_id_def)
    ultimately show ?thesis
      using fin assms(1-3) Done unfolding run may_own_def by (cases "r_state r") auto
  next
    case (Suspend ph)
    then show ?thesis using assms(1-3) unfolding run by (simp add: may_own_def run_nths)
  next
    case Panicked
    then show ?thesis using p poll_step_no_panic [of x "r_spec r" "r_state r" AtStart ans "xc_database w"] by simp
  qed
qed

lemma length_poll [simp]: "length (xc_runs (poll_run x i ans io w)) = length (xc_runs w)"
  by (auto simp: poll_run_def Let_def simp del: handle_next_state.simps split: prod.splits progress.splits)

lemma resumed_alive:
  "length (xc_runs w) \<le> j \<Longrightarrow> j < length (xc_runs (fold resume_backend bs w)) \<Longrightarrow>
   r_alive (xc_runs (fold resume_backend bs w) ! j)"
proof (induction bs arbitrary: w)
  case (Cons bk bs)
  let ?w = "resume_backend bk w"
  have len: "length (xc_runs ?w) = Suc (length (xc_runs w))" by (simp add: resume_backend_def register_run_def)
  show ?case
  proof (cases "j = length (xc_runs w)")
    case True
    then have "xc_runs (fold resume_backend bs ?w) ! j = xc_runs ?w ! j" by (intro resume_keeps_runs) (simp add: len)
    moreover have "r_alive (xc_runs ?w ! j)" using True by (simp add: resume_backend_def register_run_def nth_append)
    ultimately show ?thesis by simp
  next
    case False
    then show ?thesis using Cons.IH [of ?w] Cons.prems len by simp
  qed
qed simp

lemma new_run_alive:
  assumes "\<not> i < length (xc_runs w)" and "i < length (xc_runs (fst (exec_step x e w)))"
  shows "r_alive (xc_runs (fst (exec_step x e w)) ! i)"
proof (cases e)
  case (EvSpawn spec io)
  then show ?thesis using assms by (simp add: start_backend_def register_run_def nth_append)
next
  case EvResume
  then show ?thesis using assms resumed_alive by (auto simp: resume_backends_def split: sum.splits)
next
  case (EvRecv j io)
  then show ?thesis using assms
    by (auto simp: recv_run_def simp del: handle_next_state.simps split: if_splits list.splits Signal.splits)
qed (use assms in \<open>auto simp: kill_backend_def container_event_def send_signal_def split: option.splits if_splits\<close>)

section \<open>The contract of an engine\<close>

locale container_engine =
  fixes eng :: "'d engine"
    and has :: "BackendId \<Rightarrow> 'd \<Rightarrow> bool"
    and lawful :: "'d \<Rightarrow> bool"
  assumes load_lawful: "lawful d \<Longrightarrow> lawful (fst (en_load eng spec d))"
    and stop_lawful: "lawful d \<Longrightarrow> lawful (fst (en_stop eng b d))"
    and load_frame: "lawful d \<Longrightarrow> b \<noteq> sp_backend_id spec \<Longrightarrow> has b (fst (en_load eng spec d)) \<Longrightarrow> has b d"
    and stop_frame: "lawful d \<Longrightarrow> has b (fst (en_stop eng b' d)) \<Longrightarrow> has b d"
    and stop_removes: "lawful d \<Longrightarrow> snd (en_stop eng b d) = Inr () \<Longrightarrow> \<not> has b (fst (en_stop eng b d))"
begin

text \<open>Every container was there from the start and belongs to no run, or its run may own it.\<close>

definition accounted :: "'d \<Rightarrow> 'd drone_world \<Rightarrow> bool" where
  "accounted d0 s \<longleftrightarrow> lawful (dw_engine s) \<and> registered (dw_exec s) \<and>
     (\<forall>b. has b (dw_engine s) \<longrightarrow> has b d0 \<and> b \<notin> set (run_ids (dw_exec s)) \<or>
        (\<exists>i < length (xc_runs (dw_exec s)). run_backend_id (xc_runs (dw_exec s) ! i) = b \<and>
           may_own (dw_stops s) (xc_runs (dw_exec s) ! i)))"

lemma accountedD:
  assumes "accounted d0 s" and "has b (dw_engine s)" and "b \<in> set (run_ids (dw_exec s))"
  obtains i where "i < length (xc_runs (dw_exec s))" "run_backend_id (xc_runs (dw_exec s) ! i) = b"
    "may_own (dw_stops s) (xc_runs (dw_exec s) ! i)"
  using assms unfolding accounted_def by blast

lemma answer_effect:
  assumes "lawful d" and "engine_answer eng spec st d = (d', ans)"
  shows "lawful d' \<and> (has b d' \<longrightarrow> has b d \<or> b = sp_backend_id spec \<and> st = Loading) \<and>
    (terminal st \<and> snd (en_stop eng (sp_backend_id spec) d) = Inr () \<longrightarrow> \<not> has (sp_backend_id spec) d')"
  using assms load_lawful [of d spec] stop_lawful [of d "sp_backend_id spec"] load_frame [of d b spec]
    stop_frame [of d b "sp_backend_id spec"] stop_removes [of d "sp_backend_id spec"]
  unfolding engine_answer_def by (cases st) (auto simp: apsnd_def map_prod_def split: prod.splits)

lemma ids_grow:
  assumes "runs_le w w'" and "j < length (xc_runs w)"
  shows "j < length (xc_runs w')" "run_backend_id (xc_runs w' ! j) = run_backend_id (xc_runs w ! j)"
  using assms by (auto simp: runs_le_def run_le_def run_backend_id_def)

lemma accounted_exec:
  assumes "accounted d0 s" and "\<not> engine_event e" and "distinct (run_ids (fst (exec_step x e (dw_exec s))))"
  shows "accounted d0 (dw_step eng x (DwExec e) s)"
proof -
  let ?w = "dw_exec s" and ?w' = "fst (exec_step x e (dw_exec s))"
  have reg: "registered ?w" using assms(1) by (simp add: accounted_def)
  note grow = ids_grow [OF runs_le_step [of ?w x e]]
  have "has b d0 \<and> b \<notin> set (run_ids ?w') \<or>
      (\<exists>i < length (xc_runs ?w'). run_backend_id (xc_runs ?w' ! i) = b \<and> may_own (dw_stops s) (xc_runs ?w' ! i))"
    if owned: "has b (dw_engine s)" for b
  proof (cases "b \<in> set (run_ids ?w)")
    case True
    then obtain i where "i < length (xc_runs ?w)" "run_backend_id (xc_runs ?w ! i) = b"
        "may_own (dw_stops s) (xc_runs ?w ! i)"
      using accountedD [OF assms(1) owned] by blast
    then show ?thesis using grow exec_keeps_owner [OF reg assms(2)] by blast
  next
    case False
    then have d0: "has b d0" using assms(1) owned unfolding accounted_def by (metis in_set_conv_nth length_map nth_map)
    show ?thesis
    proof (cases "b \<in> set (run_ids ?w')")
      case True
      then obtain i where i: "i < length (xc_runs ?w')" "run_backend_id (xc_runs ?w' ! i) = b"
        by (auto simp: in_set_conv_nth)
      moreover have "\<not> i < length (xc_runs ?w)" using False grow(2) i(2) by (metis length_map nth_map nth_mem)
      ultimately show ?thesis using new_run_alive [of i ?w x e] by (auto simp: may_own_def)
    qed (use d0 in blast)
  qed
  then show ?thesis using assms(1) registered_step [OF reg assms(3)] by (simp add: accounted_def)
qed

lemma accounted_engine:
  assumes "accounted d0 s" and "distinct (run_ids (dw_exec (call_engine eng x i io s)))"
  shows "accounted d0 (call_engine eng x i io s)"
proof (cases "i < length (xc_runs (dw_exec s)) \<and> r_alive (xc_runs (dw_exec s) ! i) \<and> r_phase (xc_runs (dw_exec s) ! i) = AtStart")
  case False
  then show ?thesis using assms(1) by (auto simp: call_engine_def Let_def)
next
  case True
  let ?w = "dw_exec s" and ?d = "dw_engine s"
  let ?r = "xc_runs ?w ! i"
  obtain d' ans where a: "engine_answer eng (r_spec ?r) (r_state ?r) ?d = (d', ans)"
    by (cases "engine_answer eng (r_spec ?r) (r_state ?r) ?d")
  let ?w' = "poll_run x i ans io ?w" and ?stops = "dw_stops s @ stop_result (run_backend_id ?r) ans"
  have s': "call_engine eng x i io s = \<lparr>dw_exec = ?w', dw_engine = d', dw_stops = ?stops\<rparr>"
    using True a by (simp add: call_engine_def Let_def)
  have law: "lawful ?d" and reg: "registered ?w" using assms(1) by (simp_all add: accounted_def)
  note grow = ids_grow [OF runs_le_poll [of ?w x i ans io]]
  have len: "length (xc_runs ?w') = length (xc_runs ?w)" by (rule length_poll)
  have dist: "distinct (run_ids ?w)"
    using distinct_before [OF runs_le_poll] assms(2) s' by fastforce
  have ids: "run_ids ?w' = run_ids ?w" using grow(2) len by (intro nth_equalityI) simp_all
  note effect = answer_effect [OF law a]
  have "has b d0 \<and> b \<notin> set (run_ids ?w') \<or>
      (\<exists>j < length (xc_runs ?w'). run_backend_id (xc_runs ?w' ! j) = b \<and> may_own ?stops (xc_runs ?w' ! j))"
    if "has b d'" for b
  proof (cases "b = run_backend_id ?r")
    case True
    then have "\<not> (terminal (r_state ?r) \<and> snd (en_stop eng (run_backend_id ?r) ?d) = Inr ())"
      using effect that by (auto simp: run_backend_id_def)
    then show ?thesis
      using engine_keeps_owner [OF _ refl _ _ a] \<open>i < _ \<and> _\<close> grow [of i] True by blast
  next
    case False
    then have "has b ?d" using effect that by (auto simp: run_backend_id_def)
    then consider "has b d0 \<and> b \<notin> set (run_ids ?w)"
      | j where "j < length (xc_runs ?w)" "run_backend_id (xc_runs ?w ! j) = b" "may_own (dw_stops s) (xc_runs ?w ! j)"
      using assms(1) unfolding accounted_def by blast
    then show ?thesis
    proof cases
      case 1
      then show ?thesis using ids by simp
    next
      case 2
      then have "i \<noteq> j" using False by blast
      then have "xc_runs ?w' ! j = xc_runs ?w ! j" using poll_run_nth_other 2(1) by blast
      then show ?thesis using 2 len may_own_more by auto
    qed
  qed
  then show ?thesis using effect registered_poll [OF reg dist] unfolding s' by (simp add: accounted_def)
qed

lemma accounted_outside:
  assumes "accounted d0 s" and "dw_allowed lawful has (DwOutside d) s"
  shows "accounted d0 (s\<lparr>dw_engine := d\<rparr>)"
proof -
  have "\<exists>i < length (xc_runs (dw_exec s)). run_backend_id (xc_runs (dw_exec s) ! i) = b \<and>
      may_own (dw_stops s) (xc_runs (dw_exec s) ! i)" if "loading b (dw_exec s)" for b
    using that by (auto simp: loading_def may_own_def in_set_conv_nth)
  then show ?thesis using assms by (simp add: accounted_def) blast
qed

lemma dw_runs_le: "runs_le (dw_exec s) (dw_exec (dw_step eng x e s))"
  by (cases e) (auto simp: call_engine_def Let_def runs_le_step runs_le_poll split: prod.splits)

lemma dw_run_runs_le: "runs_le (dw_exec s) (dw_exec (dw_run eng x es s))"
  by (induction es arbitrary: s) (auto intro: runs_le_trans [OF dw_runs_le])

lemma accounted_run:
  assumes "accounted d0 s" and "dw_allowed_run lawful has eng x es s"
    and "distinct (run_ids (dw_exec (dw_run eng x es s)))"
  shows "accounted d0 (dw_run eng x es s)"
  using assms
proof (induction es arbitrary: s)
  case (Cons e es)
  have dist: "distinct (run_ids (dw_exec (dw_step eng x e s)))"
    using distinct_before [OF dw_run_runs_le] Cons.prems(3) by simp
  have "accounted d0 (dw_step eng x e s)"
  proof (cases e)
    case (DwEngine i io)
    then show ?thesis using accounted_engine Cons.prems(1) dist by simp
  next
    case (DwExec ev)
    then show ?thesis using accounted_exec Cons.prems(1,2) dist by simp
  next
    case (DwOutside d)
    then show ?thesis using accounted_outside Cons.prems(1,2) by simp
  qed
  then show ?case using Cons.IH Cons.prems(2,3) by simp
qed simp

lemma accounted_start: "lawful d \<Longrightarrow> accounted d (drone_start db d)"
  by (simp add: accounted_def drone_start_def executor_new_def registered_def)

lemma ended_run_owns_nothing:
  assumes "lawful d0" and "dw_allowed_run lawful has eng x es (drone_start db d0)"
    and "s = dw_run eng x es (drone_start db d0)" and "distinct (run_ids (dw_exec s))"
    and "r \<in> set (xc_runs (dw_exec s))" and "\<not> may_own (dw_stops s) r"
  shows "\<not> has (run_backend_id r) (dw_engine s)"
proof
  assume owned: "has (run_backend_id r) (dw_engine s)"
  have acc: "accounted d0 s" using accounted_run [OF accounted_start] assms(1-4) by blast
  obtain i where i: "i < length (xc_runs (dw_exec s))" "run_backend_id (xc_runs (dw_exec s) ! i) = run_backend_id r"
      "may_own (dw_stops s) (xc_runs (dw_exec s) ! i)"
    using accountedD [OF acc owned] assms(5) by auto
  then have "xc_runs (dw_exec s) ! i = r"
    using assms(4,5) by (metis distinct_map inj_onD nth_mem)
  then show False using i(3) assms(6) by simp
qed

end

section \<open>The Docker engine keeps the contract\<close>

text \<open>What the code relies on of the daemon, with \<open>present n\<close> for \<open>there is a container named n\<close>: only
  creating a container adds one, with the given name, and a removal that succeeds or finds nothing
  leaves no container of that name.\<close>

definition daemon_ok :: "'d docker_api \<Rightarrow> (string \<Rightarrow> 'd \<Rightarrow> bool) \<Rightarrow> bool" where
  "daemon_ok api present \<longleftrightarrow>
     (\<forall>img cred d m. present m (fst (dk_create_image api img cred d)) \<longrightarrow> present m d) \<and>
     (\<forall>n c d m. present m (fst (dk_create_container api n c d)) \<longrightarrow> m = n \<or> present m d) \<and>
     (\<forall>n d m. present m (fst (dk_start_container api n d)) \<longrightarrow> present m d) \<and>
     (\<forall>n t d m. present m (fst (dk_stop_container api n t d)) \<longrightarrow> present m d) \<and>
     (\<forall>n d m. present m (fst (dk_remove_container api n d)) \<longrightarrow> present m d) \<and>
     (\<forall>n d. allow_not_found (snd (dk_remove_container api n d)) = Inr () \<longrightarrow>
        \<not> present n (fst (dk_remove_container api n d)))"

lemma daemon_okD:
  assumes "daemon_ok api present"
  shows "present m (fst (dk_create_image api img cred d)) \<Longrightarrow> present m d"
    and "present m (fst (dk_create_container api n c d)) \<Longrightarrow> m = n \<or> present m d"
    and "present m (fst (dk_start_container api n d)) \<Longrightarrow> present m d"
    and "present m (fst (dk_stop_container api n t d)) \<Longrightarrow> present m d"
    and "present m (fst (dk_remove_container api n d)) \<Longrightarrow> present m d"
    and "allow_not_found (snd (dk_remove_container api n d)) = Inr () \<Longrightarrow>
      \<not> present n (fst (dk_remove_container api n d))"
  using assms unfolding daemon_ok_def by blast+

lemma to_resource_name_inject [simp]: "to_resource_name a = to_resource_name b \<longleftrightarrow> a = b"
  by (metis from_to_resource_name option.inject)

lemma err_map_Inr [simp]: "err_map f r = Inr v \<longleftrightarrow> r = Inr v"
  by (cases r) (simp_all add: err_map_def)

lemma docker_load_frame:
  assumes "daemon_ok api present" and "present m (fst (load api self spec d))"
  shows "m = to_resource_name (sp_backend_id spec) \<or> present m d"
proof -
  obtain d1 r1 where pull: "dk_create_image api (ex_image (sp_executable spec)) (map_option bollard_credentials (ex_credentials (sp_executable spec))) d = (d1, r1)"
    by fastforce
  let ?n = "to_resource_name (sp_backend_id spec)"
  let ?c = "container_config self ?n (ex_image (sp_executable spec)) (ex_env (sp_executable spec)) (ex_resource_limits (sp_executable spec))"
  obtain d2 r2 where create: "dk_create_container api ?n ?c d1 = (d2, r2)" by fastforce
  have "present m d1 \<Longrightarrow> present m d" using daemon_okD(1) [OF assms(1)] pull by (metis fst_conv)
  moreover have "present m d2 \<Longrightarrow> m = ?n \<or> present m d1" using daemon_okD(2) [OF assms(1)] create by (metis fst_conv)
  moreover have "present m (fst (dk_start_container api cid d2)) \<Longrightarrow> present m d2" for cid
    using daemon_okD(3) [OF assms(1)] .
  moreover have "present m d1 \<or> present m d2 \<or> (\<exists>cid. present m (fst (dk_start_container api cid d2)))"
    using assms(2) pull create by (auto simp: load_def pull_image_def run_container_def Let_def split: sum.splits)
  ultimately show ?thesis by blast
qed

lemma docker_stop_frame:
  assumes "daemon_ok api present" and "present m (fst (stop api b d))"
  shows "present m d"
proof -
  let ?n = "to_resource_name b"
  obtain d1 r1 where stopped: "dk_stop_container api ?n 10 d = (d1, r1)" by fastforce
  then have "present m d1 \<Longrightarrow> present m d" using daemon_okD(4) [OF assms(1)] by (metis fst_conv)
  moreover have "present m (fst (dk_remove_container api ?n d1)) \<Longrightarrow> present m d1"
    using daemon_okD(5) [OF assms(1)] .
  moreover have "present m d1 \<or> present m (fst (dk_remove_container api ?n d1))"
    using assms(2) stopped by (auto simp: stop_def stop_container_def split: sum.splits)
  ultimately show ?thesis by blast
qed

lemma docker_stop_removes:
  assumes "daemon_ok api present" and "snd (stop api b d) = Inr ()"
  shows "\<not> present (to_resource_name b) (fst (stop api b d))"
proof -
  let ?n = "to_resource_name b"
  obtain d1 r1 where stopped: "dk_stop_container api ?n 10 d = (d1, r1)" by fastforce
  then have "allow_not_found (snd (dk_remove_container api ?n d1)) = Inr ()"
      "fst (stop api b d) = fst (dk_remove_container api ?n d1)"
    using assms(2) by (auto simp: stop_def stop_container_def split: sum.splits)
  then show ?thesis using daemon_okD(6) [OF assms(1)] by simp
qed

interpretation docker: container_engine "docker_engine api self" "\<lambda>b d. present (to_resource_name b) d"
    "\<lambda>_. daemon_ok api present" for api self present
proof (unfold_locales, goal_cases)
  case (3 d b spec)
  then show ?case using docker_load_frame [of api present "to_resource_name b" self spec d] by (simp add: docker_engine_def)
next
  case (4 d b b')
  then show ?case using docker_stop_frame [of api present "to_resource_name b" b' d] by (simp add: docker_engine_def)
next
  case (5 d b)
  then show ?case using docker_stop_removes [of api present b d] by (simp add: docker_engine_def)
qed

section \<open>From the request to the route\<close>

lemma drain_results_ok: "drain_results rs = Inr () \<longleftrightarrow> (\<forall>r \<in> set rs. r = Inr ())"
  by (induction rs) (auto simp: bindR_Inr_iff)

lemma docker_loads:
  assumes "dk_create_image api (ex_image (sp_executable spec)) (map_option bollard_credentials (ex_credentials (sp_executable spec))) d = (d1, pulled)"
    and "\<forall>r \<in> set pulled. r = Inr ()"
    and "dk_create_container api (to_resource_name (sp_backend_id spec))
      (container_config self (to_resource_name (sp_backend_id spec)) (ex_image (sp_executable spec))
        (ex_env (sp_executable spec)) (ex_resource_limits (sp_executable spec))) d1 = (d2, Inr cid)"
    and "dk_start_container api cid d2 = (d3, Inr ())"
  shows "load api self spec d = (d3, Inr ())"
  using assms drain_results_ok [of pulled]
  by (simp add: load_def pull_image_def run_container_def Let_def)

lemma poll_loaded:
  assumes "i < length (xc_runs w)" and "r = xc_runs w ! i" and "r_alive r" and "r_state r = Loading"
    and "r_phase r = AtStart" and "io_db io" and "w' = poll_run x i (ALoad (Inr ())) io w"
  shows "xc_runs w' ! i = r\<lparr>r_state := Starting, r_phase := AtStart\<rparr>" "length (xc_runs w') = length (xc_runs w)"
    and "xc_database w' = update_backend_state (run_backend_id r) Starting (xc_database w)"
  using assms by (simp_all add: poll_run_def poll_step_def Let_def run_nths exec_update_backend_state_def)

lemma poll_running:
  assumes "i < length (xc_runs w)" and "r = xc_runs w ! i" and "r_alive r" and "r_state r = Starting"
    and "r_phase r = AtStart" and "w' = poll_run x i (AStatus (Inr (EngineRunning addr))) io w"
  shows "xc_runs w' ! i = r\<lparr>r_phase := AwaitPort addr\<rparr>" "length (xc_runs w') = length (xc_runs w)"
    and "xc_database w' = xc_database w"
  using assms by (simp_all add: poll_run_def poll_step_def Let_def run_nths)

lemma poll_port_ready:
  assumes "i < length (xc_runs w)" and "r = xc_runs w ! i" and "r_alive r" and "r_state r = Starting"
    and "r_phase r = AwaitPort addr" and "x_uri_ok x (ready_uri x addr)"
    and "n < 3000" and "is_ok (get n)" and "w' = poll_run x i (AHttp get) io w"
  shows "xc_runs w' ! i = r\<lparr>r_phase := AwaitRoute addr\<rparr>" "length (xc_runs w') = length (xc_runs w)"
    and "xc_database w' = xc_database w"
proof -
  have "is_ok (get (deciding_call get 3000 0))"
    using assms(7,8) by (auto simp: deciding_call_def find_None_iff find_Some_iff split: option.splits)
  then have "wait_port_ready x addr get = Some (Inr ())"
    using assms(6) by (auto simp: wait_port_ready_total retry_spec_def Let_def is_ok_def split: sum.splits)
  then show "xc_runs w' ! i = r\<lparr>r_phase := AwaitRoute addr\<rparr>" "length (xc_runs w') = length (xc_runs w)"
    and "xc_database w' = xc_database w"
    using assms(1-5,9) by (simp_all add: poll_run_def poll_step_def Let_def run_nths)
qed

lemma poll_stores_route:
  assumes "i < length (xc_runs w)" and "r_alive (xc_runs w ! i)" and "r_state (xc_runs w ! i) = Starting"
    and "r_phase (xc_runs w ! i) = AwaitRoute addr" and "b = run_backend_id (xc_runs w ! i)" and "io_db io"
    and "db_ok (xc_database w)" and "backend_id_str b \<in> db_names (xc_database w)"
    and "w' = poll_run x i (ARoute True now) io w"
  shows "r_state (xc_runs w' ! i) = Ready" "r_alive (xc_runs w' ! i)" "db_state w' b = Some ''Ready''"
    and "get_proxy_route (backend_id_str b) (xc_database w') = Some (show_socket_addr (x_show_v6 x) addr)"
    and "b \<in> xc_monitor w'"
proof -
  obtain db where ins: "insert_proxy_route (x_fk x) now b (backend_id_str b)
      (show_socket_addr (x_show_v6 x) addr) (xc_database w) = (db, Inr ())"
    using insert_proxy_route_result assms(8) by metis
  note route = poll_route [OF assms(1-5) ins assms(6)]
  have "backend_row db (backend_id_str b) \<noteq> None"
    using assms(8) ins insert_route_backends backend_row_cong backend_row_names by (metis fst_conv)
  then show "db_state w' b = Some ''Ready''"
    using route(1) assms(9) by (auto simp: db_state_def backend_row_update)
  show "r_alive (xc_runs w' ! i)" and "b \<in> xc_monitor w'"
    using assms(1-5,9) ins by (simp_all add: poll_run_def poll_step_def run_backend_id_def Let_def run_nths start_monitor_def)
  show "r_state (xc_runs w' ! i) = Ready"
    and "get_proxy_route (backend_id_str b) (xc_database w') = Some (show_socket_addr (x_show_v6 x) addr)"
    using route route_of_ready [OF assms(7) ins assms(8), of Ready] assms(9) by simp_all
qed

text \<open>From the spawn to the stored route.\<close>

lemma docker_spawn_runs:
  assumes "b = sp_backend_id spec" and "ex = sp_executable spec" and "n = length (xc_runs (dw_exec s))"
    and "db_ok (xc_database (dw_exec s))" and "backend_id_str b \<notin> db_names (xc_database (dw_exec s))"
    and "dk_create_image api (ex_image ex) (map_option bollard_credentials (ex_credentials ex)) (dw_engine s) = (d1, pulled)"
    and "\<forall>r \<in> set pulled. r = Inr ()"
    and "dk_create_container api (to_resource_name b) (container_config self (to_resource_name b) (ex_image ex)
      (ex_env ex) (ex_resource_limits ex)) d1 = (d2, Inr cid)"
    and "dk_start_container api cid d2 = (d3, Inr ())"
    and "dk_inspect_container api (to_resource_name b) d3 = Inr container"
    and "ci_state container = Some st" and "cs_running st = Some True"
    and "ci_network_settings container = Some settings"
    and "ns_ip_address settings = Some (show_ipv4 (a1, a2, a3, a4)) \<or> ns_ip_address settings \<in> {None, Some []} \<and>
      ns_networks settings = Some [(net, Some (show_ipv4 (a1, a2, a3, a4)))]"
    and "x_uri_ok x (ready_uri x (SocketAddr (V4 a1 a2 a3 a4) 8080))" and "k < 3000" and "is_ok (get k)"
    and "io_db io"
    and "s' = dw_run (docker_engine api self) x [DwExec (EvSpawn spec io), DwEngine n io, DwEngine n io,
      DwExec (EvPoll n (AHttp get) io), DwExec (EvPoll n (ARoute True now) io)] s"
  shows "r_state (xc_runs (dw_exec s') ! n) = Ready \<and> r_alive (xc_runs (dw_exec s') ! n) \<and>
    db_state (dw_exec s') b = Some ''Ready'' \<and> dw_engine s' = d3 \<and>
    get_proxy_route (backend_id_str b) (xc_database (dw_exec s')) = Some (show_ipv4 (a1, a2, a3, a4) @ '':8080'') \<and>
    b \<in> xc_monitor (dw_exec s')"
proof -
  let ?eng = "docker_engine api self" and ?addr = "SocketAddr (V4 a1 a2 a3 a4) 8080"
  let ?w1 = "start_backend x io spec (dw_exec s)"
  let ?w2 = "poll_run x n (ALoad (Inr ())) io ?w1"
  let ?w3 = "poll_run x n (AStatus (Inr (EngineRunning ?addr))) io ?w2"
  let ?w4 = "poll_run x n (AHttp get) io ?w3"
  let ?w5 = "poll_run x n (ARoute True now) io ?w4"
  let ?r = "\<lparr>r_spec = spec, r_state = Loading, r_phase = AtStart, r_queue = [], r_alive = True\<rparr>"
  have w1: "n < length (xc_runs ?w1)" "xc_runs ?w1 ! n = ?r"
      "xc_database ?w1 = fst (insert_backend (x_to_json x) spec (xc_database (dw_exec s)))"
    using assms(3,18) by (simp_all add: start_backend_def register_run_def)
  have id: "run_backend_id ?r = b" using assms(1) by (simp add: run_backend_id_def)
  note w2 = poll_loaded [OF w1(1) w1(2) [symmetric] _ _ _ assms(18) refl, of x]
  note w3 = poll_running [of n ?w2 _ ?w3 x ?addr io, OF _ refl _ _ _ refl]
  note w4 = poll_port_ready [of n ?w3 _ ?addr x k get ?w4 io, OF _ refl _ _ _ assms(15-17) refl]
  have runs4: "n < length (xc_runs ?w4)" "r_alive (xc_runs ?w4 ! n)" "r_state (xc_runs ?w4 ! n) = Starting"
      "r_phase (xc_runs ?w4 ! n) = AwaitRoute ?addr" "b = run_backend_id (xc_runs ?w4 ! n)"
    and db4: "xc_database ?w4 = update_backend_state b Starting (xc_database ?w1)"
    using w1 w2 w3 w4 id by (simp_all add: run_backend_id_def)
  have names: "backend_id_str b \<in> db_names (xc_database ?w4)"
    using db4 w1(3) assms(1,5) by (auto simp: insert_backend_def update_backend_state_def db_names_def Let_def)
  have ok: "db_ok (xc_database ?w4)"
    unfolding db4 w1(3) using assms(4) by (intro db_ok_update_state db_ok_insert_backend)
  have load: "load api self spec (dw_engine s) = (d3, Inr ())"
    using assms(1,2,6-9) by (intro docker_loads) auto
  have status: "backend_status api b d3 = Inr (EngineRunning ?addr)"
    and shown: "show_socket_addr (x_show_v6 x) ?addr = show_ipv4 (a1, a2, a3, a4) @ '':8080''"
    using backend_status_running [OF assms(10-14)] by simp_all
  have s': "dw_exec s' = ?w5" "dw_engine s' = d3"
    using w1 w2 id assms(1,19) load status
    by (simp_all add: call_engine_def Let_def engine_answer_def docker_engine_def err_map_def)
  then show ?thesis
    using poll_stores_route [OF runs4 assms(18) ok names refl, of x now] shown by simp
qed

section \<open>Interrupts\<close>

lemma dw_listeners_ok: "listeners_ok (dw_exec s) \<Longrightarrow> listeners_ok (dw_exec (dw_run eng x es s))"
proof (induction es arbitrary: s)
  case (Cons e es)
  have "listeners_ok (dw_exec (dw_step eng x e s))"
    using Cons.prems by (cases e) (auto simp: call_engine_def Let_def listeners_ok_step listeners_ok_poll split: prod.splits)
  then show ?case using Cons.IH by simp
qed simp

lemma drone_start_listeners_ok: "listeners_ok (dw_exec (drone_start db d))"
  by (simp add: drone_start_def listeners_ok_new)

definition ended_state :: "int option \<Rightarrow> BackendState" where
  "ended_state code = (case code of None \<Rightarrow> Swept | Some c \<Rightarrow> if c = 0 then Exited else Failed)"

lemma status_of_ended:
  assumes "dk_inspect_container api (to_resource_name b) d = Inr container"
    and "ci_state container = Some st" and "cs_running st = Some False"
  shows "backend_status api b d = Inr (case cs_exit_code st of
    None \<Rightarrow> EngineTerminated | Some c \<Rightarrow> if c = 0 then EngineExited else EngineFailed)"
  using assms by (auto simp: backend_status_def split: option.splits)

lemma poll_ended:
  assumes "i < length (xc_runs w)" and "r = xc_runs w ! i" and "r_alive r" and "r_state r = Ready"
    and "r_phase r = AtStart" and "st = (case code of None \<Rightarrow> EngineTerminated
      | Some c \<Rightarrow> if c = 0 then EngineExited else EngineFailed)"
  shows "poll_run x i (AStatus (Inr st)) io w =
    exec_update_backend_state io (run_backend_id r) (ended_state code) (set_run_state i (ended_state code) w)"
  using assms
  by (auto simp: poll_run_def poll_step_def Let_def run_nths start_monitor_def ended_state_def split: option.splits)

section \<open>Properties\<close>


text \<open>C17: a spawn request becomes a running, routed backend. On a drone with any other runs, a
  request with a new id is loaded from its image, credentials, environment and limits, and when
  Docker pulls the image, creates and starts the container and reports it running with an IPv4
  address, and one of the 3000 requests to port 8080 is answered, then the backend is \<open>Ready\<close>,
  its row says so, and its id is routed to that address and port.\<close>

theorem docker_spawn_becomes_ready:
  assumes "b = sp_backend_id spec" and "ex = sp_executable spec" and "n = length (xc_runs (dw_exec s))"
    and "db_ok (xc_database (dw_exec s))" and "backend_id_str b \<notin> db_names (xc_database (dw_exec s))"
    and "dk_create_image api (ex_image ex) (map_option bollard_credentials (ex_credentials ex)) (dw_engine s) = (d1, pulled)"
    and "\<forall>r \<in> set pulled. r = Inr ()"
    and "dk_create_container api (to_resource_name b) (container_config self (to_resource_name b) (ex_image ex)
      (ex_env ex) (ex_resource_limits ex)) d1 = (d2, Inr cid)"
    and "dk_start_container api cid d2 = (d3, Inr ())"
    and "dk_inspect_container api (to_resource_name b) d3 = Inr container"
    and "ci_state container = Some st" and "cs_running st = Some True"
    and "ci_network_settings container = Some settings"
    and "ns_ip_address settings = Some (show_ipv4 (a1, a2, a3, a4)) \<or> ns_ip_address settings \<in> {None, Some []} \<and>
      ns_networks settings = Some [(net, Some (show_ipv4 (a1, a2, a3, a4)))]"
    and "x_uri_ok x (ready_uri x (SocketAddr (V4 a1 a2 a3 a4) 8080))" and "k < 3000" and "is_ok (get k)"
    and "io_db io"
    and "s' = dw_run (docker_engine api self) x [DwExec (EvSpawn spec io), DwEngine n io, DwEngine n io,
      DwExec (EvPoll n (AHttp get) io), DwExec (EvPoll n (ARoute True now) io)] s"
  shows "r_state (xc_runs (dw_exec s') ! n) = Ready \<and> r_alive (xc_runs (dw_exec s') ! n) \<and>
    db_state (dw_exec s') b = Some ''Ready'' \<and> dw_engine s' = d3 \<and>
    get_proxy_route (backend_id_str b) (xc_database (dw_exec s')) = Some (show_ipv4 (a1, a2, a3, a4) @ '':8080'')"
  using docker_spawn_runs [OF assms] by blast

definition example_docker :: "string set engine" where
  "example_docker = docker_engine example_daemon \<lparr>di_runtime = None, di_network = None\<rparr>"

definition example_drone :: "string set drone_world" where
  "example_drone = dw_run example_docker example_ext
     [DwExec (EvSpawn (example_spawn ''d'' ''b'') example_io), DwEngine 0 example_io,
      DwExec (EvKill \<lparr>tr_cluster_id = ClusterName ''c'', tr_backend_id = BackendId ''b''\<rparr>),
      DwExec (EvRecv 0 example_io), DwEngine 0 example_io] (drone_start drone_database_new {})"

lemma example_load:
  "load example_daemon self (example_spawn ''d'' ''b'') {} = ({''plane-b''}, Inr ())"
  by (simp add: load_def pull_image_def run_container_def example_daemon_def to_resource_name_def
      RESOURCE_PREFIX_def example_spawn_def)

lemma example_stop: "stop example_daemon (BackendId ''b'') {''plane-b''} = ({}, Inr ())"
  by (simp add: stop_def stop_container_def example_daemon_def to_resource_name_def RESOURCE_PREFIX_def)

lemma daemon_ok_example: "daemon_ok example_daemon (\<in>)"
  by (auto simp: daemon_ok_def example_daemon_def split: if_splits)

lemma example_drone_value:
  "xc_runs (dw_exec example_drone) = [\<lparr>r_spec = example_spawn ''d'' ''b'', r_state = Terminated,
     r_phase = AtStart, r_queue = [], r_alive = False\<rparr>]"
  "dw_engine example_drone = {}" "dw_stops example_drone = [(BackendId ''b'', Inr ())]"
proof -
  let ?b = "BackendId ''b''" and ?step = "dw_step example_docker example_ext"
  let ?run = "\<lambda>st q. \<lparr>r_spec = example_spawn ''d'' ''b'', r_state = st, r_phase = AtStart, r_queue = q, r_alive = True\<rparr>"
  have id: "sp_backend_id (example_spawn ''d'' ''b'') = ?b" by (simp add: example_spawn_def)
  let ?at = "\<lambda>s st q d. xc_runs (dw_exec s) = [?run st q] \<and> xc_listener (dw_exec s) ?b = Some 0 \<and>
    dw_engine s = d \<and> dw_stops s = []"
  have 1: "?at (?step (DwExec (EvSpawn (example_spawn ''d'' ''b'') example_io)) (drone_start drone_database_new {})) Loading [] {}"
    by (simp add: drone_start_def executor_new_def start_backend_def register_run_def id)
  have 2: "?at (?step (DwEngine 0 example_io) s) Starting [] {''plane-b''}" if "?at s Loading [] {}" for s
    using that by (simp add: call_engine_def engine_answer_def example_docker_def docker_engine_def example_load
        err_map_def poll_run_def poll_step_def Let_def set_run_state_def upd_run_def)
  have 3: "?at (?step (DwExec (EvKill \<lparr>tr_cluster_id = ClusterName ''c'', tr_backend_id = ?b\<rparr>)) s) Starting [Terminate] {''plane-b''}"
    if "?at s Starting [] {''plane-b''}" for s
    using that by (simp add: kill_backend_def send_signal_def upd_run_def)
  have 4: "?at (?step (DwExec (EvRecv 0 example_io)) s) Terminated [] {''plane-b''}"
    if "?at s Starting [Terminate] {''plane-b''}" for s
    using that by (simp add: recv_run_def upd_run_def set_run_state_def Let_def)
  have 5: "xc_runs (dw_exec (?step (DwEngine 0 example_io) s)) = [(?run Terminated [])\<lparr>r_alive := False\<rparr>] \<and>
      dw_engine (?step (DwEngine 0 example_io) s) = {} \<and> dw_stops (?step (DwEngine 0 example_io) s) = [(?b, Inr ())]"
    if "?at s Terminated [] {''plane-b''}" for s
    using that by (simp add: call_engine_def engine_answer_def example_docker_def docker_engine_def example_stop id
        err_map_def poll_run_def poll_step_def Let_def finish_run_def upd_run_def run_backend_id_def)
  show "xc_runs (dw_exec example_drone) = [\<lparr>r_spec = example_spawn ''d'' ''b'', r_state = Terminated,
      r_phase = AtStart, r_queue = [], r_alive = False\<rparr>]"
    "dw_engine example_drone = {}" "dw_stops example_drone = [(BackendId ''b'', Inr ())]"
    using 5 [OF 4 [OF 3 [OF 2 [OF 1]]]] by (simp_all add: example_drone_def del: dw_step.simps)
qed


theorem docker_spawn_becomes_ready_witness:
  "\<exists>s'. get_proxy_route ''b'' (xc_database (dw_exec s')) = Some (show_ipv4 (10, 0, 0, 7) @ '':8080'') \<and>
     s' = dw_run example_docker example_ext
       [DwExec (EvSpawn (example_spawn ''d'' ''b'') example_io), DwEngine 0 example_io, DwEngine 0 example_io,
        DwExec (EvPoll 0 (AHttp (\<lambda>_. Inr ())) example_io), DwExec (EvPoll 0 (ARoute True 7) example_io)]
       (drone_start drone_database_new {})"
  using docker_spawn_becomes_ready [where spec = "example_spawn ''d'' ''b''" and s = "drone_start drone_database_new {}"
      and api = example_daemon and self = "\<lparr>di_runtime = None, di_network = None\<rparr>" and x = example_ext
      and io = example_io and get = "\<lambda>_. Inr ()" and now = 7 and k = 0 and ?a1.0 = 10 and ?a2.0 = 0 and ?a3.0 = 0
      and ?a4.0 = 7 and net = "''plane''" and ?d1.0 = "{}" and ?d2.0 = "{''plane-b''}" and ?d3.0 = "{''plane-b''}"
      and pulled = "[Inr ()]" and cid = "''plane-b''" and container = example_container
      and st = "\<lparr>cs_running = Some True, cs_exit_code = Some 0\<rparr>"
      and settings = "\<lparr>ns_ip_address = Some [], ns_networks = Some [(''plane'', Some (show_ipv4 (10, 0, 0, 7)))]\<rparr>",
      OF refl refl refl _ _ _ _ _ _ _ _ _ _ _ _ _ _ _ refl]
  by (simp add: example_docker_def drone_start_def executor_new_def drone_database_new_def db_ok_def db_names_def
      example_daemon_def example_container_def example_spawn_def to_resource_name_def RESOURCE_PREFIX_def
      example_ext_def example_io_def del: dw_run.simps)

text \<open>A load that fails after the container was created leaves it behind. When Docker creates the
  container and then refuses to start it, the run ends in \<open>ErrorLoading\<close>, no call of \<open>stop\<close> is made
  and the backend can no longer be killed; only the next start of the agent stops it.\<close>

theorem failed_start_keeps_container:
  assumes "i < length (xc_runs (dw_exec s))" and "r = xc_runs (dw_exec s) ! i" and "r_alive r"
    and "r_state r = Loading" and "r_phase r = AtStart" and "spec = r_spec r" and "b = sp_backend_id spec"
    and "ex = sp_executable spec"
    and "dk_create_image api (ex_image ex) (map_option bollard_credentials (ex_credentials ex)) (dw_engine s) = (d1, pulled)"
    and "\<forall>p \<in> set pulled. p = Inr ()"
    and "dk_create_container api (to_resource_name b) (container_config self (to_resource_name b) (ex_image ex)
      (ex_env ex) (ex_resource_limits ex)) d1 = (d2, Inr cid)"
    and "dk_start_container api cid d2 = (d3, Inl e)" and "tr_backend_id req = b"
    and "s' = dw_run (docker_engine api self) x [DwEngine i io] s"
  shows "r_state (xc_runs (dw_exec s') ! i) = ErrorLoading \<and> \<not> r_alive (xc_runs (dw_exec s') ! i) \<and>
    dw_engine s' = d3 \<and> dw_stops s' = dw_stops s \<and>
    snd (exec_step x (EvKill req) (dw_exec s')) = OutUnknownBackend b"
proof -
  have "load api self spec (dw_engine s) = (d3, Inl e)"
    using assms(7-12) drain_results_ok [of pulled] by (simp add: load_def pull_image_def run_container_def Let_def)
  then have s': "dw_exec s' = poll_run x i (ALoad (Inl (EngineError (docker_text e)))) io (dw_exec s)"
      "dw_engine s' = d3" "dw_stops s' = dw_stops s"
    using assms(1-6,14) by (simp_all add: call_engine_def Let_def engine_answer_def docker_engine_def err_map_def)
  then show ?thesis
    using assms(1-7,13)
    by (simp add: poll_run_def poll_step_def run_nths kill_backend_def run_backend_id_def)
qed


definition example_exited :: ContainerInspectResponse where
  "example_exited = \<lparr>ci_state = Some \<lparr>cs_running = Some False, cs_exit_code = Some 3\<rparr>, ci_network_settings = None\<rparr>"

definition example_dead_daemon :: "string set docker_api" where
  "example_dead_daemon = example_daemon\<lparr>dk_inspect_container := (\<lambda>n d. Inr example_exited)\<rparr>"

definition example_die :: EventMessage where
  "example_die = \<lparr>em_action = Some ''die'', em_actor = Some (Some [(''name'', ''plane-b'')])\<rparr>"


end
