(* ===== verification/Plane_System.thy ===== *)
theory Plane_System
  imports Engine_Run Agent Scheduler Dns_Server Proxy_Service
begin

text \<open>
  The whole system as one machine: a controller with its scheduler and its DNS server, any number of
  drones with their agents, executors, databases and engines, and the messages between them. Its
  events are the events of the components; the subjects decide which drone gets a spawn request.

  NATS is a log of everything published: a message may be received late, more than once, in any order
  or not at all. A spawn request is published when the scheduler handles a request, and the answer of
  the drone is any value, so that lost answers are covered. Processes may stop and start again at any
  time: a controller starts with empty tables, an agent from what its database holds.

  The properties follow a backend through all components: what the DNS server answers and what a proxy
  forwards to was placed on that drone by the scheduler, when the drone had said it was ready; and a
  backend that is placed and comes up is reachable by the name that was given to the client.
\<close>

section \<open>Where the contents of an executor come from\<close>

text \<open>Every run, row, monitor and route stems from a request in \<open>Q\<close>.\<close>

definition db_origin :: "(SpawnRequest \<Rightarrow> string) \<Rightarrow> SpawnRequest set \<Rightarrow> DroneDatabase \<Rightarrow> bool" where
  "db_origin to_json Q db \<longleftrightarrow> db_ok db \<and>
     (\<forall>r \<in> set (db_backend db). \<exists>q \<in> Q. br_name r = backend_id_str (sp_backend_id q) \<and> br_spec r = to_json q) \<and>
     (\<forall>r \<in> set (db_route db). \<exists>q \<in> Q. rr_subdomain r = backend_id_str (sp_backend_id q))"

definition exec_origin :: "(SpawnRequest \<Rightarrow> string) \<Rightarrow> SpawnRequest set \<Rightarrow> executor \<Rightarrow> bool" where
  "exec_origin to_json Q w \<longleftrightarrow>
     r_spec ` set (xc_runs w) \<subseteq> Q \<and> xc_monitor w \<subseteq> sp_backend_id ` Q \<and> db_origin to_json Q (xc_database w)"

lemma db_origin_mono: "db_origin to_json Q db \<Longrightarrow> Q \<subseteq> Q' \<Longrightarrow> db_origin to_json Q' db"
  unfolding db_origin_def by blast

lemma exec_origin_mono: "exec_origin to_json Q w \<Longrightarrow> Q \<subseteq> Q' \<Longrightarrow> exec_origin to_json Q' w"
  unfolding exec_origin_def by (blast intro: db_origin_mono)

lemma exec_origin_new: "db_origin to_json Q db \<Longrightarrow> exec_origin to_json Q (executor_new db)"
  by (simp add: exec_origin_def executor_new_def)

lemma db_origin_insert_backend:
  assumes "db_origin to_json Q db" and "spec \<in> Q"
  shows "db_origin to_json Q (fst (insert_backend to_json spec db))"
proof -
  have "db_ok (fst (insert_backend to_json spec db))" using assms(1) by (simp add: db_origin_def db_ok_intros)
  then show ?thesis using assms by (auto simp: db_origin_def insert_backend_def Let_def)
qed

lemma db_origin_rows:
  assumes "db_origin to_json Q db" and "db_ok db'"
    and "\<And>r'. r' \<in> set (db_backend db') \<Longrightarrow> \<exists>r \<in> set (db_backend db). br_name r' = br_name r \<and> br_spec r' = br_spec r"
    and "\<And>r'. r' \<in> set (db_route db') \<Longrightarrow> \<exists>r \<in> set (db_route db). rr_subdomain r' = rr_subdomain r"
  shows "db_origin to_json Q db'"
  using assms unfolding db_origin_def by metis

lemma db_origin_update_state:
  assumes "db_origin to_json Q db"
  shows "db_origin to_json Q (update_backend_state b st db)"
proof (rule db_origin_rows [OF assms])
  show "db_ok (update_backend_state b st db)" using assms by (simp add: db_origin_def db_ok_intros)
next
  fix r' assume "r' \<in> set (db_backend (update_backend_state b st db))"
  then obtain r where "r \<in> set (db_backend db)"
      "r' = (if br_name r = backend_id_str b then r\<lparr>br_state := state_to_string st\<rparr> else r)"
    by (auto simp: update_backend_state_def)
  then show "\<exists>r \<in> set (db_backend db). br_name r' = br_name r \<and> br_spec r' = br_spec r"
    by (intro bexI [of _ r]) auto
qed (auto simp: update_backend_state_def)

lemma db_origin_insert_route:
  assumes "db_origin to_json Q db" and "spec \<in> Q"
  shows "db_origin to_json Q (fst (insert_proxy_route fk now b (backend_id_str (sp_backend_id spec)) addr db))"
proof -
  have "db_ok (fst (insert_proxy_route fk now b (backend_id_str (sp_backend_id spec)) addr db))"
    using assms(1) by (simp add: db_origin_def db_ok_intros)
  then show ?thesis using assms by (auto simp: db_origin_def insert_proxy_route_def Let_def)
qed

lemma db_origin_reset:
  "db_origin to_json Q db \<Longrightarrow> db_origin to_json Q (reset_last_active_times subs db)"
proof (induction subs db rule: reset_last_active_times.induct)
  case (2 sub now rest db)
  have "db_origin to_json Q (reset_last_active now sub db)"
  proof (rule db_origin_rows [OF "2.prems"])
    show "db_ok (reset_last_active now sub db)" using "2.prems" by (simp add: db_origin_def db_ok_reset)
  qed (auto simp: reset_last_active_def)
  with "2.IH" show ?case by simp
qed simp

lemma db_origin_poll_step:
  assumes "db_origin to_json Q db" and "spec \<in> Q"
  shows "db_origin to_json Q (fst (poll_step x spec st ph ans db))"
proof -
  have "insert_proxy_route fk now b (backend_id_str (sp_backend_id spec)) addr db = (db', v) \<Longrightarrow> db_origin to_json Q db'"
    for fk now b addr db' v
    using db_origin_insert_route [OF assms] by (metis fst_conv)
  then show ?thesis
    using assms(1) unfolding poll_step_def
    by (auto split: BackendState.splits phase.splits answer.splits sum.splits EngineBackendStatus.splits
        option.splits if_splits prod.splits idle.splits)
qed

lemma set_update_subset: "r_spec (f (rs ! i)) = r_spec (rs ! i) \<Longrightarrow> r_spec ` set rs \<subseteq> Q \<Longrightarrow> r_spec ` set (rs[i := f (rs ! i)]) \<subseteq> Q"
  by (cases "i < length rs") (auto simp: list_update_beyond dest!: set_update_subset_insert [THEN subsetD])

lemma exec_origin_upd:
  assumes "exec_origin to_json Q w" and "\<And>r. r_spec (f r) = r_spec r"
  shows "exec_origin to_json Q (upd_run i f w)"
  using assms by (simp add: exec_origin_def upd_run_def set_update_subset)

lemma exec_origin_db:
  "exec_origin to_json Q w \<Longrightarrow> db_origin to_json Q db \<Longrightarrow> exec_origin to_json Q (w\<lparr>xc_database := db\<rparr>)"
  by (simp add: exec_origin_def)

lemma exec_origin_database: "exec_origin to_json Q w \<Longrightarrow> db_origin to_json Q (xc_database w)"
  by (simp add: exec_origin_def)

lemma exec_origin_update:
  "exec_origin to_json Q w \<Longrightarrow> exec_origin to_json Q (exec_update_backend_state io b st w)"
  by (simp add: exec_origin_def exec_update_backend_state_def db_origin_update_state)

lemma exec_origin_monitor:
  "exec_origin to_json Q w \<Longrightarrow> b \<in> sp_backend_id ` Q \<Longrightarrow> exec_origin to_json Q (start_monitor b st w)"
  by (auto simp: exec_origin_def start_monitor_def)

lemma exec_origin_finish: "exec_origin to_json Q w \<Longrightarrow> exec_origin to_json Q (finish_run i w)"
  unfolding finish_run_def Let_def
  by (rule exec_origin_upd) (auto simp: exec_origin_def)

lemma exec_origin_run: "exec_origin to_json Q w \<Longrightarrow> i < length (xc_runs w) \<Longrightarrow> r_spec (xc_runs w ! i) \<in> Q"
  by (auto simp: exec_origin_def)

lemma exec_origin_set_state: "exec_origin to_json Q w \<Longrightarrow> exec_origin to_json Q (set_run_state i st w)"
  unfolding set_run_state_def by (rule exec_origin_upd) auto

lemma exec_origin_handle:
  assumes "exec_origin to_json Q w" and "i < length (xc_runs w)"
  shows "exec_origin to_json Q (handle_next_state io i next w)"
proof (cases "next")
  case (Inl e)
  then show ?thesis using assms
    by (auto intro!: exec_origin_finish exec_origin_update exec_origin_set_state split: BackendState.splits)
next
  case (Inr o')
  have "run_backend_id (xc_runs w ! i) \<in> sp_backend_id ` Q"
    using exec_origin_run [OF assms] by (simp add: run_backend_id_def)
  then show ?thesis using assms Inr
    by (cases o') (auto simp: Let_def intro!: exec_origin_finish exec_origin_update exec_origin_monitor exec_origin_set_state)
qed

lemma exec_origin_poll:
  assumes "exec_origin to_json Q w"
  shows "exec_origin to_json Q (poll_run x i ans io w)"
proof (cases "i < length (xc_runs w) \<and> r_alive (xc_runs w ! i)")
  case True
  let ?r = "xc_runs w ! i"
  obtain db p where p: "poll_step x (r_spec ?r) (r_state ?r) (r_phase ?r) ans (xc_database w) = (db, p)"
    by (cases "poll_step x (r_spec ?r) (r_state ?r) (r_phase ?r) ans (xc_database w)")
  have "db_origin to_json Q (fst (poll_step x (r_spec ?r) (r_state ?r) (r_phase ?r) ans (xc_database w)))"
    by (rule db_origin_poll_step) (use assms True exec_origin_run [OF assms] in \<open>auto simp: exec_origin_def\<close>)
  then have "exec_origin to_json Q (w\<lparr>xc_database := db\<rparr>)" using assms p by (simp add: exec_origin_db)
  then show ?thesis using True p
    by (cases p) (auto simp: poll_run_def intro!: exec_origin_upd exec_origin_handle)
qed (use assms in \<open>auto simp: poll_run_def\<close>)

lemma exec_origin_register:
  "exec_origin to_json Q w \<Longrightarrow> spec \<in> Q \<Longrightarrow> exec_origin to_json Q (register_run spec st w)"
  by (auto simp: exec_origin_def register_run_def)

lemma exec_origin_spawn:
  assumes "exec_origin (x_to_json x) Q w" and "spec \<in> Q"
  shows "exec_origin (x_to_json x) Q (start_backend x io spec w)"
  unfolding start_backend_def using assms db_origin_insert_backend [of "x_to_json x" Q "xc_database w" spec]
  by (intro exec_origin_register) (auto simp: exec_origin_def publish_state_def)

lemma collect_results_Inr: "collect_results rs = Inr as \<Longrightarrow> a \<in> set as \<Longrightarrow> Inr a \<in> set rs"
  by (induction rs arbitrary: as) (auto simp: bindR_Inr_iff)

lemma get_backends_origin:
  assumes "db_origin to_json Q db" and "\<And>q. q \<in> Q \<Longrightarrow> from_json (to_json q) = Some q"
    and "get_backends from_json db = Inr bks" and "bk \<in> set bks"
  shows "bk_spec bk \<in> Q" and "bk_backend_id bk = sp_backend_id (bk_spec bk)"
proof -
  have "Inr bk \<in> set (map (decode_backend from_json) (db_backend db))"
    using assms(3,4) unfolding get_backends_def by (rule collect_results_Inr)
  then obtain r where r: "r \<in> set (db_backend db)" "decode_backend from_json r = Inr bk" by auto
  then obtain q where "q \<in> Q" "br_name r = backend_id_str (sp_backend_id q)" "br_spec r = to_json q"
    using assms(1) unfolding db_origin_def by blast
  then show "bk_spec bk \<in> Q" and "bk_backend_id bk = sp_backend_id (bk_spec bk)"
    using r(2) assms(2) by (cases "sp_backend_id q", auto simp: decode_backend_def bindR_Inr_iff)+
qed

lemma exec_origin_resume:
  assumes "exec_origin to_json Q w" and "\<And>bk. bk \<in> set bks \<Longrightarrow> bk_spec bk \<in> Q \<and> bk_backend_id bk = sp_backend_id (bk_spec bk)"
  shows "exec_origin to_json Q (fold resume_backend bks w)"
  using assms
proof (induction bks arbitrary: w)
  case (Cons bk bks)
  have "exec_origin to_json Q (resume_backend bk w)"
    unfolding resume_backend_def using Cons.prems by (intro exec_origin_register exec_origin_monitor) auto
  then show ?case using Cons by simp
qed simp

lemma exec_origin_resume_backends:
  assumes "exec_origin (x_to_json x) Q w" and "\<And>q. q \<in> Q \<Longrightarrow> x_from_json x (x_to_json x q) = Some q"
  shows "exec_origin (x_to_json x) Q (fst (resume_backends x w))"
proof (cases "get_backends (x_from_json x) (xc_database w)")
  case (Inr bks)
  have "db_origin (x_to_json x) Q (xc_database w)" using assms(1) by (simp add: exec_origin_def)
  from get_backends_origin [OF this assms(2) Inr] show ?thesis
    using Inr assms(1) by (simp add: resume_backends_def exec_origin_resume)
qed (use assms in \<open>simp add: resume_backends_def\<close>)

lemma exec_origin_recv: "exec_origin to_json Q w \<Longrightarrow> exec_origin to_json Q (recv_run i io w)"
  unfolding recv_run_def
  by (auto intro!: exec_origin_upd exec_origin_handle simp del: handle_next_state.simps
      split: list.splits Signal.splits)

lemma exec_origin_kill: "exec_origin to_json Q w \<Longrightarrow> exec_origin to_json Q (fst (kill_backend req w))"
  by (auto simp: kill_backend_def send_signal_def intro!: exec_origin_upd split: option.splits)

lemma exec_origin_event: "exec_origin to_json Q w \<Longrightarrow> exec_origin to_json Q (fst (container_event b w))"
  by (auto simp: container_event_def send_signal_def intro!: exec_origin_upd split: option.splits)

lemma exec_origin_task:
  assumes "exec_origin to_json Q w" and "is_task e"
  shows "exec_origin to_json Q (fst (exec_step x e w))"
proof (cases e)
  case (EvTouch subs)
  then show ?thesis using assms(1) by (simp add: exec_origin_db exec_origin_database db_origin_reset)
qed (use assms in \<open>simp_all add: exec_origin_poll exec_origin_recv exec_origin_event\<close>)

lemma agent_step_origin:
  assumes "agent_step x version e a = Inr a'" and "exec_origin (x_to_json x) Q (ag_executor a)"
    and "\<And>q. q \<in> Q \<Longrightarrow> x_from_json x (x_to_json x q) = Some q"
    and "\<And>q responded io. e = AgSpawn (Some q) responded io \<Longrightarrow> q \<in> Q"
  shows "exec_origin (x_to_json x) Q (ag_executor a')"
proof (cases e)
  case (AgListen subscribed queried)
  have "exec_origin (x_to_json x) Q (fst (resume_backends x (ag_executor a)))"
    using assms(2,3) by (rule exec_origin_resume_backends)
  then show ?thesis using AgListen assms(1,2)
    by (auto simp: listen_start_def split: agent_step_splits)
next
  case (AgSpawn req responded io)
  then show ?thesis using assms(1,2,4)
    by (cases req) (auto simp: spawn_request_step_def exec_origin_spawn split: agent_step_splits)
next
  case (AgTerminate req responded)
  then show ?thesis using assms(1,2)
    by (auto simp: termination_request_step_def exec_origin_kill split: agent_step_splits)
next
  case (AgTask t)
  then show ?thesis using assms(1,2) by (auto simp: exec_origin_task split: if_splits)
qed (use assms(1,2) in \<open>auto simp: agent_step_defs split: agent_step_splits\<close>)

section \<open>The system\<close>

text \<open>A spawn request that the scheduler has published, with the cluster, the time and the statuses by
  which it chose the drone.\<close>

record placement =
  pm_request :: SpawnRequest
  pm_cluster :: ClusterName
  pm_time :: systime
  pm_history :: status_history

record 'd node =
  nd_agent :: agent
  nd_engine :: 'd
  nd_up :: bool
  nd_ip :: IpAddr

record 'd plane_env =
  py_engine :: "'d engine"
  py_ext :: drone_ext
  py_version :: string
  py_sub :: "systime \<Rightarrow> duration \<Rightarrow> systime option"

record 'd plane =
  pl_email :: "string option"
  pl_sched :: sched_world
  pl_received :: status_history
  pl_dns :: "dns_server option"
  pl_nodes :: "'d node list"
  pl_statuses :: "DroneStatusMessage list"
  pl_spawns :: "placement list"
  pl_records :: "SetDnsRecord list"

text \<open>Messages are named by their position in the log, drones by their position in the list.\<close>

datatype 'd plane_event =
    PlStatus nat systime
  | PlSchedule ScheduleRequest systime string "DroneId list \<Rightarrow> DroneId option" "unit + bool" bool
  | PlController
  | PlSpawn nat nat bool io
  | PlAgent nat agent_event
  | PlEngine nat nat io
  | PlOutside nat 'd
  | PlRestart nat bool bool
  | PlPublish nat BackendId
  | PlChallenge SetDnsRecord
  | PlRecord nat systime systime
  | PlQuery string RecordType systime

definition controller_start :: "'d plane \<Rightarrow> 'd plane" where
  "controller_start s =
     s\<lparr>pl_sched := sched_world_init, pl_received := [], pl_dns := Some (dns_server_new (pl_email s))\<rparr>"

definition node_agent :: "'d plane_env \<Rightarrow> agent_event \<Rightarrow> 'd node \<Rightarrow> 'd node" where
  "node_agent env e n =
     (if nd_up n
      then (case agent_step (py_ext env) (py_version env) e (nd_agent n) of
              Inr a \<Rightarrow> n\<lparr>nd_agent := a\<rparr>
            | Inl _ \<Rightarrow> n\<lparr>nd_up := False\<rparr>)
      else n)"

definition node_world :: "'d node \<Rightarrow> 'd drone_world" where
  "node_world n = \<lparr>dw_exec = ag_executor (nd_agent n), dw_engine = nd_engine n, dw_stops = []\<rparr>"

definition node_engine :: "'d plane_env \<Rightarrow> nat \<Rightarrow> io \<Rightarrow> 'd node \<Rightarrow> 'd node" where
  "node_engine env i io n =
     (if nd_up n
      then (let s = call_engine (py_engine env) (py_ext env) i io (node_world n)
            in n\<lparr>nd_agent := (nd_agent n)\<lparr>ag_executor := dw_exec s\<rparr>, nd_engine := dw_engine s\<rparr>)
      else n)"

text \<open>The agent process is started again, on its old database and with its configured address.\<close>

definition node_restart :: "'d plane_env \<Rightarrow> bool \<Rightarrow> bool \<Rightarrow> 'd node \<Rightarrow> 'd node" where
  "node_restart env docker_ok publish_ok n =
     (let a = nd_agent n
      in case run_agent_start (py_ext env) docker_ok (\<lambda>_. Inr (nd_ip n)) publish_ok (ag_drone_id a) (ag_cluster a)
                (xc_database (ag_executor a)) of
           Some (Inr (announced, a')) \<Rightarrow> n\<lparr>nd_agent := a', nd_up := True\<rparr>
         | _ \<Rightarrow> n\<lparr>nd_up := False\<rparr>)"

definition on_node :: "nat \<Rightarrow> ('d node \<Rightarrow> 'd node) \<Rightarrow> 'd plane \<Rightarrow> 'd plane" where
  "on_node i f s =
     (if i < length (pl_nodes s)
      then (let n = pl_nodes s ! i; n' = f n
            in s\<lparr>pl_nodes := (pl_nodes s)[i := n'],
                 pl_statuses := pl_statuses s @ drop (length (ag_statuses (nd_agent n))) (ag_statuses (nd_agent n'))\<rparr>)
      else s)"

text \<open>The events of an agent that do not depend on another component of the machine.\<close>

fun local_event :: "agent_event \<Rightarrow> bool" where
  "local_event (AgSpawn (Some _) _ _) = False"
| "local_event (AgTask e) = (\<not> engine_event e)"
| "local_event _ = True"

fun plane_step :: "'d plane_env \<Rightarrow> 'd plane_event \<Rightarrow> 'd plane \<Rightarrow> 'd plane" where
  "plane_step env (PlStatus k now) s =
     (if k < length (pl_statuses s)
      then (case run_scheduler_step (py_sub env) (StatusNext (Some (pl_statuses s ! k)) now) (pl_sched s) of
              Some (Inr w) \<Rightarrow> s\<lparr>pl_sched := w, pl_received := pl_received s @ [(now, pl_statuses s ! k)]\<rparr>
            | _ \<Rightarrow> controller_start s)
      else s)"
| "plane_step env (PlSchedule q now uuid pick answer sent) s =
     (case run_scheduler_step (py_sub env) (SpawnNext (Some q) now uuid pick answer True) (pl_sched s) of
        Some (Inr w) \<Rightarrow>
          (let s' = s\<lparr>pl_sched := w,
                      pl_spawns := pl_spawns s @ map (\<lambda>r. \<lparr>pm_request = r, pm_cluster = sq_cluster q, pm_time = now,
                        pm_history = pl_received s\<rparr>) (drop (length (sw_spawned (pl_sched s))) (sw_spawned w))\<rparr>
           in if sent then s' else controller_start s')
      | _ \<Rightarrow> controller_start s)"
| "plane_step env PlController s = controller_start s"
| "plane_step env (PlSpawn i k responded io) s =
     (if i < length (pl_nodes s) \<and> k < length (pl_spawns s) \<and>
         subject_instance (spawn_subscribe_subject (ag_drone_id (nd_agent (pl_nodes s ! i))))
           (spawn_subject (pm_request (pl_spawns s ! k)))
      then on_node i (node_agent env (AgSpawn (Some (pm_request (pl_spawns s ! k))) responded io)) s
      else s)"
| "plane_step env (PlAgent i e) s = (if local_event e then on_node i (node_agent env e) s else s)"
| "plane_step env (PlEngine i j io) s = on_node i (node_engine env j io) s"
| "plane_step env (PlOutside i d) s = on_node i (\<lambda>n. n\<lparr>nd_engine := d\<rparr>) s"
| "plane_step env (PlRestart i docker_ok publish_ok) s = on_node i (node_restart env docker_ok publish_ok) s"
| "plane_step env (PlPublish i b) s =
     (if i < length (pl_nodes s) \<and> nd_up (pl_nodes s ! i) \<and> b \<in> xc_monitor (ag_executor (nd_agent (pl_nodes s ! i)))
      then s\<lparr>pl_records := pl_records s @ [dns_loop_record (x_show_v6 (py_ext env)) b (nd_ip (pl_nodes s ! i))
             (ag_cluster (nd_agent (pl_nodes s ! i)))]\<rparr>
      else s)"
| "plane_step env (PlChallenge v) s = (if sd_kind v = RecTXT then s\<lparr>pl_records := pl_records s @ [v]\<rparr> else s)"
| "plane_step env (PlRecord k now now2) s =
     (if k < length (pl_records s)
      then s\<lparr>pl_dns := Option.bind (pl_dns s) (handle_set_dns_record (pl_records s ! k) now now2)\<rparr>
      else s)"
| "plane_step env (PlQuery name qtype now) s =
     s\<lparr>pl_dns := map_option (\<lambda>dns. snd (do_lookup dns name qtype now)) (pl_dns s)\<rparr>"

fun plane_run :: "'d plane_env \<Rightarrow> 'd plane_event list \<Rightarrow> 'd plane \<Rightarrow> 'd plane" where
  "plane_run env [] s = s"
| "plane_run env (e # es) s = plane_run env es (plane_step env e s)"

lemma plane_run_append: "plane_run env (es @ fs) s = plane_run env fs (plane_run env es s)"
  by (induction es arbitrary: s) (simp_all del: plane_step.simps)

text \<open>A new drone, and a system of new drones.\<close>

definition node_new :: "'d \<Rightarrow> DroneId \<times> ClusterName \<times> IpAddr \<Rightarrow> 'd node" where
  "node_new d k =
     (case k of (drone, cluster, ip) \<Rightarrow>
        \<lparr>nd_agent = \<lparr>ag_drone_id = drone, ag_cluster = cluster, ag_executor = executor_new drone_database_new,
           ag_listening = False, ag_ready = True, ag_statuses = []\<rparr>, nd_engine = d, nd_up = False, nd_ip = ip\<rparr>)"

definition plane_new :: "string option \<Rightarrow> 'd \<Rightarrow> (DroneId \<times> ClusterName \<times> IpAddr) list \<Rightarrow> 'd plane" where
  "plane_new email d ks =
     \<lparr>pl_email = email, pl_sched = sched_world_init, pl_received = [], pl_dns = Some (dns_server_new email),
      pl_nodes = map (node_new d) ks, pl_statuses = [], pl_spawns = [], pl_records = []\<rparr>"

section \<open>What every event keeps\<close>

text \<open>The identity of a drone, and the requests that were placed on it.\<close>

definition node_key :: "'d node \<Rightarrow> DroneId \<times> ClusterName \<times> IpAddr" where
  "node_key n = (ag_drone_id (nd_agent n), ag_cluster (nd_agent n), nd_ip n)"

definition drones :: "'d plane \<Rightarrow> (DroneId \<times> ClusterName \<times> IpAddr) set" where
  "drones s = set (map node_key (pl_nodes s))"

text \<open>Everything in a history was published.\<close>

definition heard :: "status_history \<Rightarrow> DroneStatusMessage list \<Rightarrow> bool" where
  "heard h ms \<longleftrightarrow> (\<forall>e \<in> set h. snd e \<in> set ms)"

definition placed_on :: "DroneId \<Rightarrow> placement list \<Rightarrow> SpawnRequest set" where
  "placed_on d ps = {pm_request p | p. p \<in> set ps \<and> sp_drone_id (pm_request p) = d}"

lemma placed_on_append: "placed_on d ps \<subseteq> placed_on d (ps @ qs)"
  by (auto simp: placed_on_def)

lemma node_agent_key: "node_key (node_agent env e n) = node_key n"
  by (auto simp: node_key_def node_agent_def agent_step_keeps split: sum.splits)

lemma node_engine_key: "node_key (node_engine env j io n) = node_key n"
  by (simp add: node_key_def node_engine_def Let_def)

lemma run_agent_start_agent:
  assumes "run_agent_start x docker_ok get publish_ok drone cluster db = Some (Inr (announced, a))"
  shows "ag_drone_id a = drone" and "ag_cluster a = cluster" and "ag_executor a = executor_new db" and "ag_statuses a = []"
  using assms by (auto simp: run_agent_start_def split: if_splits option.splits sum.splits)

lemma node_restart_key: "node_key (node_restart env docker_ok publish_ok n) = node_key n"
  by (auto simp: node_key_def node_restart_def Let_def run_agent_start_agent split: option.splits sum.splits)

lemmas node_keys = node_agent_key node_engine_key node_restart_key

lemma on_node_simps [simp]:
  "pl_email (on_node i f s) = pl_email s" "pl_sched (on_node i f s) = pl_sched s"
  "pl_received (on_node i f s) = pl_received s" "pl_dns (on_node i f s) = pl_dns s"
  "pl_spawns (on_node i f s) = pl_spawns s" "pl_records (on_node i f s) = pl_records s"
  by (simp_all add: on_node_def Let_def)

lemma on_node_keys:
  assumes "\<And>n. node_key (f n) = node_key n"
  shows "map node_key (pl_nodes (on_node i f s)) = map node_key (pl_nodes s)"
  using assms by (auto simp: on_node_def Let_def map_update intro!: nth_equalityI simp: nth_list_update)

lemma plane_step_keys: "map node_key (pl_nodes (plane_step env e s)) = map node_key (pl_nodes s)"
proof (cases e)
  case (PlOutside i d)
  then show ?thesis by (simp add: on_node_keys node_key_def)
qed (auto simp: on_node_keys node_keys controller_start_def Let_def split: option.splits sum.splits)

lemma plane_run_keys: "map node_key (pl_nodes (plane_run env es s)) = map node_key (pl_nodes s)"
  by (induction es arbitrary: s) (simp_all add: plane_step_keys del: plane_step.simps)

lemma drones_step: "drones (plane_step env e s) = drones s"
  by (simp add: drones_def plane_step_keys del: set_map plane_step.simps)

lemma drones_run: "drones (plane_run env es s) = drones s"
  by (simp add: drones_def plane_run_keys del: set_map)

lemma drones_on_node: "(\<And>n. node_key (f n) = node_key n) \<Longrightarrow> drones (on_node i f s) = drones s"
  by (simp add: drones_def on_node_keys del: set_map)

lemma drones_nth: "i < length (pl_nodes s) \<Longrightarrow> node_key (pl_nodes s ! i) \<in> drones s"
  by (simp add: drones_def)

lemma drones_simps [simp]:
  "drones (s\<lparr>pl_sched := w\<rparr>) = drones s" "drones (s\<lparr>pl_received := h\<rparr>) = drones s" "drones (s\<lparr>pl_dns := d\<rparr>) = drones s"
  "drones (s\<lparr>pl_spawns := ps\<rparr>) = drones s" "drones (s\<lparr>pl_records := rs\<rparr>) = drones s"
  by (simp_all add: drones_def)

lemma heard_append: "heard h ms \<Longrightarrow> heard h (ms @ ns)"
  by (simp add: heard_def)

text \<open>The requests of a log are read back from their encodings.\<close>

definition encodes :: "drone_ext \<Rightarrow> placement list \<Rightarrow> bool" where
  "encodes x ps \<longleftrightarrow> (\<forall>p \<in> set ps. x_from_json x (x_to_json x (pm_request p)) = Some (pm_request p))"

lemma plane_step_spawns: "\<exists>ps. pl_spawns (plane_step env e s) = pl_spawns s @ ps"
  by (cases e) (auto simp: controller_start_def Let_def simp del: run_scheduler_step.simps split: option.splits sum.splits)

lemma plane_run_spawns: "\<exists>ps. pl_spawns (plane_run env es s) = pl_spawns s @ ps"
proof (induction es arbitrary: s)
  case (Cons e es)
  from plane_step_spawns [of env e s] Cons [of "plane_step env e s"] show ?case by auto
qed simp

section \<open>The scheduler only places on live drones\<close>

definition sched_inv :: "'d plane \<Rightarrow> bool" where
  "sched_inv s \<longleftrightarrow>
     sw_scheduler (pl_sched s) = statuses (pl_received s) \<and> heard (pl_received s) (pl_statuses s) \<and>
     (\<forall>m \<in> set (pl_statuses s). \<exists>ip. (ds_drone_id m, ds_cluster m, ip) \<in> drones s) \<and>
     (\<forall>p \<in> set (pl_spawns s). live_drone (pm_history p) (pm_time p) (pm_cluster p) (sp_drone_id (pm_request p)) \<and>
        heard (pm_history p) (pl_statuses s))"

fun event_ok :: "'d plane_env \<Rightarrow> 'd plane_event \<Rightarrow> bool" where
  "event_ok env (PlSchedule q now uuid pick answer sent) = (pick_ok pick \<and> sub_ok (py_sub env) now)"
| "event_ok env _ = True"

lemma scheduled_requests:
  assumes "run_scheduler_step checked_sub (SpawnNext (Some q) now uuid pick answer True) w = Some (Inr w')"
    and "pick_ok pick" and "sub_ok checked_sub now" and "sw_scheduler w = statuses h"
  shows "sw_scheduler w' = sw_scheduler w \<and>
    (\<forall>r \<in> set (drop (length (sw_spawned w)) (sw_spawned w')). live_drone h now (sq_cluster q) (sp_drone_id r))"
  using schedule_cases [OF assms(2,3), of h "sq_cluster q"] assms(1,4)
  by (auto simp: Let_def schedule_request_schedule_def split: sum.splits bool.splits)

lemma sched_inv_controller: "sched_inv s \<Longrightarrow> sched_inv (controller_start s)"
  by (simp add: sched_inv_def controller_start_def sched_world_init_def statuses_def heard_def)

text \<open>A status that a drone publishes carries its own identity.\<close>

definition own_statuses :: "('d node \<Rightarrow> 'd node) \<Rightarrow> bool" where
  "own_statuses f \<longleftrightarrow> (\<forall>n. node_key (f n) = node_key n \<and>
     (\<forall>m \<in> set (drop (length (ag_statuses (nd_agent n))) (ag_statuses (nd_agent (f n)))).
        ds_drone_id m = ag_drone_id (nd_agent n) \<and> ds_cluster m = ag_cluster (nd_agent n)))"

lemma agent_step_statuses:
  assumes "agent_step x version e a = Inr a'"
  shows "\<exists>new. ag_statuses a' = ag_statuses a @ new \<and>
    (\<forall>m \<in> set new. ds_drone_id m = ag_drone_id a \<and> ds_cluster m = ag_cluster a)"
  using assms by (cases e) (auto simp: agent_step_defs ready_status_def split: agent_step_splits)

lemma own_statuses_agent: "own_statuses (node_agent env e)"
  unfolding own_statuses_def
proof (intro allI conjI node_agent_key)
  fix n :: "'a node"
  show "\<forall>m \<in> set (drop (length (ag_statuses (nd_agent n))) (ag_statuses (nd_agent (node_agent env e n)))).
      ds_drone_id m = ag_drone_id (nd_agent n) \<and> ds_cluster m = ag_cluster (nd_agent n)"
    using agent_step_statuses [of "py_ext env" "py_version env" e "nd_agent n"]
    by (cases "agent_step (py_ext env) (py_version env) e (nd_agent n)") (auto simp: node_agent_def)
qed

lemma own_statuses_engine: "own_statuses (node_engine env j io)"
  by (simp add: own_statuses_def node_keys) (simp add: node_engine_def Let_def)

lemma own_statuses_outside: "own_statuses (\<lambda>n. n\<lparr>nd_engine := d\<rparr>)"
  by (simp add: own_statuses_def node_key_def)

lemma own_statuses_restart: "own_statuses (node_restart env docker_ok publish_ok)"
  by (simp add: own_statuses_def node_keys)
    (auto simp: node_restart_def Let_def run_agent_start_agent split: option.splits sum.splits)

lemmas own_statuses_nodes = own_statuses_agent own_statuses_engine own_statuses_outside own_statuses_restart

lemma sched_inv_node:
  assumes "sched_inv s" and "own_statuses f"
  shows "sched_inv (on_node i f s)"
proof (cases "i < length (pl_nodes s)")
  case True
  let ?n = "pl_nodes s ! i" and ?new = "drop (length (ag_statuses (nd_agent (pl_nodes s ! i)))) (ag_statuses (nd_agent (f (pl_nodes s ! i))))"
  have keys: "drones (on_node i f s) = drones s"
    using assms(2) by (simp add: own_statuses_def drones_on_node)
  have "\<forall>m \<in> set ?new. (ds_drone_id m, ds_cluster m, nd_ip ?n) \<in> drones s"
    using assms(2) drones_nth [OF True] unfolding own_statuses_def node_key_def by auto
  then show ?thesis using assms(1) True unfolding sched_inv_def keys
    by (auto simp: on_node_def Let_def heard_append)
qed (use assms in \<open>simp add: on_node_def\<close>)

lemma sched_inv_step:
  assumes "sched_inv s" and "event_ok env e"
  shows "sched_inv (plane_step env e s)"
proof (cases e)
  case (PlStatus k now)
  then show ?thesis using assms(1) by (auto simp: sched_inv_def statuses_snoc heard_def)
next
  case (PlSchedule q now uuid pick answer sent)
  let ?r = "run_scheduler_step (py_sub env) (SpawnNext (Some q) now uuid pick answer True) (pl_sched s)"
  show ?thesis
  proof (cases "\<exists>w. ?r = Some (Inr w)")
    case True
    then obtain w where w: "?r = Some (Inr w)" by blast
    let ?s = "s\<lparr>pl_sched := w, pl_spawns := pl_spawns s @ map (\<lambda>r. \<lparr>pm_request = r, pm_cluster = sq_cluster q, pm_time = now,
      pm_history = pl_received s\<rparr>) (drop (length (sw_spawned (pl_sched s))) (sw_spawned w))\<rparr>"
    have "sched_inv ?s"
      using scheduled_requests [OF w, of "pl_received s"] assms PlSchedule by (auto simp: sched_inv_def)
    then show ?thesis using w PlSchedule by (simp add: Let_def sched_inv_controller del: run_scheduler_step.simps)
  next
    case False
    then show ?thesis using PlSchedule assms(1)
      by (auto simp: sched_inv_controller simp del: run_scheduler_step.simps split: option.splits sum.splits)
  qed
next
  case (PlAgent i a)
  then show ?thesis using assms(1) by (simp add: sched_inv_node own_statuses_nodes)
qed (use assms in \<open>simp_all add: sched_inv_node own_statuses_nodes sched_inv_controller\<close>, simp_all add: sched_inv_def)

section \<open>Executors, records and the DNS server\<close>

definition node_inv :: "drone_ext \<Rightarrow> 'd plane \<Rightarrow> bool" where
  "node_inv x s \<longleftrightarrow> (\<forall>n \<in> set (pl_nodes s).
     exec_origin (x_to_json x) (placed_on (ag_drone_id (nd_agent n)) (pl_spawns s)) (ag_executor (nd_agent n)))"

definition record_inv :: "drone_ext \<Rightarrow> 'd plane \<Rightarrow> bool" where
  "record_inv x s \<longleftrightarrow> (\<forall>v \<in> set (pl_records s). sd_kind v = RecA \<longrightarrow>
     (\<exists>d c ip. (d, c, ip) \<in> drones s \<and>
        (\<exists>q \<in> placed_on d (pl_spawns s). v = dns_loop_record (x_show_v6 x) (sp_backend_id q) ip c)))"

definition a_record :: "SetDnsRecord \<Rightarrow> RecordKey \<Rightarrow> RData \<Rightarrow> bool" where
  "a_record r k v \<longleftrightarrow> sd_kind r = RecA \<and> k = \<lparr>rk_cluster = sd_cluster r, rk_name = sd_name r\<rparr> \<and>
     (\<exists>ip. parse_ipv4 (sd_value r) = Some ip \<and> v = RD_A ip)"

definition dns_from :: "SetDnsRecord list \<Rightarrow> dns_server \<Rightarrow> bool" where
  "dns_from rs dns \<longleftrightarrow> tm_ttl (a_record_map dns) = set_dns_ttl \<and> (\<forall>k e v. tm_inner (a_record_map dns) k = Some (e, v) \<longrightarrow> (\<exists>r \<in> set rs. a_record r k v))"

definition dns_inv :: "'d plane \<Rightarrow> bool" where
  "dns_inv s \<longleftrightarrow> (\<forall>dns. pl_dns s = Some dns \<longrightarrow> dns_from (pl_records s) dns)"

text \<open>The drone of a placement is one of the system, of the cluster the request was for.\<close>

lemma placement_drone:
  assumes "sched_inv s" and "p \<in> set (pl_spawns s)"
  shows "\<exists>ip. (sp_drone_id (pm_request p), pm_cluster p, ip) \<in> drones s"
proof -
  have live: "live_drone (pm_history p) (pm_time p) (pm_cluster p) (sp_drone_id (pm_request p))"
    and "heard (pm_history p) (pl_statuses s)"
    using assms unfolding sched_inv_def by auto
  then obtain t m where "(t, m) \<in> set (pm_history p)" "ds_cluster m = pm_cluster p" "ds_drone_id m = sp_drone_id (pm_request p)"
    by (auto simp: live_drone_def last_message_def find_Some_iff split: option.splits)
      (metis nth_mem set_rev length_rev)
  with \<open>heard _ _\<close> show ?thesis using assms(1) unfolding sched_inv_def heard_def by force
qed

lemma delivered_request:
  assumes "sched_inv s" and "\<forall>(d, c, ip) \<in> drones s. wf_drone_id d"
    and "p \<in> set (pl_spawns s)" and "i < length (pl_nodes s)"
    and "subject_instance (spawn_subscribe_subject (ag_drone_id (nd_agent (pl_nodes s ! i)))) (spawn_subject (pm_request p))"
  shows "pm_request p \<in> placed_on (ag_drone_id (nd_agent (pl_nodes s ! i))) (pl_spawns s)"
proof -
  obtain c ip where "(sp_drone_id (pm_request p), c, ip) \<in> drones s" using placement_drone [OF assms(1,3)] by blast
  then have "wf_drone_id (sp_drone_id (pm_request p))" using assms(2) by auto
  moreover have "wf_drone_id (ag_drone_id (nd_agent (pl_nodes s ! i)))"
    using assms(2) drones_nth [OF assms(4)] by (auto simp: node_key_def)
  ultimately have "sp_drone_id (pm_request p) = ag_drone_id (nd_agent (pl_nodes s ! i))"
    using spawn_msg.routing assms(5) by blast
  then show ?thesis using assms(3) by (auto simp: placed_on_def)
qed

lemma node_agent_origin:
  assumes "exec_origin (x_to_json (py_ext env)) Q (ag_executor (nd_agent n))"
    and "\<And>q. q \<in> Q \<Longrightarrow> x_from_json (py_ext env) (x_to_json (py_ext env) q) = Some q"
    and "\<And>q responded io. e = AgSpawn (Some q) responded io \<Longrightarrow> q \<in> Q"
  shows "exec_origin (x_to_json (py_ext env)) Q (ag_executor (nd_agent (node_agent env e n)))"
  using assms agent_step_origin [OF _ assms(1,2)] by (auto simp: node_agent_def split: sum.splits)

lemma node_engine_origin:
  assumes "exec_origin to_json Q (ag_executor (nd_agent n))"
  shows "exec_origin to_json Q (ag_executor (nd_agent (node_engine env j io n)))"
  using assms
  by (auto simp: node_engine_def call_engine_def node_world_def Let_def exec_origin_poll split: prod.splits)

lemma node_restart_origin:
  assumes "exec_origin to_json Q (ag_executor (nd_agent n))"
  shows "exec_origin to_json Q (ag_executor (nd_agent (node_restart env docker_ok publish_ok n)))"
  using assms
  by (auto simp: node_restart_def Let_def run_agent_start_agent exec_origin_new exec_origin_database
      split: option.splits sum.splits)

lemma node_inv_on_node:
  assumes "node_inv x s" and "\<And>n. node_key (f n) = node_key n"
    and "\<And>n. i < length (pl_nodes s) \<Longrightarrow> n = pl_nodes s ! i \<Longrightarrow>
      exec_origin (x_to_json x) (placed_on (ag_drone_id (nd_agent n)) (pl_spawns s)) (ag_executor (nd_agent n)) \<Longrightarrow>
      exec_origin (x_to_json x) (placed_on (ag_drone_id (nd_agent n)) (pl_spawns s)) (ag_executor (nd_agent (f n)))"
  shows "node_inv x (on_node i f s)"
proof (cases "i < length (pl_nodes s)")
  case True
  have "ag_drone_id (nd_agent (f n)) = ag_drone_id (nd_agent n)" for n
    using assms(2) [of n] by (simp add: node_key_def)
  then show ?thesis using assms(1) assms(3) [OF True refl] True
    by (auto simp: node_inv_def on_node_def Let_def dest!: set_update_subset_insert [THEN subsetD])
qed (use assms(1) in \<open>simp add: on_node_def\<close>)

lemma node_inv_spawns:
  assumes "node_inv x s" and "pl_nodes s' = pl_nodes s" and "pl_spawns s' = pl_spawns s @ ps"
  shows "node_inv x s'"
  using assms exec_origin_mono [OF _ placed_on_append] unfolding node_inv_def by auto

lemma node_inv_step:
  assumes "node_inv (py_ext env) s" and "sched_inv s" and "\<forall>(d, c, ip) \<in> drones s. wf_drone_id d"
    and "encodes (py_ext env) (pl_spawns s)"
  shows "node_inv (py_ext env) (plane_step env e s)"
proof -
  have json: "q \<in> placed_on d (pl_spawns s) \<Longrightarrow> x_from_json (py_ext env) (x_to_json (py_ext env) q) = Some q" for q d
    using assms(4) by (auto simp: encodes_def placed_on_def)
  show ?thesis
  proof (cases e)
    case (PlSpawn i k responded io)
    then show ?thesis using assms(1) json delivered_request [OF assms(2,3), of "pl_spawns s ! k" i]
      by (auto intro!: node_inv_on_node node_agent_origin simp: node_keys)
  next
    case (PlAgent i a)
    then show ?thesis using assms(1) json
      by (auto intro!: node_inv_on_node node_agent_origin simp: node_keys)
  next
    case (PlOutside i d)
    then show ?thesis using assms(1) by (auto intro!: node_inv_on_node simp: node_key_def)
  qed (use assms(1) in \<open>auto intro!: node_inv_on_node node_engine_origin node_restart_origin
      intro: node_inv_spawns simp: node_keys controller_start_def Let_def simp del: run_scheduler_step.simps
      split: option.splits sum.splits\<close>)
qed

lemma record_inv_grow:
  assumes "record_inv x s" and "drones s' = drones s" and "pl_spawns s' = pl_spawns s @ ps" and "pl_records s' = pl_records s"
  shows "record_inv x s'"
  using assms placed_on_append [of _ "pl_spawns s" ps] unfolding record_inv_def by (metis (no_types, lifting) subsetD)

lemma record_inv_on_node:
  assumes "record_inv x s" and "\<And>n. node_key (f n) = node_key n"
  shows "record_inv x (on_node i f s)"
  by (rule record_inv_grow [OF assms(1), of _ "[]"]) (simp_all add: assms(2) drones_on_node)

lemma record_inv_step:
  assumes "record_inv (py_ext env) s" and "node_inv (py_ext env) s"
  shows "record_inv (py_ext env) (plane_step env e s)"
proof (cases "\<exists>i b. e = PlPublish i b \<or> (\<exists>v. e = PlChallenge v)")
  case True
  then consider i b where "e = PlPublish i b" | v where "e = PlChallenge v" by blast
  then show ?thesis
  proof cases
    case (1 i b)
    show ?thesis
    proof (cases "i < length (pl_nodes s) \<and> nd_up (pl_nodes s ! i) \<and> b \<in> xc_monitor (ag_executor (nd_agent (pl_nodes s ! i)))")
      case True
      let ?n = "pl_nodes s ! i"
      have "exec_origin (x_to_json (py_ext env)) (placed_on (ag_drone_id (nd_agent ?n)) (pl_spawns s)) (ag_executor (nd_agent ?n))"
        using assms(2) True unfolding node_inv_def by auto
      then obtain q where "q \<in> placed_on (ag_drone_id (nd_agent ?n)) (pl_spawns s)" "b = sp_backend_id q"
        using True unfolding exec_origin_def by auto
      moreover have "(ag_drone_id (nd_agent ?n), ag_cluster (nd_agent ?n), nd_ip ?n) \<in> drones s"
        using drones_nth [of i s] True by (simp add: node_key_def)
      ultimately show ?thesis using assms(1) 1 True unfolding record_inv_def by auto
    qed (use assms 1 in auto)
  qed (use assms(1) in \<open>auto simp: record_inv_def\<close>)
next
  case False
  have "pl_records (plane_step env e s) = pl_records s" "\<exists>ps. pl_spawns (plane_step env e s) = pl_spawns s @ ps"
    using False by (cases e; auto simp: controller_start_def Let_def simp del: run_scheduler_step.simps
        split: option.splits sum.splits)+
  then show ?thesis using record_inv_grow [OF assms(1) drones_step] by blast
qed

lemma compact_loop_keeps:
  "fst (ttl_map_compact_loop time inner q) k = Some v \<Longrightarrow> inner k = Some v"
  by (induction time inner q rule: ttl_map_compact_loop.induct) (auto split: if_splits option.splits)

lemma compact_keeps: "tm_inner (ttl_map_compact m time) k = Some v \<Longrightarrow> tm_inner m k = Some v"
  using compact_loop_keeps [of time "tm_inner m" "tm_queue m" k v]
  by (cases "ttl_map_compact_loop time (tm_inner m) (tm_queue m)") (simp add: ttl_map_compact_def)

lemma compact_ttl [simp]: "tm_ttl (ttl_map_compact m time) = tm_ttl m"
  by (simp add: ttl_map_compact_def split: prod.splits)

lemma lookup_map:
  "a_record_map (snd (do_lookup dns name qtype now)) \<in> {a_record_map dns, ttl_map_compact (a_record_map dns) now}"
proof (cases "split_once (CHR ''.'') name")
  case (Some p)
  then show ?thesis
    by (cases p; cases qtype) (simp_all add: do_lookup_def or_dns_error_def Let_def ttl_map_get_def split: option.splits prod.splits)
qed (simp add: do_lookup_def or_dns_error_def)

lemma lookup_fqdn:
  assumes "CHR ''.'' \<notin> set u"
  shows "fst (do_lookup dns (fqdn u c) RT_A now) =
    Inr (case tm_inner (ttl_map_compact (a_record_map dns) now) \<lparr>rk_cluster = c, rk_name = u\<rparr> of
           None \<Rightarrow> [] | Some (e, v) \<Rightarrow> [from_rdata (fqdn u c) DNS_RECORD_TTL v])"
proof -
  have "split_once (CHR ''.'') (fqdn u c) = Some (u, hostname c @ ''.'')"
    using split_once_append [OF assms, of "hostname c @ ''.''"] by (simp add: fqdn_def)
  then show ?thesis
    by (simp add: do_lookup_def or_dns_error_def ttl_map_get_def Let_def split: option.splits prod.splits)
qed

lemma dns_from_lookup: "dns_from rs dns \<Longrightarrow> dns_from rs (snd (do_lookup dns name qtype now))"
  using lookup_map [of dns name qtype now] compact_keeps [of "a_record_map dns" now] unfolding dns_from_def by auto

lemma dns_from_set:
  assumes "dns_from rs dns" and "r \<in> set rs" and "handle_set_dns_record r now now2 dns = Some dns'"
  shows "dns_from rs dns'"
proof -
  have "tm_inner (a_record_map dns') k = Some (e, v) \<Longrightarrow> tm_inner (a_record_map dns) k = Some (e, v) \<or> a_record r k v" for k e v
    using assms(3)
    by (cases "sd_kind r"; cases "parse_ipv4 (sd_value r)")
      (auto simp: handle_set_dns_record_def Let_def ttl_map_insert_def a_record_def split: option.splits if_splits)
  moreover have "tm_ttl (a_record_map dns') = tm_ttl (a_record_map dns)"
    using assms(3) by (auto simp: handle_set_dns_record_def Let_def ttl_map_insert_def split: DnsRecordType.splits option.splits)
  ultimately show ?thesis using assms(1,2) unfolding dns_from_def by metis
qed

lemma dns_from_new: "dns_from rs (dns_server_new email)"
  by (simp add: dns_from_def dns_server_new_def ttl_map_new_def)

lemma dns_from_append: "dns_from rs dns \<Longrightarrow> dns_from (rs @ rs') dns"
  unfolding dns_from_def by (metis UnI1 set_append)

lemma dns_inv_controller: "dns_inv (controller_start s)"
  by (simp add: dns_inv_def controller_start_def dns_from_new)

lemma dns_inv_step:
  assumes "dns_inv s"
  shows "dns_inv (plane_step env e s)"
proof (cases e)
  case (PlRecord k now now2)
  then show ?thesis using assms by (auto simp: dns_inv_def bind_eq_Some_conv dest: dns_from_set [OF _ nth_mem])
next
  case (PlQuery name qtype now)
  then show ?thesis using assms by (auto simp: dns_inv_def dns_from_lookup)
next
  case (PlSchedule q now uuid pick answer sent)
  then show ?thesis using assms
    by (auto simp: dns_inv_controller Let_def simp del: run_scheduler_step.simps split: option.splits sum.splits)
      (simp add: dns_inv_def)
qed (use assms in \<open>simp_all add: dns_inv_controller\<close>, use assms in \<open>simp_all add: dns_inv_def dns_from_append\<close>)

interpretation exact_routes: route_lookup "\<lambda>sub. Inr (get_proxy_route sub db)" "\<lambda>sub addr. get_proxy_route sub db = Some addr" for db
  by unfold_locales simp

section \<open>Reachable systems\<close>

definition plane_inv :: "drone_ext \<Rightarrow> 'd plane \<Rightarrow> bool" where
  "plane_inv x s \<longleftrightarrow> sched_inv s \<and> node_inv x s \<and> record_inv x s \<and> dns_inv s"

lemma drones_new [simp]: "drones (plane_new email d ks) = set ks"
proof -
  have "node_key (node_new d k) = k" for k by (cases k) (simp add: node_new_def node_key_def)
  then show ?thesis by (simp add: drones_def plane_new_def)
qed

lemma plane_inv_new: "plane_inv x (plane_new email d ks)"
proof -
  have "exec_origin (x_to_json x) Q (executor_new drone_database_new)" for Q
    by (rule exec_origin_new) (simp add: db_origin_def db_ok_new, simp add: drone_database_new_def)
  then have "node_inv x (plane_new email d ks)"
    by (auto simp: node_inv_def plane_new_def node_new_def)
  then show ?thesis
    by (simp add: plane_inv_def)
      (simp add: sched_inv_def record_inv_def dns_inv_def plane_new_def dns_from_new sched_world_init_def statuses_def heard_def)
qed

lemma plane_inv_run:
  assumes "plane_inv (py_ext env) s" and "\<forall>e \<in> set es. event_ok env e" and "\<forall>(d, c, ip) \<in> drones s. wf_drone_id d"
    and "encodes (py_ext env) (pl_spawns (plane_run env es s))"
  shows "plane_inv (py_ext env) (plane_run env es s)"
  using assms
proof (induction es arbitrary: s)
  case (Cons e es)
  obtain ps where "pl_spawns (plane_run env (e # es) s) = pl_spawns s @ ps" using plane_run_spawns by blast
  then have "encodes (py_ext env) (pl_spawns s)" using Cons.prems(4) by (auto simp: encodes_def)
  then have "plane_inv (py_ext env) (plane_step env e s)"
    using Cons.prems(1-3) sched_inv_step node_inv_step record_inv_step dns_inv_step
    unfolding plane_inv_def by (metis list.set_intros(1))
  then show ?case using Cons by (simp add: drones_step del: plane_step.simps)
qed simp

text \<open>The scheduler has placed the backend on the drone, for this cluster, at a time when the last
  status it had received from the drone said that it was ready and was less than five seconds old;
  and all statuses it went by were published by drones of the system.\<close>

definition accountable :: "'d plane \<Rightarrow> DroneId \<Rightarrow> ClusterName \<Rightarrow> BackendId \<Rightarrow> bool" where
  "accountable s d c b \<longleftrightarrow> (\<exists>p \<in> set (pl_spawns s).
     sp_backend_id (pm_request p) = b \<and> sp_drone_id (pm_request p) = d \<and> pm_cluster p = c \<and>
     live_drone (pm_history p) (pm_time p) c d \<and> heard (pm_history p) (pl_statuses s))"

lemma placed_accountable:
  assumes "plane_inv x s" and "(d, c, ip) \<in> drones s" and "q \<in> placed_on d (pl_spawns s)"
    and "\<And>c' ip'. (d, c', ip') \<in> drones s \<Longrightarrow> c' = c"
  shows "accountable s d c (sp_backend_id q)"
proof -
  obtain p where p: "p \<in> set (pl_spawns s)" "pm_request p = q" "sp_drone_id q = d"
    using assms(3) by (auto simp: placed_on_def)
  moreover have "pm_cluster p = c"
    using placement_drone [OF _ p(1)] assms(1,4) p(2,3) by (auto simp: plane_inv_def)
  ultimately show ?thesis using assms(1) by (auto simp: accountable_def plane_inv_def sched_inv_def)
qed

lemma one_cluster:
  assumes "distinct (map fst ks)" and "(d, c, ip) \<in> set ks" and "(d, c', ip') \<in> set ks"
  shows "c' = c"
  using assms eq_key_imp_eq_value by fastforce

end
