(* ===== verification/Plane_Reach.thy ===== *)
theory Plane_Reach
  imports Plane_System
begin

text \<open>
  What the whole system promises to a client. Safety: the DNS server only leads to a drone that the
  scheduler chose for the backend, and a proxy only forwards to a backend that was placed on its drone.
  Liveness: a request for a cluster with a live drone ends with a backend that is reachable by its name,
  when Docker brings the container up and the messages arrive.
\<close>

section \<open>From a request to a reachable backend\<close>

text \<open>The events of a drone are those of its executor and engine.\<close>

definition set_world :: "'d node \<Rightarrow> 'd drone_world \<Rightarrow> 'd node" where
  "set_world n w = n\<lparr>nd_agent := (nd_agent n)\<lparr>ag_executor := dw_exec w\<rparr>, nd_engine := dw_engine w\<rparr>"

lemma set_world_simps [simp]:
  "nd_up (set_world n w) = nd_up n" "nd_ip (set_world n w) = nd_ip n"
  "ag_listening (nd_agent (set_world n w)) = ag_listening (nd_agent n)"
  "ag_statuses (nd_agent (set_world n w)) = ag_statuses (nd_agent n)"
  "ag_drone_id (nd_agent (set_world n w)) = ag_drone_id (nd_agent n)"
  "ag_cluster (nd_agent (set_world n w)) = ag_cluster (nd_agent n)"
  "ag_executor (nd_agent (set_world n w)) = dw_exec w"
  "set_world (set_world n w) w' = set_world n w'" "node_world (set_world n w) = w\<lparr>dw_stops := []\<rparr>"
  by (simp_all add: set_world_def node_world_def)

lemma set_world_stops: "set_world n (dw_step eng x e (w\<lparr>dw_stops := a\<rparr>)) = set_world n (dw_step eng x e w)"
  by (cases e) (simp_all add: set_world_def call_engine_def Let_def split: prod.splits)

lemma node_events:
  assumes "nd_up n"
  shows "ag_listening (nd_agent n) \<Longrightarrow> node_agent env (AgSpawn (Some q) True io) n =
      set_world n (dw_step (py_engine env) (py_ext env) (DwExec (EvSpawn q io)) (node_world n))"
    and "node_engine env j io n = set_world n (dw_step (py_engine env) (py_ext env) (DwEngine j io) (node_world n))"
    and "is_task e \<Longrightarrow> node_agent env (AgTask e) n = set_world n (dw_step (py_engine env) (py_ext env) (DwExec e) (node_world n))"
  using assms
  by (simp_all add: node_agent_def node_engine_def set_world_def node_world_def spawn_request_step_def Let_def)

lemma on_node_world:
  assumes "i < length (pl_nodes s)" and "f (pl_nodes s ! i) = set_world (pl_nodes s ! i) w"
  shows "on_node i f s = s\<lparr>pl_nodes := (pl_nodes s)[i := set_world (pl_nodes s ! i) w]\<rparr>"
  using assms by (simp add: on_node_def Let_def)

text \<open>A drone receives the \<open>k\<close>-th spawn request; the run \<open>j\<close> it starts loads the container, finds its
  address, waits for its port and stores the route.\<close>

definition bring_up :: "nat \<Rightarrow> nat \<Rightarrow> nat \<Rightarrow> io \<Rightarrow> (nat \<Rightarrow> ExecError + unit) \<Rightarrow> systime \<Rightarrow> 'd plane_event list" where
  "bring_up i k j io get now = [PlSpawn i k True io, PlEngine i j io, PlEngine i j io,
     PlAgent i (AgTask (EvPoll j (AHttp get) io)), PlAgent i (AgTask (EvPoll j (ARoute True now) io))]"

lemma spawn_events:
  assumes "i < length (pl_nodes s)" and "n = pl_nodes s ! i" and "nd_up n" and "ag_listening (nd_agent n)"
    and "k < length (pl_spawns s)" and "pm_request (pl_spawns s ! k) = q"
    and "subject_instance (spawn_subscribe_subject (ag_drone_id (nd_agent n))) (spawn_subject q)"
    and "w = dw_run (py_engine env) (py_ext env) [DwExec (EvSpawn q io), DwEngine j io, DwEngine j io,
      DwExec (EvPoll j (AHttp get) io), DwExec (EvPoll j (ARoute True now) io)] (node_world n)"
  shows "plane_run env (bring_up i k j io get now) s = s\<lparr>pl_nodes := (pl_nodes s)[i := set_world n w]\<rparr>"
  using assms
  by (simp add: bring_up_def on_node_world node_events set_world_stops del: dw_step.simps)

lemma only_live_is_chosen:
  assumes "sched_inv s" and "pick_ok pick" and "sub_ok checked_sub now"
    and "\<forall>d'. live_drone (pl_received s) now (sq_cluster q) d' \<longleftrightarrow> d' = d"
  shows "run_scheduler_step checked_sub (SpawnNext (Some q) now u pick (Inr True) True) (pl_sched s) =
    Some (Inr ((pl_sched s)\<lparr>sw_spawned := sw_spawned (pl_sched s) @ [schedule_request_schedule u q d],
      sw_replies := sw_replies (pl_sched s) @ [Scheduled d (sp_backend_id (schedule_request_schedule u q d)) None]\<rparr>))"
proof -
  have "schedule checked_sub pick (sw_scheduler (pl_sched s)) (sq_cluster q) now = Some (Inr d)"
    using schedule_cases [OF assms(2,3), of "pl_received s" "sq_cluster q"] assms(1,4) by (auto simp: sched_inv_def)
  then show ?thesis by (simp add: Let_def)
qed

lemma compact_loop_live:
  "inner k = Some (e, v) \<Longrightarrow> time \<le> e \<Longrightarrow> fst (ttl_map_compact_loop time inner q) k = Some (e, v)"
proof (induction time inner q rule: ttl_map_compact_loop.induct)
  case (2 time inner t key q)
  then show ?case by (cases "k = key") (auto split: option.splits)
qed simp

text \<open>Docker pulls the image of a request, creates and starts the container, and reports it running at
  an address.\<close>

definition docker_comes_up ::
  "'d docker_api \<Rightarrow> DockerInterface \<Rightarrow> SpawnRequest \<Rightarrow> 'd \<Rightarrow> u8 \<times> u8 \<times> u8 \<times> u8 \<Rightarrow> bool" where
  "docker_comes_up api self spec d addr \<longleftrightarrow>
     (\<exists>d1 pulled d2 cid d3 container st settings net.
        dk_create_image api (ex_image (sp_executable spec))
          (map_option bollard_credentials (ex_credentials (sp_executable spec))) d = (d1, pulled) \<and>
        (\<forall>r \<in> set pulled. r = Inr ()) \<and>
        dk_create_container api (to_resource_name (sp_backend_id spec))
          (container_config self (to_resource_name (sp_backend_id spec)) (ex_image (sp_executable spec))
             (ex_env (sp_executable spec)) (ex_resource_limits (sp_executable spec))) d1 = (d2, Inr cid) \<and>
        dk_start_container api cid d2 = (d3, Inr ()) \<and>
        dk_inspect_container api (to_resource_name (sp_backend_id spec)) d3 = Inr container \<and>
        ci_state container = Some st \<and> cs_running st = Some True \<and> ci_network_settings container = Some settings \<and>
        (ns_ip_address settings = Some (show_ipv4 addr) \<or>
         ns_ip_address settings \<in> {None, Some []} \<and> ns_networks settings = Some [(net, Some (show_ipv4 addr))]))"

lemma docker_comes_up_runs:
  assumes "docker_comes_up api self spec (dw_engine s) (b1, b2, b3, b4)" and "n = length (xc_runs (dw_exec s))"
    and "db_ok (xc_database (dw_exec s))" and "backend_id_str (sp_backend_id spec) \<notin> db_names (xc_database (dw_exec s))"
    and "x_uri_ok x (ready_uri x (SocketAddr (V4 b1 b2 b3 b4) 8080))" and "k < 3000" and "is_ok (get k)" and "io_db io"
    and "s' = dw_run (docker_engine api self) x [DwExec (EvSpawn spec io), DwEngine n io, DwEngine n io,
      DwExec (EvPoll n (AHttp get) io), DwExec (EvPoll n (ARoute True now) io)] s"
  shows "get_proxy_route (backend_id_str (sp_backend_id spec)) (xc_database (dw_exec s')) = Some (show_ipv4 (b1, b2, b3, b4) @ '':8080'')"
    and "sp_backend_id spec \<in> xc_monitor (dw_exec s')"
proof -
  obtain d1 pulled d2 cid d3 container st settings net where up:
    "dk_create_image api (ex_image (sp_executable spec))
       (map_option bollard_credentials (ex_credentials (sp_executable spec))) (dw_engine s) = (d1, pulled)"
    "\<forall>r \<in> set pulled. r = Inr ()"
    "dk_create_container api (to_resource_name (sp_backend_id spec))
       (container_config self (to_resource_name (sp_backend_id spec)) (ex_image (sp_executable spec))
          (ex_env (sp_executable spec)) (ex_resource_limits (sp_executable spec))) d1 = (d2, Inr cid)"
    "dk_start_container api cid d2 = (d3, Inr ())"
    "dk_inspect_container api (to_resource_name (sp_backend_id spec)) d3 = Inr container"
    "ci_state container = Some st" "cs_running st = Some True" "ci_network_settings container = Some settings"
    "ns_ip_address settings = Some (show_ipv4 (b1, b2, b3, b4)) \<or>
     ns_ip_address settings \<in> {None, Some []} \<and> ns_networks settings = Some [(net, Some (show_ipv4 (b1, b2, b3, b4)))]"
    using assms(1) unfolding docker_comes_up_def by blast
  show "get_proxy_route (backend_id_str (sp_backend_id spec)) (xc_database (dw_exec s')) = Some (show_ipv4 (b1, b2, b3, b4) @ '':8080'')"
    and "sp_backend_id spec \<in> xc_monitor (dw_exec s')"
    using docker_spawn_runs [OF refl refl assms(2-4) up assms(5-9)] by blast+
qed

lemma published_name_resolves:
  assumes "dns_from rs dns" and "r = dns_loop_record show_v6 (BackendId u) (V4 a1 a2 a3 a4) c" and "CHR ''.'' \<notin> set u"
    and "now + int set_dns_ttl \<le> SYSTIME_MAX" and "t \<le> now + int set_dns_ttl"
  shows "\<exists>dns'. handle_set_dns_record r now now2 dns = Some dns' \<and>
    fst (do_lookup dns' (fqdn u c) RT_A t) = Inr [from_rdata (fqdn u c) DNS_RECORD_TTL (RD_A (a1, a2, a3, a4))]"
proof -
  let ?k = "\<lparr>rk_cluster = c, rk_name = u\<rparr>" and ?e = "now + int set_dns_ttl" and ?v = "RD_A (a1, a2, a3, a4)"
  let ?m = "(a_record_map dns)\<lparr>tm_inner := (tm_inner (a_record_map dns))(?k \<mapsto> (?e, ?v)),
    tm_queue := tm_queue (a_record_map dns) @ [(?e, ?k)]\<rparr>"
  have set: "handle_set_dns_record r now now2 dns = Some (dns\<lparr>a_record_map := ?m\<rparr>)"
    using assms(1,2,4)
    by (simp add: handle_set_dns_record_def dns_loop_record_def parse_show_ipv4 ttl_map_insert_def systime_add_def dns_from_def Let_def)
  have "fst (ttl_map_compact_loop t (tm_inner ?m) (tm_queue ?m)) ?k = Some (?e, ?v)"
    by (rule compact_loop_live) (use assms(5) in simp_all)
  then have "tm_inner (ttl_map_compact ?m t) ?k = Some (?e, ?v)"
    by (cases "ttl_map_compact_loop t (tm_inner ?m) (tm_queue ?m)") (simp add: ttl_map_compact_def)
  then show ?thesis using set lookup_fqdn [OF assms(3), of "dns\<lparr>a_record_map := ?m\<rparr>" c t] by simp
qed

lemma new_id_not_stored:
  assumes "plane_inv x s" and "n \<in> set (pl_nodes s)" and "\<forall>p \<in> set (pl_spawns s). sp_backend_id (pm_request p) \<noteq> b"
  shows "backend_id_str b \<notin> db_names (xc_database (ag_executor (nd_agent n)))"
    and "db_ok (xc_database (ag_executor (nd_agent n)))"
proof -
  have "db_origin (x_to_json x) (placed_on (ag_drone_id (nd_agent n)) (pl_spawns s)) (xc_database (ag_executor (nd_agent n)))"
    using assms(1,2) by (auto simp: plane_inv_def node_inv_def exec_origin_database)
  then show "backend_id_str b \<notin> db_names (xc_database (ag_executor (nd_agent n)))"
    and "db_ok (xc_database (ag_executor (nd_agent n)))"
    using assms(3) by (auto simp: db_origin_def db_names_def placed_on_def) (metis BackendId.exhaust backend_id_str.simps)
qed

lemma request_is_served:
  assumes "plane_inv (py_ext env) s" and "wf_drone_id d" and "py_engine env = docker_engine api self"
    and "i < length (pl_nodes s)" and "n = pl_nodes s ! i" and "nd_up n" and "ag_listening (nd_agent n)"
    and "nd_ip n = V4 a1 a2 a3 a4" and "d = ag_drone_id (nd_agent n)" and "c = ag_cluster (nd_agent n)"
    and "\<forall>d'. live_drone (pl_received s) now c d' \<longleftrightarrow> d' = d" and "pick_ok pick" and "sub_ok (py_sub env) now"
    and "sq_cluster q = c" and "sq_backend_id q = None" and "CHR ''.'' \<notin> set u"
    and "\<forall>p \<in> set (pl_spawns s). sp_backend_id (pm_request p) \<noteq> BackendId u"
    and "docker_comes_up api self (schedule_request_schedule u q d) (nd_engine n) (b1, b2, b3, b4)"
    and "x_uri_ok (py_ext env) (ready_uri (py_ext env) (SocketAddr (V4 b1 b2 b3 b4) 8080))"
    and "k < 3000" and "is_ok (get k)" and "io_db io" and "j = length (xc_runs (ag_executor (nd_agent n)))"
    and "pl_dns s = Some dns" and "t1 + int set_dns_ttl \<le> SYSTIME_MAX" and "t \<le> t1 + int set_dns_ttl"
    and "s' = plane_run env ([PlSchedule q now u pick (Inr True) True] @ bring_up i (length (pl_spawns s)) j io get t0 @
      [PlPublish i (BackendId u), PlRecord (length (pl_records s)) t1 t2]) s"
  shows "last (sw_replies (pl_sched s')) = Scheduled d (BackendId u) None"
    and "\<exists>dns'. pl_dns s' = Some dns' \<and>
       fst (do_lookup dns' (fqdn u c) RT_A t) = Inr [from_rdata (fqdn u c) DNS_RECORD_TTL (RD_A (a1, a2, a3, a4))]"
    and "get_proxy_route u (xc_database (ag_executor (nd_agent (pl_nodes s' ! i)))) = Some (show_ipv4 (b1, b2, b3, b4) @ '':8080'')"
    and "map pm_request (pl_spawns s') = map pm_request (pl_spawns s) @ [schedule_request_schedule u q d]"
proof -
  let ?q = "schedule_request_schedule u q d" and ?x = "py_ext env" and ?db = "xc_database (ag_executor (nd_agent n))"
  let ?p = "\<lparr>pm_request = ?q, pm_cluster = c, pm_time = now, pm_history = pl_received s\<rparr>"
  have id: "sp_backend_id ?q = BackendId u" and drone: "sp_drone_id ?q = d"
    using assms(15) by (simp_all add: schedule_request_schedule_def)
  define w where "w = dw_run (py_engine env) ?x [DwExec (EvSpawn ?q io), DwEngine j io, DwEngine j io,
    DwExec (EvPoll j (AHttp get) io), DwExec (EvPoll j (ARoute True t0) io)] (node_world n)"
  obtain w1 where w1: "run_scheduler_step (py_sub env) (SpawnNext (Some q) now u pick (Inr True) True) (pl_sched s) = Some (Inr w1)"
      "sw_spawned w1 = sw_spawned (pl_sched s) @ [?q]" "last (sw_replies w1) = Scheduled d (BackendId u) None"
    using only_live_is_chosen [of s pick "py_sub env" now q d u] assms(1,11-14) id by (simp add: plane_inv_def)
  define s1 where "s1 = s\<lparr>pl_sched := w1, pl_spawns := pl_spawns s @ [?p]\<rparr>"
  have s1: "plane_step env (PlSchedule q now u pick (Inr True) True) s = s1"
    using w1(1,2) assms(14) by (simp add: s1_def Let_def del: run_scheduler_step.simps)
  have "subject_instance (spawn_subscribe_subject d) (spawn_subject ?q)"
    using spawn_msg.delivered [of ?q] assms(2) drone by simp
  then have s2: "plane_run env (bring_up i (length (pl_spawns s)) j io get t0) s1 = s1\<lparr>pl_nodes := (pl_nodes s)[i := set_world n w]\<rparr>"
    using spawn_events [of i s1 n "length (pl_spawns s)" ?q w env io j get t0] assms(4-7,9) by (simp add: s1_def w_def)
  have "backend_id_str (sp_backend_id ?q) \<notin> db_names ?db" and "db_ok ?db"
    using new_id_not_stored [OF assms(1), of n "BackendId u"] assms(4,5,17) id by auto
  then have up: "get_proxy_route u (xc_database (dw_exec w)) = Some (show_ipv4 (b1, b2, b3, b4) @ '':8080'')"
      "BackendId u \<in> xc_monitor (dw_exec w)"
    using docker_comes_up_runs [where api = api and self = self and spec = ?q and s = "node_world n" and n = j and x = ?x
        and s' = w and now = t0 and k = k and get = get and io = io] assms(3,18-23) id
    by (simp_all add: w_def node_world_def)
  obtain dns' where dns': "handle_set_dns_record (dns_loop_record (x_show_v6 ?x) (BackendId u) (V4 a1 a2 a3 a4) c) t1 t2 dns = Some dns'"
      "fst (do_lookup dns' (fqdn u c) RT_A t) = Inr [from_rdata (fqdn u c) DNS_RECORD_TTL (RD_A (a1, a2, a3, a4))]"
    using published_name_resolves [OF _ refl assms(16,25,26)] assms(1,24)
    unfolding plane_inv_def dns_inv_def by metis
  have "s' = plane_run env [PlPublish i (BackendId u), PlRecord (length (pl_records s)) t1 t2]
      (s1\<lparr>pl_nodes := (pl_nodes s)[i := set_world n w]\<rparr>)"
    using assms(27) s2 unfolding plane_run_append by (simp add: s1 del: plane_step.simps)
  then have s': "pl_sched s' = w1" "pl_dns s' = Some dns'" "ag_executor (nd_agent (pl_nodes s' ! i)) = dw_exec w"
      "pl_spawns s' = pl_spawns s @ [?p]"
    using assms(4,6,8,10,24) up(2) dns'(1) by (simp_all add: s1_def)
  show "last (sw_replies (pl_sched s')) = Scheduled d (BackendId u) None"
    and "\<exists>dns'. pl_dns s' = Some dns' \<and>
       fst (do_lookup dns' (fqdn u c) RT_A t) = Inr [from_rdata (fqdn u c) DNS_RECORD_TTL (RD_A (a1, a2, a3, a4))]"
    and "get_proxy_route u (xc_database (ag_executor (nd_agent (pl_nodes s' ! i)))) = Some (show_ipv4 (b1, b2, b3, b4) @ '':8080'')"
    and "map pm_request (pl_spawns s') = map pm_request (pl_spawns s) @ [?q]"
    using w1(3) dns'(2) up(1) s' by simp_all
qed

section \<open>Properties\<close>

text \<open>C1: names lead to where the scheduler put the backend. In every run of a system of new drones with
  different ids, whatever is lost, delayed, repeated or restarted: when the DNS server answers the name
  of a backend in a cluster with an address, then it is the address of a drone of that cluster on which
  the scheduler has placed this backend while the drone was live.\<close>

theorem dns_leads_to_placed_drone:
  assumes "s = plane_run env es (plane_new email d0 ks)" and "\<forall>e \<in> set es. event_ok env e"
    and "\<forall>(d, c, ip) \<in> set ks. wf_drone_id d" and "distinct (map fst ks)"
    and "encodes (py_ext env) (pl_spawns s)"
    and "\<forall>ws. parse_ipv4 (x_show_v6 (py_ext env) ws) = None"
    and "pl_dns s = Some dns" and "fst (do_lookup dns (fqdn u c) RT_A now) = Inr answers" and "r \<in> set answers"
    and "CHR ''.'' \<notin> set u"
  shows "\<exists>d a1 a2 a3 a4. rec_data r = RD_A (a1, a2, a3, a4) \<and> (d, c, V4 a1 a2 a3 a4) \<in> set ks \<and>
    accountable s d c (BackendId u)"
proof -
  let ?k = "\<lparr>rk_cluster = c, rk_name = u\<rparr>"
  have drones: "drones s = set ks" using assms(1) by (simp add: drones_run)
  have inv: "plane_inv (py_ext env) s"
    using plane_inv_run [OF plane_inv_new assms(2)] assms(1,3,5) by simp
  obtain e v where "tm_inner (ttl_map_compact (a_record_map dns) now) ?k = Some (e, v)" and v: "rec_data r = v"
    using assms(8,9) by (auto simp: lookup_fqdn [OF assms(10)] from_rdata_def split: option.splits)
  then have "tm_inner (a_record_map dns) ?k = Some (e, v)" using compact_keeps by metis
  then obtain w where w: "w \<in> set (pl_records s)" "a_record w ?k v"
    using inv assms(7) unfolding plane_inv_def dns_inv_def dns_from_def by blast
  then obtain d c' ip q where q: "(d, c', ip) \<in> drones s" "q \<in> placed_on d (pl_spawns s)"
      "w = dns_loop_record (x_show_v6 (py_ext env)) (sp_backend_id q) ip c'"
    using inv unfolding plane_inv_def record_inv_def a_record_def by blast
  have c: "c' = c" "backend_id_str (sp_backend_id q) = u" using w(2) q(3) by (auto simp: a_record_def dns_loop_record_def)
  obtain a1 a2 a3 a4 where ip: "ip = V4 a1 a2 a3 a4" "v = RD_A (a1, a2, a3, a4)"
  proof (cases ip)
    case (V4 a1 a2 a3 a4)
    then have "v = RD_A (a1, a2, a3, a4)"
      using w(2) q(3) by (simp add: a_record_def dns_loop_record_def parse_show_ipv4)
    then show ?thesis using that V4 by blast
  next
    case (V6 ws)
    then show ?thesis using w(2) q(3) assms(6) by (simp add: a_record_def dns_loop_record_def)
  qed
  have "accountable s d c (sp_backend_id q)"
    using q(1) c(1) one_cluster [OF assms(4)] by (intro placed_accountable [OF inv _ q(2)]) (auto simp: drones)
  moreover have "sp_backend_id q = BackendId u" using c(2) by (cases "sp_backend_id q") simp
  ultimately show ?thesis using q(1) c(1) ip v drones by auto
qed


text \<open>C2: a scheduled backend becomes reachable under its name. In every such run, let a drone be up,
  listening and the only live one of its cluster, and let a request for the cluster get an id that was
  not used before. When Docker brings the container up at an address, its port answers, the route is
  stored and the record of its monitor arrives, then the client is told that drone and that id, the DNS
  server answers the name of the backend with the address of the drone for the next sixty seconds, and
  the proxy of the drone sends a request for the name to port 8080 of the container.\<close>

theorem spawned_backend_is_reachable:
  assumes "s = plane_run env es (plane_new email d0 ks)" and "\<forall>e \<in> set es. event_ok env e"
    and "\<forall>(d, c, ip) \<in> set ks. wf_drone_id d" and "encodes (py_ext env) (pl_spawns s)"
    and "py_engine env = docker_engine api self"
    and "i < length (pl_nodes s)" and "n = pl_nodes s ! i" and "nd_up n" and "ag_listening (nd_agent n)"
    and "nd_ip n = V4 a1 a2 a3 a4" and "d = ag_drone_id (nd_agent n)" and "c = ag_cluster (nd_agent n)"
    and "\<forall>d'. live_drone (pl_received s) now c d' \<longleftrightarrow> d' = d" and "pick_ok pick" and "sub_ok (py_sub env) now"
    and "sq_cluster q = c" and "sq_backend_id q = None" and "CHR ''.'' \<notin> set u"
    and "\<forall>p \<in> set (pl_spawns s). sp_backend_id (pm_request p) \<noteq> BackendId u"
    and "docker_comes_up api self (schedule_request_schedule u q d) (nd_engine n) (b1, b2, b3, b4)"
    and "x_uri_ok (py_ext env) (ready_uri (py_ext env) (SocketAddr (V4 b1 b2 b3 b4) 8080))"
    and "k < 3000" and "is_ok (get k)" and "io_db io" and "j = length (xc_runs (ag_executor (nd_agent n)))"
    and "pl_dns s = Some dns" and "t1 + int set_dns_ttl \<le> SYSTIME_MAX" and "t \<le> t1 + int set_dns_ttl"
    and "s' = plane_run env ([PlSchedule q now u pick (Inr True) True] @ bring_up i (length (pl_spawns s)) j io get t0 @
      [PlPublish i (BackendId u), PlRecord (length (pl_records s)) t1 t2]) s"
    and "ps_cluster service = hostname c" and "map_of (rq_headers req) ''host'' = Some (u @ ''.'' @ hostname c)"
    and "from_utf8 (u @ ''.'' @ hostname c) = Some (u @ ''.'' @ hostname c)" and "CHR '':'' \<notin> set (u @ ''.'' @ hostname c)"
    and "rewrite_uri px (show_ipv4 (b1, b2, b3, b4) @ '':8080'') (rq_uri req) = Inr uri"
  shows "last (sw_replies (pl_sched s')) = Scheduled d (BackendId u) None \<and>
    (\<exists>dns'. pl_dns s' = Some dns' \<and>
       fst (do_lookup dns' (fqdn u c) RT_A t) = Inr [from_rdata (fqdn u c) DNS_RECORD_TTL (RD_A (a1, a2, a3, a4))]) \<and>
    (\<exists>sent. hd_sent (handle px (\<lambda>sub. Inr (get_proxy_route sub (xc_database (ag_executor (nd_agent (pl_nodes s' ! i))))))
        upstream up service req tracker) = Some sent \<and> rq_uri sent = uri)"
proof -
  have inv: "plane_inv (py_ext env) s" using plane_inv_run [OF plane_inv_new assms(2)] assms(1,3,4) by simp
  have wf: "wf_drone_id d" using assms(1,3,6,7,11) drones_nth [of i s] by (auto simp: node_key_def drones_run)
  note served = request_is_served [OF inv wf assms(5-29)]
  have "proxied_subdomain service req = Some u"
    using proxied_subdomain_host [of req u service] assms(30-33) by simp
  then show ?thesis using served(1-3) assms(34) handle_sends by auto
qed

section \<open>Witnesses\<close>

text \<open>A system of one drone, whose agent has started and whose status has arrived.\<close>

definition example_plane_env :: "string set plane_env" where
  "example_plane_env = \<lparr>py_engine = example_docker, py_ext = example_ext, py_version = ''0.1'', py_sub = plain_sub\<rparr>"

definition example_drones :: "(DroneId \<times> ClusterName \<times> IpAddr) list" where
  "example_drones = [(DroneId ''d'', ClusterName ''plane.test'', V4 10 0 0 1)]"

definition example_start :: "string set plane_event list" where
  "example_start = [PlRestart 0 True True, PlAgent 0 (AgListen True True), PlAgent 0 (AgTick True True), PlStatus 0 0]"

definition example_plane :: "string set plane" where
  "example_plane = plane_run example_plane_env example_start (plane_new None {} example_drones)"

definition example_ready :: DroneStatusMessage where
  "example_ready = (example_status ''d'' True)\<lparr>ds_running_backends := Some 0\<rparr>"

definition example_node :: "string set node" where
  "example_node = \<lparr>nd_agent = \<lparr>ag_drone_id = DroneId ''d'', ag_cluster = ClusterName ''plane.test'',
     ag_executor = executor_new drone_database_new, ag_listening = True, ag_ready = True,
     ag_statuses = [example_ready]\<rparr>, nd_engine = {}, nd_up = True, nd_ip = V4 10 0 0 1\<rparr>"

lemma example_plane_value:
  "example_plane = \<lparr>pl_email = None, pl_sched = sched_world_init\<lparr>sw_scheduler := statuses [(0, example_ready)]\<rparr>,
     pl_received = [(0, example_ready)], pl_dns = Some (dns_server_new None), pl_nodes = [example_node],
     pl_statuses = [example_ready], pl_spawns = [], pl_records = []\<rparr>"
proof -
  have call: "deciding_call (\<lambda>_. Inr (V4 10 0 0 1) :: IpSourceError + IpAddr) 10 0 = 0"
    by (simp add: deciding_call_def upt_rec)
  then show ?thesis
    by (simp add: example_plane_def example_start_def plane_new_def example_drones_def node_new_def on_node_def node_restart_def
        run_agent_start_def do_with_retry_def retry_loop_spec retry_spec_def Let_def node_agent_def listen_start_def
        resume_backends_def executor_new_def drone_database_new_def get_backends_def agent_step_defs
        example_plane_env_def example_ext_def ready_status_def example_node_def example_ready_def example_status_def
        statuses_def sched_world_init_def running_backends_def)
qed

text \<open>The drone is live, and Docker brings the container of a request up.\<close>

abbreviation example_cluster :: ClusterName where
  "example_cluster \<equiv> ClusterName ''plane.test''"

lemma example_request_schedule: "schedule_request_schedule ''b'' example_schedule_request (DroneId ''d'') = example_spawn ''d'' ''b''"
  by (simp add: schedule_request_schedule_def example_schedule_request_def example_spawn_def)

lemma example_live: "live_drone [(0, example_ready)] 3 example_cluster d' \<longleftrightarrow> d' = DroneId ''d''"
  by (auto simp: live_drone_def last_message_def example_ready_def example_status_def from_secs_def split: option.splits)

lemma example_comes_up:
  "docker_comes_up example_daemon \<lparr>di_runtime = None, di_network = None\<rparr> (example_spawn ''d'' ''b'') {} (10, 0, 0, 7)"
  unfolding docker_comes_up_def
  by (intro exI [of _ "{}"] exI [of _ "[Inr ()]"] exI [of _ "{''plane-b''}"] exI [of _ "''plane-b''"]
      exI [of _ example_container] exI [of _ "\<lparr>cs_running = Some True, cs_exit_code = Some 0\<rparr>"]
      exI [of _ "\<lparr>ns_ip_address = Some [], ns_networks = Some [(''plane'', Some (show_ipv4 (10, 0, 0, 7)))]\<rparr>"] exI [of _ "''plane''"])
    (simp add: example_daemon_def example_container_def example_spawn_def to_resource_name_def RESOURCE_PREFIX_def)

definition example_serve :: "string set plane_event list" where
  "example_serve = [PlSchedule example_schedule_request 3 ''b'' first_choice (Inr True) True] @
     bring_up 0 0 0 example_io (\<lambda>_. Inr ()) 7 @ [PlPublish 0 (BackendId ''b''), PlRecord 0 10 10]"

definition example_served :: "string set plane" where
  "example_served = plane_run example_plane_env example_serve example_plane"

lemma example_plane_facts:
  "plane_inv (py_ext example_plane_env) example_plane"
  "\<forall>e \<in> set (example_start @ example_serve). event_ok example_plane_env e"
  "\<forall>(d, c, ip) \<in> set example_drones. wf_drone_id d" "wf_drone_id (DroneId ''d'')"
  "encodes (py_ext example_plane_env) (pl_spawns example_plane)"
proof -
  show ok: "\<forall>e \<in> set (example_start @ example_serve). event_ok example_plane_env e"
    by (auto simp: example_start_def example_serve_def bring_up_def example_plane_env_def first_choice_ok plain_sub_ok)
  show wf: "\<forall>(d, c, ip) \<in> set example_drones. wf_drone_id d" "wf_drone_id (DroneId ''d'')"
    by (simp_all add: example_drones_def wf_drone_id_def subject_token_def)
  show enc: "encodes (py_ext example_plane_env) (pl_spawns example_plane)"
    by (simp add: example_plane_value encodes_def)
  show "plane_inv (py_ext example_plane_env) example_plane"
    using plane_inv_run [OF plane_inv_new, of example_start example_plane_env None "{}" example_drones] ok wf enc
    by (simp add: example_plane_def)
qed

lemma example_conditions:
  "py_engine example_plane_env = docker_engine example_daemon \<lparr>di_runtime = None, di_network = None\<rparr>"
  "0 < length (pl_nodes example_plane)" "example_node = pl_nodes example_plane ! 0"
  "nd_up example_node" "ag_listening (nd_agent example_node)"
  "nd_ip example_node = V4 10 0 0 1" "DroneId ''d'' = ag_drone_id (nd_agent example_node)"
  "example_cluster = ag_cluster (nd_agent example_node)"
  "\<forall>d'. live_drone (pl_received example_plane) 3 example_cluster d' \<longleftrightarrow> d' = DroneId ''d''"
  "pick_ok first_choice" "sub_ok (py_sub example_plane_env) 3"
  "sq_cluster example_schedule_request = example_cluster" "sq_backend_id example_schedule_request = None"
  "CHR ''.'' \<notin> set ''b''" "\<forall>p \<in> set (pl_spawns example_plane). sp_backend_id (pm_request p) \<noteq> BackendId ''b''"
  "docker_comes_up example_daemon \<lparr>di_runtime = None, di_network = None\<rparr>
     (schedule_request_schedule ''b'' example_schedule_request (DroneId ''d'')) (nd_engine example_node) (10, 0, 0, 7)"
  "x_uri_ok (py_ext example_plane_env) (ready_uri (py_ext example_plane_env) (SocketAddr (V4 10 0 0 7) 8080))"
  "(0::nat) < 3000" "is_ok ((\<lambda>_. Inr () :: ExecError + unit) (0::nat))" "io_db example_io"
  "0 = length (xc_runs (ag_executor (nd_agent example_node)))" "pl_dns example_plane = Some (dns_server_new None)"
  "10 + int set_dns_ttl \<le> SYSTIME_MAX" "20 \<le> 10 + int set_dns_ttl"
  "example_served = plane_run example_plane_env ([PlSchedule example_schedule_request 3 ''b'' first_choice (Inr True) True] @
     bring_up 0 (length (pl_spawns example_plane)) 0 example_io (\<lambda>_. Inr ()) 7 @
     [PlPublish 0 (BackendId ''b''), PlRecord (length (pl_records example_plane)) 10 10]) example_plane"
  by (simp_all only: example_served_def example_serve_def example_request_schedule)
    (simp_all add: example_plane_env_def example_docker_def example_plane_value example_node_def first_choice_ok
      plain_sub_ok example_live example_comes_up example_schedule_request_def example_ext_def
      example_io_def executor_new_def set_dns_ttl_def ttl_seconds_def from_secs_def SYSTIME_MAX_def
      del: plane_run.simps bring_up_def)

lemmas example_serves = request_is_served [OF example_plane_facts(1,4) example_conditions]

lemma example_served_run:
  "example_served = plane_run example_plane_env (example_start @ example_serve) (plane_new None {} example_drones)"
  by (simp add: example_served_def example_plane_def plane_run_append del: plane_run.simps)

lemma example_served_encodes: "encodes (py_ext example_plane_env) (pl_spawns example_served)"
  using example_serves(4)
  by (auto simp: encodes_def example_plane_value example_request_schedule example_plane_env_def example_ext_def map_eq_Cons_conv)

lemma distinct_example_drones: "distinct (map fst example_drones)"
  by (simp add: example_drones_def)

theorem dns_leads_to_placed_drone_witness:
  "\<exists>dns r. pl_dns example_served = Some dns \<and>
     fst (do_lookup dns (fqdn ''b'' example_cluster) RT_A 20) = Inr [r] \<and> rec_data r = RD_A (10, 0, 0, 1) \<and>
     accountable example_served (DroneId ''d'') example_cluster (BackendId ''b'')"
proof -
  obtain dns where dns: "pl_dns example_served = Some dns"
      "fst (do_lookup dns (fqdn ''b'' example_cluster) RT_A 20) =
        Inr [from_rdata (fqdn ''b'' example_cluster) DNS_RECORD_TTL (RD_A (10, 0, 0, 1))]"
    using example_serves(2) by blast
  have "\<forall>ws. parse_ipv4 (x_show_v6 (py_ext example_plane_env) ws) = None"
    by (simp add: example_plane_env_def example_ext_def parse_ipv4_def)
  then show ?thesis
    using dns_leads_to_placed_drone [OF example_served_run example_plane_facts(2,3) distinct_example_drones
        example_served_encodes _ dns, of "from_rdata (fqdn ''b'' example_cluster) DNS_RECORD_TTL (RD_A (10, 0, 0, 1))"] dns
    by (auto simp: example_drones_def from_rdata_def)
qed


theorem spawned_backend_is_reachable_witness:
  "\<exists>sent. last (sw_replies (pl_sched example_served)) = Scheduled (DroneId ''d'') (BackendId ''b'') None \<and>
     hd_sent (handle example_px
       (\<lambda>sub. Inr (get_proxy_route sub (xc_database (ag_executor (nd_agent (pl_nodes example_served ! 0))))))
       (\<lambda>_. Inr not_found) True example_service (example_request ''b.plane.test'') connection_tracker_default) = Some sent"
proof -
  let ?uri = "\<lparr>u_scheme = Some ''http'', u_authority = Some (show_ipv4 (10, 0, 0, 7) @ '':8080''), u_path_and_query = Some ''/x''\<rparr>"
  have ok: "\<forall>e \<in> set example_start. event_ok example_plane_env e" using example_plane_facts(2) by simp
  have "ps_cluster example_service = hostname example_cluster"
    "map_of (rq_headers (example_request ''b.plane.test'')) ''host'' = Some (''b'' @ ''.'' @ hostname example_cluster)"
    "from_utf8 (''b'' @ ''.'' @ hostname example_cluster) = Some (''b'' @ ''.'' @ hostname example_cluster)"
    "CHR '':'' \<notin> set (''b'' @ ''.'' @ hostname example_cluster)"
    "rewrite_uri example_px (show_ipv4 (10, 0, 0, 7) @ '':8080'') (rq_uri (example_request ''b.plane.test'')) = Inr ?uri"
    by (simp_all add: example_service_def make_proxy_service_call_def example_request_def from_utf8_def rewrite_uri_def example_px_def)
  from spawned_backend_is_reachable [OF example_plane_def ok example_plane_facts(3,5) example_conditions this]
  show ?thesis by blast
qed

end
