(* ===== verification/Unit_Tests.thy ===== *)
theory Unit_Tests
  imports Scheduler Dns_Server "HOL-Library.Monad_Syntax"
begin

text \<open>
  The repository's own unit tests (the \<open>#[cfg(test)]\<close> modules of the controller and of
  \<open>core/src/messages/dns.rs\<close>), run on the model. A test is a program of the option monad whose
  \<open>None\<close> is a panic, so that \<open>unwrap\<close> and the assertions are the monad's failure; that a test passes
  is that its value is \<open>Some ()\<close>. Every operation on a container threads its state, because reading a
  container also compacts it.

  The values the tests draw from outside are arguments: the clock of \<open>get_or_insert_with\<close>, a random
  drone id, the crate's version and chrono's parser of dates, for which a hypothesis says how far the
  dates of the tests are apart.
\<close>

section \<open>Assertions\<close>

definition assert_true :: "bool \<Rightarrow> unit panics" where
  "assert_true b = (if b then Some () else None)"

definition assert_eq :: "'a \<Rightarrow> 'a \<Rightarrow> unit panics" where
  "assert_eq a b = assert_true (a = b)"

lemma assert_true_simps [simp]: "assert_true True = Some ()" "assert_true False = None"
  by (simp_all add: assert_true_def)

lemma assert_eq_refl [simp]: "assert_eq a a = Some ()"
  by (simp add: assert_eq_def)

text \<open>Running a program from its first statement on: the rest is only looked at when a value is known.\<close>

lemma bind_eval_cong: "x = y \<Longrightarrow> Option.bind x f = Option.bind y f"
  by simp

lemma let_eval_cong: "x = y \<Longrightarrow> Let x f = Let y f"
  by simp

lemmas eval_congs = bind_eval_cong let_eval_cong

section \<open>\<open>controller/src/ttl_store\<close>\<close>

definition ts :: "nat \<Rightarrow> systime" where
  "ts timestamp = int (from_secs timestamp)"

text \<open>\<open>inner_map.len()\<close>.\<close>

definition inner_map_len :: "('k, 'v) ttl_map \<Rightarrow> nat" where
  "inner_map_len m = card (dom (tm_inner m))"

definition test_ttl_store :: "unit panics" where
  "test_ttl_store = do {
     let store = (ttl_map_new (from_secs 10) :: (string, string) ttl_map);
     assert_eq 0 (inner_map_len store);
     store \<leftarrow> ttl_map_insert store ''foo'' ''bar'' (ts 10);
     assert_eq 1 (inner_map_len store);
     let (v, store) = ttl_map_get store ''foo'' (ts 11);
     assert_eq (Some ''bar'') v;
     let store = ttl_map_compact store (ts 25);
     assert_eq 0 (inner_map_len store);
     let (v, store) = ttl_map_get store ''foo'' (ts 25);
     assert_eq None v
   }"

definition test_ttl_store_ignores_overwrite :: "unit panics" where
  "test_ttl_store_ignores_overwrite = do {
     let store = (ttl_map_new (from_secs 10) :: (string, string) ttl_map);
     assert_eq 0 (inner_map_len store);
     store \<leftarrow> ttl_map_insert store ''foo'' ''bar'' (ts 10);
     let (v, store) = ttl_map_get store ''foo'' (ts 11);
     assert_eq (Some ''bar'') v;
     store \<leftarrow> ttl_map_insert store ''foo'' ''baz'' (ts 19);
     let store = ttl_map_compact store (ts 21);
     assert_eq 1 (inner_map_len store);
     let (v, store) = ttl_map_get store ''foo'' (ts 25);
     assert_eq (Some ''baz'') v
   }"

definition test_multiple_keys :: "unit panics" where
  "test_multiple_keys = do {
     let store = (ttl_map_new (from_secs 10) :: (string, string) ttl_map);
     assert_eq 0 (inner_map_len store);
     store \<leftarrow> ttl_map_insert store ''foo1'' ''bar1'' (ts 10);
     store \<leftarrow> ttl_map_insert store ''foo2'' ''bar2'' (ts 12);
     store \<leftarrow> ttl_map_insert store ''foo3'' ''bar3'' (ts 14);
     let (v, store) = ttl_map_get store ''foo1'' (ts 15);
     assert_eq (Some ''bar1'') v;
     let (v, store) = ttl_map_get store ''foo1'' (ts 20);
     assert_eq (Some ''bar1'') v;
     let (v, store) = ttl_map_get store ''foo1'' (ts 21);
     assert_eq None v;
     let (v, store) = ttl_map_get store ''foo2'' (ts 22);
     assert_eq (Some ''bar2'') v;
     let (v, store) = ttl_map_get store ''foo3'' (ts 24);
     assert_eq (Some ''bar3'') v;
     let (v, store) = ttl_map_get store ''foo1'' (ts 33);
     assert_eq None v;
     let (v, store) = ttl_map_get store ''foo2'' (ts 33);
     assert_eq None v;
     let (v, store) = ttl_map_get store ''foo3'' (ts 33);
     assert_eq None v
   }"

definition test_list :: "unit panics" where
  "test_list = do {
     let list = (ttl_list_new (from_secs 10) :: u32 ttl_list);
     list \<leftarrow> ttl_list_push list 4 (ts 100);
     list \<leftarrow> ttl_list_push list 5 (ts 101);
     list \<leftarrow> ttl_list_push list 6 (ts 102);
     list \<leftarrow> ttl_list_push list 7 (ts 103);
     let (vals, list) = ttl_list_iter list (ts 108);
     assert_eq [4, 5, 6, 7] vals;
     let (vals, list) = ttl_list_iter list (ts 112);
     assert_eq [7] vals;
     let (vals, list) = ttl_list_iter list (ts 113);
     assert_true (vals = [])
   }"

text \<open>\<open>now\<close> is what \<open>SystemTime::now()\<close> reads when an insertion makes a new list.\<close>

definition test_multistore :: "systime \<Rightarrow> unit panics" where
  "test_multistore now = do {
     let store = (ttl_multistore_new (from_secs 10) :: (u32, u32) ttl_multistore);
     store \<leftarrow> ttl_multistore_insert store 4 10 (ts 200) now;
     store \<leftarrow> ttl_multistore_insert store 4 11 (ts 201) now;
     store \<leftarrow> ttl_multistore_insert store 4 12 (ts 202) now;
     store \<leftarrow> ttl_multistore_insert store 5 100 (ts 205) now;
     store \<leftarrow> ttl_multistore_insert store 5 110 (ts 206) now;
     store \<leftarrow> ttl_multistore_insert store 5 120 (ts 207) now;
     let (vals, store) = ttl_multistore_iter store 4 (ts 208);
     vals \<leftarrow> vals;
     assert_eq [10, 11, 12] vals;
     let (vals, store) = ttl_multistore_iter store 4 (ts 211);
     vals \<leftarrow> vals;
     assert_eq [12] vals;
     let (vals, store) = ttl_multistore_iter store 5 (ts 211);
     vals \<leftarrow> vals;
     assert_eq [100, 110, 120] vals;
     let (vals, store) = ttl_multistore_iter store 4 (ts 212);
     vals \<leftarrow> vals;
     assert_true (vals = []);
     let (vals, store) = ttl_multistore_iter store 5 (ts 215);
     vals \<leftarrow> vals;
     assert_eq [110, 120] vals;
     let (vals, store) = ttl_multistore_iter store 5 (ts 216);
     vals \<leftarrow> vals;
     assert_eq [120] vals;
     let (vals, store) = ttl_multistore_iter store 5 (ts 217);
     vals \<leftarrow> vals;
     assert_true (vals = [])
   }"

lemmas ttl_test_defs = ts_def from_secs_def inner_map_len_def ttl_map_new_def ttl_map_insert_def systime_add_def
  SYSTIME_MAX_def ttl_map_get_def ttl_map_compact_def ttl_list_new_def ttl_list_push_def ttl_list_iter_def
  ttl_list_compact_def ttl_multistore_new_def ttl_multistore_insert_def ttl_multistore_iter_def
  ttl_map_get_or_insert_with_def ttl_map_write_def Let_def

lemma ttl_map_tests:
  "test_ttl_store = Some ()" "test_ttl_store_ignores_overwrite = Some ()" "test_multiple_keys = Some ()"
  by (simp_all add: test_ttl_store_def test_ttl_store_ignores_overwrite_def test_multiple_keys_def ttl_test_defs cong: eval_congs)

lemma ttl_list_test: "test_list = Some ()"
  by (simp add: test_list_def ttl_test_defs cong: eval_congs)

lemma ttl_multistore_test: "test_multistore now = Some ()"
  by (simp add: test_multistore_def ttl_test_defs cong: eval_congs)

section \<open>\<open>controller/src/scheduler.rs\<close>\<close>

text \<open>\<open>parse_from_rfc3339\<close> is chrono's; \<open>date\<close> unwraps its result.\<close>

definition date :: "(string \<Rightarrow> systime option) \<Rightarrow> string \<Rightarrow> systime panics" where
  "date parse_from_rfc3339 s = parse_from_rfc3339 s"

definition test_no_drones ::
  "(string \<Rightarrow> systime option) \<Rightarrow> (systime \<Rightarrow> duration \<Rightarrow> systime option) \<Rightarrow> (DroneId list \<Rightarrow> DroneId option) \<Rightarrow> unit panics" where
  "test_no_drones parse checked_sub pick = do {
     timestamp \<leftarrow> date parse ''2020-01-01T05:00:00+00:00'';
     r \<leftarrow> schedule checked_sub pick scheduler_default (ClusterName ''mycluster.test'') timestamp;
     assert_eq (Inl NoDroneAvailableError) r
   }"

definition test_one_drone ::
  "(string \<Rightarrow> systime option) \<Rightarrow> (systime \<Rightarrow> duration \<Rightarrow> systime option) \<Rightarrow> (DroneId list \<Rightarrow> DroneId option) \<Rightarrow>
     string \<Rightarrow> DroneId \<Rightarrow> unit panics" where
  "test_one_drone parse checked_sub pick version drone_id = do {
     now \<leftarrow> date parse ''2020-01-01T05:00:00+00:00'';
     let s = update_status scheduler_default now
       \<lparr>ds_drone_id = drone_id, ds_cluster = ClusterName ''mycluster.test'', ds_drone_version = version,
        ds_ready = True, ds_running_backends = None\<rparr>;
     later \<leftarrow> date parse ''2020-01-01T05:00:03+00:00'';
     r \<leftarrow> schedule checked_sub pick s (ClusterName ''mycluster.test'') later;
     assert_eq (Inr drone_id) r
   }"

definition test_one_drone_wrong_cluster ::
  "(string \<Rightarrow> systime option) \<Rightarrow> (systime \<Rightarrow> duration \<Rightarrow> systime option) \<Rightarrow> (DroneId list \<Rightarrow> DroneId option) \<Rightarrow>
     string \<Rightarrow> DroneId \<Rightarrow> unit panics" where
  "test_one_drone_wrong_cluster parse checked_sub pick version drone_id = do {
     now \<leftarrow> date parse ''2020-01-01T05:00:00+00:00'';
     let s = update_status scheduler_default now
       \<lparr>ds_drone_id = drone_id, ds_cluster = ClusterName ''mycluster1.test'', ds_drone_version = version,
        ds_ready = True, ds_running_backends = None\<rparr>;
     later \<leftarrow> date parse ''2020-01-01T05:00:03+00:00'';
     r \<leftarrow> schedule checked_sub pick s (ClusterName ''mycluster2.test'') later;
     assert_eq (Inl NoDroneAvailableError) r
   }"

definition test_one_drone_expired ::
  "(string \<Rightarrow> systime option) \<Rightarrow> (systime \<Rightarrow> duration \<Rightarrow> systime option) \<Rightarrow> (DroneId list \<Rightarrow> DroneId option) \<Rightarrow>
     string \<Rightarrow> DroneId \<Rightarrow> unit panics" where
  "test_one_drone_expired parse checked_sub pick version drone_id = do {
     now \<leftarrow> date parse ''2020-01-01T05:00:00+00:00'';
     let s = update_status scheduler_default now
       \<lparr>ds_drone_id = drone_id, ds_cluster = ClusterName ''mycluster.test'', ds_drone_version = version,
        ds_ready = True, ds_running_backends = None\<rparr>;
     later \<leftarrow> date parse ''2020-01-01T05:00:09+00:00'';
     r \<leftarrow> schedule checked_sub pick s (ClusterName ''mycluster.test'') later;
     assert_eq (Inl NoDroneAvailableError) r
   }"

text \<open>What chrono's documentation says of the dates of the tests.\<close>

definition dates_ok :: "(string \<Rightarrow> systime option) \<Rightarrow> systime \<Rightarrow> bool" where
  "dates_ok parse t \<longleftrightarrow> parse ''2020-01-01T05:00:00+00:00'' = Some t \<and>
     parse ''2020-01-01T05:00:03+00:00'' = Some (t + int (from_secs 3)) \<and>
     parse ''2020-01-01T05:00:09+00:00'' = Some (t + int (from_secs 9))"

lemma pick_ok_cases: "pick_ok pick \<Longrightarrow> pick [] = None" "pick_ok pick \<Longrightarrow> pick [x] = Some x"
  by (auto simp: pick_ok_def dest: spec [of _ "[]"] spec [of _ "[x]"] split: option.splits)

lemma scheduler_tests:
  assumes "dates_ok parse t" and "pick_ok pick" and "\<forall>t. sub_ok checked_sub t"
  shows "test_no_drones parse checked_sub pick = Some ()"
    and "test_one_drone parse checked_sub pick version d = Some ()"
    and "test_one_drone_wrong_cluster parse checked_sub pick version d = Some ()"
    and "test_one_drone_expired parse checked_sub pick version d = Some ()"
  using assms
  by (simp_all add: test_no_drones_def test_one_drone_def test_one_drone_wrong_cluster_def test_one_drone_expired_def
      date_def dates_ok_def sub_ok_def schedule_def update_status_def scheduler_default_def al_insert_def
      pick_ok_cases from_secs_def Let_def)

section \<open>\<open>controller/src/dns/rname_format.rs\<close> and \<open>core/src/messages/dns.rs\<close>\<close>

definition test_rname :: "unit panics" where
  "test_rname = do {
     r \<leftarrow> format_rname ''foo@bar.com'';
     assert_eq ''foo.bar.com'' r;
     r \<leftarrow> format_rname ''foo.bar@baz.com'';
     assert_eq (''foo'' @ [CHR 0x5C] @ ''.bar.baz.com'') r;
     assert_true (format_rname ''foo.bar.com'' = None)
   }"

definition test_set_dns_record_subject :: "unit panics" where
  "test_set_dns_record_subject = do {
     let r = \<lparr>sd_cluster = ClusterName ''foo.bar'', sd_kind = RecA, sd_name = ''blah'', sd_value = ''12.12.12.12''\<rparr>;
     assert_eq ''cluster.foo_bar.dns.A'' (set_dns_subject r);
     let r = \<lparr>sd_cluster = ClusterName ''gad.wom.tld'', sd_kind = RecTXT, sd_name = ''goo'', sd_value = ''14.14.14.14''\<rparr>;
     assert_eq ''cluster.gad_wom_tld.dns.TXT'' (set_dns_subject r)
   }"

lemma name_tests: "test_rname = Some ()" "test_set_dns_record_subject = Some ()"
  by (simp_all add: test_rname_def format_rname_def replace_char_def test_set_dns_record_subject_def set_dns_subject_def
      cong: eval_congs)

section \<open>Property\<close>

text \<open>The unit tests of the repository pass on the model, whatever clock, drone id, version and
  admissible random choice they meet, if chrono reads the three dates of the tests three and six seconds
  apart and subtracts five seconds.\<close>

theorem unit_tests_pass:
  assumes "dates_ok parse t" and "pick_ok pick" and "\<forall>t. sub_ok checked_sub t"
  shows "\<forall>passed \<in> {test_ttl_store, test_ttl_store_ignores_overwrite, test_multiple_keys, test_list, test_multistore now,
    test_no_drones parse checked_sub pick, test_one_drone parse checked_sub pick version d,
    test_one_drone_wrong_cluster parse checked_sub pick version d, test_one_drone_expired parse checked_sub pick version d,
    test_rname, test_set_dns_record_subject}. passed = Some ()"
  using ttl_map_tests ttl_list_test ttl_multistore_test scheduler_tests [OF assms] name_tests by simp

definition example_date :: "string \<Rightarrow> systime option" where
  "example_date s =
     (if s = ''2020-01-01T05:00:00+00:00'' then Some (int (from_secs 1577854800))
      else if s = ''2020-01-01T05:00:03+00:00'' then Some (int (from_secs 1577854803))
      else if s = ''2020-01-01T05:00:09+00:00'' then Some (int (from_secs 1577854809)) else None)"

theorem unit_tests_pass_witness:
  "test_one_drone_expired example_date plain_sub first_choice ''0.1'' (DroneId ''d'') = Some () \<and>
   test_multistore 0 = Some ()"
proof -
  have "dates_ok example_date (int (from_secs 1577854800))"
    by (simp add: dates_ok_def example_date_def from_secs_def)
  from unit_tests_pass [OF this first_choice_ok, of plain_sub 0 "''0.1''" "DroneId ''d''"] plain_sub_ok show ?thesis by simp
qed

end
