(* ===== verification/Spec2Isabelle.thy ===== *)
theory Spec2Isabelle
  imports Startup Cli Proxy_Connections Dev_Resources Plane_Reach Unit_Tests
begin

text \<open>
  A verification development for Plane, a server that runs one container (a \<^emph>\<open>backend\<close>) per session
  and routes HTTP requests to it by host name.

  \<^bold>\<open>The program.\<close> The \<^emph>\<open>controller\<close> (\<open>controller/\<close>) chooses drones for new backends and answers DNS
  queries; it is driven by messages only. A \<^emph>\<open>drone\<close> (\<open>drone/\<close>) runs up to three event loops: the
  agent, which starts, watches and stops containers, the proxy, which forwards requests, and the
  certificate refresher. Agent and proxy share an SQLite database: the agent writes states and
  routes, the proxy reads routes and writes the times of activity, the agent reads those to sweep
  idle backends. Everything else goes over NATS, with the message types of \<open>core/\<close>. The command line
  client (\<open>cli/\<close>) only sends messages. The integration tests run on a harness of their own (\<open>dev/\<close>).

  \<^bold>\<open>The theories\<close>, in the order of their dependencies:
  \<^item> \<open>Plane_Prelude\<close>: results and panics, machine integers, time, the string functions of the standard
    library, association lists, and the locales \<open>step_invariant\<close> and \<open>simulation\<close> with their run functions.
  \<^item> \<open>Core_Types\<close>, \<open>Core_Messages\<close> (\<open>core/src/types.rs\<close>, \<open>core/src/messages/\<close>): identifiers, messages,
    subjects, stream configurations, the states of a backend; the locale \<open>typed_message\<close> states what a
    subject owes its subscribers and is interpreted for each message type; no subscription receives
    a message of another type.
  \<^item> \<open>Core_Retry\<close>, \<open>Core_Nats\<close>, \<open>Core_Logging\<close> (\<open>core/src/retry.rs\<close>, \<open>nats.rs\<close>, \<open>nats_connection.rs\<close>,
    \<open>logging.rs\<close>): the retry loop is total and equal to its specification; streams are created
    before they are used; requests and answers are read back; the log channel keeps order.
    \<open>Core_Retry\<close> also has the \<open>Timer\<close> of \<open>core/src/timing.rs\<close>.
  \<^item> \<open>Ttl_Store\<close>, \<open>Scheduler\<close>, \<open>Dns_Server\<close> (\<open>controller/src/\<close>), with \<open>Net_Text\<close> for the textual form of
    addresses: the stores and the DNS server refine functions of everything ever inserted; the
    scheduler chooses exactly among the drones that are live.
  \<^item> \<open>Drone_Database\<close> (\<open>drone/src/database.rs\<close> and the migration): tables as lists of rows, every query a
    function on them; refines two finite maps.
  \<^item> \<open>Executor\<close>, \<open>Docker_Engine\<close>, \<open>Agent\<close> (\<open>drone/src/agent/\<close>): the tasks of the executor as atomic events
    on one state, the engine over an abstract Docker daemon, the loops of the agent around them.
  \<^item> \<open>Engine_Run\<close> (\<open>drone/src/agent/engine.rs\<close>): the executor on an engine that answers the calls of its
    steps. The locale \<open>container_engine\<close> is the contract of the trait, proved for the Docker engine; with it
    a spawn becomes ready, a dead container is noticed, and ended backends leave no container.
  \<^item> \<open>Connection_Tracker\<close>, \<open>Proxy_Service\<close>, \<open>Tls_Stream\<close> (\<open>drone/src/proxy/\<close>): activity, request handling
    against any route table with the laws of the locale \<open>route_lookup\<close>, the TLS handshake.
  \<^item> \<open>Proxy_Connections\<close> (\<open>drone/src/proxy/service.rs\<close>): the services made for the streams and the tasks
    that join upgraded connections, one machine with the tracker: open connections are counted exactly.
  \<^item> \<open>Drone_Certs\<close> (\<open>drone/src/keys.rs\<close>, \<open>cert/\<close>, \<open>proxy/certs.rs\<close>): issuing, storing, renewing and
    reloading the key pair.
  \<^item> \<open>Startup\<close> (configurations, plans and main functions of both services) and \<open>Cli\<close> (\<open>cli/src/main.rs\<close>).
  \<^item> \<open>Dev_Harness\<close>, \<open>Dev_Resources\<close> (\<open>dev/\<close>): test contexts, teardown, time-outs, waiting loops, containers,
    fixtures, the test image and the test attribute: a test that does not panic leaves no container.
  \<^item> \<open>Plane_System\<close>, \<open>Plane_Reach\<close>: the whole system as one machine, made of the steps of the other theories:
    a controller, any number of drones with their databases and engines, and the messages between
    them. NATS is a log of what was published, from which messages may be received late, repeatedly, out of
    order or never; processes may stop and start at any time. The invariant \<open>plane_inv\<close> accounts for
    every run, row, route, monitor and DNS record by a request the scheduler has placed. From it: a name
    leads to a drone the backend was placed on while the drone was live, a proxy serves only backends that
    were placed on its drone, and a scheduled backend becomes reachable under its name.
  \<^item> \<open>Unit_Tests\<close>: the unit tests of the repository as programs on the model; all of them pass.
  \<^item> This theory: the other properties that span components, from the executor through the database to the
    proxy, from the tracker through the database to the idle loop, from the monitor of a backend to
    the DNS server, from the agent to the scheduler, and from the command line to the proxy.

  \<^bold>\<open>Correspondence.\<close> A struct is a record, an enum a datatype, a method a function with the state as an
  argument and a result. \<open>Result<T, E>\<close> is \<open>'e + 't\<close>, a panic is \<open>None\<close> of the type \<open>'a panics\<close>.
  Asynchronous code is cut at its awaits into events: a task is a record with its phase, the events
  carry what the environment supplies (answers, clock readings, failures), and statements hold for
  every sequence of events. What one event covers is noted at its definition; in particular the
  insertion and the start of a run in \<open>start_backend\<close> are one event, and the guards of the concurrent
  maps are not modelled, so that deadlocks on them are outside the development. Unsigned integers are
  words; \<open>checks\<close> distinguishes builds with overflow checks from builds that wrap.

  \<^bold>\<open>Assumptions.\<close> Code that is not part of the repository is an argument: the NATS client, serde's
  encodings, Docker, the ACME client, PEM and X.509 parsers, rustls, hyper, trust-dns, the random
  choice, checked arithmetic on dates. What is assumed about it is a named hypothesis (\<open>pick_ok\<close>,
  \<open>sub_ok\<close>, \<open>daemon_ok\<close>, \<open>encodes\<close> and other inverse encodings, \<open>dates_ok\<close>) with a witness that it can hold. The text form of IPv6 addresses is
  an argument of the printing functions. Times are nanoseconds; times of the database are seconds and
  are taken to be in the range of \<open>chrono\<close>. Rows of a table are kept in the order of their row ids.

  \<^bold>\<open>Loops and fuel.\<close> No definition uses fuel: the retry loop and the compaction loops are functions with
  termination proofs, endless event loops are steps folded over a finite sequence of events, and
  reading a whole stream is a function on the batches the server returns, proved to stop. The waiting
  loops of the harness are partial functions; \<open>wait_for_port_ends\<close> shows that waiting for a port returns.

  \<^bold>\<open>Beside the correct behaviour\<close> the development proves some that were not intended: spawning an id twice
  breaks the running backend, a port that never answers strands a backend, requests can be lost between
  reading and clearing the tracker, a certificate in another directory than its key is never reloaded,
  a renewal can leave the end of an old file, a mixed pair can be served, missing statistics and
  passwords in NATS URLs panic, the multistore never forgets a key, a container that cannot be started
  is never removed, a failed resubscription ends the updates of the DNS server, a panicking test is not
  torn down.

  \<^bold>\<open>Not modelled:\<close> sockets, the HTTP server and client, the bytes that upgraded connections copy (their
  counts are arguments), when signals arrive, argument parsing and the sources of the configuration,
  the tracing registry, connection pools, the log file of a test and terminal output; of the unit tests
  the one of serde's encoding of a log component, and the integration tests. These are calls of
  libraries; the development keeps what the program passes to them and does with their results.
\<close>

section \<open>From the executor through the database to the proxy\<close>

text \<open>C7: a backend is reachable exactly while it is ready. When the run of a backend has seen its
  port answer and its route and state are stored, the backend is \<open>Ready\<close>, and a request for
  \<open>id.cluster\<close> is sent to the address the engine reported; with any other state in the row the
  same request is answered with 404.\<close>

theorem ready_backend_is_proxied:
  assumes "i < length (xc_runs w)" and "r_alive (xc_runs w ! i)" and "r_state (xc_runs w ! i) = Starting"
    and "r_phase (xc_runs w ! i) = AwaitRoute addr" and "b = run_backend_id (xc_runs w ! i)"
    and "db_ok (xc_database w)" and "backend_id_str b \<in> db_names (xc_database w)" and "io_db io"
    and "w' = exec_run x [EvPoll i (ARoute True now) io] w"
    and "a = show_socket_addr (x_show_v6 x) addr" and "rewrite_uri px a (rq_uri req) = Inr uri"
    and "map_of (rq_headers req) ''host'' = Some (backend_id_str b @ ''.'' @ ps_cluster self)"
    and "from_utf8 (backend_id_str b @ ''.'' @ ps_cluster self) = Some (backend_id_str b @ ''.'' @ ps_cluster self)"
    and "CHR '':'' \<notin> set (backend_id_str b @ ''.'' @ ps_cluster self)"
  shows "r_state (xc_runs w' ! i) = Ready \<and>
    (\<exists>sent. hd_sent (handle px (\<lambda>sub. Inr (get_proxy_route sub (xc_database w'))) upstream up self req t) = Some sent \<and>
       rq_uri sent = uri) \<and>
    (\<forall>st. st \<noteq> Ready \<longrightarrow>
       handle px (\<lambda>sub. Inr (get_proxy_route sub (update_backend_state b st (xc_database w')))) upstream up self req t
         = proxy_respond t (Inr not_found))"
proof -
  obtain db where ins: "insert_proxy_route (x_fk x) now b (backend_id_str b) a (xc_database w) = (db, Inr ())"
    using insert_proxy_route_result [of "x_fk x" now b "backend_id_str b" a "xc_database w"] assms(7) by auto
  have w': "w' = poll_run x i (ARoute True now) io w" using assms(9) by simp
  have db': "xc_database w' = update_backend_state b Ready db" and st: "r_state (xc_runs w' ! i) = Ready"
    using poll_route [OF assms(1-5)] ins assms(8,10) unfolding w' by simp_all
  note route = route_of_ready [OF assms(6) ins assms(7)]
  have sub: "proxied_subdomain self req = Some (backend_id_str b)"
    using assms(12-14) by (rule proxied_subdomain_host)
  have "\<exists>sent. hd_sent (handle px (\<lambda>sub. Inr (get_proxy_route sub (xc_database w'))) upstream up self req t) = Some sent \<and>
      rq_uri sent = uri"
    using sub route [of Ready] assms(11) unfolding db' by (intro handle_sends) auto
  moreover have "update_backend_state b s (update_backend_state b Ready db) = update_backend_state b s db" for s
    by (simp add: update_backend_state_def comp_def cong: if_cong)
  then have "handle px (\<lambda>sub. Inr (get_proxy_route sub (update_backend_state b s (xc_database w')))) upstream up self req t
      = proxy_respond t (Inr not_found)" if "s \<noteq> Ready" for s
    using db_routes.unrouted [of req self True "update_backend_state b s db" px upstream up t] sub route [of s] that
      assms(12,13) unfolding db' by (simp add: proxy_respond_def)
  ultimately show ?thesis using st by blast
qed

definition example_routing :: executor where
  "example_routing = exec_run example_ext [EvPoll 0 (AHttp (\<lambda>_. Inr ())) example_io] example_waiting"

lemma example_routing_run:
  "xc_runs example_routing = [\<lparr>r_spec = example_spawn ''d'' ''b'', r_state = Starting,
     r_phase = AwaitRoute example_addr, r_queue = [], r_alive = True\<rparr>]"
  "xc_database example_routing = xc_database example_world"
proof -
  have "wait_port_ready example_ext example_addr (\<lambda>_. Inr ()) = Some (Inr ())"
    by (simp add: wait_port_ready_total example_ext_def retry_spec_def Let_def)
  then show "xc_runs example_routing = [\<lparr>r_spec = example_spawn ''d'' ''b'', r_state = Starting,
     r_phase = AwaitRoute example_addr, r_queue = [], r_alive = True\<rparr>]"
    and "xc_database example_routing = xc_database example_world"
    by (simp_all add: example_routing_def example_waiting_def poll_run_def example_waiting_run poll_step_def
        upd_run_def example_world_run)
qed

lemma example_world_db:
  "xc_database example_world = \<lparr>db_backend = [\<lparr>br_name = ''b'', br_spec = ''spec'', br_state = ''Starting'',
     br_exit_code = None\<rparr>], db_route = []\<rparr>"
  by (simp add: example_world_def example_events_def example_io_def example_ext_def executor_new_def
      start_backend_def register_run_def publish_state_def poll_run_def poll_step_def Let_def
      set_run_state_def upd_run_def example_spawn_def insert_backend_def run_backend_id_def
      drone_database_new_def exec_update_backend_state_def update_backend_state_def start_monitor_def)

theorem ready_backend_is_proxied_witness:
  "\<exists>w'. w' = exec_run example_ext [EvPoll 0 (ARoute True 7) example_io] example_routing \<and>
     r_state (xc_runs w' ! 0) = Ready \<and>
     hd_sent (handle example_px (\<lambda>sub. Inr (get_proxy_route sub (xc_database w'))) (\<lambda>_. Inr not_found) True
       example_service (example_request ''b.plane.test'') connection_tracker_default) \<noteq> None"
proof -
  let ?a = "show_socket_addr (x_show_v6 example_ext) example_addr"
  have "rewrite_uri example_px ?a (rq_uri (example_request ''b.plane.test''))
      = Inr \<lparr>u_scheme = Some ''http'', u_authority = Some ?a, u_path_and_query = Some ''/x''\<rparr>"
    by (simp add: rewrite_uri_def example_px_def example_request_def)
  moreover have "db_ok (xc_database example_routing)" "''b'' \<in> db_names (xc_database example_routing)"
    by (simp_all add: example_routing_run(2) example_world_db db_ok_def db_names_def state_from_str_def)
  moreover have "from_utf8 ''b.plane.test'' = Some ''b.plane.test''" by (simp add: from_utf8_def)
  ultimately show ?thesis
    using ready_backend_is_proxied [OF _ _ _ _ refl _ _ _ refl refl, of 0 example_routing example_addr example_io
        example_px example_ext "example_request ''b.plane.test''" _ example_service 7 "\<lambda>_. Inr not_found" True connection_tracker_default]
    by (auto simp: example_routing_run(1) run_backend_id_def example_spawn_def example_io_def example_request_def
        example_service_def make_proxy_service_call_def simp del: exec_run.simps)
qed

section \<open>Activity keeps a backend alive\<close>

lemma last_active_row:
  assumes "\<forall>r \<in> set (db_route db). rr_backend r = Some (backend_id_str b) \<longleftrightarrow> rr_subdomain r = backend_id_str b"
  shows "get_backend_last_active b db =
    (case route_row db (backend_id_str b) of
       None \<Rightarrow> Inl RowNotFound | Some r \<Rightarrow> Inr (rr_last_active r * 1000000000))"
proof -
  have "List.find (\<lambda>r. rr_backend r = Some (backend_id_str b)) (db_route db) = route_row db (backend_id_str b)"
    unfolding route_row_def using assms by (intro find_cong) auto
  then show ?thesis by (simp add: get_backend_last_active_def)
qed

lemma reset_times_assoc:
  "map (\<lambda>r. (rr_backend r, rr_subdomain r)) (db_route (reset_last_active_times subs db)) =
   map (\<lambda>r. (rr_backend r, rr_subdomain r)) (db_route db)"
  by (induction subs db rule: reset_last_active_times.induct) (simp_all add: reset_last_active_def)

lemma reset_times_routes:
  assumes "\<forall>r \<in> set (db_route db). P (rr_backend r) (rr_subdomain r)"
  shows "\<forall>r \<in> set (db_route (reset_last_active_times subs db)). P (rr_backend r) (rr_subdomain r)"
proof -
  have iff: "(\<forall>r \<in> set rs. P (rr_backend r) (rr_subdomain r)) \<longleftrightarrow>
      (\<forall>q \<in> set (map (\<lambda>r. (rr_backend r, rr_subdomain r)) rs). P (fst q) (snd q))" for rs by simp
  show ?thesis using assms unfolding iff reset_times_assoc .
qed

text \<open>C15: a backend with an open or a recent connection is not swept. With the routes the executor
  writes (the subdomain of a backend is its id), when \<open>record_connections\<close> runs while a request
  was tracked or an upgraded connection is open, the idle loop goes on waiting at every clock
  reading up to \<open>max_idle_secs\<close> after the time then written, whatever was written before.\<close>

theorem active_backend_not_swept:
  assumes "\<forall>r \<in> set (db_route db). rr_backend r = Some (backend_id_str b) \<longleftrightarrow> rr_subdomain r = backend_id_str b"
    and "route_row db (backend_id_str b) = Some r" and "b = sp_backend_id spec"
    and "backend_id_str b \<in> set (ct_request_events t) \<union> fst ` set (ct_long_lived t)"
    and "record_connections (\<lambda>_. now) None t db = (t', db')"
    and "now1 \<le> now2" and "now2 \<le> now * 1000000000 + int (sp_max_idle_secs spec)"
    and "sp_max_idle_secs spec \<le> x_max_std x" and "now * 1000000000 + int (sp_max_idle_secs spec) \<le> x_max_utc x"
  shows "poll_step x spec Ready AwaitIdle (AIdle True now1 now2) db' = (db', Suspend AwaitIdle)"
proof -
  let ?active = "snd (get_and_clear_active_backends t)"
  let ?subs = "zip ?active (map (\<lambda>_. now) [0..<length ?active])"
  have db': "db' = reset_last_active_times ?subs db"
    using assms(5) by (auto simp: record_connections_def Let_def split: prod.splits)
  have "fst ` set ?subs = set ?active" by (metis length_map length_upt map_fst_zip minus_nat.diff_0 list.set_map)
  moreover have "set ?active = set (ct_request_events t) \<union> fst ` set (ct_long_lived t)"
    by (auto simp: get_and_clear_active_backends_def collect_active_def set_fold_insert)
  moreover have "snd ` set ?subs \<subseteq> {now}" by (auto dest: set_zip_rightD)
  ultimately have row: "route_row db' (backend_id_str b) = Some (r\<lparr>rr_last_active := now\<rparr>)"
    using reset_times_row [OF assms(2), of ?subs] assms(4) unfolding db' by auto
  have "\<forall>r \<in> set (db_route db'). rr_backend r = Some (backend_id_str b) \<longleftrightarrow> rr_subdomain r = backend_id_str b"
    unfolding db' using assms(1) by (rule reset_times_routes)
  then have "get_backend_last_active b db' = Inr (now * 1000000000)"
    using last_active_row row by simp
  then show ?thesis using assms(3,6-9) by (simp add: poll_step_def idle_check_def Let_def)
qed

theorem active_backend_not_swept_witness:
  "snd (poll_step example_ext (example_spawn ''d'' ''b'') Ready AwaitIdle (AIdle True 85000000000 86000000000)
     (snd (record_connections (\<lambda>_. 77) None (track_request ''b'' connection_tracker_default) example_routes)))
     = Suspend AwaitIdle"
proof -
  let ?t = "track_request ''b'' connection_tracker_default"
  have "route_row example_routes (backend_id_str (BackendId ''b'')) = Some (hd (db_route example_routes))"
    by (simp add: route_row_def example_routes_def)
  moreover have "\<forall>r \<in> set (db_route example_routes).
      rr_backend r = Some (backend_id_str (BackendId ''b'')) \<longleftrightarrow> rr_subdomain r = backend_id_str (BackendId ''b'')"
    by (simp add: example_routes_def)
  moreover have "backend_id_str (BackendId ''b'') \<in> set (ct_request_events ?t) \<union> fst ` set (ct_long_lived ?t)"
    by (simp add: track_request_def connection_tracker_default_def)
  moreover have "BackendId ''b'' = sp_backend_id (example_spawn ''d'' ''b'')" by (simp add: example_spawn_def)
  moreover have "(86000000000 :: int) \<le> 77 * 1000000000 + int (sp_max_idle_secs (example_spawn ''d'' ''b''))"
      "sp_max_idle_secs (example_spawn ''d'' ''b'') \<le> x_max_std example_ext"
      "77 * 1000000000 + int (sp_max_idle_secs (example_spawn ''d'' ''b'')) \<le> x_max_utc example_ext"
    by (simp_all add: example_spawn_def example_ext_def from_secs_def)
  ultimately have "poll_step example_ext (example_spawn ''d'' ''b'') Ready AwaitIdle (AIdle True 85000000000 86000000000)
      (snd (record_connections (\<lambda>_. 77) None ?t example_routes))
      = (snd (record_connections (\<lambda>_. 77) None ?t example_routes), Suspend AwaitIdle)"
    using active_backend_not_swept [OF _ _ _ _ surjective_pairing [of "record_connections (\<lambda>_. 77) None ?t example_routes"]]
    by simp
  then show ?thesis by simp
qed

section \<open>From the monitor of a backend to the DNS server\<close>

lemma dns_loop_gap:
  assumes "k < length ds"
  shows "dns_loop_times t ds ! Suc k = dns_loop_times t ds ! k + int (ds ! k) + int dns_loop_pause"
  using assms
proof (induction t ds arbitrary: k rule: dns_loop_times.induct)
  case (2 t d ds)
  show ?case
  proof (cases k)
    case 0
    then show ?thesis by (cases ds) auto
  next
    case (Suc j)
    then show ?thesis using "2.IH" [of j] "2.prems" by simp
  qed
qed simp



section \<open>From the agent to the scheduler\<close>


definition example_agent :: agent where
  "example_agent = \<lparr>ag_drone_id = DroneId ''d'', ag_cluster = ClusterName ''c'',
     ag_executor = executor_new drone_database_new, ag_listening = False, ag_ready = True, ag_statuses = []\<rparr>"


section \<open>From the command line to a backend\<close>

text \<open>C19: spawning from the command line. The request of the \<open>spawn\<close> command is one the scheduler
  subscribes to. If its answer reaches the client, then either a drone was live for the cluster
  and accepted a spawn request with the fresh id, the image and the idle time of the command, and
  the URL printed is the one under which the proxy of the cluster serves exactly that backend; or
  the client reports that no drone was available, and there was none or it did not accept.\<close>

theorem cli_spawn_end_to_end:
  assumes "run_scheduler checked_sub es sched_world_init = Some (Inr w)"
    and "run_scheduler_step checked_sub (SpawnNext (Some (spawn_message cluster img timeout)) now uuid pick answer sent) w
      = Some (Inr w')"
    and "pick_ok pick" and "sub_ok checked_sub now" and "wf_cluster (ClusterName cluster)"
    and "ce_schedule e (spawn_message cluster img timeout) = Inr (last (sw_replies w'))"
  shows "subject_instance schedule_subscribe_subject (schedule_subject (spawn_message cluster img timeout)) \<and>
    (\<exists>lines. run_command e (Spawn cluster img timeout) = (RequestSchedule (spawn_message cluster img timeout), Inr lines) \<and>
      ((\<exists>d host. live_drone (status_events es) now (ClusterName cluster) d \<and> answer = Inr True \<and>
          sw_spawned w' = sw_spawned w @ [\<lparr>sp_drone_id = d, sp_max_idle_secs = from_secs (unat timeout),
            sp_backend_id = BackendId uuid, sp_metadata = [],
            sp_executable = \<lparr>ex_image = img, ex_env = [], ex_credentials = None,
              ex_resource_limits = default_resource_limits\<rparr>, sp_bearer_token = None\<rparr>] \<and>
          Println (''URL: '' @ ce_paint e ''bright_green'' (''https://'' @ host)) \<in> set lines \<and>
          (\<forall>self req. ps_cluster self = cluster \<and> map_of (rq_headers req) ''host'' = Some host \<and>
             from_utf8 host = Some host \<and> CHR '':'' \<notin> set host \<longrightarrow> proxied_subdomain self req = Some uuid)) \<or>
       (\<exists>message. lines = [LogError message] \<and>
          (answer \<noteq> Inr True \<or> (\<forall>d. \<not> live_drone (status_events es) now (ClusterName cluster) d)))))"
proof -
  let ?q = "spawn_message cluster img timeout" and ?host = "uuid @ ''.'' @ cluster"
  have q: "sq_cluster ?q = ClusterName cluster" by (simp add: spawn_message_def)
  have delivered: "subject_instance schedule_subscribe_subject (schedule_subject ?q)"
    using schedule_msg.delivered [of ?q] assms(5) q by simp
  obtain reply where reply: "sw_replies w' = sw_replies w @ [reply]"
      "case reply of
         Scheduled d b token \<Rightarrow> answer = Inr True \<and> live_drone (status_events es) now (sq_cluster ?q) d \<and> token = None \<and>
           sw_spawned w' = sw_spawned w @ [schedule_request_schedule uuid ?q d] \<and>
           b = sp_backend_id (schedule_request_schedule uuid ?q d) \<and> (sq_backend_id ?q = None \<or> sq_backend_id ?q = Some b)
       | NoDroneAvailable \<Rightarrow> answer \<noteq> Inr True \<or> (\<forall>d. \<not> live_drone (status_events es) now (sq_cluster ?q) d)"
    using run_scheduler_reply [OF assms(1-4)] by blast
  have run: "run_command e (Spawn cluster img timeout) = (RequestSchedule ?q, Inr (schedule_lines e cluster reply))"
    using assms(6) reply(1) by (simp add: bindR_def)
  show ?thesis
  proof (cases reply)
    case (Scheduled d b token)
    then have sp: "sw_spawned w' = sw_spawned w @ [schedule_request_schedule uuid ?q d]" "b = BackendId uuid"
        "answer = Inr True" "live_drone (status_events es) now (ClusterName cluster) d"
      using reply(2) q by (auto simp: schedule_request_schedule_def spawn_message_def)
    have "Println (''URL: '' @ ce_paint e ''bright_green'' (''https://'' @ ?host)) \<in> set (schedule_lines e cluster reply)"
      using Scheduled sp(2) by (simp add: backend_url_def)
    moreover have "\<forall>self req. ps_cluster self = cluster \<and> map_of (rq_headers req) ''host'' = Some ?host \<and>
        from_utf8 ?host = Some ?host \<and> CHR '':'' \<notin> set ?host \<longrightarrow> proxied_subdomain self req = Some uuid"
      using proxied_subdomain_host by blast
    moreover have "schedule_request_schedule uuid ?q d = \<lparr>sp_drone_id = d, sp_max_idle_secs = from_secs (unat timeout),
        sp_backend_id = BackendId uuid, sp_metadata = [],
        sp_executable = \<lparr>ex_image = img, ex_env = [], ex_credentials = None,
          ex_resource_limits = default_resource_limits\<rparr>, sp_bearer_token = None\<rparr>"
      by (simp add: schedule_request_schedule_def spawn_message_def)
    ultimately show ?thesis using delivered run sp by metis
  next
    case NoDroneAvailable
    then show ?thesis using delivered run reply(2) q by simp
  qed
qed

definition example_cli :: "ScheduleResponse \<Rightarrow> cli_env" where
  "example_cli response = \<lparr>ce_parse_url = (\<lambda>_. None), ce_addr_ok = (\<lambda>_. True), ce_connect = (\<lambda>_ _ _. Inr ()),
     ce_paint = (\<lambda>_ s. s), ce_show_time = (\<lambda>_. []), ce_states = (\<lambda>_. Inr []), ce_drones = (\<lambda>_. Inr []),
     ce_dns = (\<lambda>_. Inr []), ce_schedule = (\<lambda>_. Inr response), ce_terminate = (\<lambda>_. Inr ()), ce_drain = (\<lambda>_. Inr ())\<rparr>"

theorem cli_spawn_end_to_end_witness:
  "\<exists>w w' e lines. run_scheduler plain_sub [StatusNext (Some (example_status ''d1'' True)) 0] sched_world_init = Some (Inr w) \<and>
     run_scheduler_step plain_sub (SpawnNext (Some (spawn_message ''plane.test'' ''img'' 300)) 3 ''u1'' first_choice (Inr True) True) w
       = Some (Inr w') \<and>
     snd (run_command e (Spawn ''plane.test'' ''img'' 300)) = Inr lines \<and>
     (\<exists>d. live_drone (status_events [StatusNext (Some (example_status ''d1'' True)) 0]) 3 (ClusterName ''plane.test'') d)"
proof -
  let ?es = "[StatusNext (Some (example_status ''d1'' True)) 0]"
  let ?q = "spawn_message ''plane.test'' ''img'' 300"
  let ?e = "SpawnNext (Some ?q) 3 ''u1'' first_choice (Inr True) True"
  obtain w where run: "run_scheduler plain_sub ?es sched_world_init = Some (Inr w)" by simp
  then have w: "w = sched_world_init\<lparr>sw_scheduler := update_status scheduler_default 0 (example_status ''d1'' True)\<rparr>"
    by (simp add: sched_world_init_def)
  obtain w' where step: "run_scheduler_step plain_sub ?e w = Some (Inr w')"
      and last: "last (sw_replies w') = Scheduled (DroneId ''d1'') (BackendId ''u1'') None"
    by (simp add: w schedule_def update_status_def scheduler_default_def plain_sub_def
        first_choice_def example_status_def al_insert_def from_secs_def sched_world_init_def
        spawn_message_def schedule_request_schedule_def)
  let ?env = "example_cli (last (sw_replies w'))"
  have "wf_cluster (ClusterName ''plane.test'')" by (simp add: wf_cluster_def)
  moreover have "ce_schedule ?env ?q = Inr (last (sw_replies w'))" by (simp add: example_cli_def)
  ultimately obtain lines where "run_command ?env (Spawn ''plane.test'' ''img'' 300) = (RequestSchedule ?q, Inr lines)"
      "(\<exists>d. live_drone (status_events ?es) 3 (ClusterName ''plane.test'') d) \<or> (\<exists>message. lines = [LogError message])"
    using cli_spawn_end_to_end [OF run step first_choice_ok plain_sub_ok] by blast
  moreover from this(1) have "\<not> (\<exists>message. lines = [LogError message])"
    using last by (auto simp: example_cli_def bindR_def)
  ultimately show ?thesis using run step by (metis snd_conv)
qed

end
